(* ===== verification/Onsim_Prelude.thy ===== *)
theory Onsim_Prelude
  imports Complex_Main "HOL-Library.AList" "HOL-Library.List_Lexorder" "HOL-Library.Char_ord"
    "HOL-Library.Word" "HOL-Library.Multiset"
begin

text \<open>
  What every theory of the development shares: the names of the model's basic types, the
  collections of facts the component proofs use, lemmas on association lists (the model of a
  Go \<^verbatim>\<open>map\<close>), and two interfaces for encoders and decoders that the text, JSON and audio
  components implement.

  A Go \<^verbatim>\<open>string\<close> is a byte sequence, and an Isabelle \<open>string\<close> is a list of 8-bit characters, so
  the one models the other exactly. A Go \<^verbatim>\<open>error\<close> is its message. A \<^verbatim>\<open>time.Time\<close> is the number
  of nanoseconds since the Unix epoch; Go's zero time is 1 January of year 1.
\<close>

type_synonym gerror = string
type_synonym gtime = int

text \<open>A Go \<^verbatim>\<open>map[string]T\<close>: an association list with distinct keys.\<close>

type_synonym 'v table = "(string \<times> 'v) list"

named_theorems go_defs \<open>unfolding the string and slice helpers\<close>
named_theorems store_defs \<open>unfolding the operations of the store\<close>
named_theorems svc_defs \<open>unfolding the operations of the service\<close>

definition zeroTime :: gtime where
  "zeroTime = - 62135596800000000000"

definition second :: int where
  "second = 1000000000"

subsection \<open>Tables\<close>

definition tget :: "'v table \<Rightarrow> string \<Rightarrow> 'v option" where
  "tget t k = map_of t k"

definition tput :: "string \<Rightarrow> 'v \<Rightarrow> 'v table \<Rightarrow> 'v table" where
  "tput k v t = AList.update k v t"

definition tdel :: "string \<Rightarrow> 'v table \<Rightarrow> 'v table" where
  "tdel k t = AList.delete k t"

definition tvals :: "'v table \<Rightarrow> 'v list" where
  "tvals t = map snd t"

definition wf_table :: "'v table \<Rightarrow> bool" where
  "wf_table t \<longleftrightarrow> distinct (map fst t)"

lemma tget_Nil [simp]: "tget [] k = None"
  by (simp add: tget_def)

lemma tget_Cons [simp]: "tget ((k', v) # t) k = (if k = k' then Some v else tget t k)"
  by (simp add: tget_def)

lemma tget_tput [simp]: "tget (tput k v t) k' = (if k' = k then Some v else tget t k')"
  by (simp add: tget_def tput_def update_conv')

lemma tget_tdel [simp]: "tget (tdel k t) k' = (if k' = k then None else tget t k')"
  by (simp add: tget_def tdel_def delete_conv')

lemma tput_Nil [simp]: "tput k v [] = [(k, v)]"
  by (simp add: tput_def)

lemma tput_Cons [simp]:
  "tput k v ((k', v') # t) = (if k = k' then (k, v) # t else (k', v') # tput k v t)"
  by (simp add: tput_def)

lemma wf_table_Nil [simp, intro]: "wf_table []"
  by (simp add: wf_table_def)

lemma wf_table_tput [simp, intro]: "wf_table t \<Longrightarrow> wf_table (tput k v t)"
  by (simp add: wf_table_def tput_def distinct_update)

lemma wf_table_tdel [simp, intro]: "wf_table t \<Longrightarrow> wf_table (tdel k t)"
  by (simp add: wf_table_def tdel_def distinct_delete)

lemma tget_SomeD: "tget t k = Some v \<Longrightarrow> (k, v) \<in> set t"
  by (simp add: tget_def map_of_SomeD)

lemma tget_in_tvals: "tget t k = Some v \<Longrightarrow> v \<in> set (tvals t)"
  by (force simp: tvals_def dest: tget_SomeD)

lemma tget_eq_Some: "wf_table t \<Longrightarrow> tget t k = Some v \<longleftrightarrow> (k, v) \<in> set t"
  by (simp add: tget_def wf_table_def map_of_eq_Some_iff)

lemma set_tput:
  "wf_table t \<Longrightarrow> set (tput k v t) = insert (k, v) {p \<in> set t. fst p \<noteq> k}"
  by (induction t) (force simp: wf_table_def split: if_splits)+

lemma set_tvals_tput:
  "wf_table t \<Longrightarrow> set (tvals (tput k v t)) = insert v {x. \<exists>j. j \<noteq> k \<and> (j, x) \<in> set t}"
  by (force simp: tvals_def set_tput)

lemma mset_tvals_tput_new:
  "tget t k = None \<Longrightarrow> mset (tvals (tput k v t)) = add_mset v (mset (tvals t))"
  by (induction t) (auto simp: tvals_def split: if_splits)

lemma mset_tvals_tput_old:
  "tget t k = Some u \<Longrightarrow> add_mset u (mset (tvals (tput k v t))) = add_mset v (mset (tvals t))"
  by (induction t) (auto simp: tvals_def split: if_splits)

lemma distinct_map_ConsD: "distinct (map f (x # xs)) \<Longrightarrow> y \<in> set xs \<Longrightarrow> f y \<noteq> f x"
  by simp (metis image_eqI)

subsection \<open>Encoders and decoders\<close>

text \<open>
  An encoder with a partial decoder that inverts it on the valid values. The clients need only
  that an encoding determines its value.
\<close>

locale codec =
  fixes enc :: "'a \<Rightarrow> 'b" and dec :: "'b \<Rightarrow> 'a option" and valid :: "'a \<Rightarrow> bool"
  assumes dec_enc: "valid x \<Longrightarrow> dec (enc x) = Some x"
begin

lemma enc_inject: "valid x \<Longrightarrow> valid y \<Longrightarrow> enc x = enc y \<longleftrightarrow> x = y"
  by (metis dec_enc option.inject)

lemma enc_decodable: "valid x \<Longrightarrow> dec (enc x) \<noteq> None"
  by (simp add: dec_enc)

end

text \<open>Two stages of encoding, the outer one applied to what the inner one produces.\<close>

locale codec_stages = inner: codec enc1 dec1 valid1 + outer: codec enc2 dec2 valid2
  for enc1 :: "'a \<Rightarrow> 'b" and dec1 :: "'b \<Rightarrow> 'a option" and valid1 :: "'a \<Rightarrow> bool"
    and enc2 :: "'b \<Rightarrow> 'c" and dec2 :: "'c \<Rightarrow> 'b option" and valid2 :: "'b \<Rightarrow> bool" +
  assumes stage_valid: "valid1 x \<Longrightarrow> valid2 (enc1 x)"

sublocale codec_stages \<subseteq> codec "enc2 \<circ> enc1" "\<lambda>c. Option.bind (dec2 c) dec1" valid1
  by unfold_locales (simp add: outer.dec_enc inner.dec_enc stage_valid)

text \<open>
  A value encoded as a fixed number of cells: the list of such values is the concatenation of
  the encodings, and is decoded by cutting the cells into pieces of that width.
\<close>

fun chunks :: "nat \<Rightarrow> nat \<Rightarrow> 'b list \<Rightarrow> 'b list list" where
  "chunks w 0 bs = []"
| "chunks w (Suc n) bs = take w bs # chunks w n (drop w bs)"

lemma length_chunks [simp]: "length (chunks w n bs) = n"
  by (induction w n bs rule: chunks.induct) auto

locale cell_codec =
  fixes cell :: "'a \<Rightarrow> 'b list" and uncell :: "'b list \<Rightarrow> 'a option"
    and ok :: "'a \<Rightarrow> bool" and w :: nat
  assumes cell_width: "length (cell a) = w"
    and width_pos: "0 < w"
    and uncell_cell: "ok a \<Longrightarrow> uncell (cell a) = Some a"
begin

lemma length_cells: "length (concat (map cell xs)) = w * length xs"
  by (induction xs) (auto simp: cell_width)

lemma chunks_cells: "chunks w (length xs) (concat (map cell xs) @ ys) = map cell xs"
  by (induction xs) (auto simp: cell_width)

lemma uncells_cells:
  assumes "list_all ok xs"
  shows "those (map uncell (chunks w (length xs) (concat (map cell xs)))) = Some xs"
proof -
  have "those (map uncell (map cell xs)) = Some xs"
    using assms by (induction xs) (auto simp: uncell_cell)
  then show ?thesis
    using chunks_cells [of xs "[]"] by simp
qed

lemma cells_inject:
  assumes "list_all ok xs" "list_all ok ys" "concat (map cell xs) = concat (map cell ys)"
  shows "xs = ys"
proof -
  have "length xs = length ys"
    using arg_cong [OF assms(3), of length] width_pos by (simp add: length_cells)
  then have "Some xs = Some ys"
    by (metis uncells_cells [OF assms(1)] uncells_cells [OF assms(2)] assms(3))
  then show ?thesis by simp
qed

end

end
