(* ===== verification/Go_Lib.thy ===== *)
theory Go_Lib
  imports Onsim_Prelude
begin

text \<open>
  The parts of Go's standard library the program calls on strings: prefixes, substrings,
  splitting, joining and trimming (package \<^verbatim>\<open>strings\<close>), decimal numbers (\<^verbatim>\<open>strconv\<close>), UTF-8
  (\<^verbatim>\<open>unicode/utf8\<close> and conversions between \<^verbatim>\<open>string\<close> and \<^verbatim>\<open>[]rune\<close>), UTF-16 (\<^verbatim>\<open>unicode/utf16\<close>)
  and hexadecimal (\<^verbatim>\<open>encoding/hex\<close>). A rune is a natural number, its code point.
\<close>

abbreviation byte :: "char \<Rightarrow> nat" where
  "byte c \<equiv> of_char c"

abbreviation chr :: "nat \<Rightarrow> char" where
  "chr n \<equiv> char_of n"

lemma byte_less [simp]: "byte c < 256"
  by simp

subsection \<open>Package strings\<close>

text \<open>\<^verbatim>\<open>strings.HasPrefix\<close>, \<^verbatim>\<open>strings.TrimPrefix\<close> and \<^verbatim>\<open>strings.Contains\<close>.\<close>

fun has_prefix :: "string \<Rightarrow> string \<Rightarrow> bool" where
  "has_prefix s [] = True"
| "has_prefix [] (p # ps) = False"
| "has_prefix (c # cs) (p # ps) = (c = p \<and> has_prefix cs ps)"

lemma has_prefix_iff: "has_prefix s p \<longleftrightarrow> (\<exists>t. s = p @ t)"
  by (induction s p rule: has_prefix.induct) auto

lemma has_prefix_append [simp]: "has_prefix (p @ s) p"
  by (auto simp: has_prefix_iff)

definition trim_prefix :: "string \<Rightarrow> string \<Rightarrow> string" where
  "trim_prefix s p = (if has_prefix s p then drop (length p) s else s)"

fun contains :: "string \<Rightarrow> string \<Rightarrow> bool" where
  "contains [] p = (p = [])"
| "contains (c # cs) p = (has_prefix (c # cs) p \<or> contains cs p)"

lemma contains_iff: "contains s p \<longleftrightarrow> (\<exists>a b. s = a @ p @ b)"
proof (induction s p rule: contains.induct)
  case (2 c cs p)
  show ?case
  proof
    assume "contains (c # cs) p"
    then consider "has_prefix (c # cs) p" | "contains cs p" by auto
    then show "\<exists>a b. c # cs = a @ p @ b"
    proof cases
      case 1
      then obtain t where "c # cs = [] @ p @ t" by (auto simp: has_prefix_iff)
      then show ?thesis by blast
    next
      case 2
      then obtain a b where "c # cs = (c # a) @ p @ b" using "2.IH" by auto
      then show ?thesis by blast
    qed
  next
    assume "\<exists>a b. c # cs = a @ p @ b"
    then obtain a b where ab: "c # cs = a @ p @ b" by blast
    show "contains (c # cs) p"
    proof (cases a)
      case Nil
      with ab have "has_prefix (c # cs) p" by (auto simp: has_prefix_iff)
      then show ?thesis by simp
    next
      case (Cons x xs)
      with ab have "cs = xs @ p @ b" by simp
      with "2.IH" show ?thesis by auto
    qed
  qed
qed auto

text \<open>\<^verbatim>\<open>strings.IndexByte\<close>: \<open>None\<close> stands for \<open>-1\<close>.\<close>

fun index_byte :: "string \<Rightarrow> char \<Rightarrow> nat option" where
  "index_byte [] c = None"
| "index_byte (x # xs) c = (if x = c then Some 0 else map_option Suc (index_byte xs c))"

lemma index_byte_None [simp]: "index_byte s c = None \<longleftrightarrow> c \<notin> set s"
  by (induction s) auto

lemma index_byte_append [simp]:
  "c \<notin> set a \<Longrightarrow> index_byte (a @ c # b) c = Some (length a)"
  by (induction a) auto

lemma index_byte_Some: "index_byte s c = Some n \<Longrightarrow> n < length s \<and> s ! n = c \<and> c \<notin> set (take n s)"
  by (induction s arbitrary: n) (auto split: if_splits)

text \<open>\<^verbatim>\<open>strings.Split\<close> and \<^verbatim>\<open>strings.SplitN(s, sep, 2)\<close> for a separator of one byte,
  and \<^verbatim>\<open>strings.Join\<close>.\<close>

fun split_on :: "char \<Rightarrow> string \<Rightarrow> string list" where
  "split_on c [] = [[]]"
| "split_on c (x # xs) =
     (if x = c then [] # split_on c xs
      else case split_on c xs of [] \<Rightarrow> [[x]] | p # ps \<Rightarrow> (x # p) # ps)"

fun join :: "string \<Rightarrow> string list \<Rightarrow> string" where
  "join sep [] = []"
| "join sep [x] = x"
| "join sep (x # y # ys) = x @ sep @ join sep (y # ys)"

definition splitn2 :: "char \<Rightarrow> string \<Rightarrow> string list" where
  "splitn2 c s = (case index_byte s c of None \<Rightarrow> [s] | Some n \<Rightarrow> [take n s, drop (Suc n) s])"

lemma split_on_not_Nil [simp]: "split_on c s \<noteq> []"
  by (induction s) (auto split: list.splits)

lemma join_split_on: "join [c] (split_on c s) = s"
proof (induction s)
  case (Cons x xs)
  obtain p ps where p: "split_on c xs = p # ps"
    by (meson split_on_not_Nil neq_Nil_conv)
  with Cons show ?case by (cases ps) auto
qed simp

lemma split_on_no_sep: "p \<in> set (split_on c s) \<Longrightarrow> c \<notin> set p"
proof (induction s arbitrary: p)
  case (Cons x xs)
  obtain q qs where q: "split_on c xs = q # qs"
    by (meson split_on_not_Nil neq_Nil_conv)
  have "c \<notin> set q" "\<forall>r \<in> set qs. c \<notin> set r" using Cons.IH q by auto
  with Cons.prems q show ?case by (auto split: if_splits)
qed simp

lemma split_on_id [simp]: "c \<notin> set s \<Longrightarrow> split_on c s = [s]"
  by (induction s) auto

lemma split_on_append: "c \<notin> set a \<Longrightarrow> split_on c (a @ c # b) = a # split_on c b"
  by (induction a) auto

subsection \<open>UTF-8\<close>

text \<open>
  Decoding the first rune of a non-empty byte sequence: the rune and the number of bytes read.
  An invalid sequence is one byte long and decodes to U+FFFD, as \<^verbatim>\<open>utf8.DecodeRune\<close> does.
\<close>

definition runeError :: nat where
  "runeError = 65533"

definition cont :: "nat \<Rightarrow> nat \<Rightarrow> nat \<Rightarrow> bool" where
  "cont lo hi b \<longleftrightarrow> lo \<le> b \<and> b \<le> hi"

definition lead3_lo :: "nat \<Rightarrow> nat" where
  "lead3_lo b = (if b = 0xE0 then 0xA0 else 0x80)"

definition lead3_hi :: "nat \<Rightarrow> nat" where
  "lead3_hi b = (if b = 0xED then 0x9F else 0xBF)"

definition lead4_lo :: "nat \<Rightarrow> nat" where
  "lead4_lo b = (if b = 0xF0 then 0x90 else 0x80)"

definition lead4_hi :: "nat \<Rightarrow> nat" where
  "lead4_hi b = (if b = 0xF4 then 0x8F else 0xBF)"

definition decode_rune :: "nat \<Rightarrow> nat list \<Rightarrow> nat \<times> nat" where
  "decode_rune b0 bs =
     (if b0 < 0x80 then (b0, 1)
      else if 0xC2 \<le> b0 \<and> b0 \<le> 0xDF then
        (case bs of b1 # _ \<Rightarrow>
           if cont 0x80 0xBF b1 then ((b0 - 0xC0) * 64 + (b1 - 0x80), 2) else (runeError, 1)
         | _ \<Rightarrow> (runeError, 1))
      else if 0xE0 \<le> b0 \<and> b0 \<le> 0xEF then
        (case bs of b1 # b2 # _ \<Rightarrow>
           if cont (lead3_lo b0) (lead3_hi b0) b1 \<and> cont 0x80 0xBF b2
           then ((b0 - 0xE0) * 4096 + (b1 - 0x80) * 64 + (b2 - 0x80), 3) else (runeError, 1)
         | _ \<Rightarrow> (runeError, 1))
      else if 0xF0 \<le> b0 \<and> b0 \<le> 0xF4 then
        (case bs of b1 # b2 # b3 # _ \<Rightarrow>
           if cont (lead4_lo b0) (lead4_hi b0) b1 \<and> cont 0x80 0xBF b2 \<and> cont 0x80 0xBF b3
           then ((b0 - 0xF0) * 262144 + (b1 - 0x80) * 4096 + (b2 - 0x80) * 64 + (b3 - 0x80), 4)
           else (runeError, 1)
         | _ \<Rightarrow> (runeError, 1))
      else (runeError, 1))"

lemma decode_rune_width: "1 \<le> snd (decode_rune b bs)"
  by (simp add: decode_rune_def split: list.splits)

text \<open>The bytes of each rune of a string together with the rune: \<^verbatim>\<open>for _, r := range s\<close>.\<close>

function rune_spans :: "string \<Rightarrow> (string \<times> nat) list" where
  "rune_spans [] = []"
| "rune_spans (c # cs) =
     (let (r, w) = decode_rune (byte c) (map byte cs)
      in (c # take (w - 1) cs, r) # rune_spans (drop (w - 1) cs))"
  by pat_completeness auto
termination by (relation "measure length") auto

definition runes :: "string \<Rightarrow> nat list" where
  "runes s = map snd (rune_spans s)"

lemma rune_spans_bytes: "concat (map fst (rune_spans s)) = s"
  by (induction s rule: rune_spans.induct) (auto simp: Let_def split: prod.splits)

text \<open>\<^verbatim>\<open>string(r)\<close> for a rune: its UTF-8 encoding, U+FFFD for a value that is no code point.\<close>

definition valid_rune :: "nat \<Rightarrow> bool" where
  "valid_rune r \<longleftrightarrow> r < 0xD800 \<or> (0xE000 \<le> r \<and> r \<le> 0x10FFFF)"

definition encode_rune_nat :: "nat \<Rightarrow> nat list" where
  "encode_rune_nat r =
     (if r < 0x80 then [r]
      else if r < 0x800 then [0xC0 + r div 64, 0x80 + r mod 64]
      else if r < 0x10000 then [0xE0 + r div 4096, 0x80 + r div 64 mod 64, 0x80 + r mod 64]
      else [0xF0 + r div 262144, 0x80 + r div 4096 mod 64, 0x80 + r div 64 mod 64, 0x80 + r mod 64])"

definition encode_rune :: "nat \<Rightarrow> string" where
  "encode_rune r = map chr (encode_rune_nat (if valid_rune r then r else runeError))"

definition of_runes :: "nat list \<Rightarrow> string" where
  "of_runes rs = concat (map encode_rune rs)"

lemma encode_rune_nat_bytes:
  "valid_rune r \<Longrightarrow> b \<in> set (encode_rune_nat r) \<Longrightarrow> b < 256"
  by (auto simp: encode_rune_nat_def valid_rune_def split: if_splits)

lemma encode_rune_bytes:
  "valid_rune r \<Longrightarrow> map byte (encode_rune r) = encode_rune_nat r"
  by (auto simp: encode_rune_def encode_rune_nat_bytes intro!: map_idI)

lemma decode_encode_2:
  "0x80 \<le> r \<Longrightarrow> r < 0x800 \<Longrightarrow>
     decode_rune (0xC0 + r div 64) ((0x80 + r mod 64) # bs) = (r, 2)"
  by (simp add: decode_rune_def cont_def) (presburger | linarith)

lemma base64_digits_2: "(r::nat) = r div 4096 * 4096 + r div 64 mod 64 * 64 + r mod 64"
proof -
  have "r div 4096 = r div 64 div 64" by (simp add: div_mult2_eq [symmetric])
  then show ?thesis
    using div_mult_mod_eq [of r 64] div_mult_mod_eq [of "r div 64" 64] by linarith
qed

lemma base64_digits_3:
  "(r::nat) = r div 262144 * 262144 + r div 4096 mod 64 * 4096 + r div 64 mod 64 * 64 + r mod 64"
proof -
  have "r div 262144 = r div 4096 div 64" by (simp add: div_mult2_eq [symmetric])
  then show ?thesis
    using base64_digits_2 [of r] div_mult_mod_eq [of "r div 4096" 64] by linarith
qed

lemma decode_encode_3:
  assumes "0x800 \<le> r" "r < 0x10000" "valid_rune r"
  shows "decode_rune (0xE0 + r div 4096) ((0x80 + r div 64 mod 64) # (0x80 + r mod 64) # bs) = (r, 3)"
proof -
  define a b c where abc: "a = r div 4096" "b = r div 64 mod 64" "c = r mod 64"
  have r: "r = a * 4096 + b * 64 + c" unfolding abc by (rule base64_digits_2)
  have bc: "b < 64" "c < 64" by (simp_all add: abc)
  have a: "a < 16" using assms(2) r by linarith
  have lo: "a = 0 \<Longrightarrow> 32 \<le> b" using assms(1) r bc by linarith
  have hi: "a = 13 \<Longrightarrow> b \<le> 31" using assms(3) r bc unfolding valid_rune_def by linarith
  show ?thesis
    unfolding abc [symmetric]
    using a lo hi bc r by (simp add: decode_rune_def cont_def lead3_lo_def lead3_hi_def)
qed

lemma decode_encode_4:
  assumes "0x10000 \<le> r" "valid_rune r"
  shows "decode_rune (0xF0 + r div 262144)
    ((0x80 + r div 4096 mod 64) # (0x80 + r div 64 mod 64) # (0x80 + r mod 64) # bs) = (r, 4)"
proof -
  define a b c d where abcd:
    "a = r div 262144" "b = r div 4096 mod 64" "c = r div 64 mod 64" "d = r mod 64"
  have r: "r = a * 262144 + b * 4096 + c * 64 + d" unfolding abcd by (rule base64_digits_3)
  have bc: "b < 64" "c < 64" "d < 64" by (simp_all add: abcd)
  have le: "r \<le> 0x10FFFF" using assms unfolding valid_rune_def by linarith
  have a: "a \<le> 4" using le r by linarith
  have lo: "a = 0 \<Longrightarrow> 16 \<le> b" using assms(1) r bc by linarith
  have hi: "a = 4 \<Longrightarrow> b \<le> 15" using le r bc by linarith
  show ?thesis
    unfolding abcd [symmetric]
    using a lo hi bc r by (simp add: decode_rune_def cont_def lead4_lo_def lead4_hi_def)
qed

lemma decode_rune_encode_rune_nat:
  assumes "valid_rune r" "encode_rune_nat r = b # bs"
  shows "decode_rune b (bs @ cs) = (r, Suc (length bs))"
proof -
  consider "r < 0x80" | "0x80 \<le> r" "r < 0x800" | "0x800 \<le> r" "r < 0x10000" | "0x10000 \<le> r"
    by linarith
  then show ?thesis
  proof cases
    case 1
    with assms(2) show ?thesis by (auto simp: encode_rune_nat_def decode_rune_def)
  next
    case 2
    with assms(2) decode_encode_2 [OF 2] show ?thesis by (auto simp: encode_rune_nat_def)
  next
    case 3
    with assms decode_encode_3 [OF 3] show ?thesis by (auto simp: encode_rune_nat_def)
  next
    case 4
    with assms decode_encode_4 [OF 4] show ?thesis by (auto simp: encode_rune_nat_def)
  qed
qed

lemma rune_spans_encode_rune:
  assumes "valid_rune r"
  shows "rune_spans (encode_rune r @ s) = (encode_rune r, r) # rune_spans s"
proof -
  have bytes: "map byte (encode_rune r) = encode_rune_nat r"
    by (rule encode_rune_bytes [OF assms])
  obtain c cs where cc: "encode_rune r = c # cs"
    by (cases "encode_rune r") (auto simp: encode_rune_def encode_rune_nat_def split: if_splits)
  have "decode_rune (byte c) (map byte (cs @ s)) = (r, Suc (length cs))"
    using decode_rune_encode_rune_nat [OF assms, of "byte c" "map byte cs"] bytes cc by simp
  then show ?thesis by (simp add: cc)
qed

lemma runes_of_runes: "list_all valid_rune rs \<Longrightarrow> runes (of_runes rs) = rs"
  by (induction rs) (auto simp: runes_def of_runes_def rune_spans_encode_rune)

text \<open>A string is valid UTF-8 when it is the encoding of its runes.\<close>

definition valid_utf8 :: "string \<Rightarrow> bool" where
  "valid_utf8 s \<longleftrightarrow> list_all valid_rune (runes s) \<and> of_runes (runes s) = s"

lemma valid_utf8_of_runes: "list_all valid_rune rs \<Longrightarrow> valid_utf8 (of_runes rs)"
  by (simp add: valid_utf8_def runes_of_runes)

lemma of_runes_append [simp]: "of_runes (xs @ ys) = of_runes xs @ of_runes ys"
  by (simp add: of_runes_def)

interpretation utf8: codec of_runes "\<lambda>s. Some (runes s)" "list_all valid_rune"
  by unfold_locales (simp add: runes_of_runes)

text \<open>\<^verbatim>\<open>unicode.IsSpace\<close> and \<^verbatim>\<open>strings.TrimSpace\<close>: white runes are removed at both ends.\<close>

definition is_space :: "nat \<Rightarrow> bool" where
  "is_space r \<longleftrightarrow> (9 \<le> r \<and> r \<le> 13) \<or> r = 0x20 \<or> r = 0x85 \<or> r = 0xA0 \<or> r = 0x1680 \<or>
     (0x2000 \<le> r \<and> r \<le> 0x200A) \<or> r = 0x2028 \<or> r = 0x2029 \<or> r = 0x202F \<or> r = 0x205F \<or> r = 0x3000"

definition trim_spans :: "(string \<times> nat) list \<Rightarrow> (string \<times> nat) list" where
  "trim_spans ps = rev (dropWhile (is_space \<circ> snd) (rev (dropWhile (is_space \<circ> snd) ps)))"

definition trim_space :: "string \<Rightarrow> string" where
  "trim_space s = concat (map fst (trim_spans (rune_spans s)))"

text \<open>\<^verbatim>\<open>strings.Trim(s, "c")\<close> for a single ASCII byte.\<close>

definition trim_byte :: "char \<Rightarrow> string \<Rightarrow> string" where
  "trim_byte c s = rev (dropWhile (\<lambda>x. x = c) (rev (dropWhile (\<lambda>x. x = c) s)))"

subsection \<open>Decimal numbers\<close>

text \<open>
  \<^verbatim>\<open>strconv.Atoi\<close>: an optional sign and at least one decimal digit, nothing else, and a value that
  fits a 64-bit \<^verbatim>\<open>int\<close>. \<open>None\<close> is the error.
\<close>

definition is_digit :: "char \<Rightarrow> bool" where
  "is_digit c \<longleftrightarrow> 48 \<le> byte c \<and> byte c \<le> 57"

definition digit_val :: "char \<Rightarrow> int" where
  "digit_val c = int (byte c) - 48"

definition digits_val :: "string \<Rightarrow> int" where
  "digits_val s = foldl (\<lambda>n c. 10 * n + digit_val c) 0 s"

definition atoi :: "string \<Rightarrow> int option" where
  "atoi s =
     (let neg = (case s of c # _ \<Rightarrow> c = CHR ''-'' | [] \<Rightarrow> False);
          body = (case s of c # cs \<Rightarrow> if c = CHR ''-'' \<or> c = CHR ''+'' then cs else s | [] \<Rightarrow> s);
          v = (if neg then - digits_val body else digits_val body)
      in if body \<noteq> [] \<and> list_all is_digit body \<and> - (2 ^ 63) \<le> v \<and> v < 2 ^ 63 then Some v else None)"

text \<open>\<^verbatim>\<open>strconv.Itoa\<close>.\<close>

fun show_nat :: "nat \<Rightarrow> string" where
  "show_nat n = (if n < 10 then [chr (48 + n)] else show_nat (n div 10) @ [chr (48 + n mod 10)])"

declare show_nat.simps [simp del]

definition itoa :: "int \<Rightarrow> string" where
  "itoa i = (if i < 0 then CHR ''-'' # show_nat (nat (- i)) else show_nat (nat i))"

lemma byte_chr_digit [simp]: "n < 10 \<Longrightarrow> byte (chr (48 + n)) = 48 + n"
  by simp

lemma is_digit_chr [simp]: "n < 10 \<Longrightarrow> is_digit (chr (48 + n))"
  by (simp add: is_digit_def)

lemma show_nat_digits: "list_all is_digit (show_nat n)"
  by (induction n rule: show_nat.induct) (subst show_nat.simps, auto)

lemma show_nat_not_Nil [simp]: "show_nat n \<noteq> []"
  by (subst show_nat.simps) simp

lemma digits_val_snoc: "digits_val (s @ [c]) = 10 * digits_val s + digit_val c"
  by (simp add: digits_val_def)

lemma digits_val_show_nat: "digits_val (show_nat n) = int n"
proof (induction n rule: show_nat.induct)
  case (1 n)
  show ?case
  proof (cases "n < 10")
    case True
    then show ?thesis by (subst show_nat.simps) (simp add: digits_val_def digit_val_def)
  next
    case False
    have "int n = 10 * int (n div 10) + int (n mod 10)" by presburger
    with 1 False show ?thesis
      by (subst show_nat.simps) (simp add: digits_val_snoc digit_val_def)
  qed
qed

lemma show_nat_hd: "show_nat n = c # cs \<Longrightarrow> c \<noteq> CHR ''-'' \<and> c \<noteq> CHR ''+''"
  using show_nat_digits [of n] by (auto simp: is_digit_def)

lemma atoi_itoa:
  assumes "- (2 ^ 63) \<le> i" "i < 2 ^ 63"
  shows "atoi (itoa i) = Some i"
proof (cases "i < 0")
  case True
  with assms show ?thesis
    by (simp add: atoi_def itoa_def digits_val_show_nat show_nat_digits)
next
  case False
  obtain c cs where c: "show_nat (nat i) = c # cs"
    by (meson show_nat_not_Nil neq_Nil_conv)
  with show_nat_hd [OF c] False assms show ?thesis
    using digits_val_show_nat [of "nat i"] show_nat_digits [of "nat i"]
    by (simp add: atoi_def itoa_def)
qed

interpretation decimal: codec itoa atoi "\<lambda>i. - (2 ^ 63) \<le> i \<and> i < 2 ^ 63"
  by unfold_locales (simp add: atoi_itoa)

subsection \<open>Hexadecimal\<close>

text \<open>
  \<^verbatim>\<open>hex.EncodeToString\<close> writes two lower-case digits per byte; \<^verbatim>\<open>hex.DecodeString\<close> reads digits of
  either case and fails on any other byte and on an odd length. \<^verbatim>\<open>strings.ToUpper\<close> of such a
  string only meets ASCII letters and digits.
\<close>

definition hex_digit :: "nat \<Rightarrow> char" where
  "hex_digit n = (if n < 10 then chr (48 + n) else chr (87 + n))"

definition hex_val :: "char \<Rightarrow> nat option" where
  "hex_val c =
     (let b = byte c
      in if 48 \<le> b \<and> b \<le> 57 then Some (b - 48)
         else if 97 \<le> b \<and> b \<le> 102 then Some (b - 87)
         else if 65 \<le> b \<and> b \<le> 70 then Some (b - 55)
         else None)"

definition hex_byte :: "nat \<Rightarrow> string" where
  "hex_byte b = [hex_digit (b div 16), hex_digit (b mod 16)]"

fun hex_encode :: "nat list \<Rightarrow> string" where
  "hex_encode [] = []"
| "hex_encode (b # bs) = hex_byte b @ hex_encode bs"

fun hex_decode :: "string \<Rightarrow> nat list option" where
  "hex_decode [] = Some []"
| "hex_decode [c] = None"
| "hex_decode (c # d # s) =
     (case (hex_val c, hex_val d) of
        (Some h, Some l) \<Rightarrow> map_option ((#) (16 * h + l)) (hex_decode s)
      | _ \<Rightarrow> None)"

definition upper_byte :: "char \<Rightarrow> char" where
  "upper_byte c = (if 97 \<le> byte c \<and> byte c \<le> 122 then chr (byte c - 32) else c)"

definition lower_byte :: "char \<Rightarrow> char" where
  "lower_byte c = (if 65 \<le> byte c \<and> byte c \<le> 90 then chr (byte c + 32) else c)"

lemma hex_val_digit [simp]: "n < 16 \<Longrightarrow> hex_val (hex_digit n) = Some n"
  by (auto simp: hex_val_def hex_digit_def Let_def)

lemma hex_val_upper [simp]: "n < 16 \<Longrightarrow> hex_val (upper_byte (hex_digit n)) = Some n"
  by (auto simp: hex_val_def hex_digit_def upper_byte_def Let_def)

lemma length_hex_encode [simp]: "length (hex_encode bs) = 2 * length bs"
  by (induction bs) (auto simp: hex_byte_def)

lemma hex_byte_pair: "(b::nat) < 256 \<Longrightarrow> 16 * (b div 16) + b mod 16 = b \<and> b div 16 < 16 \<and> b mod 16 < 16"
  by (auto simp: less_mult_imp_div_less)

lemma hex_decode_encode: "list_all (\<lambda>b. b < 256) bs \<Longrightarrow> hex_decode (hex_encode bs) = Some bs"
  by (induction bs) (auto simp: hex_byte_def hex_byte_pair)

lemma hex_decode_encode_upper:
  "list_all (\<lambda>b. b < 256) bs \<Longrightarrow> hex_decode (map upper_byte (hex_encode bs)) = Some bs"
  by (induction bs) (auto simp: hex_byte_def hex_byte_pair)

lemma hex_val_bound: "hex_val c = Some h \<Longrightarrow> h < 16"
  by (auto simp: hex_val_def Let_def split: if_splits)

lemma hex_decode_bytes: "hex_decode s = Some bs \<Longrightarrow> list_all (\<lambda>b. b < 256) bs"
proof (induction s arbitrary: bs rule: hex_decode.induct)
  case (3 c d s)
  then obtain h l r where h: "hex_val c = Some h" "hex_val d = Some l" "hex_decode s = Some r"
    and bs: "bs = (16 * h + l) # r"
    by (auto split: option.splits)
  from h(1,2) have "h < 16" "l < 16" by (auto dest: hex_val_bound)
  moreover have "list_all (\<lambda>b. b < 256) r"
    using "3.IH" h by simp
  ultimately show ?case by (simp add: bs)
qed auto

lemma hex_decode_length: "hex_decode s = Some bs \<Longrightarrow> length s = 2 * length bs"
  by (induction s arbitrary: bs rule: hex_decode.induct) (auto split: option.splits)

interpretation hexa: codec "map upper_byte \<circ> hex_encode" hex_decode "list_all (\<lambda>b. b < 256)"
  by unfold_locales (simp add: hex_decode_encode_upper)

subsection \<open>UTF-16\<close>

text \<open>\<^verbatim>\<open>utf16.Encode\<close> and \<^verbatim>\<open>utf16.Decode\<close>, a code unit being a number below 65536.\<close>

definition utf16_units :: "nat \<Rightarrow> nat list" where
  "utf16_units r =
     (if r < 0xD800 \<or> (0xE000 \<le> r \<and> r < 0x10000) then [r]
      else if 0x10000 \<le> r \<and> r \<le> 0x10FFFF
      then [0xD800 + (r - 0x10000) div 1024, 0xDC00 + (r - 0x10000) mod 1024]
      else [runeError])"

fun utf16_encode :: "nat list \<Rightarrow> nat list" where
  "utf16_encode [] = []"
| "utf16_encode (r # rs) = utf16_units r @ utf16_encode rs"

fun utf16_decode :: "nat list \<Rightarrow> nat list" where
  "utf16_decode [] = []"
| "utf16_decode (u # us) =
     (if u < 0xD800 \<or> 0xE000 \<le> u then u # utf16_decode us
      else if 0xDC00 \<le> u then runeError # utf16_decode us
      else case us of
          [] \<Rightarrow> [runeError]
        | v # vs \<Rightarrow>
            if 0xDC00 \<le> v \<and> v < 0xE000
            then (0x10000 + (u - 0xD800) * 1024 + (v - 0xDC00)) # utf16_decode vs
            else runeError # utf16_decode us)"

lemma utf16_decode_units:
  assumes "valid_rune r"
  shows "utf16_decode (utf16_units r @ us) = r # utf16_decode us"
proof (cases "r < 0x10000")
  case True
  with assms show ?thesis by (auto simp: utf16_units_def valid_rune_def)
next
  case False
  define q where "q = r - 0x10000"
  have q: "r = q + 0x10000" "q < 1024 * 1024"
    using False assms by (auto simp: q_def valid_rune_def)
  have "q div 1024 < 1024" "q mod 1024 < 1024" "q div 1024 * 1024 + q mod 1024 = q"
    "q \<le> 1048575"
    using q(2) by (auto simp: less_mult_imp_div_less)
  with q False show ?thesis by (simp add: utf16_units_def q_def [symmetric])
qed

lemma utf16_decode_encode: "list_all valid_rune rs \<Longrightarrow> utf16_decode (utf16_encode rs) = rs"
  by (induction rs) (auto simp: utf16_decode_units)

lemma utf16_encode_bound: "list_all (\<lambda>u. u < 65536) (utf16_encode rs)"
proof (induction rs)
  case (Cons r rs)
  have "r \<le> 0x10FFFF \<Longrightarrow> (r - 0x10000) div 1024 < 1024"
    by (auto intro: less_mult_imp_div_less)
  moreover have "(r - 0x10000) mod 1024 < 1024" by simp
  ultimately have "list_all (\<lambda>u. u < 65536) (utf16_units r)"
    by (auto simp: utf16_units_def runeError_def)
  with Cons show ?case by simp
qed simp

interpretation utf16: codec utf16_encode "\<lambda>us. Some (utf16_decode us)" "list_all valid_rune"
  by unfold_locales (simp add: utf16_decode_encode)

end
