(* ===== verification/Json.thy ===== *)
theory Json
  imports Go_Lib
begin

text \<open>
  Package \<^verbatim>\<open>encoding/json\<close> as the program uses it. A JSON document is represented by its value, not
  by its bytes; a timestamp, which Go writes as an RFC 3339 string and reads back as the same
  instant, is a value of its own. A struct is encoded as an object; a field tagged \<^verbatim>\<open>omitempty\<close>
  that holds its zero value is left out. Decoding writes into an existing value: a field whose
  key is missing keeps what it held, a field whose value has the wrong type is skipped, and the
  first such mismatch is the error of the whole call. \<^verbatim>\<open>null\<close> leaves a plain field as it is and
  clears a slice or a pointer. A \<^verbatim>\<open>float64\<close> is the rational number it denotes.
\<close>

type_synonym float64 = rat

datatype json =
    JNull
  | JBool bool
  | JNum rat
  | JStr string
  | JTime gtime
  | JArr "json list"
  | JObj "(string \<times> json) list"

type_synonym 'v decoder = "json \<Rightarrow> 'v \<Rightarrow> 'v \<times> gerror option"

definition type_error :: gerror where
  "type_error = ''json: cannot unmarshal value into Go struct field''"

definition first_err :: "gerror option \<Rightarrow> gerror option \<Rightarrow> gerror option" where
  "first_err e e' = (case e of None \<Rightarrow> e' | Some _ \<Rightarrow> e)"

subsection \<open>Encoding\<close>

definition omit_opt :: "bool \<Rightarrow> json \<Rightarrow> json option" where
  "omit_opt zero j = (if zero then None else Some j)"

definition omitempty :: "string \<Rightarrow> bool \<Rightarrow> json \<Rightarrow> (string \<times> json) list" where
  "omitempty k zero j = (if zero then [] else [(k, j)])"

definition jint :: "int \<Rightarrow> json" where
  "jint i = JNum (of_int i)"

definition jstrs :: "string list \<Rightarrow> json" where
  "jstrs xs = (if xs = [] then JNull else JArr (map JStr xs))"

definition jtime_opt :: "gtime option \<Rightarrow> json" where
  "jtime_opt t = (case t of None \<Rightarrow> JNull | Some x \<Rightarrow> JTime x)"

lemma tget_omitempty_other [simp]: "k' \<noteq> k \<Longrightarrow> tget (omitempty k zero j @ xs) k' = tget xs k'"
  by (simp add: omitempty_def)

lemma tget_omitempty_same [simp]:
  "tget xs k = None \<Longrightarrow> tget (omitempty k zero j @ xs) k = omit_opt zero j"
  by (simp add: omitempty_def omit_opt_def)

lemma tget_omitempty_single [simp]:
  "tget (omitempty k zero j) k' = (if k' = k then omit_opt zero j else None)"
  by (simp add: omitempty_def omit_opt_def)

subsection \<open>Decoding\<close>

fun opt_field :: "'v decoder \<Rightarrow> json option \<Rightarrow> 'v \<times> gerror option \<Rightarrow> 'v \<times> gerror option" where
  "opt_field dec None p = p"
| "opt_field dec (Some j) (v, e) = (let (v', e') = dec j v in (v', first_err e e'))"

declare opt_field.simps(2) [simp del]

definition json_field :: "string \<Rightarrow> 'v decoder \<Rightarrow> json \<Rightarrow> 'v \<times> gerror option \<Rightarrow> 'v \<times> gerror option" where
  "json_field k dec j p =
     (case j of
        JObj fs \<Rightarrow> opt_field dec (tget fs k) p
      | JNull \<Rightarrow> p
      | _ \<Rightarrow> (fst p, first_err (snd p) (Some type_error)))"

lemma json_field_JObj [simp]: "json_field k dec (JObj fs) p = opt_field dec (tget fs k) p"
  by (simp add: json_field_def)

definition set_str :: "((string \<Rightarrow> string) \<Rightarrow> 'v \<Rightarrow> 'v) \<Rightarrow> 'v decoder" where
  "set_str upd j v =
     (case j of JNull \<Rightarrow> (v, None) | JStr s \<Rightarrow> (upd (\<lambda>_. s) v, None) | _ \<Rightarrow> (v, Some type_error))"

definition set_bool :: "((bool \<Rightarrow> bool) \<Rightarrow> 'v \<Rightarrow> 'v) \<Rightarrow> 'v decoder" where
  "set_bool upd j v =
     (case j of JNull \<Rightarrow> (v, None) | JBool b \<Rightarrow> (upd (\<lambda>_. b) v, None) | _ \<Rightarrow> (v, Some type_error))"

definition set_int :: "((int \<Rightarrow> int) \<Rightarrow> 'v \<Rightarrow> 'v) \<Rightarrow> 'v decoder" where
  "set_int upd j v =
     (case j of JNull \<Rightarrow> (v, None)
      | JNum r \<Rightarrow> if r = of_int \<lfloor>r\<rfloor> then (upd (\<lambda>_. \<lfloor>r\<rfloor>) v, None) else (v, Some type_error)
      | _ \<Rightarrow> (v, Some type_error))"

definition set_float :: "((float64 \<Rightarrow> float64) \<Rightarrow> 'v \<Rightarrow> 'v) \<Rightarrow> 'v decoder" where
  "set_float upd j v =
     (case j of JNull \<Rightarrow> (v, None) | JNum r \<Rightarrow> (upd (\<lambda>_. r) v, None) | _ \<Rightarrow> (v, Some type_error))"

definition set_time :: "((gtime \<Rightarrow> gtime) \<Rightarrow> 'v \<Rightarrow> 'v) \<Rightarrow> 'v decoder" where
  "set_time upd j v =
     (case j of JNull \<Rightarrow> (v, None) | JTime t \<Rightarrow> (upd (\<lambda>_. t) v, None) | _ \<Rightarrow> (v, Some type_error))"

definition set_time_ptr :: "((gtime option \<Rightarrow> gtime option) \<Rightarrow> 'v \<Rightarrow> 'v) \<Rightarrow> 'v decoder" where
  "set_time_ptr upd j v =
     (case j of JNull \<Rightarrow> (upd (\<lambda>_. None) v, None) | JTime t \<Rightarrow> (upd (\<lambda>_. Some t) v, None)
      | _ \<Rightarrow> (v, Some type_error))"

fun str_elems :: "json list \<Rightarrow> string list option" where
  "str_elems [] = Some []"
| "str_elems (JStr s # js) = map_option ((#) s) (str_elems js)"
| "str_elems (_ # js) = None"

definition set_strs :: "((string list \<Rightarrow> string list) \<Rightarrow> 'v \<Rightarrow> 'v) \<Rightarrow> 'v decoder" where
  "set_strs upd j v =
     (case j of JNull \<Rightarrow> (upd (\<lambda>_. []) v, None)
      | JArr js \<Rightarrow> (case str_elems js of Some xs \<Rightarrow> (upd (\<lambda>_. xs) v, None) | None \<Rightarrow> (v, Some type_error))
      | _ \<Rightarrow> (v, Some type_error))"

text \<open>A nested struct, and a pointer to a struct that \<^verbatim>\<open>new\<close> allocates when it is nil.\<close>

definition set_struct :: "('v \<Rightarrow> 'w) \<Rightarrow> (('w \<Rightarrow> 'w) \<Rightarrow> 'v \<Rightarrow> 'v) \<Rightarrow> 'w decoder \<Rightarrow> 'v decoder" where
  "set_struct get upd dec j v = (let (w, e) = dec j (get v) in (upd (\<lambda>_. w) v, e))"

definition set_struct_ptr ::
  "('v \<Rightarrow> 'w option) \<Rightarrow> (('w option \<Rightarrow> 'w option) \<Rightarrow> 'v \<Rightarrow> 'v) \<Rightarrow> 'w \<Rightarrow> 'w decoder \<Rightarrow> 'v decoder" where
  "set_struct_ptr get upd zero dec j v =
     (case j of JNull \<Rightarrow> (upd (\<lambda>_. None) v, None)
      | _ \<Rightarrow> (let (w, e) = dec j (case get v of None \<Rightarrow> zero | Some x \<Rightarrow> x) in (upd (\<lambda>_. Some w) v, e)))"

subsection \<open>A field that was encoded is decoded to the value it had\<close>

lemma first_err_None [simp]: "first_err None e = e" "first_err (Some x) e = Some x" "first_err e None = e"
  by (simp_all add: first_err_def split: option.split)

lemma floor_of_int_rat [simp]: "\<lfloor>rat_of_int i\<rfloor> = i"
  by simp

lemma str_elems_map [simp]: "str_elems (map JStr xs) = Some xs"
  by (induction xs) auto

text \<open>Fields that are always written.\<close>

lemma dec_str [simp]: "opt_field (set_str upd) (Some (JStr s)) (v, e) = (upd (\<lambda>_. s) v, e)"
  by (simp add: opt_field.simps set_str_def)

lemma dec_bool [simp]: "opt_field (set_bool upd) (Some (JBool b)) (v, e) = (upd (\<lambda>_. b) v, e)"
  by (simp add: opt_field.simps set_bool_def)

lemma dec_int [simp]: "opt_field (set_int upd) (Some (jint i)) (v, e) = (upd (\<lambda>_. i) v, e)"
  by (simp add: opt_field.simps set_int_def jint_def)

lemma dec_float [simp]: "opt_field (set_float upd) (Some (JNum r)) (v, e) = (upd (\<lambda>_. r) v, e)"
  by (simp add: opt_field.simps set_float_def)

lemma dec_time [simp]: "opt_field (set_time upd) (Some (JTime t)) (v, e) = (upd (\<lambda>_. t) v, e)"
  by (simp add: opt_field.simps set_time_def)

lemma dec_strs [simp]: "opt_field (set_strs upd) (Some (jstrs xs)) (v, e) = (upd (\<lambda>_. xs) v, e)"
  by (simp add: opt_field.simps set_strs_def jstrs_def)

lemma dec_struct [simp]:
  "dec j (get v) = (w, None) \<Longrightarrow>
     opt_field (set_struct get upd dec) (Some j) (v, e) = (upd (\<lambda>_. w) v, e)"
  by (simp add: opt_field.simps set_struct_def)

text \<open>
  Fields tagged \<^verbatim>\<open>omitempty\<close>: decoding into a value whose field is zero gives the encoded value
  back, whether the field was written or left out.
\<close>

lemma dec_omit_str [simp]:
  "upd (\<lambda>_. []) v = v \<Longrightarrow>
     opt_field (set_str upd) (omit_opt (s = []) (JStr s)) (v, e) = (upd (\<lambda>_. s) v, e)"
  by (simp add: omit_opt_def)

lemma dec_omit_bool [simp]:
  "upd (\<lambda>_. False) v = v \<Longrightarrow>
     opt_field (set_bool upd) (omit_opt (\<not> b) (JBool b)) (v, e) = (upd (\<lambda>_. b) v, e)"
  by (cases b) (simp_all add: omit_opt_def)

lemma dec_omit_int [simp]:
  "upd (\<lambda>_. 0) v = v \<Longrightarrow>
     opt_field (set_int upd) (omit_opt (i = 0) (jint i)) (v, e) = (upd (\<lambda>_. i) v, e)"
  by (simp add: omit_opt_def)

lemma dec_omit_float [simp]:
  "upd (\<lambda>_. 0) v = v \<Longrightarrow>
     opt_field (set_float upd) (omit_opt (r = 0) (JNum r)) (v, e) = (upd (\<lambda>_. r) v, e)"
  by (simp add: omit_opt_def)

lemma dec_omit_time_ptr [simp]:
  "upd (\<lambda>_. None) v = v \<Longrightarrow>
     opt_field (set_time_ptr upd) (omit_opt (t = None) (jtime_opt t)) (v, e) = (upd (\<lambda>_. t) v, e)"
  by (cases t) (simp_all add: opt_field.simps omit_opt_def set_time_ptr_def jtime_opt_def)

lemma dec_omit_struct_ptr:
  assumes "upd (\<lambda>_. None) v = v" "get v = None"
    and "\<And>w. x = Some w \<Longrightarrow> j = enc w" "\<And>w. enc w \<noteq> JNull" "\<And>w. dec (enc w) zero = (w, None)"
  shows "opt_field (set_struct_ptr get upd zero dec) (omit_opt (x = None) j) (v, e) = (upd (\<lambda>_. x) v, e)"
proof (cases x)
  case None
  with assms(1) show ?thesis by (simp add: omit_opt_def)
next
  case (Some w)
  with assms(3) have j: "j = enc w" by simp
  have "dec j zero = (w, None)" "j \<noteq> JNull" using assms(4,5) j by auto
  then have "set_struct_ptr get upd zero dec j v = (upd (\<lambda>_. Some w) v, None)"
    using assms(2) by (auto simp: set_struct_ptr_def split: json.split)
  with Some show ?thesis by (simp add: opt_field.simps omit_opt_def)
qed

text \<open>Decoding such a field into an arbitrary value keeps the old field when the new one is zero.\<close>

lemma dec_omit_over:
  "opt_field (set_str upd) (omit_opt (s = []) (JStr s)) (v, e) = (if s = [] then v else upd (\<lambda>_. s) v, e)"
  "opt_field (set_bool updb) (omit_opt (\<not> b) (JBool b)) (v, e) = (if b then updb (\<lambda>_. b) v else v, e)"
  by (simp_all add: omit_opt_def)

end
