(* ===== verification/Domain.thy ===== *)
theory Domain
  imports Json
begin

text \<open>
  Package \<^verbatim>\<open>domain\<close> (\<^verbatim>\<open>internal/domain/types.go\<close>): the data the components share, one record per
  struct, with the fields of the source under a short prefix. \<^verbatim>\<open>CallState\<close> and \<^verbatim>\<open>Direction\<close> are
  strings with named constants, as in the source. Their JSON encodings are in the theory
  \<^verbatim>\<open>Domain_Json\<close>.
\<close>

subsection \<open>Call states and directions\<close>

type_synonym CallState = string
type_synonym Direction = string

abbreviation CallIncoming :: CallState where "CallIncoming \<equiv> ''incoming''"
abbreviation CallDialing :: CallState where "CallDialing \<equiv> ''dialing''"
abbreviation CallAlerting :: CallState where "CallAlerting \<equiv> ''alerting''"
abbreviation CallActive :: CallState where "CallActive \<equiv> ''active''"
abbreviation CallEnding :: CallState where "CallEnding \<equiv> ''ending''"
abbreviation CallEnded :: CallState where "CallEnded \<equiv> ''ended''"
abbreviation CallFailed :: CallState where "CallFailed \<equiv> ''failed''"

abbreviation Incoming :: Direction where "Incoming \<equiv> ''incoming''"
abbreviation Outgoing :: Direction where "Outgoing \<equiv> ''outgoing''"

subsection \<open>Structs\<close>

record DeviceStatus =
  d_Mode :: string
  d_GatewayType :: string
  d_ATPort :: string
  d_AudioPort :: string
  d_ATConnected :: bool
  d_AudioCapable :: bool
  d_SIMReady :: bool
  d_Registered :: bool
  d_VoiceReady :: bool
  d_Operator :: string
  d_AccessTech :: string
  d_Signal :: int
  d_SignalDBm :: int
  d_TelegramOK :: bool
  d_SIPStatus :: string
  d_SIPPending :: int
  d_DiskUsedPct :: float64
  d_Degraded :: "string list"
  d_LastCheckedAt :: gtime

record SIMInfo =
  si_Ready :: bool
  si_PhoneNumber :: string
  si_ICCID :: string
  si_IMSI :: string

record NetworkInfo =
  ni_Registered :: bool
  ni_VoiceRegistered :: bool
  ni_Operator :: string
  ni_AccessTechnology :: string
  ni_Signal :: int
  ni_SignalDBm :: int

record ModemInfo =
  mi_Connected :: bool
  mi_AudioCapable :: bool
  mi_Manufacturer :: string
  mi_Model :: string
  mi_IMEI :: string
  mi_Firmware :: string
  mi_SubVersion :: string
  mi_QCN :: string
  mi_VoLTEControl :: bool
  mi_ATPort :: string
  mi_AudioPort :: string

record GatewaySubscription =
  gs_ID :: int
  gs_SIMSlot :: int
  gs_DisplayName :: string
  gs_CarrierName :: string
  gs_PhoneNumber :: string
  gs_IMEI :: string
  gs_Ready :: bool

record GatewayInfo =
  gi_ID :: string
  gi_Type :: string
  gi_Connected :: bool
  gi_Transport :: string
  gi_AudioCapable :: bool
  gi_ADBState :: string
  gi_Manufacturer :: string
  gi_Model :: string
  gi_AndroidVersion :: string
  gi_BuildID :: string
  gi_SecurityPatch :: string
  gi_BasebandVersion :: string
  gi_BatteryLevel :: int
  gi_BatteryCharging :: bool
  gi_SubscriptionID :: int
  gi_SIMSlot :: int
  gi_IMEI :: string
  gi_IMSRegistered :: bool
  gi_VoLTE :: bool
  gi_CompanionVersion :: string
  gi_ProtocolVersion :: int
  gi_AudioDownlinkOK :: bool
  gi_AudioUplinkOK :: bool
  gi_AudioDownlinkFrames :: int
  gi_AudioUplinkFrames :: int
  gi_AudioUplinkBytes :: int
  gi_LastError :: string
  gi_Subscriptions :: "GatewaySubscription list"

record RuntimeInfo =
  ri_Version :: string
  ri_Revision :: string
  ri_BuildTime :: string
  ri_StartedAt :: gtime
  ri_UptimeSeconds :: int

record SystemInfo =
  sys_SIM :: SIMInfo
  sys_Network :: NetworkInfo
  sys_Modem :: ModemInfo
  sys_Gateway :: GatewayInfo
  sys_Gateways :: "GatewayInfo list"
  sys_Runtime :: RuntimeInfo
  sys_LastCheckedAt :: gtime

record Decision =
  dc_Action :: string
  dc_Label :: string
  dc_Category :: string
  dc_Confidence :: float64
  dc_Source :: string
  dc_RuleID :: string
  dc_Reason :: string

record Call =
  c_ID :: string
  c_Version :: int
  c_Direction :: Direction
  c_Number :: string
  c_DisplayName :: string
  c_State :: CallState
  c_Filter :: Decision
  c_StartedAt :: gtime
  c_ConnectedAt :: "gtime option"
  c_EndedAt :: "gtime option"
  c_EndReason :: string
  c_Muted :: bool
  c_SpeakerMuted :: bool
  c_Recording :: bool
  c_RecordingID :: string
  c_MediaOwner :: string
  c_Held :: bool
  c_GatewayID :: string
  c_SubscriptionID :: int
  c_TelegramMsgIDs :: "int list"

record SIPDelivery =
  sd_Status :: string
  sd_Attempts :: int
  sd_NextAt :: "gtime option"
  sd_ExpiresAt :: gtime
  sd_LastError :: string

record Message =
  m_ID :: string
  m_Version :: int
  m_Conversation :: string
  m_Direction :: Direction
  m_Number :: string
  m_Body :: string
  m_Status :: string
  m_Unread :: bool
  m_Filtered :: bool
  m_Deleted :: bool
  m_Filter :: Decision
  m_ModemIndex :: int
  m_ProviderID :: string
  m_GatewayID :: string
  m_SubscriptionID :: int
  m_SIPDelivery :: "SIPDelivery option"
  m_CreatedAt :: gtime

record Conversation =
  cv_ID :: string
  cv_Number :: string
  cv_DisplayName :: string
  cv_LastBody :: string
  cv_LastAt :: gtime
  cv_Unread :: int
  cv_Filtered :: bool

record FilterRule =
  r_ID :: string
  r_Kind :: string
  r_Pattern :: string
  r_Label :: string
  r_Category :: string
  r_Action :: string
  r_Scope :: string
  r_Enabled :: bool
  r_CreatedAt :: gtime

record Recording =
  rec_ID :: string
  rec_CallID :: string
  rec_Path :: string
  rec_FileName :: string
  rec_Duration :: int
  rec_Size :: int
  rec_SHA256 :: string
  rec_CreatedAt :: gtime
  rec_Kind :: string

record Settings =
  st_SMS :: bool
  st_Calls :: bool
  st_ShowTestTone :: bool
  st_VoicemailEnabled :: bool
  st_VoicemailTimeout :: int
  st_TelegramEnabled :: bool
  st_TelegramChatID :: int
  st_TelegramToken :: string
  st_SIPEnabled :: bool
  st_SIPPassword :: string
  st_SIPPasswordSeen :: bool
  st_ProviderURL :: string
  st_ProviderAPIKey :: string
  st_AutoBlock :: "string list"
  st_Country :: string

record Snapshot =
  sn_Sequence :: int
  sn_Initialized :: bool
  sn_Device :: DeviceStatus
  sn_ActiveCall :: "Call option"
  sn_Calls :: "Call list"
  sn_Messages :: "Message list"
  sn_Conversations :: "Conversation list"
  sn_Rules :: "FilterRule list"
  sn_Recordings :: "Recording list"
  sn_Settings :: Settings

subsection \<open>Zero values\<close>

definition zeroDecision :: Decision where
  "zeroDecision = \<lparr>dc_Action = [], dc_Label = [], dc_Category = [], dc_Confidence = 0,
     dc_Source = [], dc_RuleID = [], dc_Reason = []\<rparr>"

definition zeroDevice :: DeviceStatus where
  "zeroDevice = \<lparr>d_Mode = [], d_GatewayType = [], d_ATPort = [], d_AudioPort = [],
     d_ATConnected = False, d_AudioCapable = False, d_SIMReady = False, d_Registered = False,
     d_VoiceReady = False, d_Operator = [], d_AccessTech = [], d_Signal = 0, d_SignalDBm = 0,
     d_TelegramOK = False, d_SIPStatus = [], d_SIPPending = 0, d_DiskUsedPct = 0,
     d_Degraded = [], d_LastCheckedAt = zeroTime\<rparr>"

definition zeroCall :: Call where
  "zeroCall = \<lparr>c_ID = [], c_Version = 0, c_Direction = [], c_Number = [], c_DisplayName = [],
     c_State = [], c_Filter = zeroDecision, c_StartedAt = zeroTime, c_ConnectedAt = None,
     c_EndedAt = None, c_EndReason = [], c_Muted = False, c_SpeakerMuted = False,
     c_Recording = False, c_RecordingID = [], c_MediaOwner = [], c_Held = False,
     c_GatewayID = [], c_SubscriptionID = 0, c_TelegramMsgIDs = []\<rparr>"

definition zeroSIPDelivery :: SIPDelivery where
  "zeroSIPDelivery = \<lparr>sd_Status = [], sd_Attempts = 0, sd_NextAt = None, sd_ExpiresAt = zeroTime,
     sd_LastError = []\<rparr>"

definition zeroMessage :: Message where
  "zeroMessage = \<lparr>m_ID = [], m_Version = 0, m_Conversation = [], m_Direction = [], m_Number = [],
     m_Body = [], m_Status = [], m_Unread = False, m_Filtered = False, m_Deleted = False,
     m_Filter = zeroDecision, m_ModemIndex = 0, m_ProviderID = [], m_GatewayID = [],
     m_SubscriptionID = 0, m_SIPDelivery = None, m_CreatedAt = zeroTime\<rparr>"

definition zeroRule :: FilterRule where
  "zeroRule = \<lparr>r_ID = [], r_Kind = [], r_Pattern = [], r_Label = [], r_Category = [],
     r_Action = [], r_Scope = [], r_Enabled = False, r_CreatedAt = zeroTime\<rparr>"

definition zeroRecording :: Recording where
  "zeroRecording = \<lparr>rec_ID = [], rec_CallID = [], rec_Path = [], rec_FileName = [],
     rec_Duration = 0, rec_Size = 0, rec_SHA256 = [], rec_CreatedAt = zeroTime, rec_Kind = []\<rparr>"

definition zeroSettings :: Settings where
  "zeroSettings = \<lparr>st_SMS = False, st_Calls = False, st_ShowTestTone = False,
     st_VoicemailEnabled = False, st_VoicemailTimeout = 0, st_TelegramEnabled = False,
     st_TelegramChatID = 0, st_TelegramToken = [], st_SIPEnabled = False, st_SIPPassword = [],
     st_SIPPasswordSeen = False, st_ProviderURL = [], st_ProviderAPIKey = [], st_AutoBlock = [],
     st_Country = []\<rparr>"

lemmas zero_defs = zeroDecision_def zeroDevice_def zeroCall_def zeroSIPDelivery_def
  zeroMessage_def zeroRule_def zeroRecording_def zeroSettings_def

text \<open>\<^verbatim>\<open>NewID(prefix)\<close> (\<^verbatim>\<open>id.go\<close>): the prefix, an underscore and the 24 hexadecimal digits of twelve
  random bytes, which are an argument here.\<close>

definition NewID :: "string \<Rightarrow> nat list \<Rightarrow> string" where
  "NewID pre b = pre @ ''_'' @ hex_encode b"

lemma NewID_prefix: "has_prefix (NewID pre b) (pre @ ''_'')"
  by (simp add: NewID_def has_prefix_iff)

lemma length_NewID: "length b = 12 \<Longrightarrow> length (NewID pre b) = length pre + 25"
  by (simp add: NewID_def)

lemma NewID_inject:
  assumes "list_all (\<lambda>x. x < 256) a" "list_all (\<lambda>x. x < 256) b" "NewID pre a = NewID pre b"
  shows "a = b"
proof -
  have "hex_encode a = hex_encode b" using assms(3) by (simp add: NewID_def)
  then have "hex_decode (hex_encode a) = hex_decode (hex_encode b)" by (rule arg_cong)
  then have "Some a = Some b"
    unfolding hex_decode_encode [OF assms(1)] hex_decode_encode [OF assms(2)] .
  then show ?thesis by (rule option.inject [THEN iffD1])
qed

end
