(* ===== verification/Domain_Json.thy ===== *)
theory Domain_Json
  imports Domain
begin

text \<open>
  The JSON encodings of the structs that are persisted, with the keys and the \<^verbatim>\<open>omitempty\<close> tags
  of \<^verbatim>\<open>internal/domain/types.go\<close>. Every encoder is followed by its decoder and by the law that
  decoding into a zero value gives the encoded value back. Two structs are not decoded into a
  zero value by the store: \<^verbatim>\<open>DeviceStatus\<close>, whose fields are always written, so that the law holds
  for every target, and \<^verbatim>\<open>Settings\<close>, whose \<^verbatim>\<open>omitempty\<close> fields keep their old value when the new
  one is zero.
\<close>

text \<open>Decoding runs over the fields in order.\<close>

fun json_fields :: "(json \<Rightarrow> 'v \<times> gerror option \<Rightarrow> 'v \<times> gerror option) list \<Rightarrow> json \<Rightarrow> 'v \<Rightarrow> 'v \<times> gerror option" where
  "json_fields fs j v = fold (\<lambda>f p. f j p) fs (v, None)"

subsection \<open>Decision\<close>

definition marshal_Decision :: "Decision \<Rightarrow> json" where
  "marshal_Decision v = JObj
      ([(''action'', JStr (dc_Action v))] @
       omitempty ''label'' (dc_Label v = []) (JStr (dc_Label v)) @
       omitempty ''category'' (dc_Category v = []) (JStr (dc_Category v)) @
       omitempty ''confidence'' (dc_Confidence v = 0) (JNum (dc_Confidence v)) @
       omitempty ''source'' (dc_Source v = []) (JStr (dc_Source v)) @
       omitempty ''ruleId'' (dc_RuleID v = []) (JStr (dc_RuleID v)) @
       omitempty ''reason'' (dc_Reason v = []) (JStr (dc_Reason v)))"

definition unmarshal_Decision :: "Decision decoder" where
  "unmarshal_Decision j v = json_fields
     [json_field ''action'' (set_str dc_Action_update),
      json_field ''label'' (set_str dc_Label_update),
      json_field ''category'' (set_str dc_Category_update),
      json_field ''confidence'' (set_float dc_Confidence_update),
      json_field ''source'' (set_str dc_Source_update),
      json_field ''ruleId'' (set_str dc_RuleID_update),
      json_field ''reason'' (set_str dc_Reason_update)] j v"

lemma unmarshal_marshal_Decision [simp]: "unmarshal_Decision (marshal_Decision v) zeroDecision = (v, None)"
  by (simp add: unmarshal_Decision_def marshal_Decision_def zeroDecision_def)

subsection \<open>DeviceStatus\<close>

definition marshal_DeviceStatus :: "DeviceStatus \<Rightarrow> json" where
  "marshal_DeviceStatus v = JObj
      ([(''mode'', JStr (d_Mode v)),
        (''gatewayType'', JStr (d_GatewayType v)),
        (''atPort'', JStr (d_ATPort v)),
        (''audioPort'', JStr (d_AudioPort v)),
        (''atConnected'', JBool (d_ATConnected v)),
        (''audioCapable'', JBool (d_AudioCapable v)),
        (''simReady'', JBool (d_SIMReady v)),
        (''registered'', JBool (d_Registered v)),
        (''voiceRegistered'', JBool (d_VoiceReady v)),
        (''operator'', JStr (d_Operator v)),
        (''accessTechnology'', JStr (d_AccessTech v)),
        (''signal'', jint (d_Signal v)),
        (''signalDbm'', jint (d_SignalDBm v)),
        (''telegramOk'', JBool (d_TelegramOK v)),
        (''sipStatus'', JStr (d_SIPStatus v)),
        (''sipPendingMessages'', jint (d_SIPPending v)),
        (''diskUsedPct'', JNum (d_DiskUsedPct v)),
        (''degraded'', jstrs (d_Degraded v)),
        (''lastCheckedAt'', JTime (d_LastCheckedAt v))])"

definition unmarshal_DeviceStatus :: "DeviceStatus decoder" where
  "unmarshal_DeviceStatus j v = json_fields
     [json_field ''mode'' (set_str d_Mode_update),
      json_field ''gatewayType'' (set_str d_GatewayType_update),
      json_field ''atPort'' (set_str d_ATPort_update),
      json_field ''audioPort'' (set_str d_AudioPort_update),
      json_field ''atConnected'' (set_bool d_ATConnected_update),
      json_field ''audioCapable'' (set_bool d_AudioCapable_update),
      json_field ''simReady'' (set_bool d_SIMReady_update),
      json_field ''registered'' (set_bool d_Registered_update),
      json_field ''voiceRegistered'' (set_bool d_VoiceReady_update),
      json_field ''operator'' (set_str d_Operator_update),
      json_field ''accessTechnology'' (set_str d_AccessTech_update),
      json_field ''signal'' (set_int d_Signal_update),
      json_field ''signalDbm'' (set_int d_SignalDBm_update),
      json_field ''telegramOk'' (set_bool d_TelegramOK_update),
      json_field ''sipStatus'' (set_str d_SIPStatus_update),
      json_field ''sipPendingMessages'' (set_int d_SIPPending_update),
      json_field ''diskUsedPct'' (set_float d_DiskUsedPct_update),
      json_field ''degraded'' (set_strs d_Degraded_update),
      json_field ''lastCheckedAt'' (set_time d_LastCheckedAt_update)] j v"

lemma unmarshal_marshal_DeviceStatus [simp]: "unmarshal_DeviceStatus (marshal_DeviceStatus v) w = (v, None)"
  by (simp add: unmarshal_DeviceStatus_def marshal_DeviceStatus_def)

subsection \<open>Call\<close>

definition marshal_Call :: "Call \<Rightarrow> json" where
  "marshal_Call v = JObj
      ([(''id'', JStr (c_ID v)),
        (''version'', jint (c_Version v)),
        (''direction'', JStr (c_Direction v)),
        (''number'', JStr (c_Number v))] @
       omitempty ''displayName'' (c_DisplayName v = []) (JStr (c_DisplayName v)) @
       [(''state'', JStr (c_State v)),
        (''filter'', marshal_Decision (c_Filter v)),
        (''startedAt'', JTime (c_StartedAt v))] @
       omitempty ''connectedAt'' (c_ConnectedAt v = None) (jtime_opt (c_ConnectedAt v)) @
       omitempty ''endedAt'' (c_EndedAt v = None) (jtime_opt (c_EndedAt v)) @
       omitempty ''endReason'' (c_EndReason v = []) (JStr (c_EndReason v)) @
       [(''muted'', JBool (c_Muted v)),
        (''speakerMuted'', JBool (c_SpeakerMuted v)),
        (''recording'', JBool (c_Recording v))] @
       omitempty ''recordingId'' (c_RecordingID v = []) (JStr (c_RecordingID v)) @
       omitempty ''mediaOwner'' (c_MediaOwner v = []) (JStr (c_MediaOwner v)) @
       [(''held'', JBool (c_Held v))] @
       omitempty ''gatewayId'' (c_GatewayID v = []) (JStr (c_GatewayID v)) @
       omitempty ''subscriptionId'' (c_SubscriptionID v = 0) (jint (c_SubscriptionID v)))"

definition unmarshal_Call :: "Call decoder" where
  "unmarshal_Call j v = json_fields
     [json_field ''id'' (set_str c_ID_update),
      json_field ''version'' (set_int c_Version_update),
      json_field ''direction'' (set_str c_Direction_update),
      json_field ''number'' (set_str c_Number_update),
      json_field ''displayName'' (set_str c_DisplayName_update),
      json_field ''state'' (set_str c_State_update),
      json_field ''filter'' (set_struct c_Filter c_Filter_update unmarshal_Decision),
      json_field ''startedAt'' (set_time c_StartedAt_update),
      json_field ''connectedAt'' (set_time_ptr c_ConnectedAt_update),
      json_field ''endedAt'' (set_time_ptr c_EndedAt_update),
      json_field ''endReason'' (set_str c_EndReason_update),
      json_field ''muted'' (set_bool c_Muted_update),
      json_field ''speakerMuted'' (set_bool c_SpeakerMuted_update),
      json_field ''recording'' (set_bool c_Recording_update),
      json_field ''recordingId'' (set_str c_RecordingID_update),
      json_field ''mediaOwner'' (set_str c_MediaOwner_update),
      json_field ''held'' (set_bool c_Held_update),
      json_field ''gatewayId'' (set_str c_GatewayID_update),
      json_field ''subscriptionId'' (set_int c_SubscriptionID_update)] j v"

lemma unmarshal_marshal_Call [simp]:
  "unmarshal_Call (marshal_Call v) zeroCall = (v\<lparr>c_TelegramMsgIDs := []\<rparr>, None)"
  by (simp add: unmarshal_Call_def marshal_Call_def zeroCall_def)

subsection \<open>SIPDelivery\<close>

definition marshal_SIPDelivery :: "SIPDelivery \<Rightarrow> json" where
  "marshal_SIPDelivery v = JObj
      ([(''status'', JStr (sd_Status v)),
        (''attempts'', jint (sd_Attempts v))] @
       omitempty ''nextAttemptAt'' (sd_NextAt v = None) (jtime_opt (sd_NextAt v)) @
       [(''expiresAt'', JTime (sd_ExpiresAt v))] @
       omitempty ''lastError'' (sd_LastError v = []) (JStr (sd_LastError v)))"

definition unmarshal_SIPDelivery :: "SIPDelivery decoder" where
  "unmarshal_SIPDelivery j v = json_fields
     [json_field ''status'' (set_str sd_Status_update),
      json_field ''attempts'' (set_int sd_Attempts_update),
      json_field ''nextAttemptAt'' (set_time_ptr sd_NextAt_update),
      json_field ''expiresAt'' (set_time sd_ExpiresAt_update),
      json_field ''lastError'' (set_str sd_LastError_update)] j v"

lemma unmarshal_marshal_SIPDelivery [simp]: "unmarshal_SIPDelivery (marshal_SIPDelivery v) zeroSIPDelivery = (v, None)"
  by (simp add: unmarshal_SIPDelivery_def marshal_SIPDelivery_def zeroSIPDelivery_def)

subsection \<open>Message\<close>

definition marshal_SIPDelivery_ptr :: "SIPDelivery option \<Rightarrow> json" where
  "marshal_SIPDelivery_ptr x = (case x of None \<Rightarrow> JNull | Some d \<Rightarrow> marshal_SIPDelivery d)"

definition marshal_Message :: "Message \<Rightarrow> json" where
  "marshal_Message v = JObj
      ([(''id'', JStr (m_ID v)),
        (''version'', jint (m_Version v)),
        (''conversationId'', JStr (m_Conversation v)),
        (''direction'', JStr (m_Direction v)),
        (''number'', JStr (m_Number v))] @
       omitempty ''body'' (m_Body v = []) (JStr (m_Body v)) @
       [(''status'', JStr (m_Status v)),
        (''unread'', JBool (m_Unread v)),
        (''filtered'', JBool (m_Filtered v)),
        (''deleted'', JBool (m_Deleted v)),
        (''filter'', marshal_Decision (m_Filter v))] @
       omitempty ''modemIndex'' (m_ModemIndex v = 0) (jint (m_ModemIndex v)) @
       omitempty ''providerId'' (m_ProviderID v = []) (JStr (m_ProviderID v)) @
       omitempty ''gatewayId'' (m_GatewayID v = []) (JStr (m_GatewayID v)) @
       omitempty ''subscriptionId'' (m_SubscriptionID v = 0) (jint (m_SubscriptionID v)) @
       omitempty ''sipDelivery'' (m_SIPDelivery v = None) (marshal_SIPDelivery_ptr (m_SIPDelivery v)) @
       [(''createdAt'', JTime (m_CreatedAt v))])"

definition unmarshal_Message :: "Message decoder" where
  "unmarshal_Message j v = json_fields
     [json_field ''id'' (set_str m_ID_update),
      json_field ''version'' (set_int m_Version_update),
      json_field ''conversationId'' (set_str m_Conversation_update),
      json_field ''direction'' (set_str m_Direction_update),
      json_field ''number'' (set_str m_Number_update),
      json_field ''body'' (set_str m_Body_update),
      json_field ''status'' (set_str m_Status_update),
      json_field ''unread'' (set_bool m_Unread_update),
      json_field ''filtered'' (set_bool m_Filtered_update),
      json_field ''deleted'' (set_bool m_Deleted_update),
      json_field ''filter'' (set_struct m_Filter m_Filter_update unmarshal_Decision),
      json_field ''modemIndex'' (set_int m_ModemIndex_update),
      json_field ''providerId'' (set_str m_ProviderID_update),
      json_field ''gatewayId'' (set_str m_GatewayID_update),
      json_field ''subscriptionId'' (set_int m_SubscriptionID_update),
      json_field ''sipDelivery'' (set_struct_ptr m_SIPDelivery m_SIPDelivery_update zeroSIPDelivery unmarshal_SIPDelivery),
      json_field ''createdAt'' (set_time m_CreatedAt_update)] j v"

lemma dec_omit_SIPDelivery [simp]:
  "upd (\<lambda>_. None) v = v \<Longrightarrow> get v = None \<Longrightarrow>
     opt_field (set_struct_ptr get upd zeroSIPDelivery unmarshal_SIPDelivery)
       (omit_opt (x = None) (marshal_SIPDelivery_ptr x)) (v, e) = (upd (\<lambda>_. x) v, e)"
  by (rule dec_omit_struct_ptr [where enc = marshal_SIPDelivery])
     (simp_all add: marshal_SIPDelivery_ptr_def, simp add: marshal_SIPDelivery_def)

lemma unmarshal_marshal_Message [simp]: "unmarshal_Message (marshal_Message v) zeroMessage = (v, None)"
  by (simp add: unmarshal_Message_def marshal_Message_def zeroMessage_def)

subsection \<open>FilterRule\<close>

definition marshal_FilterRule :: "FilterRule \<Rightarrow> json" where
  "marshal_FilterRule v = JObj
      ([(''id'', JStr (r_ID v)),
        (''kind'', JStr (r_Kind v)),
        (''pattern'', JStr (r_Pattern v)),
        (''label'', JStr (r_Label v)),
        (''category'', JStr (r_Category v)),
        (''action'', JStr (r_Action v)),
        (''scope'', JStr (r_Scope v)),
        (''enabled'', JBool (r_Enabled v)),
        (''createdAt'', JTime (r_CreatedAt v))])"

definition unmarshal_FilterRule :: "FilterRule decoder" where
  "unmarshal_FilterRule j v = json_fields
     [json_field ''id'' (set_str r_ID_update),
      json_field ''kind'' (set_str r_Kind_update),
      json_field ''pattern'' (set_str r_Pattern_update),
      json_field ''label'' (set_str r_Label_update),
      json_field ''category'' (set_str r_Category_update),
      json_field ''action'' (set_str r_Action_update),
      json_field ''scope'' (set_str r_Scope_update),
      json_field ''enabled'' (set_bool r_Enabled_update),
      json_field ''createdAt'' (set_time r_CreatedAt_update)] j v"

lemma unmarshal_marshal_FilterRule [simp]: "unmarshal_FilterRule (marshal_FilterRule v) zeroRule = (v, None)"
  by (simp add: unmarshal_FilterRule_def marshal_FilterRule_def zeroRule_def)

subsection \<open>Recording\<close>

text \<open>
  \<^verbatim>\<open>Recording.Path\<close> has the tag \<^verbatim>\<open>-\<close>. The store persists it through an anonymous struct that embeds
  the recording and adds \<^verbatim>\<open>storagePath\<close>; decoding moves it back into \<^verbatim>\<open>Path\<close>.
\<close>

definition marshal_Recording :: "Recording \<Rightarrow> json" where
  "marshal_Recording v = JObj
      ([(''id'', JStr (rec_ID v)),
        (''callId'', JStr (rec_CallID v)),
        (''fileName'', JStr (rec_FileName v)),
        (''durationSeconds'', jint (rec_Duration v)),
        (''size'', jint (rec_Size v)),
        (''sha256'', JStr (rec_SHA256 v)),
        (''createdAt'', JTime (rec_CreatedAt v))] @
       omitempty ''kind'' (rec_Kind v = []) (JStr (rec_Kind v)) @
       [(''storagePath'', JStr (rec_Path v))])"

definition unmarshal_Recording :: "Recording decoder" where
  "unmarshal_Recording j v = json_fields
     [json_field ''id'' (set_str rec_ID_update),
      json_field ''callId'' (set_str rec_CallID_update),
      json_field ''fileName'' (set_str rec_FileName_update),
      json_field ''durationSeconds'' (set_int rec_Duration_update),
      json_field ''size'' (set_int rec_Size_update),
      json_field ''sha256'' (set_str rec_SHA256_update),
      json_field ''createdAt'' (set_time rec_CreatedAt_update),
      json_field ''kind'' (set_str rec_Kind_update),
      json_field ''storagePath'' (set_str rec_Path_update)] j v"

lemma unmarshal_marshal_Recording [simp]: "unmarshal_Recording (marshal_Recording v) zeroRecording = (v, None)"
  by (simp add: unmarshal_Recording_def marshal_Recording_def zeroRecording_def)

subsection \<open>Settings\<close>

definition marshal_Settings :: "Settings \<Rightarrow> json" where
  "marshal_Settings v = JObj
      ([(''smsEnabled'', JBool (st_SMS v)),
        (''callsEnabled'', JBool (st_Calls v)),
        (''showTestTone'', JBool (st_ShowTestTone v)),
        (''voicemailEnabled'', JBool (st_VoicemailEnabled v)),
        (''voicemailTimeoutSeconds'', jint (st_VoicemailTimeout v)),
        (''telegramEnabled'', JBool (st_TelegramEnabled v)),
        (''telegramChatId'', jint (st_TelegramChatID v))] @
       omitempty ''telegramToken'' (st_TelegramToken v = []) (JStr (st_TelegramToken v)) @
       [(''sipEnabled'', JBool (st_SIPEnabled v))] @
       omitempty ''sipPassword'' (st_SIPPassword v = []) (JStr (st_SIPPassword v)) @
       omitempty ''sipPasswordSeen'' (\<not> st_SIPPasswordSeen v) (JBool (st_SIPPasswordSeen v)) @
       omitempty ''providerUrl'' (st_ProviderURL v = []) (JStr (st_ProviderURL v)) @
       omitempty ''providerApiKey'' (st_ProviderAPIKey v = []) (JStr (st_ProviderAPIKey v)) @
       [(''autoBlockCategories'', jstrs (st_AutoBlock v)),
        (''country'', JStr (st_Country v))])"

definition unmarshal_Settings :: "Settings decoder" where
  "unmarshal_Settings j v = json_fields
     [json_field ''smsEnabled'' (set_bool st_SMS_update),
      json_field ''callsEnabled'' (set_bool st_Calls_update),
      json_field ''showTestTone'' (set_bool st_ShowTestTone_update),
      json_field ''voicemailEnabled'' (set_bool st_VoicemailEnabled_update),
      json_field ''voicemailTimeoutSeconds'' (set_int st_VoicemailTimeout_update),
      json_field ''telegramEnabled'' (set_bool st_TelegramEnabled_update),
      json_field ''telegramChatId'' (set_int st_TelegramChatID_update),
      json_field ''telegramToken'' (set_str st_TelegramToken_update),
      json_field ''sipEnabled'' (set_bool st_SIPEnabled_update),
      json_field ''sipPassword'' (set_str st_SIPPassword_update),
      json_field ''sipPasswordSeen'' (set_bool st_SIPPasswordSeen_update),
      json_field ''providerUrl'' (set_str st_ProviderURL_update),
      json_field ''providerApiKey'' (set_str st_ProviderAPIKey_update),
      json_field ''autoBlockCategories'' (set_strs st_AutoBlock_update),
      json_field ''country'' (set_str st_Country_update)] j v"

lemma unmarshal_marshal_Settings [simp]: "unmarshal_Settings (marshal_Settings v) zeroSettings = (v, None)"
  by (simp add: unmarshal_Settings_def marshal_Settings_def zeroSettings_def)

text \<open>
  Decoding settings over older ones: the five \<^verbatim>\<open>omitempty\<close> fields are replaced only by non-zero
  values.
\<close>

definition merge_Settings :: "Settings \<Rightarrow> Settings \<Rightarrow> Settings" where
  "merge_Settings old v = v
     \<lparr>st_TelegramToken := (if st_TelegramToken v = [] then st_TelegramToken old else st_TelegramToken v),
      st_SIPPassword := (if st_SIPPassword v = [] then st_SIPPassword old else st_SIPPassword v),
      st_SIPPasswordSeen := (st_SIPPasswordSeen v \<or> st_SIPPasswordSeen old),
      st_ProviderURL := (if st_ProviderURL v = [] then st_ProviderURL old else st_ProviderURL v),
      st_ProviderAPIKey := (if st_ProviderAPIKey v = [] then st_ProviderAPIKey old else st_ProviderAPIKey v)\<rparr>"

lemma unmarshal_Settings_over: "unmarshal_Settings (marshal_Settings v) old = (merge_Settings old v, None)"
  by (simp add: unmarshal_Settings_def marshal_Settings_def merge_Settings_def dec_omit_over)

end
