(* ===== verification/Store_Secrets.thy ===== *)
theory Store_Secrets
  imports Domain_Json
begin

text \<open>
  The encryption of the secret settings (\<^verbatim>\<open>internal/store/store.go\<close>: \<^verbatim>\<open>loadSecretCipher\<close>, \<^verbatim>\<open>seal\<close>,
  \<^verbatim>\<open>open\<close>, \<^verbatim>\<open>encryptSettings\<close>, \<^verbatim>\<open>decryptSettings\<close>). The AES-GCM cipher of \<^verbatim>\<open>crypto/cipher\<close> is a
  parameter, a record of its three operations; the law the store relies on, that a sealed text
  opens again under the same nonce, is the hypothesis \<open>aead_ok\<close>. Random bytes are arguments.
  The base64 encoding of \<^verbatim>\<open>encoding/base64\<close> is defined here.
\<close>

subsection \<open>Base64 without padding\<close>

definition b64_alphabet :: string where
  "b64_alphabet = ''ABCDEFGHIJKLMNOPQRSTUVWXYZabcdefghijklmnopqrstuvwxyz0123456789+/''"

definition b64_char :: "nat \<Rightarrow> char" where
  "b64_char n = b64_alphabet ! n"

definition b64_val :: "char \<Rightarrow> nat option" where
  "b64_val c = index_byte b64_alphabet c"

fun base64_encode :: "string \<Rightarrow> string" where
  "base64_encode [] = []"
| "base64_encode [a] = [b64_char (byte a div 4), b64_char (byte a mod 4 * 16)]"
| "base64_encode [a, b] =
     [b64_char (byte a div 4), b64_char (byte a mod 4 * 16 + byte b div 16), b64_char (byte b mod 16 * 4)]"
| "base64_encode (a # b # c # s) =
     b64_char (byte a div 4) # b64_char (byte a mod 4 * 16 + byte b div 16) #
     b64_char (byte b mod 16 * 4 + byte c div 64) # b64_char (byte c mod 64) # base64_encode s"

text \<open>The decoder skips line breaks; left-over bits of the last digit are ignored.\<close>

fun base64_digits :: "nat list \<Rightarrow> string option" where
  "base64_digits [] = Some []"
| "base64_digits [p] = None"
| "base64_digits [p, q] = Some [chr (p * 4 + q div 16)]"
| "base64_digits [p, q, r] = Some [chr (p * 4 + q div 16), chr (q mod 16 * 16 + r div 4)]"
| "base64_digits (p # q # r # s # ds) =
     map_option (\<lambda>t. chr (p * 4 + q div 16) # chr (q mod 16 * 16 + r div 4) # chr (r mod 4 * 64 + s) # t)
       (base64_digits ds)"

definition base64_vals :: "string \<Rightarrow> nat list option" where
  "base64_vals s = those (map b64_val (filter (\<lambda>c. byte c \<noteq> (10::nat) \<and> byte c \<noteq> (13::nat)) s))"

definition base64_decode :: "string \<Rightarrow> string option" where
  "base64_decode s = Option.bind (base64_vals s) base64_digits"

lemma b64_table: "list_all (\<lambda>n. b64_val (b64_char n) = Some n \<and> 42 < byte (b64_char n)) [0..<64]"
  by code_simp

lemma b64_val_char [simp]: "n < 64 \<Longrightarrow> b64_val (b64_char n) = Some n"
  using b64_table by (simp add: list_all_iff)

lemma b64_char_printable [simp]: "n < 64 \<Longrightarrow> 42 < byte (b64_char n)"
  using b64_table by (simp add: list_all_iff)

lemma b64_char_break [simp]:
  assumes "n < 64"
  shows "byte (b64_char n) \<noteq> 10" "byte (b64_char n) \<noteq> 13"
  using b64_char_printable [OF assms] by linarith+

lemma sextet [simp]:
  "(byte c :: nat) div 4 < 64" "byte c div 16 < (16::nat)" "byte c div 64 < (4::nat)"
  using byte_less [of c] by linarith+

lemma sextet_sum [simp]:
  "x mod 4 * 16 < (64::nat)" "x mod 16 * 4 < (64::nat)"
  "byte c mod 4 * 16 + byte d div 16 < (64::nat)" "byte c mod 16 * 4 + byte d div 64 < (64::nat)"
proof -
  show "x mod 4 * 16 < (64::nat)" "x mod 16 * 4 < (64::nat)" by simp_all
  have "byte c mod 4 \<le> (3::nat)" "byte c mod 16 \<le> (15::nat)" by simp_all
  with sextet(2,3) [of d]
  show "byte c mod 4 * 16 + byte d div 16 < (64::nat)" "byte c mod 16 * 4 + byte d div 64 < (64::nat)"
    by linarith+
qed

lemma base64_vals_Nil [simp]: "base64_vals [] = Some []"
  by (simp add: base64_vals_def)

lemma base64_vals_char [simp]:
  "n < 64 \<Longrightarrow> base64_vals (b64_char n # s) = map_option ((#) n) (base64_vals s)"
  by (simp add: base64_vals_def)

lemma octets:
  "(x::nat) div 4 * 4 + x mod 4 * 16 div 16 = x"
  "y < 256 \<Longrightarrow> x div 4 * 4 + (x mod 4 * 16 + y div 16) div 16 = x"
  "(x mod 4 * 16 + y div 16) mod 16 = y div 16 mod 16"
  "y < 256 \<Longrightarrow> y div 16 mod 16 * 16 + (y mod 16 * 4) div 4 = y"
  "y < 256 \<Longrightarrow> z < 256 \<Longrightarrow> y div 16 mod 16 * 16 + (y mod 16 * 4 + z div 64) div 4 = y"
  "z < 256 \<Longrightarrow> (y mod 16 * 4 + z div 64) mod 4 * 64 + z mod 64 = z"
proof -
  show "x div 4 * 4 + x mod 4 * 16 div 16 = x" by simp
  show "(x mod 4 * 16 + y div 16) mod 16 = y div 16 mod 16" by simp
  show "x div 4 * 4 + (x mod 4 * 16 + y div 16) div 16 = x" if "y < 256"
  proof -
    have "(x mod 4 * 16 + y div 16) div 16 = x mod 4" using that by simp
    then show ?thesis by simp
  qed
  show "y div 16 mod 16 * 16 + (y mod 16 * 4) div 4 = y" if "y < 256"
    using that by simp
  show "y div 16 mod 16 * 16 + (y mod 16 * 4 + z div 64) div 4 = y" if "y < 256" "z < 256"
  proof -
    have "(y mod 16 * 4 + z div 64) div 4 = y mod 16" using that by simp
    then show ?thesis using that by simp
  qed
  show "(y mod 16 * 4 + z div 64) mod 4 * 64 + z mod 64 = z" if "z < 256"
  proof -
    have "(y mod 16 * 4 + z div 64) mod 4 = z div 64" using that by simp
    then show ?thesis by simp
  qed
qed

lemma base64_decode_encode [simp]: "base64_decode (base64_encode s) = Some s"
proof (induction s rule: base64_encode.induct)
  case (4 a b c s)
  then obtain ds where "base64_vals (base64_encode s) = Some ds" "base64_digits ds = Some s"
    by (auto simp: base64_decode_def split: bind_splits)
  then show ?case by (simp add: base64_decode_def octets)
qed (simp_all add: base64_decode_def octets)

interpretation base64: codec base64_encode base64_decode "\<lambda>_. True"
  by unfold_locales simp

subsection \<open>The cipher\<close>

record aead =
  NonceSize :: nat
  Seal :: "string \<Rightarrow> string \<Rightarrow> string"
  Open :: "string \<Rightarrow> string \<Rightarrow> string option"

text \<open>
  What \<^verbatim>\<open>cipher.AEAD\<close> documents of \<^verbatim>\<open>Seal\<close> and \<^verbatim>\<open>Open\<close>: a text sealed with a nonce of the right
  length opens with that nonce.
\<close>

definition aead_ok :: "aead \<Rightarrow> bool" where
  "aead_ok a \<longleftrightarrow> (\<forall>n p. length n = NonceSize a \<longrightarrow> Open a n (Seal a n p) = Some p)"

text \<open>
  \<^verbatim>\<open>loadSecretCipher\<close>: the key file is read; when it does not exist, 32 random bytes are drawn and
  written. The outcome of each system call is an argument; the result is the cipher and the
  contents written to the key file, if any.
\<close>

record key_io =
  io_read :: "gerror + string option"  \<comment> \<open>\<open>Inr None\<close>: the file does not exist\<close>
  io_rand :: "gerror + string"
  io_write :: "gerror option"

definition key_length_error :: gerror where
  "key_length_error = ''master key must be 32 bytes''"

definition finish_cipher :: "(string \<Rightarrow> gerror + aead) \<Rightarrow> string \<Rightarrow> string option \<Rightarrow> gerror + aead \<times> string option" where
  "finish_cipher newGCM key written =
     (if length key \<noteq> 32 then Inl key_length_error
      else case newGCM key of Inl e \<Rightarrow> Inl e | Inr a \<Rightarrow> Inr (a, written))"

definition loadSecretCipher :: "(string \<Rightarrow> gerror + aead) \<Rightarrow> key_io \<Rightarrow> gerror + aead \<times> string option" where
  "loadSecretCipher newGCM io =
     (case io_read io of
        Inl e \<Rightarrow> Inl e
      | Inr (Some key) \<Rightarrow> finish_cipher newGCM key None
      | Inr None \<Rightarrow>
          (case io_rand io of
             Inl e \<Rightarrow> Inl e
           | Inr key \<Rightarrow>
               (case io_write io of
                  Some e \<Rightarrow> Inl e
                | None \<Rightarrow> finish_cipher newGCM key (Some key))))"

definition seal :: "aead \<Rightarrow> string \<Rightarrow> string \<Rightarrow> string" where
  "seal a nonce v = (if v = [] then [] else ''enc:'' @ base64_encode (nonce @ Seal a nonce v))"

definition corrupt_base64 :: gerror where
  "corrupt_base64 = ''illegal base64 data''"

definition invalid_sealed :: gerror where
  "invalid_sealed = ''invalid encrypted value''"

definition auth_failed :: gerror where
  "auth_failed = ''cipher: message authentication failed''"

definition open_secret :: "aead \<Rightarrow> string \<Rightarrow> gerror + string" where
  "open_secret a v =
     (if v = [] \<or> \<not> has_prefix v ''enc:'' then Inr v
      else (case base64_decode (trim_prefix v ''enc:'') of
        None \<Rightarrow> Inl corrupt_base64
      | Some raw \<Rightarrow>
          if length raw < NonceSize a then Inl invalid_sealed
          else (case Open a (take (NonceSize a) raw) (drop (NonceSize a) raw) of
            None \<Rightarrow> Inl auth_failed
          | Some plain \<Rightarrow> Inr plain)))"

lemma seal_shape: "seal a n v = [] \<and> v = [] \<or> has_prefix (seal a n v) ''enc:'' \<and> v \<noteq> []"
  by (simp add: seal_def)

lemma open_seal [simp]:
  assumes "aead_ok a" "length n = NonceSize a"
  shows "open_secret a (seal a n v) = Inr v"
  using assms by (simp add: open_secret_def seal_def trim_prefix_def aead_ok_def)

subsection \<open>Settings at rest\<close>

text \<open>
  \<^verbatim>\<open>encryptSettings\<close> and \<^verbatim>\<open>decryptSettings\<close> decode the settings, replace the three secrets and
  encode them again. \<open>nonce i\<close> is the i-th nonce drawn.
\<close>

definition encryptSettings :: "aead \<Rightarrow> (nat \<Rightarrow> string) \<Rightarrow> json \<Rightarrow> gerror + json" where
  "encryptSettings a nonce raw =
     (case unmarshal_Settings raw zeroSettings of
        (_, Some e) \<Rightarrow> Inl e
      | (v, None) \<Rightarrow> Inr (marshal_Settings (v
          \<lparr>st_TelegramToken := seal a (nonce 0) (st_TelegramToken v),
           st_ProviderAPIKey := seal a (nonce 1) (st_ProviderAPIKey v),
           st_SIPPassword := seal a (nonce 2) (st_SIPPassword v)\<rparr>)))"

definition decryptSettings :: "aead \<Rightarrow> json \<Rightarrow> gerror + json" where
  "decryptSettings a raw =
     (case unmarshal_Settings raw zeroSettings of
        (_, Some e) \<Rightarrow> Inl e
      | (v, None) \<Rightarrow>
          (case open_secret a (st_TelegramToken v) of
             Inl e \<Rightarrow> Inl e
           | Inr tok \<Rightarrow>
               (case open_secret a (st_ProviderAPIKey v) of
                  Inl e \<Rightarrow> Inl e
                | Inr apikey \<Rightarrow>
                    (case open_secret a (st_SIPPassword v) of
                       Inl e \<Rightarrow> Inl e
                     | Inr pass \<Rightarrow> Inr (marshal_Settings (v
                         \<lparr>st_TelegramToken := tok, st_ProviderAPIKey := apikey, st_SIPPassword := pass\<rparr>))))))"

definition nonces_ok :: "aead \<Rightarrow> (nat \<Rightarrow> string) \<Rightarrow> bool" where
  "nonces_ok a nonce \<longleftrightarrow> length (nonce 0) = NonceSize a \<and> length (nonce 1) = NonceSize a \<and> length (nonce 2) = NonceSize a"

definition sealed_Settings :: "aead \<Rightarrow> (nat \<Rightarrow> string) \<Rightarrow> Settings \<Rightarrow> Settings" where
  "sealed_Settings a nonce v = v
     \<lparr>st_TelegramToken := seal a (nonce 0) (st_TelegramToken v),
      st_ProviderAPIKey := seal a (nonce 1) (st_ProviderAPIKey v),
      st_SIPPassword := seal a (nonce 2) (st_SIPPassword v)\<rparr>"

lemma encryptSettings_marshal [simp]:
  "encryptSettings a nonce (marshal_Settings v) = Inr (marshal_Settings (sealed_Settings a nonce v))"
  by (simp add: encryptSettings_def sealed_Settings_def)

lemma decrypt_sealed [simp]:
  assumes "aead_ok a" "nonces_ok a nonce"
  shows "decryptSettings a (marshal_Settings (sealed_Settings a nonce v)) = Inr (marshal_Settings v)"
  using assms by (simp add: decryptSettings_def sealed_Settings_def nonces_ok_def)

end
