(* ===== verification/Auth.thy ===== *)
theory Auth
  imports Store_Secrets
begin

text \<open>
  Package \<^verbatim>\<open>auth\<close> (\<^verbatim>\<open>internal/auth/auth.go\<close>): the administrator's password, login sessions and
  one-time action tokens, over the tables \<^verbatim>\<open>users\<close>, \<^verbatim>\<open>sessions\<close> and \<^verbatim>\<open>action_tokens\<close>. The hash
  functions SHA-256 and Argon2id are parameters, as are random bytes, the clock and the failures of
  the database calls (\<open>f i\<close> is the failure of the i-th call of an operation).
\<close>

record ActionToken =
  tk_kind :: string
  tk_entity :: string
  tk_expires :: gtime
  tk_used :: "gtime option"

record AuthDB =
  au_user :: "string option"
  au_sessions :: "gtime table"
  au_tokens :: "ActionToken table"

text \<open>\<^verbatim>\<open>argon2.IDKey(password, salt, time, memory, threads, keyLen)\<close>\<close>

record hash_lib =
  sha256 :: "string \<Rightarrow> string"
  IDKey :: "string \<Rightarrow> string \<Rightarrow> nat \<Rightarrow> nat \<Rightarrow> nat \<Rightarrow> nat \<Rightarrow> string"

type_synonym faults = "nat \<Rightarrow> gerror option"

subsection \<open>Encodings\<close>

text \<open>\<^verbatim>\<open>base64.RawURLEncoding\<close> differs from the standard alphabet in two characters.\<close>

definition url_char :: "char \<Rightarrow> char" where
  "url_char c = (if c = CHR ''+'' then CHR ''-'' else if c = CHR ''/'' then CHR ''_'' else c)"

definition base64url_encode :: "string \<Rightarrow> string" where
  "base64url_encode s = map url_char (base64_encode s)"

definition tokenHash :: "hash_lib \<Rightarrow> string \<Rightarrow> string" where
  "tokenHash lib raw = base64url_encode (sha256 lib raw)"

definition randomToken :: "string \<Rightarrow> string" where
  "randomToken bytes = base64url_encode bytes"

subsection \<open>Passwords\<close>

definition hash_params :: string where
  "hash_params = ''m='' @ show_nat 65536 @ '',t='' @ show_nat 3 @ '',p='' @ show_nat 2"

definition hashPassword :: "hash_lib \<Rightarrow> string \<Rightarrow> string \<Rightarrow> string" where
  "hashPassword lib salt password =
     ''$argon2id$v=19$'' @ hash_params @ ''$'' @ base64_encode salt @ ''$'' @
     base64_encode (IDKey lib password salt 3 65536 2 32)"

text \<open>\<^verbatim>\<open>fmt.Sscanf(s, "m=%d,t=%d,p=%d", ...)\<close> into numbers of 32, 32 and 8 bits.\<close>

definition scan_uint :: "nat \<Rightarrow> string \<Rightarrow> (nat \<times> string) option" where
  "scan_uint bits s =
     (let s = dropWhile (\<lambda>c. c = CHR '' '') s; ds = takeWhile is_digit s; n = nat (digits_val ds)
      in if ds = [] \<or> 2 ^ bits \<le> n then None else Some (n, drop (length ds) s))"

definition scan_lit :: "string \<Rightarrow> string \<Rightarrow> string option" where
  "scan_lit lit s = (if has_prefix s lit then Some (drop (length lit) s) else None)"

definition scan_params :: "string \<Rightarrow> (nat \<times> nat \<times> nat) option" where
  "scan_params s =
     Option.bind (scan_lit ''m='' s) (\<lambda>s.
     Option.bind (scan_uint 32 s) (\<lambda>(memory, s).
     Option.bind (scan_lit '',t='' s) (\<lambda>s.
     Option.bind (scan_uint 32 s) (\<lambda>(iterations, s).
     Option.bind (scan_lit '',p='' s) (\<lambda>s.
     Option.bind (scan_uint 8 s) (\<lambda>(parallelism, _). Some (memory, iterations, parallelism)))))))"

definition verifyPassword :: "hash_lib \<Rightarrow> string \<Rightarrow> string \<Rightarrow> bool" where
  "verifyPassword lib password encoded =
     (let parts = split_on (CHR ''$'') encoded in
      if length parts \<noteq> 6 then False
      else case (scan_params (parts ! 3), base64_decode (parts ! 4), base64_decode (parts ! 5)) of
        (Some (memory, iterations, parallelism), Some salt, Some want) \<Rightarrow>
          IDKey lib password salt iterations memory parallelism (length want) = want
      | _ \<Rightarrow> False)"

subsection \<open>Operations\<close>

definition Initialized :: "faults \<Rightarrow> AuthDB \<Rightarrow> bool" where
  "Initialized f db = (f 0 = None \<and> au_user db \<noteq> None)"

definition Setup :: "hash_lib \<Rightarrow> faults \<Rightarrow> gerror + string \<Rightarrow> string \<Rightarrow> AuthDB \<Rightarrow> gerror option \<times> AuthDB" where
  "Setup lib f rand password db =
     (if length password < 10 then (Some ''PASSWORD_TOO_SHORT'', db)
      else if Initialized f db then (Some ''ALREADY_INITIALIZED'', db)
      else (case rand of
        Inl e \<Rightarrow> (Some e, db)
      | Inr salt \<Rightarrow>
          (case f 1 of
             Some e \<Rightarrow> (Some e, db)
           | None \<Rightarrow>
               if au_user db \<noteq> None then (Some ''UNIQUE constraint failed: users.id'', db)
               else (None, db\<lparr>au_user := Some (hashPassword lib salt password)\<rparr>))))"

definition invalid_credentials :: gerror where
  "invalid_credentials = ''INVALID_CREDENTIALS''"

text \<open>\<^verbatim>\<open>Login\<close> returns the session token, its expiry and an error.\<close>

definition Login ::
  "hash_lib \<Rightarrow> int \<Rightarrow> faults \<Rightarrow> gtime \<Rightarrow> string \<Rightarrow> string \<Rightarrow> AuthDB \<Rightarrow> (string \<times> gtime \<times> gerror option) \<times> AuthDB" where
  "Login lib ttl f now bytes password db =
     (case (f 0, au_user db) of
        (None, Some hash) \<Rightarrow>
          if \<not> verifyPassword lib password hash then (([], zeroTime, Some invalid_credentials), db)
          else
            (let raw = randomToken bytes; expires = now + ttl; h = tokenHash lib raw in
             case f 1 of
               Some e \<Rightarrow> ((raw, expires, Some e), db)
             | None \<Rightarrow>
                 if tget (au_sessions db) h \<noteq> None
                 then ((raw, expires, Some ''UNIQUE constraint failed: sessions.token_hash''), db)
                 else ((raw, expires, None), db\<lparr>au_sessions := tput h expires (au_sessions db)\<rparr>))
      | _ \<Rightarrow> (([], zeroTime, Some invalid_credentials), db))"

definition Validate :: "hash_lib \<Rightarrow> faults \<Rightarrow> gtime \<Rightarrow> string \<Rightarrow> AuthDB \<Rightarrow> bool \<times> AuthDB" where
  "Validate lib f now raw db =
     (if raw = [] then (False, db)
      else (case (f 0, tget (au_sessions db) (tokenHash lib raw)) of
        (None, Some t) \<Rightarrow>
          if t < now then
            (False, if f 1 = None then db\<lparr>au_sessions := tdel (tokenHash lib raw) (au_sessions db)\<rparr> else db)
          else (True, db)
      | _ \<Rightarrow> (False, db)))"

definition Logout :: "hash_lib \<Rightarrow> faults \<Rightarrow> string \<Rightarrow> AuthDB \<Rightarrow> AuthDB" where
  "Logout lib f raw db = (if f 0 = None then db\<lparr>au_sessions := tdel (tokenHash lib raw) (au_sessions db)\<rparr> else db)"

definition CreateActionToken ::
  "hash_lib \<Rightarrow> faults \<Rightarrow> gtime \<Rightarrow> string \<Rightarrow> string \<Rightarrow> string \<Rightarrow> int \<Rightarrow> AuthDB \<Rightarrow> (string \<times> gerror option) \<times> AuthDB" where
  "CreateActionToken lib f now bytes kind entityID ttl db =
     (let raw = randomToken bytes; h = tokenHash lib raw in
      case f 0 of
        Some e \<Rightarrow> ((raw, Some e), db)
      | None \<Rightarrow>
          if tget (au_tokens db) h \<noteq> None
          then ((raw, Some ''UNIQUE constraint failed: action_tokens.token_hash''), db)
          else ((raw, None), db\<lparr>au_tokens := tput h
            \<lparr>tk_kind = kind, tk_entity = entityID, tk_expires = now + ttl, tk_used = None\<rparr> (au_tokens db)\<rparr>))"

definition invalid_token :: gerror where "invalid_token = ''INVALID_TOKEN''"
definition token_expired :: gerror where "token_expired = ''TOKEN_EXPIRED''"

text \<open>The calls of the transaction: begin, select, update, commit.\<close>

definition ConsumeActionToken ::
  "hash_lib \<Rightarrow> faults \<Rightarrow> gtime \<Rightarrow> string \<Rightarrow> string \<Rightarrow> AuthDB \<Rightarrow> (string \<times> gerror option) \<times> AuthDB" where
  "ConsumeActionToken lib f now raw kind db =
     (let h = tokenHash lib raw in
      case f 0 of
        Some e \<Rightarrow> (([], Some e), db)
      | None \<Rightarrow>
          (case (f 1, tget (au_tokens db) h) of
             (None, Some tk) \<Rightarrow>
               if tk_kind tk \<noteq> kind then (([], Some invalid_token), db)
               else if tk_used tk \<noteq> None \<or> tk_expires tk < now then (([], Some token_expired), db)
               else (case f 2 of
                 Some e \<Rightarrow> (([], Some e), db)
               | None \<Rightarrow>
                   (case f 3 of
                      Some e \<Rightarrow> ((tk_entity tk, Some e), db)
                    | None \<Rightarrow> ((tk_entity tk, None),
                        db\<lparr>au_tokens := tput h (tk\<lparr>tk_used := Some now\<rparr>) (au_tokens db)\<rparr>)))
           | _ \<Rightarrow> (([], Some invalid_token), db)))"

definition ValidateActionToken :: "hash_lib \<Rightarrow> faults \<Rightarrow> gtime \<Rightarrow> string \<Rightarrow> string \<Rightarrow> AuthDB \<Rightarrow> string \<times> bool" where
  "ValidateActionToken lib f now raw kind db =
     (case (f 0, tget (au_tokens db) (tokenHash lib raw)) of
        (None, Some tk) \<Rightarrow>
          if tk_kind tk \<noteq> kind then ([], False)
          else (tk_entity tk, tk_used tk = None \<and> now < tk_expires tk)
      | _ \<Rightarrow> ([], False))"

definition ParseChatID :: "string \<Rightarrow> int option" where
  "ParseChatID v = atoi (trim_space v)"

subsection \<open>Passwords: verification accepts exactly the stored password's key\<close>

lemma base64_encode_printable: "c \<in> set (base64_encode s) \<Longrightarrow> (42::nat) < byte c"
  by (induction s rule: base64_encode.induct) auto

lemma dollar_not_base64 [simp]: "CHR ''$'' \<notin> set (base64_encode s)"
  using base64_encode_printable [of "CHR ''$''" s] by auto

lemma hash_params_text: "hash_params = ''m=65536,t=3,p=2''"
  by (simp add: hash_params_def show_nat.simps char_of_def bit_0)

lemma scan_hash_params: "scan_params ''m=65536,t=3,p=2'' = Some (65536, 3, 2)"
  by (simp add: scan_params_def scan_lit_def scan_uint_def Let_def is_digit_def digits_val_def digit_val_def)

lemma split_hash:
  "split_on (CHR ''$'') (hashPassword lib salt password) =
     [[], ''argon2id'', ''v=19'', hash_params, base64_encode salt, base64_encode (IDKey lib password salt 3 65536 2 32)]"
proof -
  have "hashPassword lib salt password = [] @ CHR ''$'' # ''argon2id'' @ CHR ''$'' # ''v=19'' @ CHR ''$'' #
      hash_params @ CHR ''$'' # base64_encode salt @ CHR ''$'' # base64_encode (IDKey lib password salt 3 65536 2 32)"
    by (simp add: hashPassword_def)
  moreover have "CHR ''$'' \<notin> set hash_params" by (simp add: hash_params_text)
  ultimately show ?thesis by (simp only: split_on_append) (simp add: split_on_append)
qed

lemma verify_hash:
  assumes "length (IDKey lib password salt 3 65536 2 32) = 32"
  shows "verifyPassword lib attempt (hashPassword lib salt password) \<longleftrightarrow>
    IDKey lib attempt salt 3 65536 2 32 = IDKey lib password salt 3 65536 2 32"
proof -
  have "scan_params hash_params = Some (65536, 3, 2)"
    unfolding hash_params_text by (rule scan_hash_params)
  then show ?thesis
    using assms by (simp add: verifyPassword_def split_hash Let_def)
qed

text \<open>A stored password hash accepts a password exactly if it has the same Argon2id key as the
  password that was set, provided the key function returns as many bytes as asked for. In
  particular the right password is always accepted.\<close>

theorem password_verification:
  assumes "length (IDKey lib password salt 3 65536 2 32) = 32"
  shows "verifyPassword lib attempt (hashPassword lib salt password) \<longleftrightarrow>
    IDKey lib attempt salt 3 65536 2 32 = IDKey lib password salt 3 65536 2 32"
  using assms by (rule verify_hash)

text \<open>The hash functions of the witnesses: a key of as many bytes as asked for, padded or cut.\<close>

definition demo_hash :: hash_lib where
  "demo_hash = \<lparr>sha256 = (\<lambda>s. s),
     IDKey = (\<lambda>password salt _ _ _ n. take n (salt @ password @ replicate n (CHR ''.'')))\<rparr>"

theorem password_verification_witness:
  "verifyPassword demo_hash ''hunter2222'' (hashPassword demo_hash ''salt'' ''hunter2222'') \<longleftrightarrow>
     IDKey demo_hash ''hunter2222'' ''salt'' 3 65536 2 32 = IDKey demo_hash ''hunter2222'' ''salt'' 3 65536 2 32"
  by (rule password_verification) (simp add: demo_hash_def)

definition demo_authdb :: AuthDB where
  "demo_authdb = \<lparr>au_user = Some (hashPassword demo_hash ''salt'' ''hunter2222''), au_sessions = [],
     au_tokens = [(tokenHash demo_hash ''tok'', \<lparr>tk_kind = ''answer'', tk_entity = ''c1'', tk_expires = 100, tk_used = None\<rparr>)]\<rparr>"

subsection \<open>Runs of the operations\<close>

datatype AuthOp =
    ASetup faults "gerror + string" string
  | ALogin int faults gtime string string
  | AValidate faults gtime string
  | ALogout faults string
  | ACreate faults gtime string string string int
  | AConsume faults gtime string string

fun auth_step :: "hash_lib \<Rightarrow> AuthOp \<Rightarrow> AuthDB \<Rightarrow> AuthDB" where
  "auth_step lib (ASetup f r p) db = snd (Setup lib f r p db)"
| "auth_step lib (ALogin ttl f now b p) db = snd (Login lib ttl f now b p db)"
| "auth_step lib (AValidate f now raw) db = snd (Validate lib f now raw db)"
| "auth_step lib (ALogout f raw) db = Logout lib f raw db"
| "auth_step lib (ACreate f now b k i ttl) db = snd (CreateActionToken lib f now b k i ttl db)"
| "auth_step lib (AConsume f now raw k) db = snd (ConsumeActionToken lib f now raw k db)"

definition auth_run :: "hash_lib \<Rightarrow> AuthOp list \<Rightarrow> AuthDB \<Rightarrow> AuthDB" where
  "auth_run lib qs db = fold (auth_step lib) qs db"

lemma auth_run_invariant:
  assumes "P db" "\<And>q db. P db \<Longrightarrow> P (auth_step lib q db)"
  shows "P (auth_run lib qs db)"
  unfolding auth_run_def using assms by (induction qs arbitrary: db) auto

lemmas auth_ops = Setup_def Login_def Validate_def Logout_def CreateActionToken_def ConsumeActionToken_def Let_def

text \<open>C38: The password is set once: after any run of operations, with any database failures, an
  existing password hash is still the one that was stored first.\<close>

theorem password_set_once:
  assumes "au_user db = Some hash"
  shows "au_user (auth_run lib qs db) = Some hash"
  using assms
proof (rule auth_run_invariant)
  fix q and db' :: AuthDB assume "au_user db' = Some hash"
  then show "au_user (auth_step lib q db') = Some hash"
    by (cases q) (auto simp: auth_ops split: option.split sum.split)
qed

definition spent :: "string \<Rightarrow> AuthDB \<Rightarrow> bool" where
  "spent h db = (case tget (au_tokens db) h of Some tk \<Rightarrow> tk_used tk \<noteq> None | None \<Rightarrow> False)"

lemma spent_step: "spent h db \<Longrightarrow> spent h (auth_step lib q db)"
  by (cases q) (auto simp: spent_def auth_ops split: option.splits sum.splits)

text \<open>C39: An action token works once: after it has been consumed, no later attempt to consume it
  succeeds and it no longer validates, whatever operations run in between.\<close>

theorem action_token_single_use:
  assumes "ConsumeActionToken lib f now raw kind db = ((entity, None), db')"
  shows "snd (fst (ConsumeActionToken lib f' now' raw kind' (auth_run lib qs db'))) \<noteq> None \<and>
    \<not> snd (ValidateActionToken lib f' now' raw kind' (auth_run lib qs db'))"
proof -
  have "spent (tokenHash lib raw) db'"
    using assms by (auto simp: ConsumeActionToken_def Let_def spent_def split: option.splits if_splits)
  then have "spent (tokenHash lib raw) (auth_run lib qs db')" by (rule auth_run_invariant) (rule spent_step)
  then show ?thesis
    by (auto simp: spent_def ConsumeActionToken_def ValidateActionToken_def Let_def split: option.splits)
qed

text \<open>A session lives from login to its expiry: right after a successful login the returned token
  validates until the time to live has passed and not after it, and logging out ends it at once.\<close>

theorem session_lifetime:
  assumes "Login lib ttl f now bytes password db = ((raw, expires, None), db')" "raw \<noteq> []"
  shows "expires = now + ttl \<and>
    fst (Validate lib (\<lambda>_. None) t raw db') = (t \<le> expires) \<and>
    \<not> fst (Validate lib f' t' raw (Logout lib (\<lambda>_. None) raw db'))"
  using assms by (auto simp: Login_def Validate_def Logout_def Let_def split: option.splits if_splits)

theorem password_set_once_witness:
  "au_user (auth_run demo_hash [ASetup (\<lambda>n. if n = 0 then Some ''locked'' else None) (Inr ''x'') ''otherpassword''] demo_authdb)
     = Some (hashPassword demo_hash ''salt'' ''hunter2222'')"
  by (rule password_set_once) (simp add: demo_authdb_def)

theorem action_token_single_use_witness:
  "\<exists>db'. ConsumeActionToken demo_hash (\<lambda>_. None) 50 ''tok'' ''answer'' demo_authdb = ((''c1'', None), db') \<and>
     snd (fst (ConsumeActionToken demo_hash (\<lambda>_. None) 60 ''tok'' ''answer''
       (auth_run demo_hash [ACreate (\<lambda>_. None) 55 ''b'' ''answer'' ''c2'' 10] db'))) \<noteq> None \<and>
     \<not> snd (ValidateActionToken demo_hash (\<lambda>_. None) 60 ''tok'' ''answer''
       (auth_run demo_hash [ACreate (\<lambda>_. None) 55 ''b'' ''answer'' ''c2'' 10] db'))"
proof -
  obtain db' where c: "ConsumeActionToken demo_hash (\<lambda>_. None) 50 ''tok'' ''answer'' demo_authdb = ((''c1'', None), db')"
    by (simp add: ConsumeActionToken_def demo_authdb_def Let_def)
  from action_token_single_use [OF c] c show ?thesis by blast
qed

theorem session_lifetime_witness:
  "\<exists>raw expires db'. Login demo_hash 1000 (\<lambda>_. None) 5 ''random'' ''hunter2222'' demo_authdb = ((raw, expires, None), db') \<and>
     expires = 5 + 1000 \<and> fst (Validate demo_hash (\<lambda>_. None) 7 raw db') = (7 \<le> expires) \<and>
     \<not> fst (Validate demo_hash (\<lambda>_. None) 7 raw (Logout demo_hash (\<lambda>_. None) raw db'))"
proof -
  have "length (IDKey demo_hash ''hunter2222'' ''salt'' 3 65536 2 32) = 32" by (simp add: demo_hash_def)
  then have ok: "verifyPassword demo_hash ''hunter2222'' (hashPassword demo_hash ''salt'' ''hunter2222'')"
    by (simp add: verify_hash)
  have ne: "randomToken ''random'' \<noteq> []" by (simp add: randomToken_def base64url_encode_def)
  obtain db' where l: "Login demo_hash 1000 (\<lambda>_. None) 5 ''random'' ''hunter2222'' demo_authdb =
      ((randomToken ''random'', 1005, None), db')"
    using ok by (simp add: Login_def demo_authdb_def Let_def)
  from session_lifetime [OF l ne] l show ?thesis by blast
qed

end
