(* ===== verification/Modem_Text.thy ===== *)
theory Modem_Text
  imports Go_Lib
begin

text \<open>
  The text functions of the AT modem driver (the end of \<^verbatim>\<open>internal/modem/modem.go\<close>) and the
  splitter that turns the bytes of the serial port into lines (\<^verbatim>\<open>readLoop\<close>).
\<close>

subsection \<open>Quoted fields and lines of a response\<close>

abbreviation dquote :: char where "dquote \<equiv> CHR 0x22"
abbreviation newline :: char where "newline \<equiv> CHR 0x0A"
abbreviation creturn :: char where "creturn \<equiv> CHR 0x0D"

definition quoted :: "string \<Rightarrow> string" where
  "quoted s =
     (case index_byte s dquote of
        None \<Rightarrow> []
      | Some start \<Rightarrow>
          (case index_byte (drop (start + 1) s) dquote of
             None \<Rightarrow> []
           | Some en \<Rightarrow> take en (drop (start + 1) s)))"

fun quotedAt :: "string \<Rightarrow> nat \<Rightarrow> string" where
  "quotedAt s n =
     (case index_byte s dquote of
        None \<Rightarrow> []
      | Some start \<Rightarrow>
          (let s = drop (start + 1) s in
           case index_byte s dquote of
             None \<Rightarrow> []
           | Some en \<Rightarrow> (case n of 0 \<Rightarrow> take en s | Suc k \<Rightarrow> quotedAt (drop (en + 1) s) k)))"

declare quotedAt.simps [simp del]

definition valueAfterColon :: "string \<Rightarrow> string" where
  "valueAfterColon s =
     (let s = (case index_byte s (CHR '':'') of Some p \<Rightarrow> drop (p + 1) s | None \<Rightarrow> s)
      in trim_byte dquote (trim_space (hd (split_on newline s))))"

definition firstValueLine :: "string \<Rightarrow> string" where
  "firstValueLine s =
     (case find (\<lambda>line. line \<noteq> [] \<and> \<not> has_prefix line ''AT+'') (map trim_space (split_on newline s)) of
        Some line \<Rightarrow> trim_byte dquote line
      | None \<Rightarrow> [])"

text \<open>The separator is a middle dot, two bytes in UTF-8.\<close>

definition subVersion :: "string \<Rightarrow> string" where
  "subVersion s = join [CHR '' '', CHR 0xC2, CHR 0xB7, CHR '' '']
     (filter (\<lambda>line. line \<noteq> [])
       (map (\<lambda>line. trim_space (trim_prefix (trim_space line) ''+CSUB:'')) (split_on newline s)))"

definition technology :: "int \<Rightarrow> string" where
  "technology code =
     (if code = 0 then ''GSM'' else if code = 1 then ''GSM Compact'' else if code = 2 then ''UTRAN''
      else if code = 3 then ''GSM/EDGE'' else if code = 4 then ''UTRAN/HSDPA'' else if code = 5 then ''UTRAN/HSUPA''
      else if code = 6 then ''UTRAN/HSPA'' else if code = 7 then ''LTE'' else if code = 8 then ''EC-GSM-IoT''
      else if code = 9 then ''NB-IoT'' else ''Unknown'')"

definition accessTechnology :: "string \<Rightarrow> string" where
  "accessTechnology s =
     (let line = trim_space (hd (split_on newline s)); fields = split_on (CHR '','') line in
      if length fields < 4 then []
      else (case atoi (trim_space (last fields)) of None \<Rightarrow> [] | Some code \<Rightarrow> technology code))"

definition registeredResponse :: "string \<Rightarrow> bool" where
  "registeredResponse s \<longleftrightarrow> contains s '',1'' \<or> contains s '',5''"

definition dial_rune :: "nat \<Rightarrow> bool" where
  "dial_rune r \<longleftrightarrow> (48 \<le> r \<and> r \<le> 57) \<or> r = 43 \<or> r = 42 \<or> r = 35"

definition digits :: "string \<Rightarrow> string" where
  "digits s = of_runes (filter dial_rune (runes s))"

subsection \<open>UCS2\<close>

definition ucs2_cell :: "nat \<Rightarrow> nat list" where
  "ucs2_cell u = [u div 256 mod 256, u mod 256]"

fun ucs2_uncell :: "nat list \<Rightarrow> nat option" where
  "ucs2_uncell [a, b] = Some (a * 256 + b)"
| "ucs2_uncell _ = None"

definition encodeUCS2 :: "string \<Rightarrow> string" where
  "encodeUCS2 s = map upper_byte (hex_encode (concat (map ucs2_cell (utf16_encode (runes s)))))"

fun ucs2_units :: "nat list \<Rightarrow> nat list" where
  "ucs2_units (a # b # bs) = (a * 256 + b) # ucs2_units bs"
| "ucs2_units _ = []"

definition control_rune :: "nat \<Rightarrow> bool" where
  "control_rune r \<longleftrightarrow> r < 0x20 \<and> r \<noteq> 10 \<and> r \<noteq> 13"

definition normalizeDecoded :: "string \<Rightarrow> string" where
  "normalizeDecoded s =
     (if length s mod 4 \<noteq> 0 then s
      else (case hex_decode s of
        None \<Rightarrow> s
      | Some b \<Rightarrow>
          (let decoded = of_runes (utf16_decode (ucs2_units b))
           in if list_ex control_rune (runes decoded) then s else decoded)))"

subsection \<open>Splitting a long message\<close>

text \<open>The loop removes \<open>min n (len r)\<close> runes per round; it would not end for \<open>n = 0\<close>.\<close>

partial_function (option) split_loop :: "nat \<Rightarrow> nat list \<Rightarrow> string list option" where
  "split_loop n r =
     (if r = [] then Some []
      else Option.bind (split_loop n (drop (min n (length r)) r))
             (\<lambda>out. Some (of_runes (take (min n (length r)) r) # out)))"

definition splitRunes :: "string \<Rightarrow> nat \<Rightarrow> string list option" where
  "splitRunes s n = (let r = runes s in if r = [] then Some [[]] else split_loop n r)"

subsection \<open>Lines from the serial port\<close>

definition max_pending :: nat where
  "max_pending = 64 * 1024"

text \<open>\<open>dispatch\<close> passes a line on unless it is blank.\<close>

definition dispatch :: "string \<Rightarrow> string list" where
  "dispatch line = (let line = trim_space line in if line = [] then [] else [line])"

definition read_byte :: "char \<Rightarrow> string \<Rightarrow> string list \<times> string" where
  "read_byte b pending =
     (if b = CHR ''>'' \<and> trim_space pending = [] then (dispatch ''>'', [])
      else if b = creturn \<or> b = newline then (dispatch pending, [])
      else if length pending < max_pending then ([], pending @ [b])
      else ([], []))"

fun read_bytes :: "string \<Rightarrow> string \<Rightarrow> string list \<times> string" where
  "read_bytes [] pending = ([], pending)"
| "read_bytes (b # bs) pending =
     (let (out, pending) = read_byte b pending; (rest, pending) = read_bytes bs pending in (out @ rest, pending))"

subsection \<open>UCS2: encoding and decoding\<close>

interpretation ucs2: cell_codec ucs2_cell ucs2_uncell "\<lambda>u. u < 65536" 2
  by unfold_locales (auto simp: ucs2_cell_def less_mult_imp_div_less)

lemma ucs2_units_cells: "list_all (\<lambda>u. u < 65536) us \<Longrightarrow> ucs2_units (concat (map ucs2_cell us)) = us"
  by (induction us) (auto simp: ucs2_cell_def less_mult_imp_div_less)

lemma ucs2_cell_bytes: "list_all (\<lambda>b. b < 256) (concat (map ucs2_cell us))"
  by (induction us) (auto simp: ucs2_cell_def)

lemma hex_decode_encodeUCS2: "hex_decode (encodeUCS2 s) = Some (concat (map ucs2_cell (utf16_encode (runes s))))"
  using hexa.dec_enc [OF ucs2_cell_bytes] by (simp add: encodeUCS2_def)

lemma length_encodeUCS2: "length (encodeUCS2 s) = 4 * length (utf16_encode (runes s))"
  by (simp add: encodeUCS2_def ucs2.length_cells)

lemma decode_encodeUCS2:
  assumes "list_all valid_rune (runes s)"
  shows "utf16_decode (ucs2_units (concat (map ucs2_cell (utf16_encode (runes s))))) = runes s"
  using assms by (simp add: ucs2_units_cells utf16_encode_bound utf16_decode_encode)

text \<open>The encoding of a text in two stages, the bytes of its units and their hexadecimal digits: different texts have
  different encodings.\<close>

interpretation ucs2_hex: codec_stages "\<lambda>rs. concat (map ucs2_cell (utf16_encode rs))" "\<lambda>bs. Some (utf16_decode (ucs2_units bs))"
    "list_all valid_rune" "map upper_byte \<circ> hex_encode" hex_decode "list_all (\<lambda>b. b < 256)"
  by unfold_locales (simp_all add: ucs2_units_cells utf16_encode_bound utf16_decode_encode ucs2_cell_bytes)

lemma encodeUCS2_inject:
  assumes "valid_utf8 s" "valid_utf8 t" "encodeUCS2 s = encodeUCS2 t"
  shows "s = t"
  using assms ucs2_hex.enc_inject [of "runes s" "runes t"] by (metis encodeUCS2_def comp_apply valid_utf8_def)

text \<open>The characters \<^verbatim>\<open>0-9A-F\<close>, and \<^verbatim>\<open>0-9+*#\<close>.\<close>

definition hex_char :: "char \<Rightarrow> bool" where
  "hex_char c \<longleftrightarrow> is_digit c \<or> (65 \<le> byte c \<and> byte c \<le> (70::nat))"

definition dial_char :: "char \<Rightarrow> bool" where
  "dial_char c \<longleftrightarrow> is_digit c \<or> byte c = (43::nat) \<or> byte c = (42::nat) \<or> byte c = (35::nat)"

lemma hex_char_digit: "n < 16 \<Longrightarrow> hex_char (upper_byte (hex_digit n))"
  by (auto simp: hex_char_def is_digit_def hex_digit_def upper_byte_def)

lemma upper_hex_chars: "list_all (\<lambda>b. b < 256) bs \<Longrightarrow> list_all hex_char (map upper_byte (hex_encode bs))"
  by (induction bs) (auto simp: hex_byte_def hex_char_digit less_mult_imp_div_less)

lemma encode_rune_ascii: "r < 128 \<Longrightarrow> encode_rune r = [chr r]"
  by (simp add: encode_rune_def encode_rune_nat_def valid_rune_def)

lemma dial_char_rune: "dial_rune r \<Longrightarrow> dial_char (chr r)"
  by (auto simp: dial_rune_def dial_char_def is_digit_def)

lemma dial_rune_ascii: "dial_rune r \<Longrightarrow> r < 128"
  by (auto simp: dial_rune_def)

text \<open>A text sent in UCS2 is read back unchanged: decoding the encoding of any valid UTF-8 text gives the
  text, unless it contains a control character other than a line break.\<close>

theorem ucs2_roundtrip:
  assumes "valid_utf8 s" "\<not> list_ex control_rune (runes s)"
  shows "normalizeDecoded (encodeUCS2 s) = s"
  using assms by (simp add: normalizeDecoded_def hex_decode_encodeUCS2 length_encodeUCS2 decode_encodeUCS2
      valid_utf8_def Let_def)

text \<open>A plain number can be taken for UCS2: some number that the network reports as it is, in
  decimal digits, comes out of \<^verbatim>\<open>normalizeDecoded\<close> as other text.\<close>

theorem plain_number_misread:
  "list_all is_digit ''13800138'' \<and> normalizeDecoded ''13800138'' \<noteq> ''13800138''"
proof
  show "list_all is_digit ''13800138''" by (simp add: is_digit_def)
  have hex: "hex_decode ''13800138'' = Some [0x13, 0x80, 0x01, 0x38]"
    by (simp add: hex_val_def Let_def)
  have "utf16_decode (ucs2_units [0x13, 0x80, 0x01, 0x38]) = [0x1380, 0x138]" by simp
  moreover have "runes (of_runes [0x1380, 0x138]) = [0x1380, 0x138]"
    by (rule runes_of_runes) (simp add: valid_rune_def)
  ultimately have "normalizeDecoded ''13800138'' = of_runes [0x1380, 0x138]"
    by (simp add: normalizeDecoded_def hex control_rune_def del: hex_decode.simps)
  also have "length (of_runes [0x1380, 0x138]) = 5"
    by (simp add: of_runes_def encode_rune_def encode_rune_nat_def valid_rune_def)
  finally show "normalizeDecoded ''13800138'' \<noteq> ''13800138''" by auto
qed

text \<open>Nothing can be injected into an AT command: what \<^verbatim>\<open>Dial\<close> inserts consists of digits, plus, star
  and hash only, and what an SMS command inserts of hexadecimal digits only.\<close>

theorem at_arguments_clean: "list_all dial_char (digits s) \<and> list_all hex_char (encodeUCS2 s)"
proof
  have "list_all dial_char (of_runes rs)" if "list_all dial_rune rs" for rs
    using that by (induction rs) (auto simp: of_runes_def encode_rune_ascii dial_rune_ascii dial_char_rune)
  moreover have "list_all dial_rune (filter dial_rune (runes s))" by (simp add: list_all_iff)
  ultimately show "list_all dial_char (digits s)" unfolding digits_def by blast
  show "list_all hex_char (encodeUCS2 s)"
    unfolding encodeUCS2_def by (rule upper_hex_chars [OF ucs2_cell_bytes])
qed

theorem ucs2_roundtrip_witness: "normalizeDecoded (encodeUCS2 (of_runes [0x4F60, 0x597D, 0x1F600])) = of_runes [0x4F60, 0x597D, 0x1F600]"
proof (rule ucs2_roundtrip)
  have r: "list_all valid_rune [0x4F60, 0x597D, 0x1F600]" by (simp add: valid_rune_def)
  from r show "valid_utf8 (of_runes [0x4F60, 0x597D, 0x1F600])" by (rule valid_utf8_of_runes)
  show "\<not> list_ex control_rune (runes (of_runes [0x4F60, 0x597D, 0x1F600]))"
    by (simp add: runes_of_runes [OF r] control_rune_def)
qed

subsection \<open>Splitting: nothing is lost and no piece is too long\<close>

lemma split_loop_spec:
  assumes "0 < n" "list_all valid_rune r"
  shows "\<exists>out. split_loop n r = Some out \<and> concat out = of_runes r \<and>
    list_all (\<lambda>x. runes x \<noteq> [] \<and> length (runes x) \<le> n) out"
  using assms(2)
proof (induction r rule: length_induct)
  case (1 r)
  show ?case
  proof (cases "r = []")
    case True
    then show ?thesis by (simp add: split_loop.simps of_runes_def)
  next
    case False
    let ?k = "min n (length r)"
    have k: "0 < ?k" "length (drop ?k r) < length r" using assms(1) False by auto
    have v: "list_all valid_rune (drop ?k r)" "list_all valid_rune (take ?k r)"
      using 1(2) by (auto simp: list_all_iff dest: in_set_dropD in_set_takeD)
    obtain out where out: "split_loop n (drop ?k r) = Some out" "concat out = of_runes (drop ?k r)"
      "list_all (\<lambda>x. runes x \<noteq> [] \<and> length (runes x) \<le> n) out"
      using 1(1) k(2) v(1) by blast
    have "split_loop n r = Some (of_runes (take ?k r) # out)"
      using False out(1) by (subst split_loop.simps) simp
    moreover have "runes (of_runes (take ?k r)) = take ?k r" by (rule runes_of_runes [OF v(2)])
    moreover have "of_runes (take ?k r) @ of_runes (drop ?k r) = of_runes r"
      by (simp flip: of_runes_append)
    ultimately show ?thesis using out(2,3) k(1) False assms(1) by auto
  qed
qed

lemma split_runes_pieces:
  assumes "valid_utf8 s" "0 < n"
  shows "\<exists>out. splitRunes s n = Some out \<and> concat out = s \<and> out \<noteq> [] \<and>
    list_all (\<lambda>x. length (runes x) \<le> n \<and> (x = [] \<longrightarrow> s = [])) out"
proof (cases "runes s = []")
  case True
  then have "s = []" using assms(1) by (simp add: valid_utf8_def of_runes_def)
  then show ?thesis by (simp add: splitRunes_def runes_def)
next
  case False
  have r: "list_all valid_rune (runes s)" "of_runes (runes s) = s" using assms(1) by (auto simp: valid_utf8_def)
  obtain out where out: "split_loop n (runes s) = Some out" "concat out = s"
    "list_all (\<lambda>x. runes x \<noteq> [] \<and> length (runes x) \<le> n) out"
    using split_loop_spec [OF assms(2) r(1)] r(2) by auto
  have "s \<noteq> []" using False by (auto simp: runes_def)
  then have "out \<noteq> []" using out(2) by auto
  then show ?thesis using out False by (auto simp: splitRunes_def list_all_iff runes_def)
qed

text \<open>Splitting a message ends, loses nothing and keeps the limit: for every valid UTF-8 text and every
  positive limit the loop returns pieces that put together give the text, each of at most that many
  characters, and none empty unless the text is.\<close>

theorem split_runes_complete:
  assumes "valid_utf8 s" "0 < n"
  shows "\<exists>out. splitRunes s n = Some out \<and> concat out = s \<and> out \<noteq> [] \<and>
    list_all (\<lambda>x. length (runes x) \<le> n \<and> (x = [] \<longrightarrow> s = [])) out"
  using assms by (rule split_runes_pieces)

theorem split_runes_complete_witness:
  "\<exists>out. splitRunes (of_runes [0x41, 0x4F60, 0x42]) 2 = Some out \<and> concat out = of_runes [0x41, 0x4F60, 0x42] \<and> out \<noteq> [] \<and>
    list_all (\<lambda>x. length (runes x) \<le> 2 \<and> (x = [] \<longrightarrow> of_runes [0x41, 0x4F60, 0x42] = [])) out"
  by (rule split_runes_complete) (simp_all add: valid_utf8_of_runes valid_rune_def)

text \<open>The limit counts characters, not UCS2 units: a part of 67 characters outside the basic plane
  is sent as one message of 134 units, while a message holds 70.\<close>

theorem sms_part_can_exceed_ucs2_limit:
  "\<exists>s part. splitRunes s 67 = Some [part] \<and> length (encodeUCS2 part) = 4 * 134"
proof -
  define rs where "rs = replicate 67 (0x1F600 :: nat)"
  have v: "list_all valid_rune rs" by (simp add: rs_def valid_rune_def list_all_iff)
  have r: "runes (of_runes rs) = rs" by (rule runes_of_runes [OF v])
  have len: "length rs = 67" by (simp add: rs_def)
  then have ne: "rs \<noteq> []" by auto
  have "split_loop 67 rs = Some [of_runes rs]"
    using ne by (subst split_loop.simps) (simp add: len split_loop.simps [of 67 "[]"])
  then have "splitRunes (of_runes rs) 67 = Some [of_runes rs]"
    using ne by (simp add: splitRunes_def r Let_def)
  moreover have "length (utf16_encode (replicate k 0x1F600)) = 2 * k" for k
    by (induction k) (simp_all add: utf16_units_def)
  then have "length (encodeUCS2 (of_runes rs)) = 4 * 134"
    unfolding length_encodeUCS2 r unfolding rs_def by simp
  ultimately show ?thesis by blast
qed

subsection \<open>The line splitter\<close>

lemma read_bytes_append:
  "read_bytes (as @ bs) p =
     (let (out, p) = read_bytes as p; (rest, p) = read_bytes bs p in (out @ rest, p))"
  by (induction as arbitrary: p) (auto simp: Let_def split: prod.splits)

lemma set_trim_space: "set (trim_space s) \<subseteq> set s"
proof -
  have "set (trim_spans ps) \<subseteq> set ps" for ps
    by (auto simp: trim_spans_def dest!: set_dropWhileD)
  then have "set (concat (map fst (trim_spans (rune_spans s)))) \<subseteq> set (concat (map fst (rune_spans s)))"
    by fastforce
  then show ?thesis by (simp add: trim_space_def rune_spans_bytes)
qed

lemma length_concat_dropWhile: "length (concat (map f (dropWhile P xs))) \<le> length (concat (map f xs))"
  by (induction xs) auto

lemma length_trim_space: "length (trim_space s) \<le> length s"
proof -
  have len: "length (concat (map fst (rev ps))) = length (concat (map fst ps))" for ps :: "(string \<times> nat) list"
    by (induction ps) auto
  have drop_len: "length (concat (map fst (rev (dropWhile P (rev ps))))) \<le> length (concat (map fst ps))"
    for P and ps :: "(string \<times> nat) list"
    using length_concat_dropWhile [of fst P "rev ps"] unfolding len .
  have "length (concat (map fst (trim_spans ps))) \<le> length (concat (map fst ps))" for ps
    unfolding trim_spans_def by (rule le_trans [OF drop_len length_concat_dropWhile])
  from this [of "rune_spans s"] show ?thesis unfolding trim_space_def rune_spans_bytes .
qed

definition line_ok :: "string \<Rightarrow> bool" where
  "line_ok l \<longleftrightarrow> l \<noteq> [] \<and> creturn \<notin> set l \<and> newline \<notin> set l \<and> length l \<le> max_pending"

definition pending_ok :: "string \<Rightarrow> bool" where
  "pending_ok p \<longleftrightarrow> creturn \<notin> set p \<and> newline \<notin> set p \<and> length p \<le> max_pending"

lemma dispatch_ok: "pending_ok p \<Longrightarrow> list_all line_ok (dispatch p)"
  using set_trim_space [of p] length_trim_space [of p]
  by (auto simp: dispatch_def Let_def line_ok_def pending_ok_def)

lemma read_byte_ok:
  assumes "pending_ok p" "read_byte b p = (out, p')"
  shows "list_all line_ok out \<and> pending_ok p'"
proof -
  have "pending_ok ''>''" "pending_ok []" by (auto simp: pending_ok_def max_pending_def)
  then show ?thesis
    using assms dispatch_ok [of p] dispatch_ok [of "''>''"]
    by (auto simp: read_byte_def pending_ok_def split: if_splits)
qed

text \<open>Every line handed on by the reader is non-empty, contains no line break and has at most 64 KiB,
  whatever bytes the serial port delivers; and it does not matter how the bytes are grouped.\<close>

theorem reader_lines_ok:
  assumes "pending_ok p" "read_bytes bs p = (out, p')"
  shows "list_all line_ok out \<and> pending_ok p' \<and>
    (\<forall>cs. read_bytes (bs @ cs) p = (out @ fst (read_bytes cs p'), snd (read_bytes cs p')))"
proof -
  have "list_all line_ok out \<and> pending_ok p'"
    using assms
  proof (induction bs arbitrary: p out)
    case (Cons b bs)
    obtain o1 p1 where 1: "read_byte b p = (o1, p1)" by fastforce
    obtain o2 where 2: "read_bytes bs p1 = (o2, p')" "out = o1 @ o2"
      using Cons.prems(2) 1 by (auto split: prod.splits)
    show ?case using read_byte_ok [OF Cons.prems(1) 1] Cons.IH [OF _ 2(1)] 2(2) by simp
  qed simp
  then show ?thesis using assms(2) by (simp add: read_bytes_append Let_def split: prod.splits)
qed

theorem reader_lines_ok_witness:
  "list_all line_ok (fst (read_bytes ''OK'' [])) \<and> pending_ok (snd (read_bytes ''OK'' [])) \<and>
    (\<forall>cs. read_bytes (''OK'' @ cs) [] = (fst (read_bytes ''OK'' []) @ fst (read_bytes cs (snd (read_bytes ''OK'' []))),
       snd (read_bytes cs (snd (read_bytes ''OK'' [])))))"
  by (rule reader_lines_ok [OF _ surjective_pairing]) (simp add: pending_ok_def)

text \<open>A line as the modem sends it: it starts with a printing ASCII character other than the prompt.\<close>

definition at_line :: "string \<Rightarrow> bool" where
  "at_line l \<longleftrightarrow> line_ok l \<and> 33 \<le> byte (hd l) \<and> byte (hd l) < (127::nat) \<and> hd l \<noteq> CHR ''>'' \<and> trim_space l = l"

lemma trim_space_printing:
  assumes "33 \<le> byte c" "byte c < (127::nat)"
  shows "trim_space (c # cs) \<noteq> []"
proof -
  have "decode_rune (byte c) (map byte cs) = (byte c, 1)" using assms by (simp add: decode_rune_def)
  then have "rune_spans (c # cs) = ([c], byte c) # rune_spans cs" by simp
  moreover have "\<not> is_space (byte c)" using assms by (auto simp: is_space_def)
  ultimately have "([c], byte c) \<in> set (trim_spans (rune_spans (c # cs)))"
  proof -
    let ?ps = "rev (([c], byte c) # rune_spans cs)"
    have "\<exists>qs. dropWhile (is_space \<circ> snd) ?ps = qs @ [([c], byte c)]"
      using \<open>\<not> is_space (byte c)\<close> by (simp add: dropWhile_append)
    then show ?thesis
      using \<open>rune_spans (c # cs) = _\<close> \<open>\<not> is_space (byte c)\<close> by (auto simp: trim_spans_def)
  qed
  then show ?thesis by (force simp: trim_space_def)
qed

lemma read_bytes_line:
  assumes "33 \<le> byte c" "byte c < (127::nat)" "creturn \<notin> set l" "newline \<notin> set l"
    and "length (c # q) + length l \<le> max_pending"
  shows "read_bytes l (c # q) = ([], c # q @ l)"
  using assms(3-)
proof (induction l arbitrary: q)
  case (Cons b l)
  have "read_byte b (c # q) = ([], c # q @ [b])"
    using Cons.prems trim_space_printing [OF assms(1,2), of q] by (auto simp: read_byte_def)
  then show ?case using Cons.IH [of "q @ [b]"] Cons.prems by simp
qed simp

lemma read_bytes_framed:
  assumes "at_line l"
  shows "read_bytes (l @ [creturn, newline]) [] = ([l], [])"
proof -
  obtain c cs where l: "l = c # cs" using assms by (cases l) (auto simp: at_line_def line_ok_def)
  have c: "33 \<le> byte c" "byte c < (127::nat)" "c \<noteq> CHR ''>''" "creturn \<notin> set (c # cs)" "newline \<notin> set (c # cs)"
    "length (c # cs) \<le> max_pending" "trim_space l = l"
    using assms l by (auto simp: at_line_def line_ok_def)
  have "read_byte c [] = ([], [c])" using c by (auto simp: read_byte_def max_pending_def)
  moreover have "read_bytes cs [c] = ([], c # cs)" using read_bytes_line [OF c(1,2), of cs "[]"] c by simp
  ultimately have "read_bytes l [] = ([], l)" by (simp add: l)
  moreover have "read_byte creturn l = ([l], [])"
    using c(7) l by (simp add: read_byte_def dispatch_def Let_def)
  moreover have "read_byte newline [] = ([], [])"
    by (simp add: read_byte_def dispatch_def Let_def trim_space_def trim_spans_def)
  ultimately show ?thesis by (simp add: read_bytes_append)
qed

text \<open>The reader recovers what the modem sends: a sequence of lines, each ended by carriage return
  and line feed, is handed on as exactly these lines, in order.\<close>

theorem reader_recovers_lines:
  assumes "list_all at_line ls"
  shows "read_bytes (concat (map (\<lambda>l. l @ [creturn, newline]) ls)) [] = (ls, [])"
  using assms
proof (induction ls)
  case (Cons l ls)
  have "read_bytes (concat (map (\<lambda>l. l @ [creturn, newline]) (l # ls))) [] =
      read_bytes ((l @ [creturn, newline]) @ concat (map (\<lambda>l. l @ [creturn, newline]) ls)) []" by simp
  also have "\<dots> = ([l] @ ls, [])"
    using Cons.IH Cons.prems read_bytes_framed [of l]
    by (subst read_bytes_append) (simp del: append.simps read_bytes.simps)
  finally show ?case by simp
qed simp

theorem reader_recovers_lines_witness:
  "read_bytes (concat (map (\<lambda>l. l @ [creturn, newline]) [''+CSQ: 20,99'', ''OK''])) [] = ([''+CSQ: 20,99'', ''OK''], [])"
  by (rule reader_recovers_lines)
     (simp add: at_line_def line_ok_def max_pending_def trim_space_def trim_spans_def decode_rune_def is_space_def)

end
