(* ===== verification/Modem.thy ===== *)
theory Modem
  imports Domain Modem_Text
begin

text \<open>
  The data the modem drivers exchange with the service (the types of \<^verbatim>\<open>internal/modem/modem.go\<close>) and the
  buffered channel on which they report events.
\<close>

record MEvent =
  me_GatewayID :: string
  me_SubscriptionID :: int
  me_Type :: string
  me_ClientID :: string
  me_ProviderID :: string
  me_Number :: string
  me_Body :: string
  me_ModemIndex :: int
  me_Reason :: string
  me_Raw :: string

record Subscription =
  su_ID :: int
  su_SIMSlot :: int
  su_DisplayName :: string
  su_CarrierName :: string
  su_PhoneNumber :: string
  su_IMEI :: string
  su_Ready :: bool

record Status =
  ms_GatewayID :: string
  ms_Provider :: string
  ms_Transport :: string
  ms_SIMReady :: bool
  ms_Registered :: bool
  ms_VoiceReady :: bool
  ms_Operator :: string
  ms_AccessTech :: string
  ms_Signal :: int
  ms_SignalDBm :: int
  ms_PhoneNumber :: string
  ms_ICCID :: string
  ms_IMSI :: string
  ms_Manufacturer :: string
  ms_Model :: string
  ms_IMEI :: string
  ms_Firmware :: string
  ms_SubVersion :: string
  ms_QCN :: string
  ms_VoLTEControl :: bool
  ms_ADBState :: string
  ms_AndroidVersion :: string
  ms_BuildID :: string
  ms_SecurityPatch :: string
  ms_BasebandVersion :: string
  ms_BatteryLevel :: int
  ms_BatteryCharging :: bool
  ms_SubscriptionID :: int
  ms_SIMSlot :: int
  ms_IMSRegistered :: bool
  ms_VoLTE :: bool
  ms_CompanionVersion :: string
  ms_ProtocolVersion :: int
  ms_AudioDownlinkOK :: bool
  ms_AudioUplinkOK :: bool
  ms_AudioDownlinkFrames :: int
  ms_AudioUplinkFrames :: int
  ms_AudioUplinkBytes :: int
  ms_LastError :: string
  ms_LastCheckedAt :: gtime
  ms_Subscriptions :: "Subscription list"

record Route =
  ro_GatewayID :: string
  ro_SubscriptionID :: int

definition zeroMEvent :: MEvent where
  "zeroMEvent = \<lparr>me_GatewayID = [], me_SubscriptionID = 0, me_Type = [], me_ClientID = [], me_ProviderID = [],
     me_Number = [], me_Body = [], me_ModemIndex = 0, me_Reason = [], me_Raw = []\<rparr>"

definition zeroStatus :: Status where
  "zeroStatus = \<lparr>ms_GatewayID = [], ms_Provider = [], ms_Transport = [], ms_SIMReady = False,
     ms_Registered = False, ms_VoiceReady = False, ms_Operator = [], ms_AccessTech = [], ms_Signal = 0,
     ms_SignalDBm = 0, ms_PhoneNumber = [], ms_ICCID = [], ms_IMSI = [], ms_Manufacturer = [], ms_Model = [],
     ms_IMEI = [], ms_Firmware = [], ms_SubVersion = [], ms_QCN = [], ms_VoLTEControl = False, ms_ADBState = [],
     ms_AndroidVersion = [], ms_BuildID = [], ms_SecurityPatch = [], ms_BasebandVersion = [],
     ms_BatteryLevel = 0, ms_BatteryCharging = False, ms_SubscriptionID = 0, ms_SIMSlot = 0,
     ms_IMSRegistered = False, ms_VoLTE = False, ms_CompanionVersion = [], ms_ProtocolVersion = 0,
     ms_AudioDownlinkOK = False, ms_AudioUplinkOK = False, ms_AudioDownlinkFrames = 0,
     ms_AudioUplinkFrames = 0, ms_AudioUplinkBytes = 0, ms_LastError = [], ms_LastCheckedAt = zeroTime,
     ms_Subscriptions = []\<rparr>"

definition zeroRoute :: Route where
  "zeroRoute = \<lparr>ro_GatewayID = [], ro_SubscriptionID = 0\<rparr>"

text \<open>A send that does not wait: the event is dropped when the channel is full.\<close>

definition offer_event :: "nat \<Rightarrow> MEvent \<Rightarrow> MEvent list \<Rightarrow> MEvent list" where
  "offer_event cap e q = (if length q < cap then q @ [e] else q)"

lemma length_offer_event: "length q \<le> cap \<Longrightarrow> length (offer_event cap e q) \<le> cap"
  by (simp add: offer_event_def)

end
