(* ===== verification/Modem_AT.thy ===== *)
theory Modem_AT
  imports Modem
begin

text \<open>
  The driver of the SIM7600 modem (\<^verbatim>\<open>ATController\<close> in \<^verbatim>\<open>internal/modem/modem.go\<close>). A command writes to the
  serial port and then waits for lines from the reader, a timer or the cancellation of its context;
  what arrives is a list of \<open>Input\<close>s, and a list that ends stands for the timer. The k-th write of an
  operation fails with \<open>w_fault k\<close>.
\<close>

datatype Input = ILine string | ITimer | IDone gerror

record Wire =
  w_input :: "Input list"
  w_fault :: "nat \<Rightarrow> gerror option"

text \<open>\<open>at_out\<close> is what was written to the AT port, \<open>at_ctl\<close> what was written to the control port.\<close>

record AT =
  at_open :: bool
  at_healthy :: bool
  at_audio :: bool
  at_lastClip :: string
  at_events :: "MEvent list"
  at_out :: "string list"
  at_control :: bool
  at_ctl :: "string list"

definition emit :: "MEvent \<Rightarrow> AT \<Rightarrow> AT" where
  "emit e m = m\<lparr>at_events := offer_event 128 e (at_events m)\<rparr>"

definition setStatus :: "bool \<Rightarrow> bool \<Rightarrow> AT \<Rightarrow> AT" where
  "setStatus healthy audio m = m\<lparr>at_healthy := healthy, at_audio := audio\<rparr>"

definition put_out :: "string \<Rightarrow> AT \<Rightarrow> AT" where
  "put_out b m = m\<lparr>at_out := at_out m @ [b]\<rparr>"

definition modem_offline :: gerror where "modem_offline = ''MODEM_OFFLINE''"
definition modem_timeout :: gerror where "modem_timeout = ''MODEM_TIMEOUT''"

abbreviation escape :: string where "escape \<equiv> [CHR 0x1B]"
abbreviation ctrl_z :: string where "ctrl_z \<equiv> [CHR 0x1A]"

subsection \<open>Commands\<close>

fun command_loop :: "string \<Rightarrow> Input list \<Rightarrow> string list \<Rightarrow> string \<times> gerror option" where
  "command_loop cmd [] out = (join [newline] out, Some modem_timeout)"
| "command_loop cmd (ITimer # is) out = (join [newline] out, Some modem_timeout)"
| "command_loop cmd (IDone e # is) out = ([], Some e)"
| "command_loop cmd (ILine line # is) out =
     (if line = cmd then command_loop cmd is out
      else if line = ''OK'' then (join [newline] out, None)
      else if line = ''ERROR'' \<or> has_prefix line ''+CME ERROR'' \<or> has_prefix line ''+CMS ERROR''
      then (join [newline] out, Some line)
      else command_loop cmd is (out @ [line]))"

definition command :: "Wire \<Rightarrow> string \<Rightarrow> AT \<Rightarrow> (string \<times> gerror option) \<times> AT" where
  "command w cmd m =
     (if \<not> at_open m then (([], Some modem_offline), m)
      else (case w_fault w 0 of
        Some e \<Rightarrow> (([], Some e), m)
      | None \<Rightarrow> (command_loop cmd (w_input w) [], put_out (cmd @ [creturn]) m)))"

definition just_error :: "(string \<times> gerror option) \<times> AT \<Rightarrow> gerror option \<times> AT" where
  "just_error r = (snd (fst r), snd r)"

definition AT_Dial :: "Wire \<Rightarrow> string \<Rightarrow> AT \<Rightarrow> gerror option \<times> AT" where
  "AT_Dial w number m = just_error (command w (''ATD'' @ digits number @ '';'') m)"

definition AT_Answer :: "Wire \<Rightarrow> AT \<Rightarrow> gerror option \<times> AT" where
  "AT_Answer w m = just_error (command w ''ATA'' m)"

definition AT_Hangup :: "Wire \<Rightarrow> AT \<Rightarrow> gerror option \<times> AT" where
  "AT_Hangup w m = just_error (command w ''AT+CHUP'' m)"

definition AT_DTMF :: "Wire \<Rightarrow> string \<Rightarrow> AT \<Rightarrow> gerror option \<times> AT" where
  "AT_DTMF w key m =
     (if length key \<noteq> 1 \<or> \<not> contains ''0123456789*#ABCD'' key then (Some ''INVALID_DTMF'', m)
      else just_error (command w (''AT+VTS='' @ key) m))"

definition AT_SetMicMute :: "Wire \<Rightarrow> bool \<Rightarrow> AT \<Rightarrow> gerror option \<times> AT" where
  "AT_SetMicMute w muted m = just_error (command w (''AT+CMUT='' @ itoa (if muted then 1 else 0)) m)"

definition AT_EnableAudio :: "Wire \<Rightarrow> bool \<Rightarrow> AT \<Rightarrow> gerror option \<times> AT" where
  "AT_EnableAudio w enabled m = just_error (command w (''AT+CPCMREG='' @ (if enabled then ''1'' else ''0,1'')) m)"

definition AT_DeleteSMS :: "Wire \<Rightarrow> int \<Rightarrow> AT \<Rightarrow> gerror option \<times> AT" where
  "AT_DeleteSMS w i m =
     (if i \<le> 0 then (None, m) else just_error (command w (''AT+CMGD='' @ itoa i) m))"

subsection \<open>Sending a message\<close>

text \<open>
  \<^verbatim>\<open>hardReset\<close> resets the module through its control port: the two arguments are the failures of
  opening it and of writing to it.
\<close>

definition hardReset :: "gerror option \<times> gerror option \<Rightarrow> AT \<Rightarrow> AT" where
  "hardReset ctl m =
     (if \<not> at_control m then m
      else (case ctl of
        (Some e, _) \<Rightarrow> m
      | (None, Some e) \<Rightarrow> m
      | (None, None) \<Rightarrow>
          (setStatus False False (m\<lparr>at_ctl := at_ctl m @ [''AT+CFUN=1,1'' @ [creturn]]\<rparr>))))"

datatype SendPhase = Sent | Failed gerror | TimedOut | Cancelled gerror

fun result_loop :: "Input list \<Rightarrow> SendPhase" where
  "result_loop [] = TimedOut"
| "result_loop (ITimer # is) = TimedOut"
| "result_loop (IDone e # is) = Cancelled e"
| "result_loop (ILine line # is) =
     (if line = ''OK'' then Sent else if contains line ''ERROR'' then Failed line else result_loop is)"

text \<open>The prompt: the input that is left when it was seen, or the outcome.\<close>

fun prompt_loop :: "Input list \<Rightarrow> SendPhase + Input list" where
  "prompt_loop [] = Inl TimedOut"
| "prompt_loop (ITimer # is) = Inl TimedOut"
| "prompt_loop (IDone e # is) = Inl (Cancelled e)"
| "prompt_loop (ILine line # is) =
     (if contains line ''>'' then Inr is
      else if contains line ''ERROR'' then Inl (Failed line)
      else prompt_loop is)"

definition cmgs :: "string \<Rightarrow> string" where
  "cmgs number = ''AT+CMGS='' @ [dquote] @ encodeUCS2 number @ [dquote, creturn]"

definition sendUCS2 :: "Wire \<Rightarrow> gerror option \<times> gerror option \<Rightarrow> string \<Rightarrow> string \<Rightarrow> AT \<Rightarrow> gerror option \<times> AT" where
  "sendUCS2 w ctl number body m =
     (if \<not> at_open m then (Some modem_offline, m)
      else (case w_fault w 0 of
        Some e \<Rightarrow> (Some e, m)
      | None \<Rightarrow>
          (let m = put_out (cmgs number) m in
           case prompt_loop (w_input w) of
             Inl Sent \<Rightarrow> (None, m)
           | Inl (Failed e) \<Rightarrow> (Some e, m)
           | Inl TimedOut \<Rightarrow> (Some ''SMS_PROMPT_TIMEOUT'', put_out escape m)
           | Inl (Cancelled e) \<Rightarrow> (Some e, put_out escape m)
           | Inr rest \<Rightarrow>
               (case w_fault w 1 of
                  Some e \<Rightarrow> (Some e, m)
                | None \<Rightarrow>
                    (let m = put_out (encodeUCS2 body @ ctrl_z) m in
                     case result_loop rest of
                       Sent \<Rightarrow> (None, m)
                     | Failed e \<Rightarrow> (Some e, m)
                     | TimedOut \<Rightarrow> (Some ''SMS_SEND_TIMEOUT'', hardReset ctl (put_out escape m))
                     | Cancelled e \<Rightarrow> (Some e, put_out escape m))))))"

text \<open>One \<open>Wire\<close> per part of the message.\<close>

fun send_chunks :: "(nat \<Rightarrow> Wire) \<Rightarrow> gerror option \<times> gerror option \<Rightarrow> nat \<Rightarrow> string \<Rightarrow> string list \<Rightarrow> AT \<Rightarrow> gerror option \<times> AT" where
  "send_chunks w ctl k number [] m = (None, m)"
| "send_chunks w ctl k number (c # cs) m =
     (case sendUCS2 (w k) ctl number c m of
        (Some e, m) \<Rightarrow> (Some e, m)
      | (None, m) \<Rightarrow> send_chunks w ctl (Suc k) number cs m)"

definition AT_SendSMS ::
  "(nat \<Rightarrow> Wire) \<Rightarrow> gerror option \<times> gerror option \<Rightarrow> string \<Rightarrow> string \<Rightarrow> AT \<Rightarrow> (gerror option \<times> AT) option" where
  "AT_SendSMS w ctl number body m =
     map_option (\<lambda>chunks. send_chunks w ctl 0 number chunks m) (splitRunes body 67)"

subsection \<open>Unsolicited lines\<close>

text \<open>\<^verbatim>\<open>handleURC\<close> returns the indices of the stored messages for which it starts \<^verbatim>\<open>readSMS\<close>.\<close>

definition handleURC :: "string \<Rightarrow> AT \<Rightarrow> AT \<times> int list" where
  "handleURC line m =
     (if has_prefix line ''+CLIP:'' then
        (let q = quoted line in
         if q \<noteq> [] then
           (let m = m\<lparr>at_lastClip := normalizeDecoded q\<rparr> in
            (emit (zeroMEvent\<lparr>me_Type := ''call.incoming'', me_Number := at_lastClip m, me_Raw := line\<rparr>) m, []))
         else (m, []))
      else if line = ''RING'' \<or> has_prefix line ''+CRING:'' then
        (emit (zeroMEvent\<lparr>me_Type := ''call.incoming'', me_Number := at_lastClip m, me_Raw := line\<rparr>) m, [])
      else if contains line ''VOICE CALL: BEGIN'' then
        (emit (zeroMEvent\<lparr>me_Type := ''call.active'', me_Number := at_lastClip m, me_Raw := line\<rparr>) m, [])
      else if contains line ''VOICE CALL: END'' \<or> line = ''NO CARRIER'' then
        (emit (zeroMEvent\<lparr>me_Type := ''call.ended'', me_Raw := line\<rparr>) m, [])
      else if has_prefix line ''+CMTI:'' then
        (let parts = split_on (CHR '','') line in
         if length parts = 2
         then (m, [case atoi (trim_space (parts ! 1)) of Some i \<Rightarrow> i | None \<Rightarrow> 0])
         else (m, []))
      else (m, []))"

definition readSMS :: "Wire \<Rightarrow> int \<Rightarrow> AT \<Rightarrow> AT" where
  "readSMS w idx m =
     (case command w (''AT+CMGR='' @ itoa idx) m of
        ((out, Some e), m) \<Rightarrow>
          emit (zeroMEvent\<lparr>me_Type := ''sms.error'', me_ModemIndex := idx, me_Reason := e\<rparr>) m
      | ((out, None), m) \<Rightarrow>
          (let lines = split_on newline out in
           if length lines < 2 then m
           else emit (zeroMEvent\<lparr>me_Type := ''sms.received'', me_Number := normalizeDecoded (quoted (hd lines)),
                  me_Body := normalizeDecoded (last lines), me_ModemIndex := idx\<rparr>) m))"

text \<open>\<^verbatim>\<open>readLoop\<close>: every line is handled as an unsolicited one first and then passed on to a waiting command;
  at the end of the stream the device is offline.\<close>

fun handle_lines :: "string list \<Rightarrow> AT \<Rightarrow> AT \<times> int list" where
  "handle_lines [] m = (m, [])"
| "handle_lines (l # ls) m = (let (m, i) = handleURC l m; (m, is) = handle_lines ls m in (m, i @ is))"

definition readLoop :: "string \<Rightarrow> AT \<Rightarrow> AT \<times> string list \<times> int list" where
  "readLoop bytes m =
     (let lines = fst (read_bytes bytes []); (m, sms) = handle_lines lines m in
      (emit (zeroMEvent\<lparr>me_Type := ''device.offline'', me_Reason := ''serial port closed''\<rparr>) (setStatus False False m),
       lines, sms))"

subsection \<open>Probing\<close>

definition ok_value :: "string \<times> gerror option \<Rightarrow> (string \<Rightarrow> 'a) \<Rightarrow> 'a \<Rightarrow> 'a" where
  "ok_value r f z = (case r of (s, None) \<Rightarrow> f s | (s, Some _) \<Rightarrow> z)"

definition signal_of :: "string \<Rightarrow> int \<times> int" where
  "signal_of r =
     (case index_byte r (CHR '':'') of
        None \<Rightarrow> (-1, -1)
      | Some p \<Rightarrow>
          (let s = (case atoi (hd (split_on (CHR '','') (trim_space (drop (p + 1) r)))) of Some n \<Rightarrow> n | None \<Rightarrow> 0)
           in (s, if 0 \<le> s \<and> s \<le> 31 then -113 + 2 * s else -1)))"

text \<open>\<open>cmd c\<close> is the response to command \<open>c\<close>.\<close>

definition AT_Probe :: "gtime \<Rightarrow> (string \<Rightarrow> string \<times> gerror option) \<Rightarrow> Status" where
  "AT_Probe now cmd =
     (let sig = ok_value (cmd ''AT+CSQ'') signal_of (-1, -1) in
      zeroStatus\<lparr>ms_Provider := ''sim7600'', ms_Transport := ''usb-serial'', ms_LastCheckedAt := now,
        ms_SIMReady := ok_value (cmd ''AT+CPIN?'') (\<lambda>r. contains r ''READY'') False,
        ms_Registered := registeredResponse (fst (cmd ''AT+CEREG?'')),
        ms_VoiceReady := ok_value (cmd ''AT+CREG?'') registeredResponse False,
        ms_Operator := ok_value (cmd ''AT+COPS?'') quoted [],
        ms_AccessTech := ok_value (cmd ''AT+COPS?'') accessTechnology [],
        ms_Signal := fst sig, ms_SignalDBm := snd sig,
        ms_PhoneNumber := ok_value (cmd ''AT+CNUM'') (\<lambda>r. quotedAt r 1) [],
        ms_ICCID := ok_value (cmd ''AT+ICCID'') valueAfterColon [],
        ms_IMSI := ok_value (cmd ''AT+CIMI'') firstValueLine [],
        ms_Manufacturer := ok_value (cmd ''AT+CGMI'') firstValueLine [],
        ms_Model := ok_value (cmd ''AT+CGMM'') firstValueLine [],
        ms_IMEI := ok_value (cmd ''AT+CGSN'') firstValueLine [],
        ms_Firmware := ok_value (cmd ''AT+CGMR'') valueAfterColon [],
        ms_SubVersion := ok_value (cmd ''AT+CSUB'') subVersion [],
        ms_QCN := ok_value (cmd ''AT+CQCNV'') quoted [],
        ms_VoLTEControl := ok_value (cmd ''AT+VOLTESETTING?'') (\<lambda>_. True) False\<rparr>)"

subsection \<open>Connecting\<close>

text \<open>\<^verbatim>\<open>probeAudio\<close> asks up to six times; \<open>reply k\<close> is the answer to the k-th attempt.\<close>

definition audio_ready :: "string \<times> gerror option \<Rightarrow> bool" where
  "audio_ready r \<longleftrightarrow> snd r = None \<and> contains (fst r) ''+CPCMREG''"

fun audio_attempts :: "(nat \<Rightarrow> string \<times> gerror option) \<Rightarrow> nat \<Rightarrow> nat \<Rightarrow> bool \<times> string list" where
  "audio_attempts reply k 0 = (False, [])"
| "audio_attempts reply k (Suc n) =
     (if audio_ready (reply k) then (True, [''AT+CPCMREG=?'', ''AT+CPCMFRM=1''])
      else (let (ok, cmds) = audio_attempts reply (Suc k) n in (ok, ''AT+CPCMREG=?'' # cmds)))"

definition probeAudio :: "bool \<Rightarrow> (nat \<Rightarrow> string \<times> gerror option) \<Rightarrow> bool \<times> string list" where
  "probeAudio port_exists reply = (if port_exists then audio_attempts reply 0 6 else (False, []))"

text \<open>
  The dialogue of \<^verbatim>\<open>connect\<close> up to the report that the device is online. The arguments are the failures
  of finding and opening the port, the answers to the commands, whether the audio port exists and
  the answers to the audio probe.
\<close>

definition setup_commands :: "(string \<Rightarrow> string \<times> gerror option) \<Rightarrow> string list" where
  "setup_commands reply =
     [''ATE0'', ''AT+CMEE=2'', ''AT+CLIP=1'', ''AT+VOLTESETTING?''] @
     (if snd (reply ''AT+VOLTESETTING?'') = None then [''AT+VOLTESETTING=1''] else []) @
     [''AT+CMGF=1'', ''AT+CSMS=1'', ''AT+CSCS='' @ [dquote] @ ''UCS2'' @ [dquote], ''AT+CSMP=17,167,2,25'', ''AT+CGSMS=3'',
      ''AT+CPMS='' @ join '','' (replicate 3 ([dquote] @ ''SM'' @ [dquote])), ''AT+CNMI=2,1,0,0,0'']"

definition write_all :: "string list \<Rightarrow> AT \<Rightarrow> AT" where
  "write_all cmds m = m\<lparr>at_out := at_out m @ map (\<lambda>c. c @ [creturn]) cmds\<rparr>"

definition connect_online ::
  "gerror option \<Rightarrow> gerror option \<Rightarrow> (string \<Rightarrow> string \<times> gerror option) \<Rightarrow> bool \<Rightarrow> (nat \<Rightarrow> string \<times> gerror option) \<Rightarrow>
    AT \<Rightarrow> gerror option \<times> AT" where
  "connect_online stat opn reply audio_port audio_reply m =
     (case stat of Some e \<Rightarrow> (Some e, m) | None \<Rightarrow>
     (case opn of Some e \<Rightarrow> (Some e, m) | None \<Rightarrow>
       (let m = write_all [''AT''] (put_out escape (m\<lparr>at_open := True\<rparr>)) in
        case snd (reply ''AT'') of
          Some e \<Rightarrow> (Some e, m\<lparr>at_open := False\<rparr>)
        | None \<Rightarrow>
            (let (audio, cmds) = probeAudio audio_port audio_reply in
             (None, emit (zeroMEvent\<lparr>me_Type := ''device.online''\<rparr>)
                (setStatus True audio (write_all cmds (write_all (setup_commands reply) m))))))))"

text \<open>The watchdog of \<^verbatim>\<open>connect\<close>: once the device is no longer healthy the port is dropped.\<close>

definition connect_watch :: "AT \<Rightarrow> (gerror \<times> AT) option" where
  "connect_watch m = (if at_healthy m then None else Some (''modem connection lost'', m\<lparr>at_open := False\<rparr>))"

definition health_tick :: "Wire \<Rightarrow> AT \<Rightarrow> AT" where
  "health_tick w m = (case command w ''AT'' m of ((_, Some e), m) \<Rightarrow> setStatus False False m | ((_, None), m) \<Rightarrow> m)"

text \<open>\<^verbatim>\<open>connectLoop\<close>: a failed attempt is reported and the delay before the next one doubles up to 32 seconds.\<close>

definition connect_failed :: "gerror \<Rightarrow> AT \<Rightarrow> AT" where
  "connect_failed e m =
     emit (zeroMEvent\<lparr>me_Type := ''device.offline'', me_Reason := e\<rparr>) (setStatus False False m)"

definition next_delay :: "int \<Rightarrow> int" where
  "next_delay d = (if d < 30 * second then d * 2 else d)"

subsection \<open>Properties\<close>

lemma put_out_sel [simp]:
  "at_out (put_out b m) = at_out m @ [b]" "at_open (put_out b m) = at_open m" "at_events (put_out b m) = at_events m"
  by (simp_all add: put_out_def)

lemma hardReset_sel [simp]:
  "at_out (hardReset ctl m) = at_out m" "at_open (hardReset ctl m) = at_open m" "at_events (hardReset ctl m) = at_events m"
  by (auto simp: hardReset_def setStatus_def split: option.split prod.split)

lemma prompt_loop_not_sent [simp]: "prompt_loop is \<noteq> Inl Sent"
  by (induction "is" rule: prompt_loop.induct) auto

lemma sendUCS2_open: "sendUCS2 w ctl number body m = (r, m') \<Longrightarrow> at_open m' = at_open m"
  by (auto simp: sendUCS2_def Let_def split: if_splits option.splits sum.splits SendPhase.splits)

lemma sendUCS2_ok:
  assumes "sendUCS2 w ctl number body m = (None, m')"
  shows "at_out m' = at_out m @ [cmgs number, encodeUCS2 body @ ctrl_z]"
  using assms
  by (auto simp: sendUCS2_def Let_def split: if_splits option.splits sum.splits SendPhase.splits)

text \<open>Input that holds no answer of the modem.\<close>

fun unanswered :: "Input \<Rightarrow> bool" where
  "unanswered (ILine line) \<longleftrightarrow> line \<noteq> ''OK'' \<and> \<not> contains line ''ERROR''"
| "unanswered _ \<longleftrightarrow> True"

lemma result_loop_unanswered:
  "list_all unanswered is \<Longrightarrow> result_loop is = TimedOut \<or> (\<exists>e. result_loop is = Cancelled e)"
  by (induction "is" rule: result_loop.induct) auto

lemma prompt_loop_unanswered:
  "list_all unanswered is \<Longrightarrow> prompt_loop is = Inl TimedOut \<or> (\<exists>e. prompt_loop is = Inl (Cancelled e)) \<or>
     (\<exists>rest. prompt_loop is = Inr rest \<and> list_all unanswered rest)"
  by (induction "is" rule: prompt_loop.induct) auto

text \<open>A message is never left hanging at the modem's prompt. If sending a part ends without an answer
  of the modem (a timeout or a cancellation), the last thing written is the escape character that
  returns the modem to command mode; and a part counts as sent only after both the command and its
  text were written.\<close>

theorem sms_part_outcome:
  assumes "at_open m" "w_fault w 0 = None" "w_fault w 1 = None" "sendUCS2 w ctl number body m = (r, m')"
  shows "(r = None \<longrightarrow> at_out m' = at_out m @ [cmgs number, encodeUCS2 body @ ctrl_z]) \<and>
    (list_all unanswered (w_input w) \<longrightarrow> r \<noteq> None \<and> last (at_out m') = escape)"
proof (intro conjI impI)
  assume "r = None"
  with assms(4) show "at_out m' = at_out m @ [cmgs number, encodeUCS2 body @ ctrl_z]"
    by (intro sendUCS2_ok) simp
next
  assume quiet: "list_all unanswered (w_input w)"
  from prompt_loop_unanswered [OF quiet] have "r \<noteq> None \<and> last (at_out m') = escape"
  proof (elim disjE exE conjE)
    fix rest assume "prompt_loop (w_input w) = Inr rest" "list_all unanswered rest"
    with result_loop_unanswered [of rest] assms show ?thesis by (auto simp: sendUCS2_def Let_def)
  qed (use assms in \<open>auto simp: sendUCS2_def Let_def\<close>)
  then show "r \<noteq> None" "last (at_out m') = escape" by auto
qed

definition demo_at :: AT where
  "demo_at = \<lparr>at_open = True, at_healthy = True, at_audio = True, at_lastClip = [], at_events = [], at_out = [],
     at_control = True, at_ctl = []\<rparr>"

definition demo_wire :: "string list \<Rightarrow> Wire" where
  "demo_wire ls = \<lparr>w_input = map ILine ls, w_fault = (\<lambda>_. None)\<rparr>"

theorem sms_part_outcome_witness:
  "fst (sendUCS2 (demo_wire [''>'']) (None, None) ''10086'' ''hi'' demo_at) \<noteq> None \<and>
     last (at_out (snd (sendUCS2 (demo_wire [''>'']) (None, None) ''10086'' ''hi'' demo_at))) = escape"
  using sms_part_outcome [of demo_at "demo_wire [''>'']" "(None, None)" "''10086''" "''hi''", OF _ _ _ surjective_pairing]
  by (simp add: demo_at_def demo_wire_def)

lemma send_chunks_ok:
  assumes "send_chunks w ctl k number cs m = (None, m')"
  shows "at_out m' = at_out m @ concat (map (\<lambda>c. [cmgs number, encodeUCS2 c @ ctrl_z]) cs)"
  using assms
proof (induction cs arbitrary: k m)
  case (Cons c cs)
  then obtain m1 where "sendUCS2 (w k) ctl number c m = (None, m1)" "send_chunks w ctl (Suc k) number cs m1 = (None, m')"
    by (auto split: prod.splits option.splits)
  then show ?case using Cons.IH sendUCS2_ok by fastforce
qed simp

text \<open>Sending a message always returns, and when it reports success the modem was given all of it: for
  every valid UTF-8 text the parts that were written, in order, make up the whole text, and each has
  at most 67 characters.\<close>

theorem sms_sent_completely:
  assumes "valid_utf8 body"
  shows "\<exists>r m'. AT_SendSMS w ctl number body m = Some (r, m') \<and>
    (r = None \<longrightarrow> (\<exists>parts. concat parts = body \<and> list_all (\<lambda>p. length (runes p) \<le> 67) parts \<and>
       at_out m' = at_out m @ concat (map (\<lambda>p. [cmgs number, encodeUCS2 p @ ctrl_z]) parts)))"
proof -
  obtain parts where parts: "splitRunes body 67 = Some parts" "concat parts = body"
    "list_all (\<lambda>x. length (runes x) \<le> 67 \<and> (x = [] \<longrightarrow> body = [])) parts"
    using split_runes_pieces [OF assms, of 67] by auto
  obtain r m' where sc: "send_chunks w ctl 0 number parts m = (r, m')" by fastforce
  have "r = None \<Longrightarrow> at_out m' = at_out m @ concat (map (\<lambda>p. [cmgs number, encodeUCS2 p @ ctrl_z]) parts)"
    using send_chunks_ok [of w ctl 0 number parts m m'] sc by simp
  moreover have "list_all (\<lambda>p. length (runes p) \<le> 67) parts" using parts(3) by (auto simp: list_all_iff)
  ultimately show ?thesis using parts(1,2) sc by (auto simp: AT_SendSMS_def)
qed

theorem sms_sent_completely_witness:
  "\<exists>r m'. AT_SendSMS (\<lambda>_. demo_wire [''>'', ''OK'']) (None, None) ''10086'' (of_runes [0x4F60]) demo_at = Some (r, m') \<and>
    (r = None \<longrightarrow> (\<exists>parts. concat parts = of_runes [0x4F60] \<and> list_all (\<lambda>p. length (runes p) \<le> 67) parts \<and>
       at_out m' = at_out demo_at @ concat (map (\<lambda>p. [cmgs ''10086'', encodeUCS2 p @ ctrl_z]) parts)))"
  by (rule sms_sent_completely) (simp add: valid_utf8_of_runes valid_rune_def)

subsection \<open>Commands\<close>

definition plain_line :: "string \<Rightarrow> string \<Rightarrow> bool" where
  "plain_line cmd l \<longleftrightarrow> l \<noteq> cmd \<and> l \<noteq> ''OK'' \<and> l \<noteq> ''ERROR'' \<and> \<not> has_prefix l ''+CME ERROR'' \<and> \<not> has_prefix l ''+CMS ERROR''"

lemma command_loop_plain:
  "list_all (plain_line cmd) ls \<Longrightarrow> command_loop cmd (map ILine ls @ is) out = command_loop cmd is (out @ ls)"
  by (induction ls arbitrary: out) (auto simp: plain_line_def)

text \<open>The response to a command is what the modem sent for it: after the echo of the command, the lines
  up to the final result are returned, with no error if the result is \<^verbatim>\<open>OK\<close>, and with the result as error
  if it is one of the modem's error lines. Lines that come later do not count.\<close>

theorem command_response:
  assumes "at_open m" "w_fault w 0 = None" "cmd \<noteq> ''OK''" "list_all (plain_line cmd) ls"
    and "final = ''OK'' \<or> final \<noteq> cmd \<and> (final = ''ERROR'' \<or> has_prefix final ''+CME ERROR'' \<or> has_prefix final ''+CMS ERROR'')"
    and "w_input w = ILine cmd # map ILine ls @ ILine final # rest"
  shows "command w cmd m = ((join [newline] ls, if final = ''OK'' then None else Some final), put_out (cmd @ [creturn]) m)"
  using assms command_loop_plain [OF assms(4), of "ILine final # rest" "[]"] by (auto simp: command_def)

theorem command_response_witness:
  "command (demo_wire [''AT+CSQ'', ''+CSQ: 20,99'', ''OK'']) ''AT+CSQ'' demo_at =
     ((''+CSQ: 20,99'', None), put_out (''AT+CSQ'' @ [creturn]) demo_at)"
  using command_response [of demo_at "demo_wire [''AT+CSQ'', ''+CSQ: 20,99'', ''OK'']" "''AT+CSQ''" "[''+CSQ: 20,99'']" "''OK''" "[]"]
  by (simp add: demo_at_def demo_wire_def plain_line_def)

text \<open>An unsolicited line that arrives while a stored message is read replaces its text: when the modem
  announces a call between the text and the final result, the text that is reported is \<^verbatim>\<open>RING\<close>.\<close>

theorem unsolicited_line_replaces_sms_body:
  "map me_Body (at_events (readSMS (demo_wire [''+CMGR: x'', ''00480069'', ''RING'', ''OK'']) 3 demo_at)) = [''RING'']"
  by (simp add: readSMS_def command_def demo_wire_def demo_at_def emit_def offer_event_def put_out_def
      quoted_def normalizeDecoded_def itoa_def show_nat.simps hex_val_def)

end
