(* ===== verification/Go_Net.thy ===== *)
theory Go_Net
  imports Go_Lib
begin

text \<open>
  The function of Go's package \<^verbatim>\<open>net\<close> that takes an address apart, used by the Android driver, the SIP gateway and
  the HTTP server.
\<close>

text \<open>\<^verbatim>\<open>net.SplitHostPort\<close>: the port is what follows the last colon; a host with colons stands in brackets.\<close>

definition SplitHostPort :: "string \<Rightarrow> gerror + string \<times> string" where
  "SplitHostPort s =
     (case index_byte (rev s) (CHR '':'') of
        None \<Rightarrow> Inl (''address '' @ s @ '': missing port in address'')
      | Some r \<Rightarrow>
          (let i = length s - Suc r; port = drop (Suc i) s in
           if has_prefix s ''['' then
             (case index_byte s (CHR '']'') of
                None \<Rightarrow> Inl (''address '' @ s @ '': missing ']' in address'')
              | Some e \<Rightarrow>
                  if Suc e = length s then Inl (''address '' @ s @ '': missing port in address'')
                  else if Suc e \<noteq> i then
                    (if s ! Suc e = CHR '':'' then Inl (''address '' @ s @ '': too many colons in address'')
                     else Inl (''address '' @ s @ '': missing port in address''))
                  else if CHR ''['' \<in> set (drop 1 s) then Inl (''address '' @ s @ '': unexpected '[' in address'')
                  else if CHR '']'' \<in> set (drop (Suc e) s) then Inl (''address '' @ s @ '': unexpected ']' in address'')
                  else Inr (drop 1 (take e s), port))
           else if CHR '':'' \<in> set (take i s) then Inl (''address '' @ s @ '': too many colons in address'')
           else if CHR ''['' \<in> set s then Inl (''address '' @ s @ '': unexpected '[' in address'')
           else if CHR '']'' \<in> set s then Inl (''address '' @ s @ '': unexpected ']' in address'')
           else Inr (take i s, port)))"

end
