(* ===== verification/Android.thy ===== *)
theory Android
  imports Modem Domain_Json Go_Net "HOL-Library.Word"
begin

text \<open>
  The driver of an Android phone (\<^verbatim>\<open>androidController\<close> in \<^verbatim>\<open>internal/modem/android.go\<close>). It talks to an app on
  the phone through a connection that \<^verbatim>\<open>adb\<close> forwards: one JSON document per line, requests with an
  identifier, responses that carry the identifier of their request, and events. One goroutine connects and
  reads; any number of callers wait for responses. The processes \<^verbatim>\<open>adb\<close> starts, the random bytes, the HMAC
  and the results of reading and writing are arguments.
\<close>

subsection \<open>The messages\<close>

record wireMessage =
  w_Version :: int
  w_Type :: string
  w_ID :: string
  w_Action :: string
  w_Nonce :: string
  w_MAC :: string
  w_Error :: string
  w_Data :: "json option"

definition zeroWire :: wireMessage where
  "zeroWire = \<lparr>w_Version = 0, w_Type = [], w_ID = [], w_Action = [], w_Nonce = [], w_MAC = [], w_Error = [], w_Data = None\<rparr>"

text \<open>A raw message keeps whatever value stands there, \<^verbatim>\<open>null\<close> included.\<close>

definition set_raw :: "((json option \<Rightarrow> json option) \<Rightarrow> 'v \<Rightarrow> 'v) \<Rightarrow> 'v decoder" where
  "set_raw upd j v = (upd (\<lambda>_. Some j) v, None)"

definition marshal_wireMessage :: "wireMessage \<Rightarrow> json" where
  "marshal_wireMessage m = JObj
     ([(''version'', jint (w_Version m)), (''type'', JStr (w_Type m))] @
      omitempty ''id'' (w_ID m = []) (JStr (w_ID m)) @
      omitempty ''action'' (w_Action m = []) (JStr (w_Action m)) @
      omitempty ''nonce'' (w_Nonce m = []) (JStr (w_Nonce m)) @
      omitempty ''mac'' (w_MAC m = []) (JStr (w_MAC m)) @
      omitempty ''error'' (w_Error m = []) (JStr (w_Error m)) @
      (case w_Data m of None \<Rightarrow> [] | Some j \<Rightarrow> [(''data'', j)]))"

definition unmarshal_wireMessage :: "wireMessage decoder" where
  "unmarshal_wireMessage j v = json_fields
     [json_field ''version'' (set_int w_Version_update),
      json_field ''type'' (set_str w_Type_update),
      json_field ''id'' (set_str w_ID_update),
      json_field ''action'' (set_str w_Action_update),
      json_field ''nonce'' (set_str w_Nonce_update),
      json_field ''mac'' (set_str w_MAC_update),
      json_field ''error'' (set_str w_Error_update),
      json_field ''data'' (set_raw w_Data_update)] j v"

lemma dec_raw [simp]:
  "upd (\<lambda>_. None) v = v \<Longrightarrow>
     opt_field (set_raw upd) (tget (case x of None \<Rightarrow> [] | Some j \<Rightarrow> [(k, j)]) k) (v, e) = (upd (\<lambda>_. x) v, e)"
  by (cases x) (simp_all add: set_raw_def opt_field.simps)

lemma tget_raw_other [simp]: "k \<noteq> k' \<Longrightarrow> tget (case x of None \<Rightarrow> [] | Some j \<Rightarrow> [(k, j)]) k' = None"
  by (cases x) simp_all

lemma unmarshal_marshal_wire [simp]: "unmarshal_wireMessage (marshal_wireMessage m) zeroWire = (m, None)"
  by (simp add: unmarshal_wireMessage_def marshal_wireMessage_def zeroWire_def)

record androidEvent =
  ev_Event :: string
  ev_Number :: string
  ev_Body :: string
  ev_ClientID :: string
  ev_ProviderID :: string
  ev_Reason :: string
  ev_SubscriptionID :: int

definition zeroAndroidEvent :: androidEvent where
  "zeroAndroidEvent = \<lparr>ev_Event = [], ev_Number = [], ev_Body = [], ev_ClientID = [], ev_ProviderID = [],
     ev_Reason = [], ev_SubscriptionID = 0\<rparr>"

definition unmarshal_androidEvent :: "androidEvent decoder" where
  "unmarshal_androidEvent j v = json_fields
     [json_field ''event'' (set_str ev_Event_update),
      json_field ''number'' (set_str ev_Number_update),
      json_field ''body'' (set_str ev_Body_update),
      json_field ''clientId'' (set_str ev_ClientID_update),
      json_field ''providerId'' (set_str ev_ProviderID_update),
      json_field ''reason'' (set_str ev_Reason_update),
      json_field ''subscriptionId'' (set_int ev_SubscriptionID_update)] j v"

subsection \<open>The status report\<close>

record androidStatus =
  as_SIMReady :: bool
  as_Registered :: bool
  as_VoiceReady :: bool
  as_Operator :: string
  as_AccessTechnology :: string
  as_Signal :: int
  as_SignalDBm :: int
  as_PhoneNumber :: string
  as_ICCID :: string
  as_IMSI :: string
  as_Manufacturer :: string
  as_Model :: string
  as_IMEI :: string
  as_AndroidVersion :: string
  as_BuildID :: string
  as_SecurityPatch :: string
  as_BasebandVersion :: string
  as_BatteryLevel :: int
  as_BatteryCharging :: bool
  as_SubscriptionID :: int
  as_SIMSlot :: int
  as_IMSRegistered :: bool
  as_VoLTE :: bool
  as_CompanionVersion :: string
  as_AudioDownlinkOK :: bool
  as_AudioUplinkOK :: bool
  as_AudioDownlinkFrames :: int
  as_AudioUplinkFrames :: int
  as_AudioUplinkBytes :: int
  as_AudioLastError :: string
  as_Subscriptions :: "Subscription list"

definition zeroAndroidStatus :: androidStatus where
  "zeroAndroidStatus = \<lparr>as_SIMReady = False, as_Registered = False, as_VoiceReady = False, as_Operator = [],
     as_AccessTechnology = [], as_Signal = 0, as_SignalDBm = 0, as_PhoneNumber = [], as_ICCID = [], as_IMSI = [],
     as_Manufacturer = [], as_Model = [], as_IMEI = [], as_AndroidVersion = [], as_BuildID = [], as_SecurityPatch = [],
     as_BasebandVersion = [], as_BatteryLevel = 0, as_BatteryCharging = False, as_SubscriptionID = 0, as_SIMSlot = 0,
     as_IMSRegistered = False, as_VoLTE = False, as_CompanionVersion = [], as_AudioDownlinkOK = False,
     as_AudioUplinkOK = False, as_AudioDownlinkFrames = 0, as_AudioUplinkFrames = 0, as_AudioUplinkBytes = 0,
     as_AudioLastError = [], as_Subscriptions = []\<rparr>"

definition zeroSubscription :: Subscription where
  "zeroSubscription = \<lparr>su_ID = 0, su_SIMSlot = 0, su_DisplayName = [], su_CarrierName = [], su_PhoneNumber = [],
     su_IMEI = [], su_Ready = False\<rparr>"

definition unmarshal_Subscription :: "Subscription decoder" where
  "unmarshal_Subscription j v = json_fields
     [json_field ''id'' (set_int su_ID_update),
      json_field ''simSlot'' (set_int su_SIMSlot_update),
      json_field ''displayName'' (set_str su_DisplayName_update),
      json_field ''carrierName'' (set_str su_CarrierName_update),
      json_field ''phoneNumber'' (set_str su_PhoneNumber_update),
      json_field ''imei'' (set_str su_IMEI_update),
      json_field ''ready'' (set_bool su_Ready_update)] j v"

fun struct_elems :: "'w \<Rightarrow> 'w decoder \<Rightarrow> json list \<Rightarrow> 'w list \<times> gerror option" where
  "struct_elems zero dec [] = ([], None)"
| "struct_elems zero dec (j # js) =
     (case dec j zero of (w, e) \<Rightarrow> (case struct_elems zero dec js of (ws, e') \<Rightarrow> (w # ws, first_err e e')))"

definition set_structs :: "(('w list \<Rightarrow> 'w list) \<Rightarrow> 'v \<Rightarrow> 'v) \<Rightarrow> 'w \<Rightarrow> 'w decoder \<Rightarrow> 'v decoder" where
  "set_structs upd zero dec j v =
     (case j of JNull \<Rightarrow> (upd (\<lambda>_. []) v, None)
      | JArr js \<Rightarrow> (case struct_elems zero dec js of (ws, e) \<Rightarrow> (upd (\<lambda>_. ws) v, e))
      | _ \<Rightarrow> (v, Some type_error))"

definition unmarshal_androidStatus :: "androidStatus decoder" where
  "unmarshal_androidStatus j v = json_fields
     [json_field ''simReady'' (set_bool as_SIMReady_update),
      json_field ''registered'' (set_bool as_Registered_update),
      json_field ''voiceReady'' (set_bool as_VoiceReady_update),
      json_field ''operator'' (set_str as_Operator_update),
      json_field ''accessTechnology'' (set_str as_AccessTechnology_update),
      json_field ''signal'' (set_int as_Signal_update),
      json_field ''signalDbm'' (set_int as_SignalDBm_update),
      json_field ''phoneNumber'' (set_str as_PhoneNumber_update),
      json_field ''iccid'' (set_str as_ICCID_update),
      json_field ''imsi'' (set_str as_IMSI_update),
      json_field ''manufacturer'' (set_str as_Manufacturer_update),
      json_field ''model'' (set_str as_Model_update),
      json_field ''imei'' (set_str as_IMEI_update),
      json_field ''androidVersion'' (set_str as_AndroidVersion_update),
      json_field ''buildId'' (set_str as_BuildID_update),
      json_field ''securityPatch'' (set_str as_SecurityPatch_update),
      json_field ''basebandVersion'' (set_str as_BasebandVersion_update),
      json_field ''batteryLevel'' (set_int as_BatteryLevel_update),
      json_field ''batteryCharging'' (set_bool as_BatteryCharging_update),
      json_field ''subscriptionId'' (set_int as_SubscriptionID_update),
      json_field ''simSlot'' (set_int as_SIMSlot_update),
      json_field ''imsRegistered'' (set_bool as_IMSRegistered_update),
      json_field ''volte'' (set_bool as_VoLTE_update),
      json_field ''companionVersion'' (set_str as_CompanionVersion_update),
      json_field ''audioDownlinkOk'' (set_bool as_AudioDownlinkOK_update),
      json_field ''audioUplinkOk'' (set_bool as_AudioUplinkOK_update),
      json_field ''audioDownlinkFrames'' (set_int as_AudioDownlinkFrames_update),
      json_field ''audioUplinkFrames'' (set_int as_AudioUplinkFrames_update),
      json_field ''audioUplinkBytes'' (set_int as_AudioUplinkBytes_update),
      json_field ''audioLastError'' (set_str as_AudioLastError_update),
      json_field ''subscriptions'' (set_structs as_Subscriptions_update zeroSubscription unmarshal_Subscription)] j v"

subsection \<open>The controller\<close>

record AndroidConfig =
  ac_ADB :: string
  ac_ADBHome :: string
  ac_ADBServerSocket :: string
  ac_Serial :: string
  ac_SubscriptionID :: string
  ac_TokenPath :: string
  ac_ControlAddr :: string
  ac_AudioAddr :: string

text \<open>
  A request waits on a channel of its own. \<open>an_pending\<close> holds the identifiers in the map \<^verbatim>\<open>pending\<close>; what a
  waiting caller will find on its channel, a response or the fact that it was closed, is in \<open>an_inbox\<close>.
  \<open>an_out\<close> is what was written to the phone.
\<close>

datatype Delivery = Response wireMessage | Closed

record Android =
  an_cfg :: AndroidConfig
  an_events :: "MEvent list"
  an_healthy :: bool
  an_audio :: bool
  an_status :: Status
  an_conn :: bool
  an_pending :: "string list"
  an_inbox :: "Delivery table"
  an_nextID :: "64 word"
  an_token :: string
  an_out :: "json list"

definition NewAndroid :: "AndroidConfig \<Rightarrow> Android" where
  "NewAndroid cfg =
     (let cfg = (if ac_ADB cfg = [] then cfg\<lparr>ac_ADB := ''adb''\<rparr> else cfg);
          cfg = (if ac_ControlAddr cfg = [] then cfg\<lparr>ac_ControlAddr := ''127.0.0.1:47100''\<rparr> else cfg);
          cfg = (if ac_AudioAddr cfg = [] then cfg\<lparr>ac_AudioAddr := ''127.0.0.1:47101''\<rparr> else cfg)
      in \<lparr>an_cfg = cfg, an_events = [], an_healthy = False, an_audio = False,
          an_status = zeroStatus\<lparr>ms_Provider := ''android'', ms_Transport := ''usb+adb'', ms_Signal := -1, ms_SignalDBm := -1,
            ms_ADBState := ''disconnected'', ms_ProtocolVersion := 1\<rparr>,
          an_conn = False, an_pending = [], an_inbox = [], an_nextID = 0, an_token = [], an_out = []\<rparr>)"

definition an_emit :: "MEvent \<Rightarrow> Android \<Rightarrow> Android" where
  "an_emit e a = a\<lparr>an_events := offer_event 128 e (an_events a)\<rparr>"

definition setOffline :: "gerror option \<Rightarrow> Android \<Rightarrow> Android" where
  "setOffline err a =
     (let wasOnline = an_healthy a;
          st = (an_status a)\<lparr>ms_ADBState := ''disconnected''\<rparr>;
          st = (case err of Some e \<Rightarrow> st\<lparr>ms_LastError := e\<rparr> | None \<Rightarrow> st);
          a = a\<lparr>an_healthy := False, an_audio := False, an_status := st\<rparr>
      in if wasOnline then an_emit (zeroMEvent\<lparr>me_Type := ''device.offline'', me_Reason := ms_LastError st\<rparr>) a else a)"

definition closeControl :: "Android \<Rightarrow> Android" where
  "closeControl a = a\<lparr>an_conn := False, an_healthy := False, an_audio := False, an_pending := [],
     an_inbox := fold (\<lambda>i t. tput i Closed t) (an_pending a) (an_inbox a)\<rparr>"

definition updateStatus :: "json option \<Rightarrow> Android \<Rightarrow> Android" where
  "updateStatus raw a =
     (case raw of
        None \<Rightarrow> a
      | Some j \<Rightarrow>
          (case unmarshal_androidStatus j zeroAndroidStatus of
             (_, Some e) \<Rightarrow> a
           | (i, None) \<Rightarrow> a\<lparr>an_status := (an_status a)
               \<lparr>ms_SIMReady := as_SIMReady i, ms_Registered := as_Registered i, ms_VoiceReady := as_VoiceReady i,
                ms_Operator := as_Operator i, ms_AccessTech := as_AccessTechnology i, ms_Signal := as_Signal i,
                ms_SignalDBm := as_SignalDBm i, ms_PhoneNumber := as_PhoneNumber i, ms_ICCID := as_ICCID i,
                ms_IMSI := as_IMSI i, ms_Manufacturer := as_Manufacturer i, ms_Model := as_Model i, ms_IMEI := as_IMEI i,
                ms_AndroidVersion := as_AndroidVersion i, ms_BuildID := as_BuildID i,
                ms_SecurityPatch := as_SecurityPatch i, ms_BasebandVersion := as_BasebandVersion i,
                ms_BatteryLevel := as_BatteryLevel i, ms_BatteryCharging := as_BatteryCharging i,
                ms_SubscriptionID := as_SubscriptionID i, ms_SIMSlot := as_SIMSlot i,
                ms_IMSRegistered := as_IMSRegistered i, ms_VoLTE := as_VoLTE i,
                ms_CompanionVersion := as_CompanionVersion i, ms_AudioDownlinkOK := as_AudioDownlinkOK i,
                ms_AudioUplinkOK := as_AudioUplinkOK i, ms_AudioDownlinkFrames := as_AudioDownlinkFrames i,
                ms_AudioUplinkFrames := as_AudioUplinkFrames i, ms_AudioUplinkBytes := as_AudioUplinkBytes i,
                ms_LastError := as_AudioLastError i, ms_Subscriptions := as_Subscriptions i\<rparr>,
               an_audio := as_AudioDownlinkOK i \<and> as_AudioUplinkOK i\<rparr>))"

subsection \<open>Requests\<close>

definition gateway_offline :: gerror where "gateway_offline = ''ANDROID_GATEWAY_OFFLINE''"
definition gateway_disconnected :: gerror where "gateway_disconnected = ''ANDROID_GATEWAY_DISCONNECTED''"
definition gateway_timeout :: gerror where "gateway_timeout = ''ANDROID_GATEWAY_TIMEOUT''"

definition request_message :: "string \<Rightarrow> string \<Rightarrow> json \<Rightarrow> wireMessage" where
  "request_message i action data = zeroWire\<lparr>w_Version := 1, w_Type := ''request'', w_ID := i, w_Action := action, w_Data := Some data\<rparr>"

text \<open>The first half of \<^verbatim>\<open>request\<close> registers the request and writes it; \<open>wfault\<close> is the failure of the write.\<close>

definition request_start :: "gerror option \<Rightarrow> string \<Rightarrow> json \<Rightarrow> Android \<Rightarrow> (gerror + string) \<times> Android" where
  "request_start wfault action data a =
     (if \<not> an_healthy a then (Inl gateway_offline, a)
      else
        (let a = a\<lparr>an_nextID := an_nextID a + 1\<rparr>; i = show_nat (unat (an_nextID a)) in
         case (if an_conn a then wfault else Some gateway_offline) of
           Some e \<Rightarrow> (Inl e, a\<lparr>an_pending := removeAll i (an_pending a)\<rparr>)
         | None \<Rightarrow> (Inr i, a\<lparr>an_pending := List.insert i (an_pending a), an_inbox := tdel i (an_inbox a),
             an_out := an_out a @ [marshal_wireMessage (request_message i action data)]\<rparr>)))"

text \<open>
  The second half waits for the channel, the caller's context or fifteen seconds. \<open>cancelled = Some e\<close> says that the
  context ends the wait with \<open>e\<close>; otherwise the wait ends with what is on the channel, or with the timer.
\<close>

definition request_finish :: "gerror option \<Rightarrow> string \<Rightarrow> Android \<Rightarrow> (wireMessage \<times> gerror option) \<times> Android" where
  "request_finish cancelled i a =
     (case cancelled of
        Some e \<Rightarrow> ((zeroWire, Some e), a\<lparr>an_pending := removeAll i (an_pending a)\<rparr>)
      | None \<Rightarrow>
          (case tget (an_inbox a) i of
             Some (Response m) \<Rightarrow> ((m, if w_Error m \<noteq> [] then Some (w_Error m) else None), a)
           | Some Closed \<Rightarrow> ((zeroWire, Some gateway_disconnected), a)
           | None \<Rightarrow> ((zeroWire, Some gateway_timeout), a\<lparr>an_pending := removeAll i (an_pending a)\<rparr>)))"

text \<open>
  While a caller waits, the reader and the other callers go on; \<open>between\<close> is what they do. The reader itself
  waits when it handles \<^verbatim>\<open>status.changed\<close>, and nothing is read meanwhile.
\<close>

definition request :: "gerror option \<Rightarrow> gerror option \<Rightarrow> (Android \<Rightarrow> Android) \<Rightarrow> string \<Rightarrow> json \<Rightarrow> Android \<Rightarrow>
    (wireMessage \<times> gerror option) \<times> Android" where
  "request wfault cancelled between action data a =
     (case request_start wfault action data a of
        (Inl e, a) \<Rightarrow> ((zeroWire, Some e), a)
      | (Inr i, a) \<Rightarrow> request_finish cancelled i (between a))"

subsection \<open>The reader\<close>

definition handleEvent :: "gerror option \<Rightarrow> androidEvent \<Rightarrow> Android \<Rightarrow> Android" where
  "handleEvent wfault ev a =
     (if ev_Event ev = ''status.changed'' then snd (request wfault None (\<lambda>a. a) ''status'' JNull a)
      else if ev_Event ev = ''audio.ready'' then
        a\<lparr>an_audio := True, an_status := (an_status a)\<lparr>ms_AudioDownlinkOK := True, ms_AudioUplinkOK := True, ms_LastError := []\<rparr>\<rparr>
      else if ev_Event ev = ''audio.failed'' then
        an_emit (zeroMEvent\<lparr>me_Type := ev_Event ev, me_Reason := ev_Reason ev\<rparr>)
          (a\<lparr>an_audio := False, an_status := (an_status a)\<lparr>ms_AudioUplinkOK := False, ms_LastError := ev_Reason ev\<rparr>\<rparr>)
      else an_emit (zeroMEvent
        \<lparr>me_Type := ev_Event ev, me_Number := ev_Number ev, me_Body := ev_Body ev, me_ClientID := ev_ClientID ev,
         me_ProviderID := ev_ProviderID ev, me_Reason := ev_Reason ev, me_SubscriptionID := ev_SubscriptionID ev\<rparr>) a)"

text \<open>One line of the connection: a document, or bytes that are none. \<open>wfault\<close> is the failure of a write the
  handler may make.\<close>

definition read_line :: "gerror option \<Rightarrow> json option \<Rightarrow> Android \<Rightarrow> Android" where
  "read_line wfault line a =
     (case line of
        None \<Rightarrow> a
      | Some j \<Rightarrow>
          (case unmarshal_wireMessage j zeroWire of
             (_, Some e) \<Rightarrow> a
           | (msg, None) \<Rightarrow>
               if w_Type msg = ''response'' then
                 (if w_ID msg \<in> set (an_pending a)
                  then a\<lparr>an_pending := removeAll (w_ID msg) (an_pending a), an_inbox := tput (w_ID msg) (Response msg) (an_inbox a)\<rparr>
                  else a)
               else if w_Type msg = ''event'' then
                 (case w_Data msg of
                    None \<Rightarrow> a
                  | Some d \<Rightarrow>
                      (case unmarshal_androidEvent d zeroAndroidEvent of
                         (_, Some e) \<Rightarrow> a
                       | (ev, None) \<Rightarrow> handleEvent wfault ev a))
               else if w_Type msg = ''status'' then updateStatus (w_Data msg) a
               else a))"

definition readLoop_lines :: "(gerror option \<times> json option) list \<Rightarrow> Android \<Rightarrow> Android" where
  "readLoop_lines ls a = fold (\<lambda>l. read_line (fst l) (snd l)) ls a"

subsection \<open>Operations\<close>

text \<open>The circumstances of one request: the failure of its write, the end of its context, what happens while it waits.\<close>

record AReq =
  rq_write :: "gerror option"
  rq_done :: "gerror option"
  rq_between :: "Android \<Rightarrow> Android"

definition ask_phone :: "AReq \<Rightarrow> string \<Rightarrow> json \<Rightarrow> Android \<Rightarrow> (wireMessage \<times> gerror option) \<times> Android" where
  "ask_phone q action data a = request (rq_write q) (rq_done q) (rq_between q) action data a"

definition A_Probe :: "AReq \<Rightarrow> gtime \<Rightarrow> Android \<Rightarrow> Status \<times> Android" where
  "A_Probe q now a =
     (let a = (case ask_phone q ''status'' JNull a of
                 ((r, None), a) \<Rightarrow> updateStatus (w_Data r) a
               | ((r, Some e), a) \<Rightarrow> a)
      in ((an_status a)\<lparr>ms_LastCheckedAt := now\<rparr>, a))"

definition only_error :: "('r \<times> gerror option) \<times> Android \<Rightarrow> gerror option \<times> Android" where
  "only_error x = (snd (fst x), snd x)"

definition dialSubscription :: "AReq \<Rightarrow> string \<Rightarrow> string \<Rightarrow> Android \<Rightarrow> gerror option \<times> Android" where
  "dialSubscription q number sub a =
     only_error (ask_phone q ''dial'' (JObj [(''number'', JStr number), (''subscriptionId'', JStr sub)]) a)"

definition A_Dial :: "AReq \<Rightarrow> string \<Rightarrow> Android \<Rightarrow> gerror option \<times> Android" where
  "A_Dial q number a = dialSubscription q number (ac_SubscriptionID (an_cfg a)) a"

definition A_Answer :: "AReq \<Rightarrow> Android \<Rightarrow> gerror option \<times> Android" where
  "A_Answer q a = only_error (ask_phone q ''answer'' JNull a)"

definition A_Hangup :: "AReq \<Rightarrow> Android \<Rightarrow> gerror option \<times> Android" where
  "A_Hangup q a = only_error (ask_phone q ''hangup'' JNull a)"

definition A_DTMF :: "AReq \<Rightarrow> string \<Rightarrow> Android \<Rightarrow> gerror option \<times> Android" where
  "A_DTMF q key a = only_error (ask_phone q ''dtmf'' (JObj [(''key'', JStr key)]) a)"

definition sendSMSSubscription :: "AReq \<Rightarrow> string \<Rightarrow> string \<Rightarrow> string \<Rightarrow> string \<Rightarrow> Android \<Rightarrow> gerror option \<times> Android" where
  "sendSMSSubscription q clientID number body sub a = only_error (ask_phone q ''sms.send''
     (JObj [(''body'', JStr body), (''clientId'', JStr clientID), (''number'', JStr number), (''subscriptionId'', JStr sub)]) a)"

definition A_SendSMS :: "AReq \<Rightarrow> string \<Rightarrow> string \<Rightarrow> string \<Rightarrow> Android \<Rightarrow> gerror option \<times> Android" where
  "A_SendSMS q clientID number body a = sendSMSSubscription q clientID number body (ac_SubscriptionID (an_cfg a)) a"

definition A_DeleteSMS :: "AReq \<Rightarrow> int \<Rightarrow> Android \<Rightarrow> gerror option \<times> Android" where
  "A_DeleteSMS q i a = only_error (ask_phone q ''sms.delete'' (JObj [(''id'', jint i)]) a)"

definition A_SetMicMute :: "AReq \<Rightarrow> bool \<Rightarrow> Android \<Rightarrow> gerror option \<times> Android" where
  "A_SetMicMute q muted a = only_error (ask_phone q ''mute'' (JObj [(''muted'', JBool muted)]) a)"

definition A_EnableAudio :: "AReq \<Rightarrow> AReq \<Rightarrow> bool \<Rightarrow> Android \<Rightarrow> gerror option \<times> Android" where
  "A_EnableAudio q q' enabled a =
     (case ask_phone q ''audio.enable'' (JObj [(''enabled'', JBool enabled)]) a of
        ((_, Some e), a) \<Rightarrow> (Some e, a)
      | ((_, None), a) \<Rightarrow>
          (case ask_phone q' ''status'' JNull a of
             ((_, Some e), a) \<Rightarrow> (Some e, a)
           | ((r, None), a) \<Rightarrow> (None, updateStatus (w_Data r) a)))"

subsection \<open>Connecting\<close>

text \<open>What running \<^verbatim>\<open>adb\<close> with the given arguments gives: its output and its failure.\<close>

type_synonym exec = "string list \<Rightarrow> string \<times> gerror option"

text \<open>The verb \<^verbatim>\<open>%q\<close>, for texts of printable characters, quotes, backslashes, tabs and line breaks.\<close>

definition quote_char :: "char \<Rightarrow> string" where
  "quote_char c = (if c = CHR 0x22 \<or> c = CHR 0x5C then [CHR 0x5C, c] else if c = CHR 0x0A then [CHR 0x5C, CHR ''n'']
     else if c = CHR 0x0D then [CHR 0x5C, CHR ''r''] else if c = CHR 0x09 then [CHR 0x5C, CHR ''t''] else [c])"

definition quoted_error :: "string \<Rightarrow> string" where
  "quoted_error s = [CHR 0x22] @ concat (map quote_char s) @ [CHR 0x22]"

definition adbServerPort :: "AndroidConfig \<Rightarrow> gerror + string" where
  "adbServerPort cfg =
     (case SplitHostPort (trim_prefix (ac_ADBServerSocket cfg) ''tcp:'') of
        Inl e \<Rightarrow> Inl (''invalid adb server socket '' @ quoted_error (ac_ADBServerSocket cfg) @ '': '' @ e)
      | Inr (_, port) \<Rightarrow> Inr port)"

definition adb :: "exec \<Rightarrow> AndroidConfig \<Rightarrow> string list \<Rightarrow> string \<times> gerror option" where
  "adb exec cfg args =
     (case (if ac_ADBServerSocket cfg \<noteq> [] then map_sum id (\<lambda>port. [''-P'', port]) (adbServerPort cfg) else Inr []) of
        Inl e \<Rightarrow> ([], Some e)
      | Inr pre \<Rightarrow>
          (case exec (pre @ (if ac_Serial cfg \<noteq> [] then [''-s'', ac_Serial cfg] else []) @ args) of
             (out, Some e) \<Rightarrow> (out, Some (trim_space out @ '': '' @ e))
           | (out, None) \<Rightarrow> (out, None)))"

definition forward :: "exec \<Rightarrow> AndroidConfig \<Rightarrow> string \<Rightarrow> string \<Rightarrow> gerror option" where
  "forward exec cfg address socket =
     (case SplitHostPort address of
        Inl e \<Rightarrow> Some e
      | Inr (_, port) \<Rightarrow>
          (case snd (adb exec cfg [''forward'', ''tcp:'' @ port, ''localabstract:'' @ socket]) of
             Some e \<Rightarrow> Some (''forward '' @ socket @ '': '' @ e)
           | None \<Rightarrow> None))"

definition startADBServer :: "exec \<Rightarrow> AndroidConfig \<Rightarrow> gerror option" where
  "startADBServer exec cfg =
     (if ac_ADBServerSocket cfg = [] then None
      else (case adbServerPort cfg of
        Inl e \<Rightarrow> Some e
      | Inr port \<Rightarrow>
          (case exec [''-P'', port, ''start-server''] of
             (out, Some e) \<Rightarrow> Some (''start private adb server: '' @ trim_space out @ '': '' @ e)
           | (_, None) \<Rightarrow> None)))"

record PrepareIO =
  pi_mkdir :: "gerror option"
  pi_token :: "gerror + string"
  pi_exec :: exec

definition prepare :: "PrepareIO \<Rightarrow> Android \<Rightarrow> gerror option \<times> Android" where
  "prepare io a =
     (if ac_ADBHome (an_cfg a) = [] then (Some ''ANDROID_ADB_HOME_NOT_CONFIGURED'', a)
      else (case pi_mkdir io of
        Some e \<Rightarrow> (Some (''create adb home: '' @ e), a)
      | None \<Rightarrow>
          (case pi_token io of
             Inl e \<Rightarrow> (Some (''read android token: '' @ e), a)
           | Inr token \<Rightarrow>
               (let secret = trim_space token in
                if length secret < 32 then (Some ''ANDROID_TOKEN_INVALID'', a)
                else (case startADBServer (pi_exec io) (an_cfg a) of
                  Some e \<Rightarrow> (Some e, a)
                | None \<Rightarrow> (None, a\<lparr>an_token := secret\<rparr>))))))"

text \<open>\<^verbatim>\<open>GenerateAndroidToken\<close> decides from the file's status, and gives the text to write, if any.\<close>

datatype FileStat = Exists | Missing | StatFails gerror

definition GenerateAndroidToken :: "FileStat \<Rightarrow> gerror option \<Rightarrow> gerror + nat list \<Rightarrow> (gerror + string option)" where
  "GenerateAndroidToken stat mkdir rand =
     (case stat of
        Exists \<Rightarrow> Inr None
      | StatFails e \<Rightarrow> Inl e
      | Missing \<Rightarrow>
          (case mkdir of
             Some e \<Rightarrow> Inl e
           | None \<Rightarrow> (case rand of Inl e \<Rightarrow> Inl e | Inr buf \<Rightarrow> Inr (Some (hex_encode buf @ [CHR 0x0A])))))"

record ConnectIO =
  co_exec :: exec
  co_dial :: "gerror option"
  co_rand :: "gerror + nat list"
  co_hmac :: "string \<Rightarrow> string \<Rightarrow> nat list"
  co_write :: "gerror option"

definition hmacHex :: "(string \<Rightarrow> string \<Rightarrow> nat list) \<Rightarrow> string \<Rightarrow> string \<Rightarrow> string" where
  "hmacHex hmac token message = hex_encode (hmac token message)"

definition secureNonce :: "gerror + nat list \<Rightarrow> gerror + string" where
  "secureNonce rand = map_sum id hex_encode rand"

definition auth_message :: "ConnectIO \<Rightarrow> string \<Rightarrow> string \<Rightarrow> wireMessage" where
  "auth_message io token nonce = zeroWire\<lparr>w_Version := 1, w_Type := ''auth'', w_Nonce := nonce,
     w_MAC := hmacHex (co_hmac io) token (''control:'' @ nonce)\<rparr>"

definition an_connect :: "ConnectIO \<Rightarrow> Android \<Rightarrow> gerror option \<times> Android" where
  "an_connect io a =
     (let cfg = an_cfg a in
      case adb (co_exec io) cfg [''get-state''] of
        (_, Some e) \<Rightarrow> (Some (''ANDROID_ADB_UNAVAILABLE: '' @ e), a)
      | (state, None) \<Rightarrow>
          if trim_space state \<noteq> ''device''
          then (Some (''ANDROID_ADB_UNAVAILABLE: adb state '' @ quoted_error (trim_space state)), a)
          else (case forward (co_exec io) cfg (ac_ControlAddr cfg) ''onsim-control'' of
            Some e \<Rightarrow> (Some e, a)
          | None \<Rightarrow>
              (case forward (co_exec io) cfg (ac_AudioAddr cfg) ''onsim-audio'' of
                 Some e \<Rightarrow> (Some e, a)
               | None \<Rightarrow>
                   (case co_dial io of
                      Some e \<Rightarrow> (Some (''connect companion: '' @ e), a)
                    | None \<Rightarrow>
                        (case secureNonce (co_rand io) of
                           Inl e \<Rightarrow> (Some (''create authentication nonce: '' @ e), a)
                         | Inr nonce \<Rightarrow>
                             (case co_write io of
                                Some e \<Rightarrow> (Some (''authenticate companion: '' @ e), a)
                              | None \<Rightarrow> (None, an_emit (zeroMEvent\<lparr>me_Type := ''device.online''\<rparr>)
                                  (a\<lparr>an_conn := True, an_healthy := True,
                                     an_out := an_out a @ [marshal_wireMessage (auth_message io (an_token a) nonce)],
                                     an_status := (an_status a)\<lparr>ms_ADBState := ''device'', ms_LastError := []\<rparr>\<rparr>))))))))"

definition A_OpenAudio :: "gerror option \<Rightarrow> gerror + nat list \<Rightarrow> (string \<Rightarrow> string \<Rightarrow> nat list) \<Rightarrow> gerror option \<Rightarrow>
    Android \<Rightarrow> gerror + string" where
  "A_OpenAudio dial rand hmac wfault a =
     (if \<not> an_audio a then Inl ''ANDROID_AUDIO_UNAVAILABLE''
      else (case dial of
        Some e \<Rightarrow> Inl e
      | None \<Rightarrow>
          (case secureNonce rand of
             Inl e \<Rightarrow> Inl e
           | Inr nonce \<Rightarrow>
               (case wfault of
                  Some e \<Rightarrow> Inl e
                | None \<Rightarrow> Inr (nonce @ '':'' @ hmacHex hmac (an_token a) (''audio:'' @ nonce) @ [CHR 0x0A])))))"

subsection \<open>The connection loop\<close>

text \<open>What the callers of the controller do, in the order in which it takes effect.\<close>

datatype ClientStep =
    CStart "gerror option" string json
  | CFinish "gerror option" string
  | CUpdate "json option"
  | CTake

fun client_step :: "ClientStep \<Rightarrow> Android \<Rightarrow> Android" where
  "client_step (CStart wfault action data) a = snd (request_start wfault action data a)"
| "client_step (CFinish cancelled i) a = snd (request_finish cancelled i a)"
| "client_step (CUpdate raw) a = updateStatus raw a"
| "client_step CTake a = a\<lparr>an_events := tl (an_events a)\<rparr>"

datatype SessionStep = SLine "gerror option" "json option" | SClient ClientStep

fun session_step :: "SessionStep \<Rightarrow> Android \<Rightarrow> Android" where
  "session_step (SLine wfault line) a = read_line wfault line a"
| "session_step (SClient c) a = client_step c a"

text \<open>One turn of the loop of \<^verbatim>\<open>run\<close>: its inputs are the results of preparing and connecting, what happens
  while the connection is up and the error that ends it, and what the callers do during the wait.\<close>

record Turn =
  tu_prepare :: PrepareIO
  tu_connect :: ConnectIO
  tu_session :: "SessionStep list"
  tu_err :: gerror
  tu_idle :: "ClientStep list"

definition run_connected :: "Turn \<Rightarrow> Android \<times> int \<Rightarrow> Android \<times> int" where
  "run_connected u s =
     (case an_connect (tu_connect u) (fst s) of
        (Some e, a) \<Rightarrow> (fold client_step (tu_idle u) (setOffline (Some e) a), if snd s < 30 * second then snd s * 2 else snd s)
      | (None, a) \<Rightarrow> (setOffline (Some (tu_err u)) (closeControl (fold session_step (tu_session u) a)), second))"

definition run_turn :: "Turn \<Rightarrow> Android \<times> int \<Rightarrow> Android \<times> int" where
  "run_turn u s =
     (if an_token (fst s) = [] then
        (case prepare (tu_prepare u) (fst s) of
           (Some e, a) \<Rightarrow> (fold client_step (tu_idle u) (setOffline (Some e) a), snd s)
         | (None, a) \<Rightarrow> run_connected u (a, snd s))
      else run_connected u s)"

definition A_Start :: "PrepareIO \<Rightarrow> Android \<Rightarrow> Android" where
  "A_Start io a = (case prepare io a of (Some e, a) \<Rightarrow> setOffline (Some e) a | (None, a) \<Rightarrow> a)"

definition A_run :: "PrepareIO \<Rightarrow> Turn list \<Rightarrow> Android \<Rightarrow> Android \<times> int" where
  "A_run io us a = fold run_turn us (A_Start io a, second)"

end
