(* ===== verification/Android_Props.thy ===== *)
theory Android_Props
  imports Android
begin

text \<open>
  Properties of the Android driver: a request gets the response that carries its identifier, a lost connection
  releases every waiting caller, the pause between attempts is bounded; and two things the driver does not do:
  it never reports the loss of its connection, and a request made by the reader itself can only time out.
\<close>

subsection \<open>Requests and responses\<close>

lemma show_nat_inj: "show_nat m = show_nat n \<Longrightarrow> m = n"
  using digits_val_show_nat by (metis of_nat_eq_iff)

definition request_id :: "64 word \<Rightarrow> string" where
  "request_id w = show_nat (unat w)"

lemma request_id_inj [simp]: "request_id v = request_id w \<longleftrightarrow> v = w"
  unfolding request_id_def by (metis show_nat_inj word_eq_iff_unsigned)

definition response_to :: "string \<Rightarrow> json option \<Rightarrow> wireMessage option" where
  "response_to i line =
     (case line of
        None \<Rightarrow> None
      | Some j \<Rightarrow>
          (case unmarshal_wireMessage j zeroWire of
             (m, None) \<Rightarrow> if w_Type m = ''response'' \<and> w_ID m = i then Some m else None
           | (_, Some e) \<Rightarrow> None))"

fun first_response :: "string \<Rightarrow> (gerror option \<times> json option) list \<Rightarrow> wireMessage option" where
  "first_response i [] = None"
| "first_response i (l # ls) = (case response_to i (snd l) of Some m \<Rightarrow> Some m | None \<Rightarrow> first_response i ls)"

text \<open>What the caller with identifier \<open>i\<close> would find, and what a line changes of it. Only \<^verbatim>\<open>status.changed\<close>
  makes the reader draw an identifier.\<close>

definition view :: "string \<Rightarrow> Android \<Rightarrow> bool \<times> Delivery option" where
  "view i a = (i \<in> set (an_pending a), tget (an_inbox a) i)"

definition drawn :: "64 word \<Rightarrow> nat \<Rightarrow> Android \<Rightarrow> bool" where
  "drawn w n a \<longleftrightarrow> (\<exists>k \<le> n. an_nextID a = w + of_nat k)"

lemma view_simps [simp]:
  "view i (an_emit e a) = view i a" "view i (updateStatus raw a) = view i a"
  "an_nextID (an_emit e a) = an_nextID a" "an_nextID (updateStatus raw a) = an_nextID a"
  "view i (a\<lparr>an_audio := b\<rparr>) = view i a" "view i (a\<lparr>an_status := st\<rparr>) = view i a"
  by (simp_all add: view_def an_emit_def updateStatus_def split: option.split prod.split)

lemma inner_request:
  assumes "drawn w n a" "Suc n < 2 ^ 64"
  shows "view (request_id w) (snd (request wfault None (\<lambda>a. a) action data a)) = view (request_id w) a"
    "drawn w (Suc n) (snd (request wfault None (\<lambda>a. a) action data a))"
proof -
  obtain k where k: "k \<le> n" "an_nextID a = w + of_nat k" using assms(1) by (auto simp: drawn_def)
  have "of_nat (Suc k) \<noteq> (0 :: 64 word)"
    using k(1) assms(2) by (simp only: word_of_nat_eq_0_iff) (auto dest: dvd_imp_le)
  then have ne: "w + of_nat k + 1 \<noteq> w" by (simp add: add.commute add.left_commute)
  show "view (request_id w) (snd (request wfault None (\<lambda>a. a) action data a)) = view (request_id w) a"
    using ne k(2)
    by (auto simp: request_def request_start_def request_finish_def view_def request_id_def [symmetric] Let_def split: option.split)
  show "drawn w (Suc n) (snd (request wfault None (\<lambda>a. a) action data a))"
  proof -
    have "an_nextID (snd (request wfault None (\<lambda>a. a) action data a)) = (if an_healthy a then an_nextID a + 1 else an_nextID a)"
      by (simp add: request_def request_start_def request_finish_def Let_def split: option.split)
    moreover have "an_nextID a + 1 = w + of_nat (Suc k)" using k(2) by simp
    ultimately show ?thesis using k unfolding drawn_def by (metis Suc_le_mono le_SucI)
  qed
qed

lemma handleEvent_view:
  assumes "drawn w n a" "Suc n < 2 ^ 64"
  shows "view (request_id w) (handleEvent wfault ev a) = view (request_id w) a" "drawn w (Suc n) (handleEvent wfault ev a)"
proof -
  have other: "drawn w (Suc n) a'" if "an_nextID a' = an_nextID a" for a'
    using assms(1) that unfolding drawn_def by (metis le_SucI)
  show "view (request_id w) (handleEvent wfault ev a) = view (request_id w) a"
    by (simp add: handleEvent_def inner_request(1) [OF assms])
  show "drawn w (Suc n) (handleEvent wfault ev a)"
    by (simp add: handleEvent_def inner_request(2) [OF assms] other)
qed

lemma read_line_view:
  assumes "drawn w n a" "Suc n < 2 ^ 64"
  shows "drawn w (Suc n) (read_line wfault line a)"
    "view (request_id w) (read_line wfault line a) =
      (case response_to (request_id w) line of
         None \<Rightarrow> view (request_id w) a
       | Some m \<Rightarrow> (False, if fst (view (request_id w) a) then Some (Response m) else snd (view (request_id w) a)))"
proof -
  have other: "drawn w (Suc n) a'" if "an_nextID a' = an_nextID a" for a'
    using assms(1) that unfolding drawn_def by (metis le_SucI)
  show "drawn w (Suc n) (read_line wfault line a)"
    unfolding read_line_def by (simp add: other handleEvent_view [OF assms] split: option.split prod.split)
  show "view (request_id w) (read_line wfault line a) =
      (case response_to (request_id w) line of
         None \<Rightarrow> view (request_id w) a
       | Some m \<Rightarrow> (False, if fst (view (request_id w) a) then Some (Response m) else snd (view (request_id w) a)))"
    unfolding read_line_def response_to_def
    by (auto simp: handleEvent_view [OF assms] split: option.split prod.split) (auto simp: view_def)
qed

lemma read_lines_view:
  assumes "drawn w n a" "n + length ls < 2 ^ 64"
  shows "view (request_id w) (readLoop_lines ls a) =
    (case first_response (request_id w) ls of
       None \<Rightarrow> view (request_id w) a
     | Some m \<Rightarrow> (False, if fst (view (request_id w) a) then Some (Response m) else snd (view (request_id w) a)))"
  using assms
proof (induction ls arbitrary: n a)
  case (Cons l ls)
  let ?a = "read_line (fst l) (snd l) a"
  have n: "Suc n < 2 ^ 64" using Cons.prems(2) by simp
  note v = read_line_view [OF Cons.prems(1) n, of "fst l" "snd l"]
  have "view (request_id w) (readLoop_lines ls ?a) =
    (case first_response (request_id w) ls of
       None \<Rightarrow> view (request_id w) ?a
     | Some m \<Rightarrow> (False, if fst (view (request_id w) ?a) then Some (Response m) else snd (view (request_id w) ?a)))"
    using Cons.IH [OF v(1)] Cons.prems(2) by simp
  then show ?case by (auto simp: readLoop_lines_def v(2) split: option.split)
qed (simp add: readLoop_lines_def)

text \<open>C12: A caller gets the response to its own request. With the connection up, a request that is written
  returns the first response that carries its identifier, whatever other lines arrive before or after it (other
  responses, events, garbage), with the error the phone put in it, if any; when no such response arrives, it
  ends with a timeout. Either way it leaves no entry among the waiting requests.\<close>

theorem request_gets_its_response:
  assumes "an_healthy a" "an_conn a" "Suc (length ls) < 2 ^ 64"
    and "request None None (readLoop_lines ls) action data a = (r, a')"
  shows "r = (case first_response (request_id (an_nextID a + 1)) ls of
      Some m \<Rightarrow> (m, if w_Error m \<noteq> [] then Some (w_Error m) else None)
    | None \<Rightarrow> (zeroWire, Some gateway_timeout)) \<and>
    request_id (an_nextID a + 1) \<notin> set (an_pending a')"
proof -
  let ?w = "an_nextID a + 1"
  let ?i = "request_id ?w"
  obtain a1 where s: "request_start None action data a = (Inr ?i, a1)" "view ?i a1 = (True, None)" "an_nextID a1 = ?w"
    using assms(1,2) by (simp add: request_start_def request_id_def view_def Let_def)
  have "drawn ?w 0 a1" using s(3) by (simp add: drawn_def)
  from read_lines_view [OF this, of ls] assms(3) s(2)
  have v: "view ?i (readLoop_lines ls a1) = (case first_response ?i ls of None \<Rightarrow> (True, None) | Some m \<Rightarrow> (False, Some (Response m)))"
    by (simp cong: option.case_cong)
  have r: "request_finish None ?i (readLoop_lines ls a1) = (r, a')"
    using assms(4) s(1) by (simp add: request_def)
  show ?thesis
  proof (cases "first_response ?i ls")
    case None
    then show ?thesis using v r by (auto simp: view_def request_finish_def)
  next
    case (Some m)
    then show ?thesis using v r by (auto simp: view_def request_finish_def)
  qed
qed

text \<open>The reader cannot wait for a response. When the phone announces \<^verbatim>\<open>status.changed\<close>, the handler, which
  runs in the reader, sends a status request and waits; but responses are delivered by the reader alone, so the
  request always ends with the timeout of fifteen seconds, during which nothing is read, and the status is not
  refreshed.\<close>

theorem status_changed_cannot_refresh:
  assumes "an_healthy a" "an_conn a" "ev_Event ev = ''status.changed''"
  shows "fst (request None None (\<lambda>a. a) ''status'' JNull a) = (zeroWire, Some gateway_timeout) \<and>
    handleEvent None ev a = snd (request None None (\<lambda>a. a) ''status'' JNull a) \<and>
    an_status (handleEvent None ev a) = an_status a \<and> an_audio (handleEvent None ev a) = an_audio a"
  using assms by (simp add: handleEvent_def request_def request_start_def request_finish_def Let_def)

subsection \<open>Losing the connection\<close>

lemma tget_fold_Closed: "tget (fold (\<lambda>i t. tput i Closed t) is t) k = (if k \<in> set is then Some Closed else tget t k)"
  by (induction "is" arbitrary: t) auto

text \<open>C13: When the connection is lost, every caller that waits for a response is released with an error, no
  request stays registered and the gateway is neither healthy nor ready for audio.\<close>

theorem lost_connection_releases_callers:
  assumes "an_connect (tu_connect u) a = (None, a1)" "run_connected u (a, delay) = (a', delay')"
    and "i \<in> set (an_pending (fold session_step (tu_session u) a1))"
  shows "request_finish None i a' = ((zeroWire, Some gateway_disconnected), a') \<and>
    an_pending a' = [] \<and> \<not> an_healthy a' \<and> \<not> an_audio a' \<and> \<not> an_conn a' \<and> delay' = second"
  using assms by (auto simp: run_connected_def setOffline_def closeControl_def request_finish_def tget_fold_Closed Let_def
      split: option.splits)

definition line_event :: "json option \<Rightarrow> string" where
  "line_event line =
     (case line of
        None \<Rightarrow> []
      | Some j \<Rightarrow>
          (case w_Data (fst (unmarshal_wireMessage j zeroWire)) of
             None \<Rightarrow> []
           | Some d \<Rightarrow> ev_Event (fst (unmarshal_androidEvent d zeroAndroidEvent))))"

fun silent_step :: "SessionStep \<Rightarrow> bool" where
  "silent_step (SLine wfault line) \<longleftrightarrow> line_event line \<noteq> ''device.offline''"
| "silent_step (SClient c) \<longleftrightarrow> True"

definition no_offline :: "Android \<Rightarrow> bool" where
  "no_offline a \<longleftrightarrow> (\<forall>e \<in> set (an_events a). me_Type e \<noteq> ''device.offline'')"

lemma no_offline_emit: "no_offline a \<Longrightarrow> me_Type e \<noteq> ''device.offline'' \<Longrightarrow> no_offline (an_emit e a)"
  by (auto simp: no_offline_def an_emit_def offer_event_def)

lemma no_offline_cong: "an_events a' = an_events a \<Longrightarrow> no_offline a \<Longrightarrow> no_offline a'"
  by (simp add: no_offline_def)

lemma request_events [simp]:
  "an_events (snd (request_start wfault action data a)) = an_events a"
  "an_events (snd (request_finish cancelled i a)) = an_events a"
  "an_events (updateStatus raw a) = an_events a"
  by (auto simp: request_start_def request_finish_def updateStatus_def Let_def split: option.split prod.split Delivery.split)

lemma inner_events [simp]: "an_events (snd (request wfault cancelled (\<lambda>a. a) action data a)) = an_events a"
  using request_events(1) [of wfault action data a]
  by (cases "request_start wfault action data a") (auto simp: request_def split: sum.split)

lemma client_no_offline: "no_offline a \<Longrightarrow> no_offline (client_step c a)"
  by (cases c; cases "an_events a") (auto simp: no_offline_def)

lemma read_no_offline:
  assumes "no_offline a" "line_event line \<noteq> ''device.offline''"
  shows "no_offline (read_line wfault line a)"
proof -
  have event: "no_offline (handleEvent w ev a)" if "ev_Event ev \<noteq> ''device.offline''" for w ev
    using assms(1) that by (auto simp: handleEvent_def intro!: no_offline_emit) (simp_all add: no_offline_def)
  show ?thesis
    using assms unfolding read_line_def
    by (auto simp: line_event_def no_offline_def [of "a\<lparr>an_pending := p, an_inbox := q\<rparr>" for p q]
          split: option.splits prod.splits intro!: event intro: no_offline_cong [of _ a]) (simp_all add: no_offline_def)
qed

lemma session_no_offline: "no_offline a \<Longrightarrow> list_all silent_step xs \<Longrightarrow> no_offline (fold session_step xs a)"
proof (induction xs arbitrary: a)
  case (Cons x xs)
  then show ?case by (cases x) (auto intro: read_no_offline client_no_offline)
qed simp

lemma idle_fold: "no_offline a \<Longrightarrow> \<not> an_healthy a \<Longrightarrow> no_offline (fold client_step cs a) \<and> \<not> an_healthy (fold client_step cs a)"
proof (induction cs arbitrary: a)
  case (Cons c cs)
  have "\<not> an_healthy (client_step c a)"
    using Cons.prems(2)
    by (cases c) (auto simp: request_start_def request_finish_def updateStatus_def split: option.split prod.split Delivery.split)
  then show ?case using Cons client_no_offline by simp
qed simp

lemma offline_quiet: "\<not> an_healthy a \<Longrightarrow> no_offline a \<Longrightarrow> no_offline (setOffline e a) \<and> \<not> an_healthy (setOffline e a)"
  by (auto simp: setOffline_def no_offline_def Let_def split: option.split)

lemma prepare_events: "an_events (snd (prepare io a)) = an_events a" "an_healthy (snd (prepare io a)) = an_healthy a"
  by (auto simp: prepare_def Let_def split: option.split sum.split)

lemma connect_cases:
  "an_connect io a = (Some e, a') \<Longrightarrow> a' = a"
  "an_connect io a = (None, a') \<Longrightarrow> no_offline a \<Longrightarrow> no_offline a'"
  by (auto simp: an_connect_def Let_def no_offline_def an_emit_def offer_event_def
      split: option.splits sum.splits prod.splits if_splits)

lemma connected_quiet:
  assumes "no_offline (fst s)" "\<not> an_healthy (fst s)" "list_all silent_step (tu_session u)"
  shows "no_offline (fst (run_connected u s)) \<and> \<not> an_healthy (fst (run_connected u s))"
proof -
  obtain r a where c: "an_connect (tu_connect u) (fst s) = (r, a)" by fastforce
  show ?thesis
  proof (cases r)
    case None
    have "no_offline (fold session_step (tu_session u) a)"
      using connect_cases(2) c None assms(1,3) session_no_offline by blast
    then have "no_offline (closeControl (fold session_step (tu_session u) a))" by (simp add: closeControl_def no_offline_def)
    then show ?thesis
      using offline_quiet [of "closeControl (fold session_step (tu_session u) a)"] c None
      by (simp add: run_connected_def closeControl_def)
  next
    case (Some e)
    then have "a = fst s" using connect_cases(1) c by blast
    then show ?thesis using offline_quiet [of a "Some e"] idle_fold [of "setOffline (Some e) a"] assms(1,2) c Some
      by (simp add: run_connected_def)
  qed
qed

lemma turn_quiet:
  assumes "no_offline (fst s)" "\<not> an_healthy (fst s)" "list_all silent_step (tu_session u)"
  shows "no_offline (fst (run_turn u s)) \<and> \<not> an_healthy (fst (run_turn u s))"
proof -
  obtain r a where p: "prepare (tu_prepare u) (fst s) = (r, a)" by fastforce
  have a: "no_offline a" "\<not> an_healthy a"
    using prepare_events [of "tu_prepare u" "fst s"] p assms(1,2) by (auto simp: no_offline_def)
  show ?thesis
    using connected_quiet [OF assms] connected_quiet [of "(a, snd s)" u] offline_quiet [OF a(2,1)]
      idle_fold [of "setOffline e a" "tu_idle u" for e] a assms(3)
    by (cases r) (auto simp: run_turn_def p)
qed

lemma NewAndroid_quiet: "no_offline (NewAndroid cfg)" "\<not> an_healthy (NewAndroid cfg)"
  by (simp_all add: NewAndroid_def no_offline_def Let_def)

lemma start_quiet: "no_offline (A_Start io (NewAndroid cfg)) \<and> \<not> an_healthy (A_Start io (NewAndroid cfg))"
proof -
  obtain r a where p: "prepare io (NewAndroid cfg) = (r, a)" by fastforce
  then have "no_offline a" "\<not> an_healthy a"
    using prepare_events [of io "NewAndroid cfg"] NewAndroid_quiet by (auto simp: no_offline_def)
  then show ?thesis using offline_quiet [of a] p by (cases r) (auto simp: A_Start_def)
qed

text \<open>The driver never reports that it went offline. The loop closes the connection, which marks the gateway
  unhealthy, before it calls \<^verbatim>\<open>setOffline\<close>, which reports only a gateway that was healthy. So in no run of the
  loop, whatever fails and whatever the callers do, is an event \<^verbatim>\<open>device.offline\<close> queued, unless the phone itself
  sends one; the service keeps showing a lost phone as online.\<close>

theorem offline_never_reported:
  assumes "list_all (\<lambda>u. list_all silent_step (tu_session u)) us"
  shows "''device.offline'' \<notin> set (map me_Type (an_events (fst (A_run io us (NewAndroid cfg)))))"
proof -
  have "no_offline (fst (fold run_turn us s)) \<and> \<not> an_healthy (fst (fold run_turn us s))"
    if "no_offline (fst s)" "\<not> an_healthy (fst s)" for s
    using assms that
  proof (induction us arbitrary: s)
    case (Cons u us)
    then show ?case using turn_quiet [of s u] by simp
  qed simp
  from this [of "(A_Start io (NewAndroid cfg), second)"] show ?thesis
    using start_quiet [of io cfg] by (auto simp: A_run_def no_offline_def)
qed

text \<open>The pause between two attempts to connect is a second doubled at most five times: never less than one
  second and never more than thirty-two, in every run.\<close>

theorem retry_delay_bounded:
  "\<exists>k \<le> 5. snd (A_run io us a) = second * 2 ^ k"
proof -
  have conn: "\<exists>k' \<le> 5. snd (run_connected u s) = second * 2 ^ k'" if "k \<le> 5" "snd s = second * 2 ^ k" for u s and k :: nat
  proof (cases "k = 5")
    case True
    then have s: "\<not> snd s < 30 * second" "snd s = second * 2 ^ 5" using that by (simp_all add: second_def)
    obtain r a where "an_connect (tu_connect u) (fst s) = (r, a)" by fastforce
    then have "snd (run_connected u s) = second * 2 ^ 5 \<or> snd (run_connected u s) = second * 2 ^ 0"
      using s by (cases r) (simp_all add: run_connected_def)
    then show ?thesis by (metis le_refl zero_le)
  next
    case False
    then have "snd s * 2 = second * 2 ^ Suc k" "Suc k \<le> 5" using that by auto
    then show ?thesis using that(2)
      by (auto simp: run_connected_def split: prod.split option.split intro: exI [of _ "Suc k"] exI [of _ k] exI [of _ 0])
  qed
  have "\<exists>k' \<le> 5. snd (fold run_turn us s) = second * 2 ^ k'" if "k \<le> 5" "snd s = second * 2 ^ k" for s and k :: nat
    using that
  proof (induction us arbitrary: s k)
    case (Cons u us)
    obtain r a where p: "prepare (tu_prepare u) (fst s) = (r, a)" by fastforce
    have "\<exists>k' \<le> 5. snd (run_turn u s) = second * 2 ^ k'"
      using conn [OF Cons.prems, of u] conn [of k "(a, snd s)" u] Cons.prems p
      by (cases r) (auto simp: run_turn_def)
    then obtain k' where "k' \<le> 5" "snd (run_turn u s) = second * 2 ^ k'" by blast
    from Cons.IH [OF this] show ?case by simp
  qed auto
  from this [of 0] show ?thesis by (simp add: A_run_def)
qed

subsection \<open>Concrete runs\<close>

definition demo_phone :: Android where
  "demo_phone = NewAndroid \<lparr>ac_ADB = [], ac_ADBHome = ''/adb'', ac_ADBServerSocket = [], ac_Serial = [], ac_SubscriptionID = ''1'',
     ac_TokenPath = [], ac_ControlAddr = [], ac_AudioAddr = []\<rparr>"

definition demo_reply :: "(gerror option \<times> json option) list" where
  "demo_reply = [(None, None), (None, Some (marshal_wireMessage (zeroWire\<lparr>w_Type := ''response'', w_ID := ''1'', w_Error := ''BUSY''\<rparr>)))]"

definition demo_turn :: Turn where
  "demo_turn = \<lparr>tu_prepare = \<lparr>pi_mkdir = None, pi_token = Inl ''no token'', pi_exec = (\<lambda>_. ([], None))\<rparr>,
     tu_connect = \<lparr>co_exec = (\<lambda>args. (if args = [''get-state''] then ''device'' else [], None)), co_dial = None, co_rand = Inr [7],
       co_hmac = (\<lambda>_ _. [1]), co_write = None\<rparr>,
     tu_session = [SClient (CStart None ''answer'' JNull)], tu_err = ''EOF'', tu_idle = []\<rparr>"

lemma demo_connect: "\<exists>a. an_connect (tu_connect demo_turn) demo_phone = (None, a) \<and> an_healthy a \<and> an_conn a \<and> an_nextID a = 0"
proof -
  have ports: "SplitHostPort ''127.0.0.1:47100'' = Inr (''127.0.0.1'', ''47100'')" by code_simp
  have ports': "SplitHostPort ''127.0.0.1:47101'' = Inr (''127.0.0.1'', ''47101'')" by code_simp
  have state: "trim_space ''device'' = ''device''" by code_simp
  show ?thesis
    by (simp add: an_connect_def demo_turn_def demo_phone_def NewAndroid_def adb_def forward_def ports ports' state
        secureNonce_def an_emit_def Let_def)
qed

theorem request_gets_its_response_witness:
  "\<exists>a'. request None None (readLoop_lines demo_reply) ''answer'' JNull (demo_phone\<lparr>an_healthy := True, an_conn := True\<rparr>) =
     ((zeroWire\<lparr>w_Type := ''response'', w_ID := ''1'', w_Error := ''BUSY''\<rparr>, Some ''BUSY''), a') \<and> ''1'' \<notin> set (an_pending a')"
proof -
  let ?a = "demo_phone\<lparr>an_healthy := True, an_conn := True\<rparr>"
  obtain r a' where r: "request None None (readLoop_lines demo_reply) ''answer'' JNull ?a = (r, a')" by fastforce
  have one: "request_id (an_nextID ?a + 1) = ''1''"
    by (simp add: demo_phone_def NewAndroid_def request_id_def Let_def) code_simp
  have "first_response ''1'' demo_reply = Some (zeroWire\<lparr>w_Type := ''response'', w_ID := ''1'', w_Error := ''BUSY''\<rparr>)"
    by (simp add: demo_reply_def response_to_def)
  moreover have "Suc (length demo_reply) < 2 ^ 64" by (simp add: demo_reply_def)
  ultimately show ?thesis
    using request_gets_its_response [OF _ _ _ r, unfolded one] r by simp
qed

theorem status_changed_cannot_refresh_witness:
  "an_status (handleEvent None (zeroAndroidEvent\<lparr>ev_Event := ''status.changed''\<rparr>) (demo_phone\<lparr>an_healthy := True, an_conn := True\<rparr>))
     = an_status demo_phone"
  using status_changed_cannot_refresh [of "demo_phone\<lparr>an_healthy := True, an_conn := True\<rparr>"
      "zeroAndroidEvent\<lparr>ev_Event := ''status.changed''\<rparr>"] by (elim conjE meta_impE) simp_all

theorem lost_connection_releases_callers_witness:
  "\<exists>a'. run_connected demo_turn (demo_phone, second) = (a', second) \<and>
     request_finish None (request_id 1) a' = ((zeroWire, Some gateway_disconnected), a')"
proof -
  obtain a1 where a1: "an_connect (tu_connect demo_turn) demo_phone = (None, a1)" "an_healthy a1" "an_conn a1" "an_nextID a1 = 0"
    using demo_connect by blast
  obtain a' d where r: "run_connected demo_turn (demo_phone, second) = (a', d)" by fastforce
  have "request_id 1 \<in> set (an_pending (fold session_step (tu_session demo_turn) a1))"
    using a1 by (simp add: demo_turn_def request_start_def request_id_def Let_def)
  from lost_connection_releases_callers [OF a1(1) r this] show ?thesis using r by simp
qed

theorem offline_never_reported_witness:
  "''device.offline'' \<notin> set (map me_Type (an_events (fst (A_run (tu_prepare demo_turn) [demo_turn, demo_turn] (NewAndroid (an_cfg demo_phone))))))"
  by (rule offline_never_reported) (simp add: demo_turn_def)

end
