(* ===== verification/Modem_Multi.thy ===== *)
theory Modem_Multi
  imports Android
begin

text \<open>
  Several phones behind one controller (\<^verbatim>\<open>multiController\<close> in \<^verbatim>\<open>internal/modem/multi.go\<close>) and the controller used
  without hardware (\<^verbatim>\<open>mockController\<close> in \<^verbatim>\<open>internal/modem/mock.go\<close>). The map of phones is a table; Go visits it in
  an arbitrary order, here in the order of the table. What a gateway promises to the service when a route is
  selected is the interface \<open>routed\<close>.
\<close>

subsection \<open>Several phones\<close>

record Multi =
  mu_controllers :: "Android table"
  mu_events :: "MEvent list"
  mu_selected :: string

definition add_gateway :: "string \<times> AndroidConfig \<Rightarrow> Android table \<Rightarrow> Android table" where
  "add_gateway g t =
     (let i = (if fst g = [] then ac_Serial (snd g) else fst g) in
      if i = [] then t
      else (let c = NewAndroid (snd g) in tput i (c\<lparr>an_status := (an_status c)\<lparr>ms_GatewayID := i\<rparr>\<rparr>) t))"

definition NewMultiAndroid :: "(string \<times> AndroidConfig) list \<Rightarrow> Multi" where
  "NewMultiAndroid gs =
     (let t = fold add_gateway gs [] in
      \<lparr>mu_controllers = t, mu_events = [], mu_selected = (case t of [(i, c)] \<Rightarrow> i | _ \<Rightarrow> [])\<rparr>)"

definition Multi_Start :: "(string \<Rightarrow> PrepareIO) \<Rightarrow> Multi \<Rightarrow> Multi" where
  "Multi_Start io m = m\<lparr>mu_controllers := map (\<lambda>(i, c). (i, A_Start (io i) c)) (mu_controllers m)\<rparr>"

text \<open>The goroutine of one phone moves an event to the common channel when there is room.\<close>

definition fan_in :: "string \<Rightarrow> Multi \<Rightarrow> Multi" where
  "fan_in i m =
     (case tget (mu_controllers m) i of
        None \<Rightarrow> m
      | Some c \<Rightarrow>
          (case an_events c of
             [] \<Rightarrow> m
           | e # es \<Rightarrow>
               if length (mu_events m) < 256
               then m\<lparr>mu_controllers := tput i (c\<lparr>an_events := es\<rparr>) (mu_controllers m),
                      mu_events := mu_events m @ [e\<lparr>me_GatewayID := i\<rparr>]\<rparr>
               else m))"

definition Multi_Healthy :: "Multi \<Rightarrow> bool" where
  "Multi_Healthy m = list_ex (\<lambda>(_, c). an_healthy c) (mu_controllers m)"

definition current :: "Multi \<Rightarrow> string option" where
  "current m =
     (if tget (mu_controllers m) (mu_selected m) \<noteq> None then Some (mu_selected m)
      else (case filter (\<lambda>(_, c). an_healthy c) (mu_controllers m) of [(i, _)] \<Rightarrow> Some i | _ \<Rightarrow> None))"

definition Multi_AudioCapable :: "Multi \<Rightarrow> bool" where
  "Multi_AudioCapable m =
     (case current m of
        None \<Rightarrow> False
      | Some i \<Rightarrow> (case tget (mu_controllers m) i of None \<Rightarrow> False | Some c \<Rightarrow> an_audio c))"

definition gateway_not_found :: gerror where "gateway_not_found = ''GATEWAY_NOT_FOUND''"
definition selection_required :: gerror where "selection_required = ''GATEWAY_SELECTION_REQUIRED''"
definition subscription_required :: gerror where "subscription_required = ''SUBSCRIPTION_SELECTION_REQUIRED''"

definition resolve :: "Route \<Rightarrow> Multi \<Rightarrow> gerror + string" where
  "resolve route m =
     (if ro_GatewayID route \<noteq> [] then
        (case tget (mu_controllers m) (ro_GatewayID route) of
           None \<Rightarrow> Inl gateway_not_found
         | Some c \<Rightarrow> if an_healthy c then Inr (ro_GatewayID route) else Inl gateway_offline)
      else (case current m of None \<Rightarrow> Inl selection_required | Some i \<Rightarrow> Inr i))"

definition SelectRoute :: "Route \<Rightarrow> Multi \<Rightarrow> gerror option \<times> Multi" where
  "SelectRoute route m =
     (case resolve route m of Inl e \<Rightarrow> (Some e, m) | Inr i \<Rightarrow> (None, m\<lparr>mu_selected := i\<rparr>))"

definition routeSubscription :: "Route \<Rightarrow> string \<Rightarrow> string" where
  "routeSubscription route fallback = (if 0 < ro_SubscriptionID route then itoa (ro_SubscriptionID route) else fallback)"

text \<open>An operation of one phone, inside the controller.\<close>

definition on_phone :: "string \<Rightarrow> (Android \<Rightarrow> 'r \<times> Android) \<Rightarrow> 'r \<Rightarrow> Multi \<Rightarrow> 'r \<times> Multi" where
  "on_phone i f none m =
     (case tget (mu_controllers m) i of
        None \<Rightarrow> (none, m)
      | Some c \<Rightarrow> (case f c of (r, c) \<Rightarrow> (r, m\<lparr>mu_controllers := tput i c (mu_controllers m)\<rparr>)))"

text \<open>A phone with several subscriptions is asked which it has before one is used without being named.\<close>

definition needs_subscription :: "AReq \<Rightarrow> gtime \<Rightarrow> Route \<Rightarrow> string \<Rightarrow> Multi \<Rightarrow> bool \<times> Multi" where
  "needs_subscription q now route i m =
     (if ro_SubscriptionID route \<le> 0
      then (case on_phone i (A_Probe q now) zeroStatus m of (st, m) \<Rightarrow> (1 < length (ms_Subscriptions st), m))
      else (False, m))"

definition Multi_DialRoute :: "AReq \<Rightarrow> gtime \<Rightarrow> AReq \<Rightarrow> Route \<Rightarrow> string \<Rightarrow> Multi \<Rightarrow> gerror option \<times> Multi" where
  "Multi_DialRoute qp now q route number m =
     (case resolve route m of
        Inl e \<Rightarrow> (Some e, m)
      | Inr i \<Rightarrow>
          (case needs_subscription qp now route i m of
             (True, m) \<Rightarrow> (Some subscription_required, m)
           | (False, m) \<Rightarrow>
               on_phone i (\<lambda>c. dialSubscription q number (routeSubscription route (ac_SubscriptionID (an_cfg c))) c) None
                 (m\<lparr>mu_selected := i\<rparr>)))"

definition Multi_SendSMSRoute :: "AReq \<Rightarrow> gtime \<Rightarrow> AReq \<Rightarrow> Route \<Rightarrow> string \<Rightarrow> string \<Rightarrow> string \<Rightarrow> Multi \<Rightarrow> gerror option \<times> Multi" where
  "Multi_SendSMSRoute qp now q route clientID number body m =
     (case resolve route m of
        Inl e \<Rightarrow> (Some e, m)
      | Inr i \<Rightarrow>
          (case needs_subscription qp now route i m of
             (True, m) \<Rightarrow> (Some subscription_required, m)
           | (False, m) \<Rightarrow>
               on_phone i (\<lambda>c. sendSMSSubscription q clientID number body
                 (routeSubscription route (ac_SubscriptionID (an_cfg c))) c) None m))"

definition Multi_Dial :: "AReq \<Rightarrow> gtime \<Rightarrow> AReq \<Rightarrow> string \<Rightarrow> Multi \<Rightarrow> gerror option \<times> Multi" where
  "Multi_Dial qp now q number m = Multi_DialRoute qp now q zeroRoute number m"

definition Multi_SendSMS :: "AReq \<Rightarrow> gtime \<Rightarrow> AReq \<Rightarrow> string \<Rightarrow> string \<Rightarrow> string \<Rightarrow> Multi \<Rightarrow> gerror option \<times> Multi" where
  "Multi_SendSMS qp now q clientID number body m = Multi_SendSMSRoute qp now q zeroRoute clientID number body m"

definition on_current :: "(Android \<Rightarrow> gerror option \<times> Android) \<Rightarrow> Multi \<Rightarrow> gerror option \<times> Multi" where
  "on_current f m =
     (case current m of
        None \<Rightarrow> (Some selection_required, m)
      | Some i \<Rightarrow> on_phone i f (Some selection_required) m)"

definition Multi_Answer :: "AReq \<Rightarrow> Multi \<Rightarrow> gerror option \<times> Multi" where
  "Multi_Answer q m = on_current (A_Answer q) m"

definition Multi_Hangup :: "AReq \<Rightarrow> Multi \<Rightarrow> gerror option \<times> Multi" where
  "Multi_Hangup q m = on_current (A_Hangup q) m"

definition Multi_DTMF :: "AReq \<Rightarrow> string \<Rightarrow> Multi \<Rightarrow> gerror option \<times> Multi" where
  "Multi_DTMF q key m = on_current (A_DTMF q key) m"

definition Multi_DeleteSMS :: "AReq \<Rightarrow> int \<Rightarrow> Multi \<Rightarrow> gerror option \<times> Multi" where
  "Multi_DeleteSMS q i m = on_current (A_DeleteSMS q i) m"

definition Multi_SetMicMute :: "AReq \<Rightarrow> bool \<Rightarrow> Multi \<Rightarrow> gerror option \<times> Multi" where
  "Multi_SetMicMute q b m = on_current (A_SetMicMute q b) m"

definition Multi_EnableAudio :: "AReq \<Rightarrow> AReq \<Rightarrow> bool \<Rightarrow> Multi \<Rightarrow> gerror option \<times> Multi" where
  "Multi_EnableAudio q q' b m = on_current (A_EnableAudio q q' b) m"

definition probe_phone :: "(string \<Rightarrow> AReq) \<Rightarrow> gtime \<Rightarrow> string \<times> Android \<Rightarrow> Status \<times> (string \<times> Android)" where
  "probe_phone q now x = (case A_Probe (q (fst x)) now (snd x) of (st, c) \<Rightarrow> (st\<lparr>ms_GatewayID := fst x\<rparr>, (fst x, c)))"

definition Statuses :: "(string \<Rightarrow> AReq) \<Rightarrow> gtime \<Rightarrow> Multi \<Rightarrow> Status list \<times> Multi" where
  "Statuses q now m =
     (let ps = map (probe_phone q now) (mu_controllers m)
      in (sort_key ms_GatewayID (map fst ps), m\<lparr>mu_controllers := map snd ps\<rparr>))"

definition Multi_Probe :: "(string \<Rightarrow> AReq) \<Rightarrow> gtime \<Rightarrow> Multi \<Rightarrow> Status \<times> Multi" where
  "Multi_Probe q now m =
     (case Statuses q now m of
        ([], m) \<Rightarrow> (zeroStatus\<lparr>ms_Provider := ''android'', ms_Signal := -1, ms_SignalDBm := -1\<rparr>, m)
      | (s # ss, m) \<Rightarrow>
          (case find (\<lambda>st. ms_GatewayID st = mu_selected m) (s # ss) of Some st \<Rightarrow> (st, m) | None \<Rightarrow> (s, m)))"

subsection \<open>The controller without hardware\<close>

text \<open>
  \<open>mk_running\<close> holds what its goroutines still have to send, one list per goroutine; a send waits for room in the
  channel.
\<close>

record Mock =
  mk_events :: "MEvent list"
  mk_active :: bool
  mk_running :: "MEvent list list"

definition newMock :: Mock where
  "newMock = \<lparr>mk_events = [], mk_active = False, mk_running = []\<rparr>"

definition spawn :: "MEvent list \<Rightarrow> Mock \<Rightarrow> Mock" where
  "spawn es m = m\<lparr>mk_running := mk_running m @ [es]\<rparr>"

definition Mock_Start :: "Mock \<Rightarrow> Mock" where
  "Mock_Start m = spawn [zeroMEvent\<lparr>me_Type := ''device.online''\<rparr>] m"

definition Mock_Dial :: "string \<Rightarrow> Mock \<Rightarrow> gerror option \<times> Mock" where
  "Mock_Dial number m = (None, spawn [zeroMEvent\<lparr>me_Type := ''call.alerting'', me_Number := number\<rparr>,
     zeroMEvent\<lparr>me_Type := ''call.active'', me_Number := number\<rparr>] (m\<lparr>mk_active := True\<rparr>))"

definition Mock_Answer :: "Mock \<Rightarrow> gerror option \<times> Mock" where
  "Mock_Answer m = (None, spawn [zeroMEvent\<lparr>me_Type := ''call.active''\<rparr>] (m\<lparr>mk_active := True\<rparr>))"

definition Mock_Hangup :: "Mock \<Rightarrow> gerror option \<times> Mock" where
  "Mock_Hangup m = (None, spawn [zeroMEvent\<lparr>me_Type := ''call.ended'', me_Reason := ''local_hangup''\<rparr>] (m\<lparr>mk_active := False\<rparr>))"

definition Mock_Probe :: "gtime \<Rightarrow> Status" where
  "Mock_Probe now = zeroStatus
     \<lparr>ms_Provider := ''mock'', ms_Transport := ''memory'', ms_SIMReady := True, ms_Registered := True, ms_VoiceReady := True,
      ms_Operator := ''Mock Telecom'', ms_AccessTech := ''LTE'', ms_Signal := 24, ms_SignalDBm := -65,
      ms_PhoneNumber := ''+8613800138000'', ms_ICCID := ''89860000000000000000'', ms_IMSI := ''460000000000000'',
      ms_Manufacturer := ''SIMCOM'', ms_Model := ''SIM7600'', ms_IMEI := ''860000000000000'', ms_Firmware := ''MOCK_FIRMWARE'',
      ms_SubVersion := ''MOCK_B01V01'', ms_QCN := ''MOCK_QCN'', ms_VoLTEControl := True, ms_LastCheckedAt := now\<rparr>"

definition InjectCall :: "string \<Rightarrow> Mock \<Rightarrow> Mock" where
  "InjectCall number m = spawn [zeroMEvent\<lparr>me_Type := ''call.incoming'', me_Number := number\<rparr>] m"

definition InjectSMS :: "string \<Rightarrow> string \<Rightarrow> Mock \<Rightarrow> Mock" where
  "InjectSMS number body m =
     spawn [zeroMEvent\<lparr>me_Type := ''sms.received'', me_Number := number, me_Body := body, me_ModemIndex := 1\<rparr>] m"

definition mock_send :: "nat \<Rightarrow> Mock \<Rightarrow> Mock" where
  "mock_send k m =
     (if k < length (mk_running m) \<and> length (mk_events m) < 128 then
        (case mk_running m ! k of
           [] \<Rightarrow> m
         | e # es \<Rightarrow> m\<lparr>mk_events := mk_events m @ [e], mk_running := (mk_running m)[k := es]\<rparr>)
      else m)"

subsection \<open>The contract of a selected route\<close>

text \<open>
  The service selects the gateway of a call before it answers, mutes or ends it. The interface says what it relies
  on: the selection names the target, and a command changes the target only.
\<close>

locale routed =
  fixes select :: "Route \<Rightarrow> 's \<Rightarrow> gerror option \<times> 's" and phone :: "'s \<Rightarrow> string \<Rightarrow> 'p option"
    and target :: "'s \<Rightarrow> string option" and act :: "('p \<Rightarrow> gerror option \<times> 'p) \<Rightarrow> 's \<Rightarrow> gerror option \<times> 's"
  assumes select_target: "select r s = (None, s') \<Longrightarrow> ro_GatewayID r \<noteq> [] \<Longrightarrow> target s' = Some (ro_GatewayID r)"
    and select_phone: "select r s = (e, s') \<Longrightarrow> phone s' = phone s"
    and target_phone: "target s = Some i \<Longrightarrow> \<exists>p. phone s i = Some p"
    and act_target: "target s = Some i \<Longrightarrow> phone s i = Some p \<Longrightarrow> phone (snd (act f s)) = (phone s)(i \<mapsto> snd (f p))"
    and act_result: "target s = Some i \<Longrightarrow> phone s i = Some p \<Longrightarrow> fst (act f s) = fst (f p)"
    and act_keeps: "target s = Some i \<Longrightarrow> phone s i = Some p \<Longrightarrow> \<exists>q. phone (snd (act f s)) i = Some q \<and> target (snd (act f s)) = Some i"
begin

lemma commands_reach_target:
  assumes "target s = Some i" "phone s i = Some p"
  shows "phone (fold (\<lambda>f s. snd (act f s)) fs s) = (phone s)(i \<mapsto> fold (\<lambda>f p. snd (f p)) fs p)"
  using assms
proof (induction fs arbitrary: s p)
  case (Cons f fs)
  obtain q where "phone (snd (act f s)) i = Some q" "target (snd (act f s)) = Some i"
    using act_keeps [OF Cons.prems] by blast
  then show ?case using Cons.IH [of "snd (act f s)"] act_target [OF Cons.prems, of f] by (auto simp: fun_eq_iff)
qed auto

end

definition selected_phone :: "Multi \<Rightarrow> string option" where
  "selected_phone m = (if tget (mu_controllers m) (mu_selected m) \<noteq> None then Some (mu_selected m) else None)"

lemma on_current_selected:
  assumes "selected_phone m = Some i" "tget (mu_controllers m) i = Some c"
  shows "on_current f m = (fst (f c), m\<lparr>mu_controllers := tput i (snd (f c)) (mu_controllers m)\<rparr>)"
  using assms by (auto simp: on_current_def current_def selected_phone_def on_phone_def split: prod.split if_splits)

interpretation gateways: routed SelectRoute "\<lambda>m :: Multi. tget (mu_controllers m)" selected_phone on_current
proof
  fix r :: Route and s s' :: Multi assume "SelectRoute r s = (None, s')" "ro_GatewayID r \<noteq> []"
  then show "selected_phone s' = Some (ro_GatewayID r)"
    by (auto simp: SelectRoute_def resolve_def selected_phone_def split: option.splits if_splits)
next
  fix r :: Route and s s' :: Multi and e assume "SelectRoute r s = (e, s')"
  then show "tget (mu_controllers s') = tget (mu_controllers s)" by (auto simp: SelectRoute_def split: sum.splits)
next
  fix s :: Multi and i assume "selected_phone s = Some i"
  then show "\<exists>p. tget (mu_controllers s) i = Some p" by (auto simp: selected_phone_def split: if_splits)
next
  fix s :: Multi and i p f assume a: "selected_phone s = Some i" "tget (mu_controllers s) i = Some p"
  then show "tget (mu_controllers (snd (on_current f s))) = (tget (mu_controllers s))(i \<mapsto> snd (f p))"
    by (auto simp: on_current_selected)
  show "fst (on_current f s) = fst (f p)" using a by (simp add: on_current_selected)
  show "\<exists>q. tget (mu_controllers (snd (on_current f s))) i = Some q \<and> selected_phone (snd (on_current f s)) = Some i"
    using a by (auto simp: on_current_selected selected_phone_def split: if_splits)
qed

subsection \<open>Properties\<close>

datatype CallCmd = CAnswer AReq | CHangup AReq | CDTMF AReq string | CMute AReq bool | CAudio AReq AReq bool

fun multi_cmd :: "CallCmd \<Rightarrow> Multi \<Rightarrow> gerror option \<times> Multi" where
  "multi_cmd (CAnswer q) m = Multi_Answer q m"
| "multi_cmd (CHangup q) m = Multi_Hangup q m"
| "multi_cmd (CDTMF q key) m = Multi_DTMF q key m"
| "multi_cmd (CMute q b) m = Multi_SetMicMute q b m"
| "multi_cmd (CAudio q q' b) m = Multi_EnableAudio q q' b m"

fun phone_cmd :: "CallCmd \<Rightarrow> Android \<Rightarrow> gerror option \<times> Android" where
  "phone_cmd (CAnswer q) = A_Answer q"
| "phone_cmd (CHangup q) = A_Hangup q"
| "phone_cmd (CDTMF q key) = A_DTMF q key"
| "phone_cmd (CMute q b) = A_SetMicMute q b"
| "phone_cmd (CAudio q q' b) = A_EnableAudio q q' b"

lemma multi_cmd_current: "multi_cmd x m = on_current (phone_cmd x) m"
  by (cases x) (simp_all add: Multi_Answer_def Multi_Hangup_def Multi_DTMF_def Multi_SetMicMute_def Multi_EnableAudio_def)

text \<open>C14: Once a gateway is selected by name, every command of a call, however many follow, is carried out by that
  phone, in order, and no other phone is touched. A selection that fails leaves everything as it was.\<close>

theorem selected_gateway_gets_commands:
  assumes "SelectRoute route m = (err, m')" "ro_GatewayID route = g" "g \<noteq> []"
  shows "case err of
      Some e \<Rightarrow> m' = m
    | None \<Rightarrow> (\<exists>c. tget (mu_controllers m) g = Some c \<and> an_healthy c \<and>
        tget (mu_controllers (fold (\<lambda>x m. snd (multi_cmd x m)) xs m')) =
          (tget (mu_controllers m))(g \<mapsto> fold (\<lambda>x c. snd (phone_cmd x c)) xs c))"
proof (cases err)
  case None
  then obtain c where c: "tget (mu_controllers m) g = Some c" "an_healthy c"
    using assms by (auto simp: SelectRoute_def resolve_def split: option.splits if_splits)
  have sel: "selected_phone m' = Some g" using gateways.select_target assms None by blast
  have same: "tget (mu_controllers m') = tget (mu_controllers m)" using gateways.select_phone assms(1) by blast
  have "fold (\<lambda>x m. snd (multi_cmd x m)) xs m' = fold (\<lambda>f m. snd (on_current f m)) (map phone_cmd xs) m'"
    by (simp add: fold_map comp_def multi_cmd_current)
  moreover have "fold (\<lambda>x c. snd (phone_cmd x c)) xs c = fold (\<lambda>f c. snd (f c)) (map phone_cmd xs) c"
    by (simp add: fold_map comp_def)
  ultimately show ?thesis
    using None c gateways.commands_reach_target [OF sel, of c "map phone_cmd xs"] same by simp
qed (use assms(1) in \<open>auto simp: SelectRoute_def split: sum.splits\<close>)

text \<open>Sending a message does not disturb a call: it goes to the gateway of its route without changing the
  selected one, and touches no other phone; it is refused when no gateway is named and none is determined, and
  when the phone has several subscriptions and none is named.\<close>

theorem sms_keeps_selection:
  assumes "Multi_SendSMSRoute qp now q route clientID number body m = (err, m')"
  shows "mu_selected m' = mu_selected m \<and>
    (case resolve route m of
       Inl e \<Rightarrow> err = Some e \<and> m' = m
     | Inr i \<Rightarrow> (\<forall>j. j \<noteq> i \<longrightarrow> tget (mu_controllers m') j = tget (mu_controllers m) j) \<and>
         (ro_SubscriptionID route \<le> 0 \<and> (\<exists>c. tget (mu_controllers m) i = Some c \<and>
            1 < length (ms_Subscriptions (fst (A_Probe qp now c)))) \<longrightarrow> err = Some subscription_required))"
  using assms
  by (auto simp: Multi_SendSMSRoute_def needs_subscription_def on_phone_def split: sum.splits option.splits prod.splits if_splits bool.splits)

text \<open>The status list is the same whatever order the map of phones is visited in: it holds one entry per
  phone, in increasing order of the gateway identifiers.\<close>

theorem statuses_independent_of_map_order:
  assumes "wf_table (mu_controllers m)" "mset (mu_controllers m) = mset (mu_controllers m2)"
  shows "fst (Statuses q now m) = fst (Statuses q now m2) \<and>
    map ms_GatewayID (fst (Statuses q now m)) = sort (map fst (mu_controllers m))"
proof -
  let ?l = "\<lambda>m. map (fst \<circ> probe_phone q now) (mu_controllers m)"
  have ids: "map ms_GatewayID (?l x) = map fst (mu_controllers x)" for x
    by (auto simp: probe_phone_def split: prod.split)
  have "distinct (map ms_GatewayID (?l m))" using assms(1) unfolding ids wf_table_def .
  then have "inj_on ms_GatewayID (set (?l m))" by (simp only: distinct_map)
  moreover have "mset (?l m) = mset (sort_key ms_GatewayID (?l m2))" using assms(2) by (simp add: mset_map)
  ultimately have same: "sort_key ms_GatewayID (?l m) = sort_key ms_GatewayID (?l m2)" by (intro sort_key_inj_key_eq) simp_all
  have "sort (map ms_GatewayID (?l m)) = map ms_GatewayID (sort_key ms_GatewayID (?l m))"
    by (rule properties_for_sort) (simp_all add: multiset.map_comp)
  then have "map ms_GatewayID (sort_key ms_GatewayID (?l m)) = sort (map fst (mu_controllers m))" by (simp only: ids)
  then show ?thesis using same by (simp add: Statuses_def Let_def)
qed

definition demo_cfg :: AndroidConfig where
  "demo_cfg = \<lparr>ac_ADB = [], ac_ADBHome = [], ac_ADBServerSocket = [], ac_Serial = [], ac_SubscriptionID = [], ac_TokenPath = [],
     ac_ControlAddr = [], ac_AudioAddr = []\<rparr>"

definition demo_multi :: Multi where
  "demo_multi = \<lparr>mu_controllers = [(''b'', (NewAndroid demo_cfg)\<lparr>an_healthy := True, an_conn := True\<rparr>), (''a'', NewAndroid demo_cfg)],
     mu_events = [], mu_selected = ''a''\<rparr>"

definition demo_req :: AReq where
  "demo_req = \<lparr>rq_write = None, rq_done = None, rq_between = (\<lambda>a. a)\<rparr>"

theorem selected_gateway_gets_commands_witness:
  "\<exists>m' c. SelectRoute \<lparr>ro_GatewayID = ''b'', ro_SubscriptionID = 0\<rparr> demo_multi = (None, m') \<and>
     tget (mu_controllers demo_multi) ''b'' = Some c \<and>
     tget (mu_controllers (fold (\<lambda>x m. snd (multi_cmd x m)) [CAnswer demo_req, CHangup demo_req] m')) =
       (tget (mu_controllers demo_multi))(''b'' \<mapsto> snd (A_Hangup demo_req (snd (A_Answer demo_req c))))"
proof -
  let ?r = "\<lparr>ro_GatewayID = ''b'', ro_SubscriptionID = 0\<rparr>"
  obtain m' where s: "SelectRoute ?r demo_multi = (None, m')"
    by (simp add: SelectRoute_def resolve_def demo_multi_def)
  from selected_gateway_gets_commands [OF s, of "''b''" "[CAnswer demo_req, CHangup demo_req]"] show ?thesis
    using s by (auto simp: comp_def)
qed

theorem sms_keeps_selection_witness:
  "mu_selected (snd (Multi_SendSMSRoute demo_req 0 demo_req \<lparr>ro_GatewayID = ''b'', ro_SubscriptionID = 1\<rparr> ''id'' ''10086'' ''hi'' demo_multi)) = ''a''"
proof -
  obtain err m' where "Multi_SendSMSRoute demo_req 0 demo_req \<lparr>ro_GatewayID = ''b'', ro_SubscriptionID = 1\<rparr> ''id'' ''10086'' ''hi'' demo_multi = (err, m')"
    by fastforce
  from sms_keeps_selection [OF this] this show ?thesis by (simp add: demo_multi_def)
qed

theorem statuses_independent_of_map_order_witness:
  "map ms_GatewayID (fst (Statuses (\<lambda>_. demo_req) 0 demo_multi)) = sort [''b'', ''a''] \<and>
   fst (Statuses (\<lambda>_. demo_req) 0 demo_multi) =
     fst (Statuses (\<lambda>_. demo_req) 0 (demo_multi\<lparr>mu_controllers := rev (mu_controllers demo_multi)\<rparr>))"
proof -
  let ?m = "demo_multi\<lparr>mu_controllers := rev (mu_controllers demo_multi)\<rparr>"
  have "wf_table (mu_controllers demo_multi)" by (simp add: demo_multi_def wf_table_def)
  moreover have "mset (mu_controllers demo_multi) = mset (mu_controllers ?m)" by simp
  ultimately have "fst (Statuses (\<lambda>_. demo_req) 0 demo_multi) = fst (Statuses (\<lambda>_. demo_req) 0 ?m) \<and>
      map ms_GatewayID (fst (Statuses (\<lambda>_. demo_req) 0 demo_multi)) = sort (map fst (mu_controllers demo_multi))"
    by (rule statuses_independent_of_map_order)
  moreover have "map fst (mu_controllers demo_multi) = [''b'', ''a'']" by (simp add: demo_multi_def)
  ultimately show ?thesis by metis
qed

end
