(* ===== verification/Store_Log.thy ===== *)
theory Store_Log
  imports Store_Secrets
begin

text \<open>
  The event log and the state that is computed from it (\<^verbatim>\<open>internal/store/store.go\<close>: the table
  \<^verbatim>\<open>events\<close>, \<^verbatim>\<open>apply\<close>, \<^verbatim>\<open>rebuildConversation\<close>, \<^verbatim>\<open>replay\<close>). SQLite is modelled by what the store uses of it:
  rows with an increasing sequence number and a unique index over entity and version. An event
  payload is encoded to JSON before it is stored and applied.
\<close>

subsection \<open>Events\<close>

text \<open>
  The payloads the store publishes. \<open>PStored\<close> is the anonymous struct that carries a recording with
  its storage path; \<open>PRecording\<close> is the plain struct, which is encoded without the path.
\<close>

datatype Payload =
    PDevice DeviceStatus
  | PCall Call
  | PMessage Message
  | PRule FilterRule
  | PStored Recording
  | PRecording Recording
  | PSettings Settings
  | PIdent string

definition drop_key :: "string \<Rightarrow> json \<Rightarrow> json" where
  "drop_key k j = (case j of JObj fs \<Rightarrow> JObj (filter (\<lambda>p. fst p \<noteq> k) fs) | _ \<Rightarrow> j)"

fun marshal_payload :: "Payload \<Rightarrow> json" where
  "marshal_payload (PDevice v) = marshal_DeviceStatus v"
| "marshal_payload (PCall v) = marshal_Call v"
| "marshal_payload (PMessage v) = marshal_Message v"
| "marshal_payload (PRule v) = marshal_FilterRule v"
| "marshal_payload (PStored v) = marshal_Recording v"
| "marshal_payload (PRecording v) = drop_key ''storagePath'' (marshal_Recording v)"
| "marshal_payload (PSettings v) = marshal_Settings v"
| "marshal_payload (PIdent i) = JObj [(''id'', JStr i)]"

record Event =
  ev_Sequence :: int
  ev_Type :: string
  ev_EntityID :: string
  ev_Version :: int
  ev_Timestamp :: gtime
  ev_Payload :: "Payload option"
  ev_Raw :: "json option"

text \<open>\<^verbatim>\<open>json.Marshal\<close> of an event, as a subscriber's connection sends it: \<^verbatim>\<open>Raw\<close> has the tag \<^verbatim>\<open>-\<close>.\<close>

definition marshal_Event :: "Event \<Rightarrow> json" where
  "marshal_Event e = JObj
     [(''sequence'', jint (ev_Sequence e)),
      (''type'', JStr (ev_Type e)),
      (''entityId'', JStr (ev_EntityID e)),
      (''version'', jint (ev_Version e)),
      (''timestamp'', JTime (ev_Timestamp e)),
      (''payload'', case ev_Payload e of Some p \<Rightarrow> marshal_payload p | None \<Rightarrow> JNull)]"

subsection \<open>The table of events\<close>

record Row =
  row_Sequence :: int
  row_Type :: string
  row_Entity :: string
  row_Version :: int
  row_Created :: gtime
  row_Payload :: json

text \<open>\<open>db_last\<close> is the counter of the \<^verbatim>\<open>AUTOINCREMENT\<close> column.\<close>

record DB =
  db_rows :: "Row list"
  db_last :: int

definition unique_error :: gerror where
  "unique_error = ''UNIQUE constraint failed: events.entity_id, events.version''"

definition emptyDB :: DB where
  "emptyDB = \<lparr>db_rows = [], db_last = 0\<rparr>"

text \<open>
  \<^verbatim>\<open>INSERT INTO events(...)\<close>: \<open>fault\<close> is an error of the database itself. A rejected insert leaves
  the table and its counter as they are.
\<close>

definition insert_event ::
  "gerror option \<Rightarrow> string \<Rightarrow> string \<Rightarrow> int \<Rightarrow> gtime \<Rightarrow> json \<Rightarrow> DB \<Rightarrow> (gerror + int) \<times> DB" where
  "insert_event fault typ ent ver now raw db =
     (case fault of
        Some e \<Rightarrow> (Inl e, db)
      | None \<Rightarrow>
          if list_ex (\<lambda>r. row_Entity r = ent \<and> row_Version r = ver) (db_rows db) then (Inl unique_error, db)
          else (Inr (db_last db + 1),
                \<lparr>db_rows = db_rows db @ [\<lparr>row_Sequence = db_last db + 1, row_Type = typ, row_Entity = ent,
                   row_Version = ver, row_Created = now, row_Payload = raw\<rparr>],
                 db_last = db_last db + 1\<rparr>))"

subsection \<open>The state in memory\<close>

record Mem =
  mem_sequence :: int
  mem_device :: DeviceStatus
  mem_activeCallID :: string
  mem_calls :: "Call table"
  mem_messages :: "Message table"
  mem_conversations :: "Conversation table"
  mem_rules :: "FilterRule table"
  mem_recordings :: "Recording table"
  mem_settings :: Settings

definition defaultSettings :: Settings where
  "defaultSettings = zeroSettings
     \<lparr>st_SMS := True, st_Calls := True, st_Country := ''CN'',
      st_AutoBlock := [''fraud'', ''insurance''], st_VoicemailTimeout := 30\<rparr>"

definition initMem :: "gtime \<Rightarrow> Mem" where
  "initMem now = \<lparr>mem_sequence = 0,
     mem_device = zeroDevice\<lparr>d_Mode := ''starting'', d_Signal := -1, d_SignalDBm := -1, d_LastCheckedAt := now\<rparr>,
     mem_activeCallID = [], mem_calls = [], mem_messages = [], mem_conversations = [],
     mem_rules = [], mem_recordings = [], mem_settings = defaultSettings\<rparr>"

definition live_state :: "CallState \<Rightarrow> bool" where
  "live_state st \<longleftrightarrow> st = CallIncoming \<or> st = CallDialing \<or> st = CallAlerting \<or> st = CallActive \<or> st = CallEnding"

subsection \<open>Conversations\<close>

text \<open>
  \<^verbatim>\<open>rebuildConversation\<close> runs over the messages in the order of the map, which Go leaves open; the model
  uses the order of the table. The two can differ when two latest messages of a number have the same
  time: then either of them gives the text and the filter mark. The theory \<^verbatim>\<open>Store_Messages\<close> states what
  holds in every order.
\<close>

definition conv_step :: "string \<Rightarrow> Conversation \<Rightarrow> Message \<Rightarrow> Conversation" where
  "conv_step number c m =
     (if m_Number m \<noteq> number \<or> m_Deleted m then c
      else
        let c = (if cv_LastAt c < m_CreatedAt m
                 then c\<lparr>cv_LastAt := m_CreatedAt m, cv_LastBody := m_Body m, cv_Filtered := m_Filtered m\<rparr>
                 else c)
        in if m_Unread m then c\<lparr>cv_Unread := cv_Unread c + 1\<rparr> else c)"

definition build_conv :: "string \<Rightarrow> Message list \<Rightarrow> Conversation" where
  "build_conv number ms = foldl (conv_step number)
     \<lparr>cv_ID = number, cv_Number = number, cv_DisplayName = [], cv_LastBody = [], cv_LastAt = zeroTime,
      cv_Unread = 0, cv_Filtered = False\<rparr> ms"

definition rebuildConversation :: "string \<Rightarrow> Mem \<Rightarrow> Mem" where
  "rebuildConversation number s =
     s\<lparr>mem_conversations := tput number (build_conv number (tvals (mem_messages s))) (mem_conversations s)\<rparr>"

subsection \<open>Applying an event\<close>

definition unknown_type :: gerror where
  "unknown_type = ''unknown event type''"

definition event_raw :: "Event \<Rightarrow> json" where
  "event_raw e =
     (case ev_Raw e of
        Some j \<Rightarrow> j
      | None \<Rightarrow> (case ev_Payload e of Some p \<Rightarrow> marshal_payload p | None \<Rightarrow> JNull))"

definition put_call :: "Call \<Rightarrow> Mem \<Rightarrow> Mem" where
  "put_call v s =
     (let s = s\<lparr>mem_calls := tput (c_ID v) v (mem_calls s)\<rparr>
      in if live_state (c_State v) then s\<lparr>mem_activeCallID := c_ID v\<rparr>
         else if mem_activeCallID s = c_ID v then s\<lparr>mem_activeCallID := []\<rparr>
         else s)"

definition put_message :: "Message \<Rightarrow> Mem \<Rightarrow> Mem" where
  "put_message v s = rebuildConversation (m_Number v) (s\<lparr>mem_messages := tput (m_ID v) v (mem_messages s)\<rparr>)"

definition on_decoded :: "'v \<times> gerror option \<Rightarrow> ('v \<Rightarrow> Mem \<Rightarrow> Mem) \<Rightarrow> Mem \<Rightarrow> Mem \<times> gerror option" where
  "on_decoded r f s = (case r of (v, Some e) \<Rightarrow> (s, Some e) | (v, None) \<Rightarrow> (f v s, None))"

definition apply_event :: "Event \<Rightarrow> Mem \<Rightarrow> Mem \<times> gerror option" where
  "apply_event e s =
     (let raw = event_raw e; t = ev_Type e in
      if t = ''device.updated'' then
        (let (d, err) = unmarshal_DeviceStatus raw (mem_device s) in (s\<lparr>mem_device := d\<rparr>, err))
      else if t = ''call.upserted'' then on_decoded (unmarshal_Call raw zeroCall) put_call s
      else if t = ''message.upserted'' then on_decoded (unmarshal_Message raw zeroMessage) put_message s
      else if t = ''rule.upserted'' then
        on_decoded (unmarshal_FilterRule raw zeroRule) (\<lambda>v s. s\<lparr>mem_rules := tput (r_ID v) v (mem_rules s)\<rparr>) s
      else if t = ''rule.deleted'' then (s\<lparr>mem_rules := tdel (ev_EntityID e) (mem_rules s)\<rparr>, None)
      else if t = ''recording.upserted'' then
        on_decoded (unmarshal_Recording raw zeroRecording)
          (\<lambda>v s. s\<lparr>mem_recordings := tput (rec_ID v) v (mem_recordings s)\<rparr>) s
      else if t = ''recording.deleted'' then (s\<lparr>mem_recordings := tdel (ev_EntityID e) (mem_recordings s)\<rparr>, None)
      else if t = ''settings.updated'' then
        (let (v, err) = unmarshal_Settings raw (mem_settings s) in (s\<lparr>mem_settings := v\<rparr>, err))
      else (s, Some unknown_type))"

subsection \<open>Replaying the log\<close>

definition decrypt_error :: "gerror \<Rightarrow> gerror" where
  "decrypt_error e = ''decrypt settings: '' @ e"

definition replay_error :: "int \<Rightarrow> gerror \<Rightarrow> gerror" where
  "replay_error n e = ''replay event '' @ itoa n @ '': '' @ e"

definition row_event :: "Row \<Rightarrow> json \<Rightarrow> Event" where
  "row_event r raw = \<lparr>ev_Sequence = row_Sequence r, ev_Type = row_Type r, ev_EntityID = row_Entity r,
     ev_Version = row_Version r, ev_Timestamp = row_Created r, ev_Payload = None, ev_Raw = Some raw\<rparr>"

definition replay_row :: "aead \<Rightarrow> Row \<Rightarrow> Mem \<Rightarrow> Mem \<times> gerror option" where
  "replay_row a r s =
     (case (if row_Type r = ''settings.updated'' then decryptSettings a (row_Payload r) else Inr (row_Payload r)) of
        Inl e \<Rightarrow> (s, Some (decrypt_error e))
      | Inr raw \<Rightarrow>
          (case apply_event (row_event r raw) s of
             (s', Some e) \<Rightarrow> (s', Some (replay_error (row_Sequence r) e))
           | (s', None) \<Rightarrow> (s'\<lparr>mem_sequence := row_Sequence r\<rparr>, None)))"

fun replay :: "aead \<Rightarrow> Row list \<Rightarrow> Mem \<Rightarrow> Mem \<times> gerror option" where
  "replay a [] s = (s, None)"
| "replay a (r # rs) s =
     (case replay_row a r s of (s', Some e) \<Rightarrow> (s', Some e) | (s', None) \<Rightarrow> replay a rs s')"

lemma replay_append:
  "replay a (rs @ rs') s =
     (case replay a rs s of (s', Some e) \<Rightarrow> (s', Some e) | (s', None) \<Rightarrow> replay a rs' s')"
  by (induction rs arbitrary: s) (auto split: prod.splits option.splits)

end
