(* ===== verification/Store.thy ===== *)
theory Store
  imports Store_Log
begin

text \<open>
  The store (\<^verbatim>\<open>internal/store/store.go\<close>, type \<^verbatim>\<open>State\<close>): every write appends an event to the log,
  applies it to the state in memory and offers it to the subscribers. All operations run under the
  store's mutex, so each is one function from state to state. What an operation reads from outside
  (the clock, random nonces, failures of the database calls) is its \<open>Env\<close> argument; \<open>env_fault i\<close>
  is the failure of the i-th database call of the operation.
\<close>

record Env =
  env_now :: gtime
  env_nonce :: "nat \<Rightarrow> string"
  env_fault :: "nat \<Rightarrow> gerror option"

text \<open>
  A subscriber is a channel with a buffer of 64 events; \<open>s_next\<close> numbers the channels made so far.
\<close>

record State =
  s_db :: DB
  s_mem :: Mem
  s_subs :: "(nat \<times> Event list) list"
  s_next :: nat
  s_secrets :: aead

definition chan_cap :: nat where
  "chan_cap = 64"

definition wrap64 :: "int \<Rightarrow> int" where
  "wrap64 i = signed_take_bit 63 i"

text \<open>\<^verbatim>\<open>Time.UnixNano\<close>, a 64-bit number.\<close>

definition UnixNano :: "gtime \<Rightarrow> int" where
  "UnixNano t = wrap64 t"

subsection \<open>Appending an event\<close>

definition offer :: "Event \<Rightarrow> nat \<times> Event list \<Rightarrow> nat \<times> Event list" where
  "offer e sub = (fst sub, if length (snd sub) < chan_cap then snd sub @ [e] else snd sub)"

definition publish :: "Event \<Rightarrow> State \<Rightarrow> State" where
  "publish e s = s\<lparr>s_subs := map (offer e) (s_subs s)\<rparr>"

definition hide_secrets :: "Settings \<Rightarrow> Settings" where
  "hide_secrets v = v\<lparr>st_TelegramToken := [], st_ProviderAPIKey := [], st_SIPPassword := []\<rparr>"

text \<open>The payload that leaves the store: without the secrets, without the storage path.\<close>

definition safe_payload :: "string \<Rightarrow> string \<Rightarrow> Payload \<Rightarrow> Mem \<Rightarrow> Payload" where
  "safe_payload typ ent payload m =
     (if typ = ''settings.updated'' then PSettings (hide_secrets (mem_settings m))
      else if typ = ''recording.upserted'' then
        (case tget (mem_recordings m) ent of
           Some r \<Rightarrow> PRecording (r\<lparr>rec_Path := []\<rparr>)
         | None \<Rightarrow> payload)
      else payload)"

definition appendLocked ::
  "Env \<Rightarrow> string \<Rightarrow> string \<Rightarrow> int \<Rightarrow> Payload \<Rightarrow> State \<Rightarrow> (gerror + Event) \<times> State" where
  "appendLocked env typ ent ver payload s =
     (let raw = marshal_payload payload in
      case (if typ = ''settings.updated'' then encryptSettings (s_secrets s) (env_nonce env) raw else Inr raw) of
        Inl e \<Rightarrow> (Inl e, s)
      | Inr storedRaw \<Rightarrow>
          (case insert_event (env_fault env 0) typ ent ver (env_now env) storedRaw (s_db s) of
             (Inl e, _) \<Rightarrow> (Inl e, s)
           | (Inr seq, db) \<Rightarrow>
               (let e = \<lparr>ev_Sequence = seq, ev_Type = typ, ev_EntityID = ent, ev_Version = ver,
                         ev_Timestamp = env_now env, ev_Payload = Some payload, ev_Raw = Some raw\<rparr> in
                case apply_event e (s_mem s) of
                  (m, Some err) \<Rightarrow> (Inl err, s\<lparr>s_db := db, s_mem := m\<rparr>)
                | (m, None) \<Rightarrow>
                    (let m = m\<lparr>mem_sequence := seq\<rparr>;
                         e = e\<lparr>ev_Payload := Some (safe_payload typ ent payload m)\<rparr>
                     in (Inr e, publish e (s\<lparr>s_db := db, s_mem := m\<rparr>))))))"

subsection \<open>Reading\<close>

definition lookup_active :: "Mem \<Rightarrow> Call option" where
  "lookup_active m = tget (mem_calls m) (mem_activeCallID m)"

definition ActiveCall :: "State \<Rightarrow> Call option" where
  "ActiveCall s = lookup_active (s_mem s)"

definition get_Call :: "State \<Rightarrow> string \<Rightarrow> Call option" where
  "get_Call s i = tget (mem_calls (s_mem s)) i"

definition get_Message :: "State \<Rightarrow> string \<Rightarrow> Message option" where
  "get_Message s i = tget (mem_messages (s_mem s)) i"

definition get_Recording :: "State \<Rightarrow> string \<Rightarrow> Recording option" where
  "get_Recording s i = tget (mem_recordings (s_mem s)) i"

definition get_Rules :: "State \<Rightarrow> FilterRule list" where
  "get_Rules s = tvals (mem_rules (s_mem s))"

definition default_timeout :: "Settings \<Rightarrow> Settings" where
  "default_timeout v = (if st_VoicemailTimeout v = 0 then v\<lparr>st_VoicemailTimeout := 30\<rparr> else v)"

definition get_Settings :: "State \<Rightarrow> Settings" where
  "get_Settings s = default_timeout (mem_settings (s_mem s))"

text \<open>
  \<^verbatim>\<open>Snapshot\<close> sorts the copies by time; entries with equal times come in the order of the table.
\<close>

definition get_Snapshot :: "bool \<Rightarrow> State \<Rightarrow> Snapshot" where
  "get_Snapshot initialized s =
     (let m = s_mem s in
      \<lparr>sn_Sequence = mem_sequence m,
       sn_Initialized = initialized,
       sn_Device = mem_device m,
       sn_ActiveCall = lookup_active m,
       sn_Calls = sort_key (\<lambda>c. - c_StartedAt c) (tvals (mem_calls m)),
       sn_Messages = sort_key m_CreatedAt (tvals (mem_messages m)),
       sn_Conversations = sort_key (\<lambda>c. - cv_LastAt c) (tvals (mem_conversations m)),
       sn_Rules = sort_key (\<lambda>r. - r_CreatedAt r) (tvals (mem_rules m)),
       sn_Recordings = sort_key (\<lambda>r. - rec_CreatedAt r)
         (map (\<lambda>r. r\<lparr>rec_Path := []\<rparr>) (tvals (mem_recordings m))),
       sn_Settings = default_timeout (hide_secrets (mem_settings m))\<rparr>)"

subsection \<open>Writing\<close>

definition call_conflict :: gerror where "call_conflict = ''CALL_STATE_CONFLICT''"
definition message_conflict :: gerror where "message_conflict = ''MESSAGE_STATE_CONFLICT''"
definition not_found :: gerror where "not_found = ''NOT_FOUND''"
definition no_rows :: gerror where "no_rows = ''sql: no rows in result set''"

definition UpsertCall :: "Env \<Rightarrow> Call \<Rightarrow> State \<Rightarrow> (gerror + Event) \<times> State" where
  "UpsertCall env v s =
     (case tget (mem_calls (s_mem s)) (c_ID v) of
        Some old \<Rightarrow>
          if c_Version v \<noteq> c_Version old + 1 then (Inl call_conflict, s)
          else let v = (if c_Version v = 0 then v\<lparr>c_Version := 1\<rparr> else v)
               in appendLocked env ''call.upserted'' (c_ID v) (c_Version v) (PCall v) s
      | None \<Rightarrow>
          let v = (if c_Version v = 0 then v\<lparr>c_Version := 1\<rparr> else v)
          in appendLocked env ''call.upserted'' (c_ID v) (c_Version v) (PCall v) s)"

definition UpsertMessage :: "Env \<Rightarrow> Message \<Rightarrow> State \<Rightarrow> (gerror + Event) \<times> State" where
  "UpsertMessage env v s =
     (case tget (mem_messages (s_mem s)) (m_ID v) of
        Some old \<Rightarrow>
          if m_Version v \<noteq> m_Version old + 1 then (Inl message_conflict, s)
          else let v = (if m_Version v = 0 then v\<lparr>m_Version := 1\<rparr> else v)
               in appendLocked env ''message.upserted'' (m_ID v) (m_Version v) (PMessage v) s
      | None \<Rightarrow>
          let v = (if m_Version v = 0 then v\<lparr>m_Version := 1\<rparr> else v)
          in appendLocked env ''message.upserted'' (m_ID v) (m_Version v) (PMessage v) s)"

definition UpsertRule :: "Env \<Rightarrow> FilterRule \<Rightarrow> State \<Rightarrow> (gerror + Event) \<times> State" where
  "UpsertRule env v s =
     (let version = (case tget (mem_rules (s_mem s)) (r_ID v) of
                       Some old \<Rightarrow> wrap64 (UnixNano (r_CreatedAt old) + 1)
                     | None \<Rightarrow> 1)
      in appendLocked env ''rule.upserted'' (r_ID v) version (PRule v) s)"

definition DeleteRule :: "Env \<Rightarrow> string \<Rightarrow> State \<Rightarrow> (gerror + Event) \<times> State" where
  "DeleteRule env i s =
     (if tget (mem_rules (s_mem s)) i = None then (Inl no_rows, s)
      else appendLocked env ''rule.deleted'' i (UnixNano (env_now env)) (PIdent i) s)"

definition UpdateSettings :: "Env \<Rightarrow> Settings \<Rightarrow> State \<Rightarrow> (gerror + Event) \<times> State" where
  "UpdateSettings env v s =
     (let v = (if st_Country v = [] then v\<lparr>st_Country := ''CN''\<rparr> else v);
          v = (if st_AutoBlock v = [] then v\<lparr>st_AutoBlock := [''fraud'', ''insurance'']\<rparr> else v)
      in appendLocked env ''settings.updated'' ''settings'' (mem_sequence (s_mem s) + 1) (PSettings v) s)"

definition sameDevice :: "DeviceStatus \<Rightarrow> DeviceStatus \<Rightarrow> bool" where
  "sameDevice a b \<longleftrightarrow>
     d_Mode a = d_Mode b \<and> d_ATPort a = d_ATPort b \<and> d_AudioPort a = d_AudioPort b \<and>
     d_ATConnected a = d_ATConnected b \<and> d_AudioCapable a = d_AudioCapable b \<and>
     d_SIMReady a = d_SIMReady b \<and> d_Registered a = d_Registered b \<and> d_VoiceReady a = d_VoiceReady b \<and>
     d_Operator a = d_Operator b \<and> d_AccessTech a = d_AccessTech b \<and> d_Signal a = d_Signal b \<and>
     d_SignalDBm a = d_SignalDBm b \<and> d_TelegramOK a = d_TelegramOK b \<and> d_SIPStatus a = d_SIPStatus b \<and>
     d_SIPPending a = d_SIPPending b \<and> \<bar>d_DiskUsedPct a - d_DiskUsedPct b\<bar> < 1 / 100 \<and>
     d_Degraded a = d_Degraded b"

definition unchanged_event :: "int \<Rightarrow> gtime \<Rightarrow> Event" where
  "unchanged_event seq t = \<lparr>ev_Sequence = seq, ev_Type = ''device.unchanged'', ev_EntityID = ''device'',
     ev_Version = 0, ev_Timestamp = t, ev_Payload = None, ev_Raw = None\<rparr>"

definition set_device :: "DeviceStatus \<Rightarrow> State \<Rightarrow> State" where
  "set_device d s = s\<lparr>s_mem := (s_mem s)\<lparr>mem_device := d\<rparr>\<rparr>"

definition UpdateDevice :: "Env \<Rightarrow> DeviceStatus \<Rightarrow> State \<Rightarrow> (gerror + Event) \<times> State" where
  "UpdateDevice env v s =
     (let v = v\<lparr>d_LastCheckedAt := env_now env\<rparr>; m = s_mem s in
      if sameDevice (mem_device m) v
      then (Inr (unchanged_event (mem_sequence m) (env_now env)),
            set_device ((mem_device m)\<lparr>d_LastCheckedAt := env_now env\<rparr>) s)
      else appendLocked env ''device.updated'' ''device'' (mem_sequence m + 1) (PDevice v) s)"

definition UpdateDiskUsage :: "Env \<Rightarrow> float64 \<Rightarrow> State \<Rightarrow> gerror option \<times> State" where
  "UpdateDiskUsage env pct s =
     (let d = mem_device (s_mem s) in
      if \<bar>d_DiskUsedPct d - pct\<bar> < 1 \<and> d_DiskUsedPct d \<noteq> 0 then (None, s)
      else
        let d = d\<lparr>d_DiskUsedPct := pct, d_LastCheckedAt := env_now env\<rparr>; s = set_device d s in
        case appendLocked env ''device.updated'' ''device'' (mem_sequence (s_mem s) + 1) (PDevice d) s of
          (Inl e, s) \<Rightarrow> (Some e, s)
        | (Inr _, s) \<Rightarrow> (None, s))"

definition UpsertRecording :: "Env \<Rightarrow> Recording \<Rightarrow> State \<Rightarrow> (gerror + Event) \<times> State" where
  "UpsertRecording env v s =
     appendLocked env ''recording.upserted'' (rec_ID v) (UnixNano (env_now env)) (PStored v) s"

definition DeleteRecording :: "Env \<Rightarrow> string \<Rightarrow> State \<Rightarrow> (gerror + Event) \<times> State" where
  "DeleteRecording env i s =
     (if tget (mem_recordings (s_mem s)) i = None then (Inl not_found, s)
      else appendLocked env ''recording.deleted'' i (UnixNano (env_now env)) (PIdent i) s)"

subsection \<open>Marking all messages read\<close>

definition unread_incoming :: "Message \<Rightarrow> bool" where
  "unread_incoming m \<longleftrightarrow> m_Unread m \<and> \<not> m_Deleted m \<and> m_Direction m = Incoming"

definition mark_read :: "Message \<Rightarrow> Message" where
  "mark_read m = m\<lparr>m_Version := m_Version m + 1, m_Unread := False\<rparr>"

definition read_updates :: "Message list \<Rightarrow> Message list" where
  "read_updates ms = sort_key m_ID (map mark_read (filter unread_incoming ms))"

text \<open>The inserts of the transaction; call 0 is \<^verbatim>\<open>Begin\<close>, call \<open>i\<close> the i-th insert.\<close>

fun mark_inserts :: "Env \<Rightarrow> nat \<Rightarrow> Message list \<Rightarrow> DB \<Rightarrow> (gerror + Event list) \<times> DB" where
  "mark_inserts env i [] db = (Inr [], db)"
| "mark_inserts env i (m # ms) db =
     (let raw = marshal_Message m in
      case insert_event (env_fault env i) ''message.upserted'' (m_ID m) (m_Version m) (env_now env) raw db of
        (Inl e, db) \<Rightarrow> (Inl e, db)
      | (Inr seq, db) \<Rightarrow>
          (let e = \<lparr>ev_Sequence = seq, ev_Type = ''message.upserted'', ev_EntityID = m_ID m,
                    ev_Version = m_Version m, ev_Timestamp = env_now env, ev_Payload = Some (PMessage m),
                    ev_Raw = Some raw\<rparr> in
           case mark_inserts env (Suc i) ms db of
             (Inl err, db) \<Rightarrow> (Inl err, db)
           | (Inr es, db) \<Rightarrow> (Inr (e # es), db)))"

fun mark_apply :: "Event list \<Rightarrow> State \<Rightarrow> gerror option \<times> State" where
  "mark_apply [] s = (None, s)"
| "mark_apply (e # es) s =
     (case apply_event e (s_mem s) of
        (m, Some err) \<Rightarrow> (Some err, s\<lparr>s_mem := m\<rparr>)
      | (m, None) \<Rightarrow> mark_apply es (publish e (s\<lparr>s_mem := m\<lparr>mem_sequence := ev_Sequence e\<rparr>\<rparr>)))"

definition MarkAllMessagesRead :: "Env \<Rightarrow> State \<Rightarrow> (nat \<times> gerror option) \<times> State" where
  "MarkAllMessagesRead env s =
     (let updates = read_updates (tvals (mem_messages (s_mem s))) in
      if updates = [] then ((0, None), s)
      else case env_fault env 0 of
        Some e \<Rightarrow> ((0, Some e), s)
      | None \<Rightarrow>
          (case mark_inserts env 1 updates (s_db s) of
             (Inl e, _) \<Rightarrow> ((0, Some e), s)
           | (Inr events, db) \<Rightarrow>
               (case env_fault env (Suc (length updates)) of
                  Some e \<Rightarrow> ((0, Some e), s)
                | None \<Rightarrow>
                    (case mark_apply events (s\<lparr>s_db := db\<rparr>) of
                       (Some e, s) \<Rightarrow> ((0, Some e), s)
                     | (None, s) \<Rightarrow> ((length events, None), s)))))"

subsection \<open>Subscribers\<close>

definition Subscribe :: "State \<Rightarrow> nat \<times> State" where
  "Subscribe s = (s_next s, s\<lparr>s_subs := s_subs s @ [(s_next s, [])], s_next := Suc (s_next s)\<rparr>)"

definition cancel :: "nat \<Rightarrow> State \<Rightarrow> State" where
  "cancel ch s = s\<lparr>s_subs := filter (\<lambda>p. fst p \<noteq> ch) (s_subs s)\<rparr>"

text \<open>\<^verbatim>\<open>IntegrityCheck\<close> on the answer of the database.\<close>

definition IntegrityCheck :: "gerror + string \<Rightarrow> gerror option" where
  "IntegrityCheck answer = (case answer of Inl e \<Rightarrow> Some e | Inr res \<Rightarrow> if res \<noteq> ''ok'' then Some res else None)"

text \<open>A subscriber takes the next event from its channel.\<close>

definition receive :: "nat \<Rightarrow> State \<Rightarrow> Event option \<times> State" where
  "receive ch s =
     (case map_of (s_subs s) ch of
        Some (e # q) \<Rightarrow> (Some e, s\<lparr>s_subs := map (\<lambda>p. if fst p = ch then (ch, q) else p) (s_subs s)\<rparr>)
      | _ \<Rightarrow> (None, s))"

subsection \<open>Opening the store\<close>

record open_io =
  oi_mkdir :: "gerror option"
  oi_open :: "gerror + DB"
  oi_schema :: "gerror option"
  oi_keydir :: "gerror option"
  oi_key :: key_io
  oi_query :: "gerror option"

definition OpenWithKey :: "(string \<Rightarrow> gerror + aead) \<Rightarrow> gtime \<Rightarrow> open_io \<Rightarrow> gerror + State" where
  "OpenWithKey newGCM now io =
     (case oi_mkdir io of Some e \<Rightarrow> Inl e | None \<Rightarrow>
     (case oi_open io of Inl e \<Rightarrow> Inl e | Inr db \<Rightarrow>
     (case oi_schema io of Some e \<Rightarrow> Inl (''migrate database: '' @ e) | None \<Rightarrow>
     (case oi_keydir io of Some e \<Rightarrow> Inl e | None \<Rightarrow>
     (case loadSecretCipher newGCM (oi_key io) of Inl e \<Rightarrow> Inl (''load master key: '' @ e) | Inr (a, _) \<Rightarrow>
     (case oi_query io of Some e \<Rightarrow> Inl e | None \<Rightarrow>
     (case replay a (sort_key row_Sequence (db_rows db)) (initMem now) of
        (_, Some e) \<Rightarrow> Inl e
      | (m, None) \<Rightarrow> Inr \<lparr>s_db = db, s_mem = m, s_subs = [], s_next = 0, s_secrets = a\<rparr>)))))))"

end
