(* ===== verification/Call_Filter.thy ===== *)
theory Call_Filter
  imports Store
begin

text \<open>
  Package \<^verbatim>\<open>filter\<close> (\<^verbatim>\<open>internal/filter/filter.go\<close>): normalising numbers and deciding whether a call
  or message is allowed, labelled or blocked. The phone number library, Unicode lower-casing,
  regular expressions, URL parsing and the HTTP exchange are parameters: \<open>re_match\<close> is \<open>None\<close> for a
  pattern that does not compile, \<open>url_parse\<close> gives scheme and host, \<open>http_do\<close> the status and the
  decoded body. A parsed phone number is an opaque value, represented by a string.
\<close>

record http_request =
  rq_URL :: string
  rq_Phone :: string
  rq_Auth :: "string option"

record http_response =
  rs_Status :: int
  rs_Body :: "json option"

record filter_lib =
  pn_Parse :: "string \<Rightarrow> string \<Rightarrow> string option"
  pn_IsPossible :: "string \<Rightarrow> bool"
  pn_E164 :: "string \<Rightarrow> string"
  to_lower :: "string \<Rightarrow> string"
  re_match :: "string \<Rightarrow> string \<Rightarrow> bool option"
  url_parse :: "string \<Rightarrow> (string \<times> string) option"
  http_do :: "http_request \<Rightarrow> http_response option"

definition invalid_number :: gerror where
  "invalid_number = ''INVALID_NUMBER''"

definition Normalize :: "filter_lib \<Rightarrow> string \<Rightarrow> string \<Rightarrow> gerror + string" where
  "Normalize lib raw country =
     (case pn_Parse lib (trim_space raw) country of
        None \<Rightarrow> Inl invalid_number
      | Some n \<Rightarrow> if pn_IsPossible lib n then Inr (pn_E164 lib n) else Inl invalid_number)"

subsection \<open>Rules\<close>

definition applies :: "filter_lib \<Rightarrow> FilterRule \<Rightarrow> string \<Rightarrow> string \<Rightarrow> string \<Rightarrow> bool" where
  "applies lib r number body scope =
     (if r_Scope r \<noteq> [] \<and> r_Scope r \<noteq> ''both'' \<and> r_Scope r \<noteq> scope then False
      else if r_Kind r = ''exact'' then number = r_Pattern r
      else if r_Kind r = ''prefix'' then has_prefix number (r_Pattern r)
      else if r_Kind r = ''keyword'' then
        body \<noteq> [] \<and> contains (to_lower lib body) (to_lower lib (r_Pattern r))
      else if r_Kind r = ''regex'' then
        (case re_match lib (r_Pattern r) (number @ [CHR 0x0A] @ body) of Some b \<Rightarrow> b | None \<Rightarrow> False)
      else False)"

subsection \<open>The number provider\<close>

record providerResponse =
  pr_Label :: string
  pr_Category :: string
  pr_Confidence :: float64
  pr_Source :: string

definition zeroResponse :: providerResponse where
  "zeroResponse = \<lparr>pr_Label = [], pr_Category = [], pr_Confidence = 0, pr_Source = []\<rparr>"

definition unmarshal_providerResponse :: "providerResponse decoder" where
  "unmarshal_providerResponse j v = json_fields
     [json_field ''label'' (set_str pr_Label_update),
      json_field ''category'' (set_str pr_Category_update),
      json_field ''confidence'' (set_float pr_Confidence_update),
      json_field ''source'' (set_str pr_Source_update)] j v"

definition lookup_request :: "Settings \<Rightarrow> string \<Rightarrow> http_request" where
  "lookup_request settings number = \<lparr>rq_URL = st_ProviderURL settings, rq_Phone = number,
     rq_Auth = (if st_ProviderAPIKey settings \<noteq> [] then Some (''Bearer '' @ st_ProviderAPIKey settings) else None)\<rparr>"

definition lookup :: "filter_lib \<Rightarrow> Settings \<Rightarrow> string \<Rightarrow> Decision option" where
  "lookup lib settings number =
     (case url_parse lib (st_ProviderURL settings) of
        None \<Rightarrow> None
      | Some (scheme, host) \<Rightarrow>
          if scheme \<noteq> ''https'' then None
          else (case http_do lib (lookup_request settings number) of
            None \<Rightarrow> None
          | Some resp \<Rightarrow>
              if rs_Status resp \<noteq> 200 then None
              else (case rs_Body resp of
                None \<Rightarrow> None
              | Some j \<Rightarrow>
                  (case unmarshal_providerResponse j zeroResponse of
                     (_, Some e) \<Rightarrow> None
                   | (out, None) \<Rightarrow>
                       if pr_Category out = [] \<or> pr_Confidence out < 1 / 2 then None
                       else Some (zeroDecision
                         \<lparr>dc_Label := pr_Label out, dc_Category := pr_Category out,
                          dc_Confidence := pr_Confidence out,
                          dc_Source := (if pr_Source out = [] then host else pr_Source out)\<rparr>)))))"

subsection \<open>The decision\<close>

definition allow_decision :: "FilterRule \<Rightarrow> Decision" where
  "allow_decision r = zeroDecision\<lparr>dc_Action := ''allow'', dc_Label := r_Label r, dc_Category := r_Category r,
     dc_Source := ''local'', dc_RuleID := r_ID r, dc_Reason := ''whitelist''\<rparr>"

definition rule_decision :: "FilterRule \<Rightarrow> Decision" where
  "rule_decision r = zeroDecision\<lparr>dc_Action := (if r_Action r = [] then ''label'' else r_Action r),
     dc_Label := r_Label r, dc_Category := r_Category r, dc_Source := ''local'', dc_RuleID := r_ID r,
     dc_Confidence := 1\<rparr>"

text \<open>The rules come in the order in which Go happens to iterate over the map.\<close>

definition decide_rules :: "filter_lib \<Rightarrow> Settings \<Rightarrow> FilterRule list \<Rightarrow> string \<Rightarrow> string \<Rightarrow> string \<Rightarrow> Decision" where
  "decide_rules lib settings rules number body scope =
     (case find (\<lambda>r. r_Enabled r \<and> r_Action r = ''allow'' \<and> applies lib r number body scope) rules of
        Some r \<Rightarrow> allow_decision r
      | None \<Rightarrow>
          (case find (\<lambda>r. r_Enabled r \<and> applies lib r number body scope) rules of
             Some r \<Rightarrow> rule_decision r
           | None \<Rightarrow>
               (case (if st_ProviderURL settings \<noteq> [] then lookup lib settings number else None) of
                  Some d \<Rightarrow> d\<lparr>dc_Action := (if dc_Category d \<in> set (st_AutoBlock settings) then ''block'' else ''label'')\<rparr>
                | None \<Rightarrow> zeroDecision\<lparr>dc_Action := ''allow''\<rparr>)))"

definition Decide :: "filter_lib \<Rightarrow> State \<Rightarrow> string \<Rightarrow> string \<Rightarrow> string \<Rightarrow> Decision" where
  "Decide lib s number body scope = decide_rules lib (get_Settings s) (get_Rules s) number body scope"

subsection \<open>Properties\<close>

definition matching :: "filter_lib \<Rightarrow> string \<Rightarrow> string \<Rightarrow> string \<Rightarrow> FilterRule \<Rightarrow> bool" where
  "matching lib number body scope r \<longleftrightarrow> r_Enabled r \<and> applies lib r number body scope"

lemma find_cases:
  "(find P xs = None \<and> (\<forall>x\<in>set xs. \<not> P x)) \<or> (\<exists>x\<in>set xs. find P xs = Some x \<and> P x)"
  by (induction xs) auto

lemma find_exists: "x \<in> set xs \<Longrightarrow> P x \<Longrightarrow> \<exists>y\<in>set xs. find P xs = Some y \<and> P y"
  using find_cases [of P xs] by auto

lemma lookup_https:
  assumes "lookup lib settings number = Some d"
  obtains host where "url_parse lib (st_ProviderURL settings) = Some (''https'', host)" "1 / 2 \<le> dc_Confidence d"
  using assms unfolding lookup_def by (auto split: option.splits if_splits prod.splits)

lemma lookup_http_cong:
  assumes "http (lookup_request settings number) = http_do lib (lookup_request settings number) \<or>
     (\<forall>host. url_parse lib (st_ProviderURL settings) \<noteq> Some (''https'', host))"
  shows "lookup (lib\<lparr>http_do := http\<rparr>) settings number = lookup lib settings number"
  using assms
proof
  assume "http (lookup_request settings number) = http_do lib (lookup_request settings number)"
  then have "http_do (lib\<lparr>http_do := http\<rparr>) (lookup_request settings number) = http_do lib (lookup_request settings number)"
    "url_parse (lib\<lparr>http_do := http\<rparr>) = url_parse lib" by simp_all
  then show ?thesis unfolding lookup_def by presburger
next
  assume "\<forall>host. url_parse lib (st_ProviderURL settings) \<noteq> Some (''https'', host)"
  then have "lookup l settings number = None" if "url_parse l = url_parse lib" for l
    using that by (cases "url_parse lib (st_ProviderURL settings)") (auto simp: lookup_def)
  then show ?thesis by simp
qed

text \<open>C37: Allow rules win in every iteration order: if some enabled allow rule applies, then for every
  order of the rules the decision is to allow, and it names an enabled allow rule that applies.\<close>

theorem allow_rules_win:
  assumes "r \<in> set rules" "matching lib number body scope r" "r_Action r = ''allow''" "mset rules' = mset rules"
  shows "\<exists>w \<in> set rules. matching lib number body scope w \<and> r_Action w = ''allow'' \<and>
    decide_rules lib settings rules' number body scope = allow_decision w"
proof -
  have "r \<in> set rules'" using assms(1,4) by (metis set_mset_mset)
  then obtain w where "w \<in> set rules'"
    "find (\<lambda>r. r_Enabled r \<and> r_Action r = ''allow'' \<and> applies lib r number body scope) rules' = Some w"
    "r_Enabled w \<and> r_Action w = ''allow'' \<and> applies lib w number body scope"
    using find_exists [of r rules' "\<lambda>r. r_Enabled r \<and> r_Action r = ''allow'' \<and> applies lib r number body scope"]
      assms(2,3) by (auto simp: matching_def)
  then show ?thesis
    using assms(4) by (intro bexI [of _ w]) (auto simp: decide_rules_def matching_def dest: mset_eq_setD)
qed

text \<open>Where a block comes from: a number is blocked only if an enabled rule with the action \<^verbatim>\<open>block\<close>
  applies to it, or if no rule applies and the provider, asked over \<^verbatim>\<open>https\<close>, is at least half sure
  of a category that is configured to be blocked.\<close>

theorem block_has_cause:
  assumes "dc_Action (decide_rules lib settings rules number body scope) = ''block''"
  shows "(\<exists>r \<in> set rules. matching lib number body scope r \<and> r_Action r = ''block'') \<or>
    ((\<forall>r \<in> set rules. \<not> matching lib number body scope r) \<and>
     (\<exists>d host. lookup lib settings number = Some d \<and> dc_Category d \<in> set (st_AutoBlock settings) \<and>
        1 / 2 \<le> dc_Confidence d \<and> url_parse lib (st_ProviderURL settings) = Some (''https'', host)))"
proof (cases "find (\<lambda>r. r_Enabled r \<and> r_Action r = ''allow'' \<and> applies lib r number body scope) rules")
  case None
  show ?thesis
  proof (cases "find (\<lambda>r. r_Enabled r \<and> applies lib r number body scope) rules")
    case (Some r)
    with find_cases [of "\<lambda>r. r_Enabled r \<and> applies lib r number body scope" rules]
    show ?thesis using None assms
      by (auto simp: decide_rules_def rule_decision_def matching_def split: if_splits)
  next
    case no_rule: None
    then have "\<forall>r \<in> set rules. \<not> matching lib number body scope r"
      by (auto simp: find_None_iff matching_def)
    moreover obtain d where "lookup lib settings number = Some d" "dc_Category d \<in> set (st_AutoBlock settings)"
      using None no_rule assms by (auto simp: decide_rules_def split: option.splits if_splits)
    moreover from this(1) obtain host where "url_parse lib (st_ProviderURL settings) = Some (''https'', host)"
      "1 / 2 \<le> dc_Confidence d" by (rule lookup_https)
    ultimately show ?thesis by blast
  qed
qed (use assms in \<open>auto simp: decide_rules_def allow_decision_def\<close>)

text \<open>What is sent to the provider: the decision depends on the HTTP exchange only through the one
  request for the number, and on no exchange at all when a local rule applies, when no provider is
  configured, or when its URL is not an \<^verbatim>\<open>https\<close> URL. The key therefore never travels in clear.\<close>

theorem provider_asked_only_over_https:
  assumes "(\<exists>r \<in> set rules. matching lib number body scope r) \<or> st_ProviderURL settings = [] \<or>
     (\<forall>host. url_parse lib (st_ProviderURL settings) \<noteq> Some (''https'', host)) \<or>
     http (lookup_request settings number) = http_do lib (lookup_request settings number)"
  shows "decide_rules (lib\<lparr>http_do := http\<rparr>) settings rules number body scope =
    decide_rules lib settings rules number body scope"
proof -
  have app: "applies (lib\<lparr>http_do := http\<rparr>) = applies lib" by (intro ext) (simp add: applies_def)
  show ?thesis
  proof (cases "\<exists>r \<in> set rules. matching lib number body scope r")
    case True
    then obtain r where "find (\<lambda>r. r_Enabled r \<and> applies lib r number body scope) rules = Some r"
      using find_exists [of _ rules "\<lambda>r. r_Enabled r \<and> applies lib r number body scope"]
      by (auto simp: matching_def)
    then show ?thesis by (simp add: decide_rules_def app split: option.split)
  next
    case False
    with assms have "st_ProviderURL settings \<noteq> [] \<Longrightarrow>
        lookup (lib\<lparr>http_do := http\<rparr>) settings number = lookup lib settings number"
      using lookup_http_cong [of http settings number lib] by blast
    then show ?thesis by (simp add: decide_rules_def app split: option.split)
  qed
qed

text \<open>The inputs of the witnesses: numbers are taken as they are, and no provider answers.\<close>

definition demo_lib :: filter_lib where
  "demo_lib = \<lparr>pn_Parse = (\<lambda>raw _. if raw = [] then None else Some raw), pn_IsPossible = (\<lambda>n. length n > 2),
     pn_E164 = (\<lambda>n. n), to_lower = map lower_byte, re_match = (\<lambda>_ _. None),
     url_parse = (\<lambda>u. if has_prefix u ''https://'' then Some (''https'', drop 8 u) else Some (''http'', u)),
     http_do = (\<lambda>_. None)\<rparr>"

definition demo_rule :: "string \<Rightarrow> string \<Rightarrow> FilterRule" where
  "demo_rule i act = zeroRule\<lparr>r_ID := i, r_Kind := ''prefix'', r_Pattern := ''+86'', r_Action := act, r_Enabled := True\<rparr>"

lemma demo_rule_matches: "matching demo_lib ''+8613800138000'' [] ''calls'' (demo_rule i act)"
  by (simp add: matching_def applies_def demo_rule_def zeroRule_def)

theorem allow_rules_win_witness:
  "\<exists>w \<in> set [demo_rule ''a'' ''block'', demo_rule ''b'' ''allow'']. matching demo_lib ''+8613800138000'' [] ''calls'' w \<and>
     r_Action w = ''allow'' \<and>
     decide_rules demo_lib defaultSettings [demo_rule ''b'' ''allow'', demo_rule ''a'' ''block''] ''+8613800138000'' [] ''calls''
       = allow_decision w"
  by (rule allow_rules_win [of "demo_rule ''b'' ''allow''"])
     (simp_all add: demo_rule_matches, simp_all add: demo_rule_def)

theorem block_has_cause_witness:
  "(\<exists>r \<in> set [demo_rule ''a'' ''block'']. matching demo_lib ''+8613800138000'' [] ''calls'' r \<and> r_Action r = ''block'') \<or>
    ((\<forall>r \<in> set [demo_rule ''a'' ''block'']. \<not> matching demo_lib ''+8613800138000'' [] ''calls'' r) \<and>
     (\<exists>d host. lookup demo_lib defaultSettings ''+8613800138000'' = Some d \<and>
        dc_Category d \<in> set (st_AutoBlock defaultSettings) \<and>
        1 / 2 \<le> dc_Confidence d \<and> url_parse demo_lib (st_ProviderURL defaultSettings) = Some (''https'', host)))"
  by (rule block_has_cause)
     (simp add: decide_rules_def applies_def demo_rule_def zeroRule_def rule_decision_def)

theorem provider_asked_only_over_https_witness:
  "decide_rules (demo_lib\<lparr>http_do := (\<lambda>_. Some \<lparr>rs_Status = 200, rs_Body = None\<rparr>)\<rparr>)
      (defaultSettings\<lparr>st_ProviderURL := ''http://p''\<rparr>) [] ''+86'' [] ''sms'' =
   decide_rules demo_lib (defaultSettings\<lparr>st_ProviderURL := ''http://p''\<rparr>) [] ''+86'' [] ''sms''"
  by (rule provider_asked_only_over_https) (simp add: demo_lib_def)

text \<open>The decision between a blocking and a labelling rule that both apply is not fixed: it follows
  the order in which the map of rules is visited, which Go leaves open.\<close>

theorem decision_depends_on_rule_order:
  "\<exists>rules rules' number. mset rules = mset rules' \<and>
     dc_Action (decide_rules demo_lib defaultSettings rules number [] ''calls'') = ''block'' \<and>
     dc_Action (decide_rules demo_lib defaultSettings rules' number [] ''calls'') = ''label''"
  by (rule exI [of _ "[demo_rule ''a'' ''block'', demo_rule ''b'' ''label'']"],
      rule exI [of _ "[demo_rule ''b'' ''label'', demo_rule ''a'' ''block'']"],
      rule exI [of _ "''+8613800138000''"])
     (simp add: decide_rules_def applies_def demo_rule_def zeroRule_def rule_decision_def)

end
