(* ===== verification/Service.thy ===== *)
theory Service
  imports Call_Filter Modem
begin

text \<open>
  The call and message service (\<^verbatim>\<open>internal/app/service.go\<close>). Its own state is the store, the last probe
  and the observers; what it asks of the modem, of the media layer and of the observers is recorded
  in a trace. What comes from outside in one operation is its \<open>SEnv\<close>: the clock and random bytes, the
  environments of its store writes, the answers of the modem (by the position of the question in
  the trace) and the libraries of the filter. Operations that hold the lock \<^verbatim>\<open>actions\<close> and wait for the
  modem are split at the waiting point, because modem events are handled meanwhile. (\<^verbatim>\<open>UpsertCall\<close> and
  \<^verbatim>\<open>UpsertMessage\<close> would also raise a zero version in the caller's variable to one; the service writes only
  versions counted up from one.)
\<close>

datatype ModemCall =
    MDial string
  | MDialRoute Route string
  | MAnswer
  | MHangup
  | MDTMF string
  | MSetMicMute bool
  | MSendSMS string string string
  | MSendSMSRoute Route string string string
  | MDeleteSMS int
  | MSelectRoute Route
  | MEnableAudio bool

datatype Action =
    AModem ModemCall
  | BeginWaitingMedia string
  | SetHeld string bool
  | StartVoicemail string
  | NotifyIncomingCall nat Call
  | NotifyIncomingSMS nat Message
  | NotifyCallEnded nat Call
  | SpawnProbe
  | SpawnVoicemail string int

record SEnv =
  se_now :: gtime
  se_rand :: "nat list"
  se_store :: "nat \<Rightarrow> Env"
  se_lib :: filter_lib
  se_routed :: bool
  se_media :: bool
  se_modem :: "nat \<Rightarrow> ModemCall \<Rightarrow> gerror option"
  se_healthy :: "nat \<Rightarrow> bool"
  se_audio :: bool
  se_probe :: Status
  se_statuses :: "Status list"

record Svc =
  v_state :: State
  v_lastProbe :: Status
  v_observers :: nat
  v_startedAt :: gtime
  v_trace :: "Action list"

definition new_service :: "State \<Rightarrow> gtime \<Rightarrow> Svc" where
  "new_service s now = \<lparr>v_state = s, v_lastProbe = zeroStatus\<lparr>ms_Signal := -1, ms_SignalDBm := -1\<rparr>,
     v_observers = 0, v_startedAt = now, v_trace = []\<rparr>"

definition AddObserver :: "Svc \<Rightarrow> Svc" where
  "AddObserver v = v\<lparr>v_observers := Suc (v_observers v)\<rparr>"

subsection \<open>Talking to the other components\<close>

definition act :: "Action \<Rightarrow> Svc \<Rightarrow> Svc" where
  "act a v = v\<lparr>v_trace := v_trace v @ [a]\<rparr>"

definition media :: "SEnv \<Rightarrow> Action \<Rightarrow> Svc \<Rightarrow> Svc" where
  "media env a v = (if se_media env then act a v else v)"

definition ask :: "SEnv \<Rightarrow> ModemCall \<Rightarrow> Svc \<Rightarrow> gerror option \<times> Svc" where
  "ask env c v = (se_modem env (length (v_trace v)) c, act (AModem c) v)"

text \<open>A controller for several gateways is told which one to use; a plain controller is not.\<close>

definition select_route :: "SEnv \<Rightarrow> string \<Rightarrow> int \<Rightarrow> Svc \<Rightarrow> gerror option \<times> Svc" where
  "select_route env gw sub v =
     (if se_routed env then ask env (MSelectRoute \<lparr>ro_GatewayID = gw, ro_SubscriptionID = sub\<rparr>) v else (None, v))"

definition notify :: "(nat \<Rightarrow> Action) \<Rightarrow> Svc \<Rightarrow> Svc" where
  "notify f v = v\<lparr>v_trace := v_trace v @ map f [0..<v_observers v]\<rparr>"

definition notifyIncomingCall :: "Call \<Rightarrow> Svc \<Rightarrow> Svc" where
  "notifyIncomingCall c v = notify (\<lambda>i. NotifyIncomingCall i c) v"

definition notifyIncomingSMS :: "Message \<Rightarrow> Svc \<Rightarrow> Svc" where
  "notifyIncomingSMS m v = notify (\<lambda>i. NotifyIncomingSMS i m) v"

definition notifyCallEnded :: "Call \<Rightarrow> Svc \<Rightarrow> Svc" where
  "notifyCallEnded c v = notify (\<lambda>i. NotifyCallEnded i c) v"

definition upsert_call :: "SEnv \<Rightarrow> nat \<Rightarrow> Call \<Rightarrow> Svc \<Rightarrow> gerror option \<times> Svc" where
  "upsert_call env k c v =
     (case UpsertCall (se_store env k) c (v_state v) of
        (Inl e, s) \<Rightarrow> (Some e, v\<lparr>v_state := s\<rparr>)
      | (Inr _, s) \<Rightarrow> (None, v\<lparr>v_state := s\<rparr>))"

definition upsert_message :: "SEnv \<Rightarrow> nat \<Rightarrow> Message \<Rightarrow> Svc \<Rightarrow> gerror option \<times> Svc" where
  "upsert_message env k m v =
     (case UpsertMessage (se_store env k) m (v_state v) of
        (Inl e, s) \<Rightarrow> (Some e, v\<lparr>v_state := s\<rparr>)
      | (Inr _, s) \<Rightarrow> (None, v\<lparr>v_state := s\<rparr>))"

definition update_device :: "SEnv \<Rightarrow> DeviceStatus \<Rightarrow> Svc \<Rightarrow> Svc" where
  "update_device env d v = v\<lparr>v_state := snd (UpdateDevice (se_store env 0) d (v_state v))\<rparr>"

definition bump :: "Call \<Rightarrow> Call" where
  "bump c = c\<lparr>c_Version := c_Version c + 1\<rparr>"

definition bump_msg :: "Message \<Rightarrow> Message" where
  "bump_msg m = m\<lparr>m_Version := m_Version m + 1\<rparr>"

type_synonym call_result = "(Call option \<times> gerror option) \<times> Svc"
type_synonym msg_result = "(Message option \<times> gerror option) \<times> Svc"

definition feature_disabled :: gerror where "feature_disabled = ''FEATURE_DISABLED''"
definition number_blocked :: gerror where "number_blocked = ''NUMBER_BLOCKED''"
definition media_busy :: gerror where "media_busy = ''MEDIA_BUSY''"
definition invalid_message :: gerror where "invalid_message = ''INVALID_MESSAGE''"

subsection \<open>Dialling\<close>

definition DialRoute_check :: "SEnv \<Rightarrow> string \<Rightarrow> Svc \<Rightarrow> gerror + string \<times> Decision" where
  "DialRoute_check env raw v =
     (let s = v_state v in
      if \<not> st_Calls (get_Settings s) then Inl feature_disabled
      else if ActiveCall s \<noteq> None then Inl call_conflict
      else (case Normalize (se_lib env) raw (st_Country (get_Settings s)) of
        Inl e \<Rightarrow> Inl e
      | Inr number \<Rightarrow>
          (let d = Decide (se_lib env) s number [] ''call'' in
           if dc_Action d = ''block'' then Inl number_blocked else Inr (number, d))))"

definition dialled_call :: "SEnv \<Rightarrow> string \<Rightarrow> Route \<Rightarrow> string \<Rightarrow> Decision \<Rightarrow> Call" where
  "dialled_call env owner route number d = zeroCall
     \<lparr>c_ID := NewID ''call'' (se_rand env), c_Direction := Outgoing, c_Number := number, c_State := CallDialing,
      c_Filter := d, c_StartedAt := se_now env, c_Version := 1, c_MediaOwner := owner,
      c_GatewayID := ro_GatewayID route, c_SubscriptionID := ro_SubscriptionID route\<rparr>"

definition DialRoute_commit :: "SEnv \<Rightarrow> string \<Rightarrow> Route \<Rightarrow> string \<times> Decision \<Rightarrow> Svc \<Rightarrow> call_result" where
  "DialRoute_commit env owner route nd v =
     (let number = fst nd; call = dialled_call env owner route number (snd nd) in
      case upsert_call env 0 call v of
        (Some e, v) \<Rightarrow> ((None, Some e), v)
      | (None, v) \<Rightarrow>
          (case ask env (if se_routed env then MDialRoute route number else MDial number) v of
             (None, v) \<Rightarrow> ((Some call, None), v)
           | (Some e, v) \<Rightarrow>
               (let call = (bump call)\<lparr>c_State := CallFailed, c_EndedAt := Some (se_now env), c_EndReason := e\<rparr>
                in ((Some call, Some e), snd (upsert_call env 1 call v)))))"

definition DialRoute :: "SEnv \<Rightarrow> string \<Rightarrow> string \<Rightarrow> Route \<Rightarrow> Svc \<Rightarrow> call_result" where
  "DialRoute env raw owner route v =
     (case DialRoute_check env raw v of
        Inl e \<Rightarrow> ((None, Some e), v)
      | Inr nd \<Rightarrow> DialRoute_commit env owner route nd v)"

subsection \<open>Answering\<close>

definition AnswerFrom_claim :: "SEnv \<Rightarrow> string \<Rightarrow> string \<Rightarrow> Svc \<Rightarrow> (gerror + Call) \<times> Svc" where
  "AnswerFrom_claim env i owner v =
     (case get_Call (v_state v) i of
        None \<Rightarrow> (Inl call_conflict, v)
      | Some call \<Rightarrow>
          if c_State call \<noteq> CallIncoming then (Inl call_conflict, v)
          else if c_MediaOwner call \<noteq> [] \<and> c_MediaOwner call \<noteq> owner then (Inl media_busy, v)
          else (case select_route env (c_GatewayID call) (c_SubscriptionID call) v of
            (Some e, v) \<Rightarrow> (Inl e, v)
          | (None, v) \<Rightarrow>
              (let call = (bump call)\<lparr>c_MediaOwner := owner\<rparr> in
               case upsert_call env 0 call v of
                 (Some e, v) \<Rightarrow> (Inl e, v)
               | (None, v) \<Rightarrow> (Inr call, v))))"

definition AnswerFrom_finish :: "SEnv \<Rightarrow> string \<Rightarrow> Call \<Rightarrow> gerror option \<Rightarrow> Svc \<Rightarrow> call_result" where
  "AnswerFrom_finish env owner call answered v =
     (case answered of
        Some e \<Rightarrow>
          ((None, Some e), snd (upsert_call env 1 ((bump call)\<lparr>c_MediaOwner := []\<rparr>) v))
      | None \<Rightarrow>
          (let v = (if owner = ''web'' then media env (BeginWaitingMedia (c_ID call)) v else v);
               call = (bump call)\<lparr>c_State := CallAlerting\<rparr>
           in case upsert_call env 1 call v of (err, v) \<Rightarrow> ((Some call, err), v)))"

definition AnswerFrom :: "SEnv \<Rightarrow> string \<Rightarrow> string \<Rightarrow> Svc \<Rightarrow> call_result" where
  "AnswerFrom env i owner v =
     (case AnswerFrom_claim env i owner v of
        (Inl e, v) \<Rightarrow> ((None, Some e), v)
      | (Inr call, v) \<Rightarrow>
          (case ask env MAnswer v of (r, v) \<Rightarrow> AnswerFrom_finish env owner call r v))"

subsection \<open>Hold, resume, voicemail\<close>

definition Hold :: "SEnv \<Rightarrow> string \<Rightarrow> Svc \<Rightarrow> call_result" where
  "Hold env i v =
     (case get_Call (v_state v) i of
        None \<Rightarrow> ((None, Some call_conflict), v)
      | Some call \<Rightarrow>
          if c_State call \<noteq> CallIncoming \<and> c_State call \<noteq> CallAlerting \<and> c_State call \<noteq> CallActive
          then ((None, Some call_conflict), v)
          else if c_Held call then ((Some call, None), v)
          else if c_MediaOwner call \<noteq> [] \<and> c_MediaOwner call \<noteq> ''web'' then ((None, Some media_busy), v)
          else (case select_route env (c_GatewayID call) (c_SubscriptionID call) v of
            (Some e, v) \<Rightarrow> ((None, Some e), v)
          | (None, v) \<Rightarrow>
              (let needsAnswer = (c_State call = CallIncoming);
                   call = (bump call)\<lparr>c_MediaOwner := ''web'', c_Held := True\<rparr>;
                   held = (\<lambda>call v. ((Some call, None),
                     media env (BeginWaitingMedia (c_ID call)) (media env (SetHeld (c_ID call) True) v)))
               in case upsert_call env 0 call v of
                 (Some e, v) \<Rightarrow> ((None, Some e), v)
               | (None, v) \<Rightarrow>
                   if \<not> needsAnswer then held call v
                   else (case ask env MAnswer v of
                     (Some e, v) \<Rightarrow>
                       ((None, Some e), snd (upsert_call env 1 ((bump call)\<lparr>c_MediaOwner := [], c_Held := False\<rparr>) v))
                   | (None, v) \<Rightarrow>
                       (let call = (bump call)\<lparr>c_State := CallAlerting\<rparr> in
                        case upsert_call env 1 call v of
                          (Some e, v) \<Rightarrow> ((None, Some e), v)
                        | (None, v) \<Rightarrow> held call v)))))"

definition Resume :: "SEnv \<Rightarrow> string \<Rightarrow> Svc \<Rightarrow> call_result" where
  "Resume env i v =
     (case get_Call (v_state v) i of
        None \<Rightarrow> ((None, Some call_conflict), v)
      | Some call \<Rightarrow>
          if c_State call \<noteq> CallActive \<or> \<not> c_Held call \<or> c_MediaOwner call \<noteq> ''web''
          then ((None, Some call_conflict), v)
          else (let call = (bump call)\<lparr>c_Held := False\<rparr> in
            case upsert_call env 0 call v of
              (Some e, v) \<Rightarrow> ((None, Some e), v)
            | (None, v) \<Rightarrow> ((Some call, None),
                media env (BeginWaitingMedia (c_ID call)) (media env (SetHeld (c_ID call) False) v))))"

definition TransferToVoicemail :: "SEnv \<Rightarrow> string \<Rightarrow> Svc \<Rightarrow> call_result" where
  "TransferToVoicemail env i v =
     (case get_Call (v_state v) i of
        None \<Rightarrow> ((None, Some call_conflict), v)
      | Some call \<Rightarrow>
          if c_State call \<noteq> CallIncoming \<and> c_State call \<noteq> CallAlerting \<and> c_State call \<noteq> CallActive
          then ((None, Some call_conflict), v)
          else if c_State call = CallActive \<and> \<not> c_Held call then ((None, Some call_conflict), v)
          else (case select_route env (c_GatewayID call) (c_SubscriptionID call) v of
            (Some e, v) \<Rightarrow> ((None, Some e), v)
          | (None, v) \<Rightarrow>
              (let needsAnswer = (c_State call = CallIncoming);
                   call = (bump call)\<lparr>c_MediaOwner := ''voicemail'', c_Held := False\<rparr>
               in case upsert_call env 0 call v of
                 (Some e, v) \<Rightarrow> ((None, Some e), v)
               | (None, v) \<Rightarrow>
                   if needsAnswer then
                     (case ask env MAnswer v of
                        (Some e, v) \<Rightarrow>
                          ((None, Some e), snd (upsert_call env 1 ((bump call)\<lparr>c_MediaOwner := []\<rparr>) v))
                      | (None, v) \<Rightarrow>
                          (let call = (bump call)\<lparr>c_State := CallAlerting\<rparr> in
                           case upsert_call env 1 call v of
                             (Some e, v) \<Rightarrow> ((None, Some e), v)
                           | (None, v) \<Rightarrow> ((Some call, None), v)))
                   else ((Some call, None),
                     if c_State call = CallActive then media env (StartVoicemail (c_ID call)) v else v))))"

definition voicemailAfter :: "SEnv \<Rightarrow> string \<Rightarrow> Svc \<Rightarrow> Svc" where
  "voicemailAfter env i v =
     (case get_Call (v_state v) i of
        None \<Rightarrow> v
      | Some call \<Rightarrow>
          if c_State call \<noteq> CallIncoming \<or> \<not> st_VoicemailEnabled (get_Settings (v_state v)) then v
          else (case select_route env (c_GatewayID call) (c_SubscriptionID call) v of
            (Some e, v) \<Rightarrow> v
          | (None, v) \<Rightarrow>
              (let call = (bump call)\<lparr>c_MediaOwner := ''voicemail''\<rparr> in
               case upsert_call env 0 call v of
                 (Some e, v) \<Rightarrow> v
               | (None, v) \<Rightarrow>
                   (case ask env MAnswer v of
                      (Some e, v) \<Rightarrow> snd (upsert_call env 1 ((bump call)\<lparr>c_MediaOwner := []\<rparr>) v)
                    | (None, v) \<Rightarrow> snd (upsert_call env 1 ((bump call)\<lparr>c_State := CallAlerting\<rparr>) v)))))"

subsection \<open>Hanging up and in-call controls\<close>

definition hangup_reason :: "string \<Rightarrow> Call \<Rightarrow> string" where
  "hangup_reason reason call =
     (if reason \<noteq> [] then reason
      else if c_Direction call = Incoming \<and> c_ConnectedAt call = None then ''rejected''
      else ''local_hangup'')"

definition Hangup :: "SEnv \<Rightarrow> nat \<Rightarrow> string \<Rightarrow> string \<Rightarrow> Svc \<Rightarrow> call_result" where
  "Hangup env k i reason v =
     (case get_Call (v_state v) i of
        None \<Rightarrow> ((None, Some call_conflict), v)
      | Some call \<Rightarrow>
          if c_State call = CallEnded \<or> c_State call = CallFailed then ((None, Some call_conflict), v)
          else
            (let v = snd (select_route env (c_GatewayID call) (c_SubscriptionID call) v) in
             case ask env MHangup v of (err, v) \<Rightarrow>
               (let call = (bump call)\<lparr>c_State := CallEnded, c_Held := False, c_EndedAt := Some (se_now env),
                      c_EndReason := hangup_reason reason call\<rparr>
                in case upsert_call env k call v of
                  (Some e, v) \<Rightarrow> ((None, Some e), v)
                | (None, v) \<Rightarrow> ((Some call, err), notifyCallEnded call v))))"

definition DTMF :: "SEnv \<Rightarrow> string \<Rightarrow> string \<Rightarrow> Svc \<Rightarrow> gerror option \<times> Svc" where
  "DTMF env i key v =
     (case get_Call (v_state v) i of
        None \<Rightarrow> (Some call_conflict, v)
      | Some call \<Rightarrow>
          if c_State call \<noteq> CallActive then (Some call_conflict, v)
          else (case select_route env (c_GatewayID call) (c_SubscriptionID call) v of
            (Some e, v) \<Rightarrow> (Some e, v)
          | (None, v) \<Rightarrow> ask env (MDTMF key) v))"

definition Mute :: "SEnv \<Rightarrow> string \<Rightarrow> bool \<Rightarrow> Svc \<Rightarrow> call_result" where
  "Mute env i muted v =
     (case get_Call (v_state v) i of
        None \<Rightarrow> ((None, Some call_conflict), v)
      | Some call \<Rightarrow>
          if c_State call \<noteq> CallActive then ((None, Some call_conflict), v)
          else (case select_route env (c_GatewayID call) (c_SubscriptionID call) v of
            (Some e, v) \<Rightarrow> ((None, Some e), v)
          | (None, v) \<Rightarrow>
              (case ask env (MSetMicMute muted) v of
                 (Some e, v) \<Rightarrow> ((None, Some e), v)
               | (None, v) \<Rightarrow>
                   (let call = (bump call)\<lparr>c_Muted := muted\<rparr> in
                    case upsert_call env 0 call v of (err, v) \<Rightarrow> ((Some call, err), v)))))"

subsection \<open>Messages\<close>

definition sent_message :: "SEnv \<Rightarrow> Route \<Rightarrow> string \<Rightarrow> string \<Rightarrow> Decision \<Rightarrow> Message" where
  "sent_message env route number body d = zeroMessage
     \<lparr>m_ID := NewID ''msg'' (se_rand env), m_Conversation := number, m_Direction := Outgoing, m_Number := number,
      m_Body := body, m_Status := ''sending'', m_Filter := d, m_CreatedAt := se_now env, m_Version := 1,
      m_GatewayID := ro_GatewayID route, m_SubscriptionID := ro_SubscriptionID route\<rparr>"

definition SendSMSRoute_check :: "SEnv \<Rightarrow> string \<Rightarrow> string \<Rightarrow> Route \<Rightarrow> Svc \<Rightarrow> gerror + Message" where
  "SendSMSRoute_check env raw body0 route v =
     (let s = v_state v; body = trim_space body0 in
      if \<not> st_SMS (get_Settings s) then Inl feature_disabled
      else if body = [] \<or> 1000 < length (runes body) then Inl invalid_message
      else (case Normalize (se_lib env) raw (st_Country (get_Settings s)) of
        Inl e \<Rightarrow> Inl e
      | Inr number \<Rightarrow>
          (let d = Decide (se_lib env) s number body ''sms'' in
           if dc_Action d = ''block'' then Inl number_blocked
           else Inr (sent_message env route number body d))))"

definition SendSMSRoute_finish :: "SEnv \<Rightarrow> Message \<Rightarrow> gerror option \<Rightarrow> Svc \<Rightarrow> msg_result" where
  "SendSMSRoute_finish env msg r v =
     (case r of
        Some e \<Rightarrow>
          (let msg = (bump_msg msg)\<lparr>m_Status := ''failed''\<rparr>
           in ((Some msg, Some e), snd (upsert_message env 1 msg v)))
      | None \<Rightarrow>
          (let msg = (bump_msg msg)\<lparr>m_Status := ''sent''\<rparr> in
           case upsert_message env 1 msg v of (err, v) \<Rightarrow> ((Some msg, err), v)))"

definition SendSMSRoute :: "SEnv \<Rightarrow> string \<Rightarrow> string \<Rightarrow> Route \<Rightarrow> Svc \<Rightarrow> msg_result" where
  "SendSMSRoute env raw body route v =
     (case SendSMSRoute_check env raw body route v of
        Inl e \<Rightarrow> ((None, Some e), v)
      | Inr msg \<Rightarrow>
          (case upsert_message env 0 msg v of
             (Some e, v) \<Rightarrow> ((None, Some e), v)
           | (None, v) \<Rightarrow>
               (case ask env (if se_routed env then MSendSMSRoute route (m_ID msg) (m_Number msg) (m_Body msg)
                              else MSendSMS (m_ID msg) (m_Number msg) (m_Body msg)) v of
                  (r, v) \<Rightarrow> SendSMSRoute_finish env msg r v)))"

definition DeleteMessage :: "SEnv \<Rightarrow> string \<Rightarrow> Svc \<Rightarrow> msg_result" where
  "DeleteMessage env i v =
     (case get_Message (v_state v) i of
        None \<Rightarrow> ((None, Some not_found), v)
      | Some msg \<Rightarrow>
          (let v = (if 0 < m_ModemIndex msg then snd (ask env (MDeleteSMS (m_ModemIndex msg)) v) else v);
               msg = (bump_msg msg)\<lparr>m_Deleted := True, m_Body := [], m_Unread := False\<rparr>
           in case upsert_message env 0 msg v of (err, v) \<Rightarrow> ((Some msg, err), v)))"

definition MarkRead :: "SEnv \<Rightarrow> string \<Rightarrow> Svc \<Rightarrow> msg_result" where
  "MarkRead env i v =
     (case get_Message (v_state v) i of
        None \<Rightarrow> ((None, Some not_found), v)
      | Some msg \<Rightarrow>
          if \<not> m_Unread msg then ((Some msg, None), v)
          else (let msg = (bump_msg msg)\<lparr>m_Unread := False\<rparr>
            in case upsert_message env 0 msg v of (err, v) \<Rightarrow> ((Some msg, err), v)))"

definition MarkAllRead :: "SEnv \<Rightarrow> Svc \<Rightarrow> (nat \<times> gerror option) \<times> Svc" where
  "MarkAllRead env v =
     (case MarkAllMessagesRead (se_store env 0) (v_state v) of (r, s) \<Rightarrow> (r, v\<lparr>v_state := s\<rparr>))"

subsection \<open>Probing the modem\<close>

definition probe_degraded :: "bool \<Rightarrow> Status \<Rightarrow> string list" where
  "probe_degraded audio p =
     (if audio then []
      else if ms_Provider p = ''android'' then [''ANDROID_AUDIO_UNAVAILABLE''] else [''USB_AUDIO_UNAVAILABLE'']) @
     (if \<not> ms_Registered p then [''CELLULAR_NETWORK_UNAVAILABLE'']
      else if \<not> ms_VoiceReady p then [''CS_VOICE_FALLBACK_UNAVAILABLE''] else [])"

definition probe :: "SEnv \<Rightarrow> Svc \<Rightarrow> Svc" where
  "probe env v =
     (if \<not> se_healthy env 0 then v
      else
        (let p = se_probe env; v = v\<lparr>v_lastProbe := p\<rparr>; d = sn_Device (get_Snapshot False (v_state v)) in
         update_device env (d
           \<lparr>d_GatewayType := (if ms_Provider p \<noteq> [] then ms_Provider p else d_GatewayType d),
            d_ATConnected := se_healthy env 1, d_AudioCapable := se_audio env,
            d_SIMReady := ms_SIMReady p, d_Registered := ms_Registered p, d_VoiceReady := ms_VoiceReady p,
            d_Operator := ms_Operator p, d_AccessTech := ms_AccessTech p,
            d_Signal := ms_Signal p, d_SignalDBm := ms_SignalDBm p,
            d_Degraded := probe_degraded (se_audio env) p\<rparr>) v))"

subsection \<open>System information\<close>

definition subscription_info :: "Subscription \<Rightarrow> GatewaySubscription" where
  "subscription_info u = \<lparr>gs_ID = su_ID u, gs_SIMSlot = su_SIMSlot u, gs_DisplayName = su_DisplayName u,
     gs_CarrierName = su_CarrierName u, gs_PhoneNumber = su_PhoneNumber u, gs_IMEI = su_IMEI u, gs_Ready = su_Ready u\<rparr>"

definition gatewayInfoFromStatus :: "Status \<Rightarrow> DeviceStatus \<Rightarrow> GatewayInfo" where
  "gatewayInfoFromStatus p device =
     \<lparr>gi_ID = ms_GatewayID p, gi_Type = ms_Provider p,
      gi_Connected = (if ms_Provider p = ''android'' then ms_ADBState p = ''device'' else d_ATConnected device),
      gi_Transport = ms_Transport p, gi_AudioCapable = (ms_AudioDownlinkOK p \<and> ms_AudioUplinkOK p),
      gi_ADBState = ms_ADBState p, gi_Manufacturer = ms_Manufacturer p, gi_Model = ms_Model p,
      gi_AndroidVersion = ms_AndroidVersion p, gi_BuildID = ms_BuildID p, gi_SecurityPatch = ms_SecurityPatch p,
      gi_BasebandVersion = ms_BasebandVersion p, gi_BatteryLevel = ms_BatteryLevel p,
      gi_BatteryCharging = ms_BatteryCharging p, gi_SubscriptionID = ms_SubscriptionID p,
      gi_SIMSlot = ms_SIMSlot p, gi_IMEI = ms_IMEI p, gi_IMSRegistered = ms_IMSRegistered p, gi_VoLTE = ms_VoLTE p,
      gi_CompanionVersion = ms_CompanionVersion p, gi_ProtocolVersion = ms_ProtocolVersion p,
      gi_AudioDownlinkOK = ms_AudioDownlinkOK p, gi_AudioUplinkOK = ms_AudioUplinkOK p,
      gi_AudioDownlinkFrames = ms_AudioDownlinkFrames p, gi_AudioUplinkFrames = ms_AudioUplinkFrames p,
      gi_AudioUplinkBytes = ms_AudioUplinkBytes p, gi_LastError = ms_LastError p,
      gi_Subscriptions = map subscription_info (ms_Subscriptions p)\<rparr>"

text \<open>The build's version strings are an argument.\<close>

definition get_SystemInfo :: "string \<times> string \<times> string \<Rightarrow> SEnv \<Rightarrow> Svc \<Rightarrow> SystemInfo" where
  "get_SystemInfo build env v =
     (let p = v_lastProbe v; device = sn_Device (get_Snapshot False (v_state v));
          info = gatewayInfoFromStatus p device;
          (version, revision, time) = build
      in \<lparr>sys_SIM = \<lparr>si_Ready = ms_SIMReady p, si_PhoneNumber = ms_PhoneNumber p, si_ICCID = ms_ICCID p, si_IMSI = ms_IMSI p\<rparr>,
          sys_Network = \<lparr>ni_Registered = ms_Registered p, ni_VoiceRegistered = ms_VoiceReady p, ni_Operator = ms_Operator p,
            ni_AccessTechnology = ms_AccessTech p, ni_Signal = ms_Signal p, ni_SignalDBm = ms_SignalDBm p\<rparr>,
          sys_Modem = \<lparr>mi_Connected = d_ATConnected device, mi_AudioCapable = d_AudioCapable device,
            mi_Manufacturer = ms_Manufacturer p, mi_Model = ms_Model p, mi_IMEI = ms_IMEI p, mi_Firmware = ms_Firmware p,
            mi_SubVersion = ms_SubVersion p, mi_QCN = ms_QCN p, mi_VoLTEControl = ms_VoLTEControl p,
            mi_ATPort = d_ATPort device, mi_AudioPort = d_AudioPort device\<rparr>,
          sys_Gateway = info,
          sys_Gateways = (if se_routed env then map (\<lambda>st. gatewayInfoFromStatus st device) (se_statuses env) else [info]),
          sys_Runtime = \<lparr>ri_Version = version, ri_Revision = revision, ri_BuildTime = time,
            ri_StartedAt = v_startedAt v, ri_UptimeSeconds = (se_now env - v_startedAt v) div second\<rparr>,
          sys_LastCheckedAt = (if ms_LastCheckedAt p = zeroTime then d_LastCheckedAt device else ms_LastCheckedAt p)\<rparr>)"

subsection \<open>Events of the modem\<close>

definition event_number :: "SEnv \<Rightarrow> MEvent \<Rightarrow> Svc \<Rightarrow> string" where
  "event_number env e v =
     (case Normalize (se_lib env) (me_Number e) (st_Country (get_Settings (v_state v))) of
        Inr n \<Rightarrow> n | Inl _ \<Rightarrow> me_Number e)"

definition on_device_online :: "SEnv \<Rightarrow> Svc \<Rightarrow> Svc" where
  "on_device_online env v =
     (let d = sn_Device (get_Snapshot False (v_state v)); provider = ms_Provider (v_lastProbe v) in
      act SpawnProbe (update_device env (d
        \<lparr>d_Mode := ''online'', d_GatewayType := (if provider \<noteq> [] then provider else d_GatewayType d),
         d_ATConnected := se_healthy env 0, d_AudioCapable := se_audio env, d_SIMReady := True,
         d_Degraded := (if se_audio env then [] else [''USB_AUDIO_UNAVAILABLE''])\<rparr>) v))"

definition on_device_offline :: "SEnv \<Rightarrow> MEvent \<Rightarrow> Svc \<Rightarrow> Svc" where
  "on_device_offline env e v =
     (let d = sn_Device (get_Snapshot False (v_state v)) in
      update_device env (d
        \<lparr>d_Mode := ''offline'', d_ATConnected := False, d_AudioCapable := False,
         d_Degraded := ''GATEWAY_OFFLINE'' # (if me_Reason e \<noteq> [] then [me_Reason e] else [])\<rparr>) v)"

definition incoming_call :: "SEnv \<Rightarrow> MEvent \<Rightarrow> string \<Rightarrow> Decision \<Rightarrow> Call" where
  "incoming_call env e number d = zeroCall
     \<lparr>c_ID := NewID ''call'' (se_rand env), c_Direction := Incoming, c_Number := number, c_State := CallIncoming,
      c_StartedAt := se_now env, c_Version := 1, c_Filter := d, c_GatewayID := me_GatewayID e,
      c_SubscriptionID := me_SubscriptionID e\<rparr>"

definition on_call_incoming :: "SEnv \<Rightarrow> MEvent \<Rightarrow> Svc \<Rightarrow> Svc" where
  "on_call_incoming env e v =
     (case ActiveCall (v_state v) of
        Some current \<Rightarrow>
          if c_State current = CallIncoming \<and> c_Number current = [] \<and> me_Number e \<noteq> []
          then snd (upsert_call env 0 ((bump current)\<lparr>c_Number := me_Number e\<rparr>) v)
          else v
      | None \<Rightarrow>
          (case select_route env (me_GatewayID e) (me_SubscriptionID e) v of
             (Some err, v) \<Rightarrow> v
           | (None, v) \<Rightarrow>
               (let number = event_number env e v;
                    d = Decide (se_lib env) (v_state v) number [] ''call'';
                    call = incoming_call env e number d;
                    v = snd (upsert_call env 0 call v);
                    settings = get_Settings (v_state v)
                in if \<not> st_Calls settings \<or> dc_Action d = ''block''
                   then snd (Hangup env 1 (c_ID call) ''filtered'' v)
                   else
                     (let v = notifyIncomingCall call v in
                      if st_VoicemailEnabled settings \<and> se_media env
                      then act (SpawnVoicemail (c_ID call)
                             ((if st_VoicemailTimeout settings = 0 then 30 else st_VoicemailTimeout settings) * second)) v
                      else v))))"

definition alerting_call :: "SEnv \<Rightarrow> MEvent \<Rightarrow> string \<Rightarrow> Decision \<Rightarrow> Call" where
  "alerting_call env e number d = zeroCall
     \<lparr>c_ID := NewID ''call'' (se_rand env), c_Direction := Outgoing, c_Number := number, c_State := CallAlerting,
      c_StartedAt := se_now env, c_Version := 1, c_Filter := d, c_GatewayID := me_GatewayID e,
      c_SubscriptionID := me_SubscriptionID e\<rparr>"

definition on_call_alerting :: "SEnv \<Rightarrow> MEvent \<Rightarrow> Svc \<Rightarrow> Svc" where
  "on_call_alerting env e v =
     (case ActiveCall (v_state v) of
        Some call \<Rightarrow> snd (upsert_call env 0 ((bump call)\<lparr>c_State := CallAlerting\<rparr>) v)
      | None \<Rightarrow>
          (case select_route env (me_GatewayID e) (me_SubscriptionID e) v of
             (Some err, v) \<Rightarrow> v
           | (None, v) \<Rightarrow>
               (let number = event_number env e v; d = Decide (se_lib env) (v_state v) number [] ''call''
                in snd (upsert_call env 0 (alerting_call env e number d) v))))"

definition on_call_active :: "SEnv \<Rightarrow> MEvent \<Rightarrow> Svc \<Rightarrow> Svc" where
  "on_call_active env e v =
     (case ActiveCall (v_state v) of
        None \<Rightarrow> v
      | Some call \<Rightarrow>
          (let v = snd (select_route env (c_GatewayID call) (c_SubscriptionID call) v);
               call = (bump call)\<lparr>c_State := CallActive, c_ConnectedAt := Some (se_now env)\<rparr>;
               v = snd (upsert_call env 0 call v)
           in if c_MediaOwner call = ''voicemail'' \<and> se_media env then act (StartVoicemail (c_ID call)) v
              else if c_Held call \<and> se_media env then act (SetHeld (c_ID call) True) v
              else snd (ask env (MEnableAudio True) v)))"

definition on_call_ended :: "SEnv \<Rightarrow> MEvent \<Rightarrow> Svc \<Rightarrow> Svc" where
  "on_call_ended env e v =
     (case ActiveCall (v_state v) of
        None \<Rightarrow> v
      | Some call \<Rightarrow>
          (let call = (bump call)\<lparr>c_State := CallEnded, c_Held := False, c_EndedAt := Some (se_now env),
                 c_EndReason := (if me_Reason e \<noteq> [] then me_Reason e else ''remote_hangup'')\<rparr>;
               v = snd (upsert_call env 0 call v);
               v = snd (ask env (MEnableAudio False) v)
           in notifyCallEnded call v))"

definition received_message :: "SEnv \<Rightarrow> MEvent \<Rightarrow> string \<Rightarrow> Decision \<Rightarrow> bool \<Rightarrow> Message" where
  "received_message env e number d sip = zeroMessage
     \<lparr>m_ID := NewID ''msg'' (se_rand env), m_Conversation := number, m_Direction := Incoming, m_Number := number,
      m_Body := me_Body e, m_Status := ''received'', m_Unread := True, m_Filtered := (dc_Action d = ''block''),
      m_Filter := d, m_ModemIndex := me_ModemIndex e, m_ProviderID := me_ProviderID e, m_CreatedAt := se_now env,
      m_Version := 1, m_GatewayID := me_GatewayID e, m_SubscriptionID := me_SubscriptionID e,
      m_SIPDelivery := (if sip \<and> dc_Action d \<noteq> ''block''
        then Some (zeroSIPDelivery\<lparr>sd_Status := ''queued'', sd_NextAt := Some (se_now env),
               sd_ExpiresAt := se_now env + 7 * 24 * 3600 * second\<rparr>)
        else None)\<rparr>"

definition on_sms_received :: "SEnv \<Rightarrow> MEvent \<Rightarrow> Svc \<Rightarrow> Svc" where
  "on_sms_received env e v =
     (if me_ProviderID e \<noteq> [] \<and>
         list_ex (\<lambda>m. m_ProviderID m = me_ProviderID e) (sn_Messages (get_Snapshot False (v_state v)))
      then v
      else
        (let number = event_number env e v;
             d = Decide (se_lib env) (v_state v) number (me_Body e) ''sms'';
             msg = received_message env e number d (st_SIPEnabled (get_Settings (v_state v)));
             v = snd (upsert_message env 0 msg v)
         in if st_SMS (get_Settings (v_state v)) \<and> \<not> m_Filtered msg then notifyIncomingSMS msg v else v))"

definition delivery_status :: "string \<Rightarrow> string" where
  "delivery_status t = (if t = ''sms.sent'' then ''sent'' else if t = ''sms.delivered'' then ''delivered'' else ''failed'')"

definition on_sms_status :: "SEnv \<Rightarrow> MEvent \<Rightarrow> Svc \<Rightarrow> Svc" where
  "on_sms_status env e v =
     (if me_ClientID e = [] then v
      else (case get_Message (v_state v) (me_ClientID e) of
        None \<Rightarrow> v
      | Some msg \<Rightarrow>
          if m_Direction msg \<noteq> Outgoing then v
          else snd (upsert_message env 0
            ((bump_msg msg)\<lparr>m_ProviderID := me_ProviderID e, m_Status := delivery_status (me_Type e)\<rparr>) v)))"

definition handleModem :: "SEnv \<Rightarrow> MEvent \<Rightarrow> Svc \<Rightarrow> Svc" where
  "handleModem env e v =
     (let t = me_Type e in
      if t = ''device.online'' then on_device_online env v
      else if t = ''device.offline'' then on_device_offline env e v
      else if t = ''call.incoming'' then on_call_incoming env e v
      else if t = ''call.alerting'' then on_call_alerting env e v
      else if t = ''call.active'' then on_call_active env e v
      else if t = ''call.ended'' then on_call_ended env e v
      else if t = ''sms.received'' then on_sms_received env e v
      else if t = ''sms.sent'' \<or> t = ''sms.delivered'' \<or> t = ''sms.failed'' then on_sms_status env e v
      else v)"

text \<open>The operations that leave the route open, and those of the web interface.\<close>

definition any_route :: Route where
  "any_route = \<lparr>ro_GatewayID = [], ro_SubscriptionID = 0\<rparr>"

definition DialFrom :: "SEnv \<Rightarrow> string \<Rightarrow> string \<Rightarrow> Svc \<Rightarrow> call_result" where
  "DialFrom env raw owner v = DialRoute env raw owner any_route v"

definition Dial :: "SEnv \<Rightarrow> string \<Rightarrow> Svc \<Rightarrow> call_result" where
  "Dial env raw v = DialRoute env raw ''web'' any_route v"

definition Answer :: "SEnv \<Rightarrow> string \<Rightarrow> Svc \<Rightarrow> call_result" where
  "Answer env i v = AnswerFrom env i ''web'' v"

definition SendSMS :: "SEnv \<Rightarrow> string \<Rightarrow> string \<Rightarrow> Svc \<Rightarrow> msg_result" where
  "SendSMS env raw body v = SendSMSRoute env raw body any_route v"

end
