(* ===== verification/Store_Facts.thy ===== *)
theory Store_Facts
  imports Store
begin

text \<open>
  Facts about the store's operations. Every write is one call of \<open>appendLocked\<close> with a payload of
  the type its event names; on such payloads encoding and decoding cancel out, and the write is an
  insert into the log followed by a plain update of the memory, \<open>effect\<close>. The versioned tables
  (calls and messages) implement the interface \<open>versioned_table\<close>, the log implements \<open>journal\<close>.
\<close>

subsection \<open>What an event does to the memory\<close>

fun typed_payload :: "string \<Rightarrow> Payload \<Rightarrow> bool" where
  "typed_payload t (PDevice _) \<longleftrightarrow> t = ''device.updated''"
| "typed_payload t (PCall _) \<longleftrightarrow> t = ''call.upserted''"
| "typed_payload t (PMessage _) \<longleftrightarrow> t = ''message.upserted''"
| "typed_payload t (PRule _) \<longleftrightarrow> t = ''rule.upserted''"
| "typed_payload t (PStored _) \<longleftrightarrow> t = ''recording.upserted''"
| "typed_payload t (PRecording _) \<longleftrightarrow> False"
| "typed_payload t (PSettings _) \<longleftrightarrow> t = ''settings.updated''"
| "typed_payload t (PIdent _) \<longleftrightarrow> t = ''rule.deleted'' \<or> t = ''recording.deleted''"

fun effect :: "string \<Rightarrow> string \<Rightarrow> Payload \<Rightarrow> Mem \<Rightarrow> Mem" where
  "effect t i (PDevice v) s = s\<lparr>mem_device := v\<rparr>"
| "effect t i (PCall v) s = put_call (v\<lparr>c_TelegramMsgIDs := []\<rparr>) s"
| "effect t i (PMessage v) s = put_message v s"
| "effect t i (PRule v) s = s\<lparr>mem_rules := tput (r_ID v) v (mem_rules s)\<rparr>"
| "effect t i (PStored v) s = s\<lparr>mem_recordings := tput (rec_ID v) v (mem_recordings s)\<rparr>"
| "effect t i (PRecording v) s = s"
| "effect t i (PSettings v) s = s\<lparr>mem_settings := merge_Settings (mem_settings s) v\<rparr>"
| "effect t i (PIdent _) s =
     (if t = ''rule.deleted'' then s\<lparr>mem_rules := tdel i (mem_rules s)\<rparr>
      else s\<lparr>mem_recordings := tdel i (mem_recordings s)\<rparr>)"

lemma apply_event_typed:
  assumes "typed_payload (ev_Type e) p" "ev_Raw e = Some (marshal_payload p)"
  shows "apply_event e s = (effect (ev_Type e) (ev_EntityID e) p s, None)"
  using assms by (cases p) (auto simp: apply_event_def event_raw_def on_decoded_def unmarshal_Settings_over)

definition logged_raw :: "aead \<Rightarrow> Env \<Rightarrow> Payload \<Rightarrow> json" where
  "logged_raw a env p =
     (case p of PSettings v \<Rightarrow> marshal_Settings (sealed_Settings a (env_nonce env) v) | _ \<Rightarrow> marshal_payload p)"

definition logged :: "Env \<Rightarrow> string \<Rightarrow> string \<Rightarrow> int \<Rightarrow> Payload \<Rightarrow> int \<Rightarrow> State \<Rightarrow> State" where
  "logged env t i ver p seq s =
     (let m = (effect t i p (s_mem s))\<lparr>mem_sequence := seq\<rparr>;
          e = \<lparr>ev_Sequence = seq, ev_Type = t, ev_EntityID = i, ev_Version = ver, ev_Timestamp = env_now env,
               ev_Payload = Some (safe_payload t i p m), ev_Raw = Some (marshal_payload p)\<rparr>;
          r = \<lparr>row_Sequence = seq, row_Type = t, row_Entity = i, row_Version = ver, row_Created = env_now env,
               row_Payload = logged_raw (s_secrets s) env p\<rparr>
      in publish e (s\<lparr>s_db := \<lparr>db_rows = db_rows (s_db s) @ [r], db_last = seq\<rparr>, s_mem := m\<rparr>))"

definition version_taken :: "string \<Rightarrow> int \<Rightarrow> State \<Rightarrow> bool" where
  "version_taken i ver s \<longleftrightarrow> list_ex (\<lambda>r. row_Entity r = i \<and> row_Version r = ver) (db_rows (s_db s))"

lemma stored_raw:
  assumes "typed_payload t p"
  shows "(if t = ''settings.updated'' then encryptSettings a (env_nonce env) (marshal_payload p)
          else Inr (marshal_payload p)) = Inr (logged_raw a env p)"
  using assms by (cases p) (auto simp: logged_raw_def)

text \<open>The two outcomes of an append: nothing happens, or the event is logged and applied.\<close>

lemma append_rejected:
  assumes "typed_payload t p" "env_fault env 0 \<noteq> None \<or> version_taken i ver s"
  shows "appendLocked env t i ver p s = (Inl (case env_fault env 0 of Some e \<Rightarrow> e | None \<Rightarrow> unique_error), s)"
  using assms(2) unfolding appendLocked_def Let_def stored_raw [OF assms(1)]
  by (cases "env_fault env 0") (simp_all add: insert_event_def version_taken_def)

lemma append_accepted:
  assumes "typed_payload t p" "env_fault env 0 = None" "\<not> version_taken i ver s"
  shows "\<exists>e. appendLocked env t i ver p s = (Inr e, logged env t i ver p (db_last (s_db s) + 1) s)
     \<and> ev_Sequence e = db_last (s_db s) + 1 \<and> ev_Payload e = Some (safe_payload t i p
          ((effect t i p (s_mem s))\<lparr>mem_sequence := db_last (s_db s) + 1\<rparr>))"
  using assms(2,3) unfolding appendLocked_def Let_def stored_raw [OF assms(1)]
  by (simp add: insert_event_def version_taken_def logged_def Let_def assms(1) apply_event_typed [where p = p])

lemma append_cases [consumes 1, case_names rejected accepted]:
  assumes "typed_payload t p"
  obtains e where "appendLocked env t i ver p s = (Inl e, s)"
      "env_fault env 0 \<noteq> None \<or> version_taken i ver s"
    | e where "appendLocked env t i ver p s = (Inr e, logged env t i ver p (db_last (s_db s) + 1) s)"
      "env_fault env 0 = None" "\<not> version_taken i ver s" "ev_Sequence e = db_last (s_db s) + 1"
proof (cases "env_fault env 0 = None \<and> \<not> version_taken i ver s")
  case True
  with append_accepted [OF assms, of env i ver s] that(2) show ?thesis by auto
next
  case False
  with append_rejected [OF assms, of env i ver s] that(1) show ?thesis by auto
qed

lemma append_mem:
  assumes "typed_payload t p" "appendLocked env t i ver p s = (r, s')"
  shows "(\<exists>e. r = Inl e \<and> s' = s) \<or>
    (\<exists>e. r = Inr e \<and> \<not> version_taken i ver s \<and> s' = logged env t i ver p (db_last (s_db s) + 1) s)"
  using assms(2) by (cases rule: append_cases [OF assms(1), of env i ver s]) auto

lemma logged_sel [simp]:
  "s_mem (logged env t i ver p seq s) = (effect t i p (s_mem s))\<lparr>mem_sequence := seq\<rparr>"
  "db_last (s_db (logged env t i ver p seq s)) = seq"
  "db_rows (s_db (logged env t i ver p seq s)) = db_rows (s_db s) @
     [\<lparr>row_Sequence = seq, row_Type = t, row_Entity = i, row_Version = ver, row_Created = env_now env,
       row_Payload = logged_raw (s_secrets s) env p\<rparr>]"
  "s_secrets (logged env t i ver p seq s) = s_secrets s"
  "s_next (logged env t i ver p seq s) = s_next s"
  by (simp_all add: logged_def Let_def publish_def)

subsection \<open>Tables with version numbers\<close>

text \<open>
  The contract of \<^verbatim>\<open>UpsertCall\<close> and \<^verbatim>\<open>UpsertMessage\<close> towards their clients, which read an entry, raise
  its version by one and write it back: a write is accepted only if nobody wrote in between.
\<close>

fun run_writes :: "('e \<Rightarrow> 'v \<Rightarrow> 's \<Rightarrow> (gerror + 'x) \<times> 's) \<Rightarrow> ('e \<times> 'v) list \<Rightarrow> 's \<Rightarrow> 'v list \<times> 's" where
  "run_writes put [] s = ([], s)"
| "run_writes put ((e, v) # ws) s =
     (case put e v s of
        (Inl _, s) \<Rightarrow> run_writes put ws s
      | (Inr _, s) \<Rightarrow> (let (acc, s) = run_writes put ws s in (v # acc, s)))"

locale versioned_table =
  fixes get :: "'s \<Rightarrow> string \<Rightarrow> 'v option"
    and put :: "'e \<Rightarrow> 'v \<Rightarrow> 's \<Rightarrow> (gerror + 'x) \<times> 's"
    and key :: "'v \<Rightarrow> string" and ver :: "'v \<Rightarrow> int" and norm :: "'v \<Rightarrow> 'v"
  assumes put_get: "put e v s = (Inr x, s') \<Longrightarrow> get s' k = (if k = key v then Some (norm v) else get s k)"
    and put_next: "put e v s = (Inr x, s') \<Longrightarrow> get s (key v) = Some old \<Longrightarrow> ver v = ver old + 1"
    and put_err: "put e v s = (Inl err, s') \<Longrightarrow> s' = s"
    and norm_ver: "ver v \<noteq> 0 \<Longrightarrow> ver (norm v) = ver v"
begin

lemma stale_write_rejected:
  assumes "get s (key v) = Some old" "0 \<le> ver old" "put e v s = (Inr x, s')"
    and "key w = key v" "ver w = ver old + 1"
  shows "\<exists>err. put e' w s' = (Inl err, s')"
proof -
  have v: "ver v = ver old + 1" using put_next [OF assms(3,1)] .
  then have cur: "get s' (key w) = Some (norm v)" "ver (norm v) = ver old + 1"
    using put_get [OF assms(3)] norm_ver assms(2,4) by auto
  obtain r s'' where put: "put e' w s' = (r, s'')" by fastforce
  show ?thesis
  proof (cases r)
    case (Inl err)
    then show ?thesis using put put_err by blast
  next
    case (Inr y)
    then have "ver w = ver (norm v) + 1" using put put_next cur(1) by blast
    then show ?thesis using cur(2) assms(5) by simp
  qed
qed

lemma version_counts_writes:
  assumes "get s k = Some old" "0 \<le> ver old" "run_writes put ws s = (acc, s')"
  shows "\<exists>new. get s' k = Some new \<and> ver new = ver old + int (length (filter (\<lambda>v. key v = k) acc))"
  using assms
proof (induction ws arbitrary: s old acc)
  case (Cons w ws)
  obtain e v where w: "w = (e, v)" by fastforce
  obtain r s1 where put: "put e v s = (r, s1)" by fastforce
  show ?case
  proof (cases r)
    case (Inl err)
    then have "s1 = s" using put put_err by blast
    then show ?thesis using Cons w put Inl by simp
  next
    case (Inr x)
    note ok = put [unfolded Inr]
    obtain acc' where acc: "run_writes put ws s1 = (acc', s')" "acc = v # acc'"
      using Cons.prems(3) w ok by (auto split: prod.splits)
    show ?thesis
    proof (cases "key v = k")
      case True
      have v: "ver v = ver old + 1" using put_next [OF ok] Cons.prems(1) True by simp
      have "get s1 k = Some (norm v)" "ver (norm v) = ver old + 1"
        using put_get [OF ok, of k] True v norm_ver Cons.prems(2) by auto
      then show ?thesis using Cons.IH [OF _ _ acc(1)] acc(2) True Cons.prems(2) by fastforce
    next
      case False
      have "get s1 k = Some old" using put_get [OF ok, of k] False Cons.prems(1) by auto
      then show ?thesis using Cons.IH [OF _ Cons.prems(2) acc(1)] acc(2) False by simp
    qed
  qed
qed simp

end

definition stored_call :: "Call \<Rightarrow> Call" where
  "stored_call v = (if c_Version v = 0 then v\<lparr>c_Version := 1\<rparr> else v)\<lparr>c_TelegramMsgIDs := []\<rparr>"

definition stored_message :: "Message \<Rightarrow> Message" where
  "stored_message v = (if m_Version v = 0 then v\<lparr>m_Version := 1\<rparr> else v)"

lemma mem_calls_put_call [simp]: "mem_calls (put_call v s) = tput (c_ID v) v (mem_calls s)"
  by (simp add: put_call_def Let_def)

lemma mem_messages_put_message [simp]: "mem_messages (put_message v s) = tput (m_ID v) v (mem_messages s)"
  by (simp add: put_message_def rebuildConversation_def)

text \<open>The two outcomes of the writes to the versioned tables.\<close>

lemma UpsertCall_append:
  assumes "UpsertCall env v s = (r, s')"
  shows "(r = Inl call_conflict \<and> s' = s \<and>
            (\<exists>old. get_Call s (c_ID v) = Some old \<and> c_Version v \<noteq> c_Version old + 1)) \<or>
    (\<exists>w. w\<lparr>c_TelegramMsgIDs := []\<rparr> = stored_call v \<and> c_ID w = c_ID v \<and>
       (\<forall>old. get_Call s (c_ID v) = Some old \<longrightarrow> c_Version v = c_Version old + 1) \<and>
       appendLocked env ''call.upserted'' (c_ID v) (c_Version (stored_call v)) (PCall w) s = (r, s'))"
  using assms unfolding UpsertCall_def get_Call_def stored_call_def Let_def
  by (auto split: option.splits if_splits)

lemma UpsertMessage_append:
  assumes "UpsertMessage env v s = (r, s')"
  shows "(r = Inl message_conflict \<and> s' = s \<and>
            (\<exists>old. get_Message s (m_ID v) = Some old \<and> m_Version v \<noteq> m_Version old + 1)) \<or>
    ((\<forall>old. get_Message s (m_ID v) = Some old \<longrightarrow> m_Version v = m_Version old + 1) \<and>
       appendLocked env ''message.upserted'' (m_ID v) (m_Version (stored_message v)) (PMessage (stored_message v)) s
         = (r, s'))"
  using assms unfolding UpsertMessage_def get_Message_def stored_message_def Let_def
  by (auto split: option.splits if_splits)

lemma stored_sel [simp]:
  "c_ID (stored_call v) = c_ID v" "m_ID (stored_message x) = m_ID x" "m_Number (stored_message x) = m_Number x"
  "c_Version v \<noteq> 0 \<Longrightarrow> c_Version (stored_call v) = c_Version v"
  "m_Version x \<noteq> 0 \<Longrightarrow> m_Version (stored_message x) = m_Version x"
  "c_State (stored_call v) = c_State v"
  by (simp_all add: stored_call_def stored_message_def)

lemma UpsertCall_ok:
  assumes "UpsertCall env v s = (Inr e, s')"
  shows "\<exists>w. w\<lparr>c_TelegramMsgIDs := []\<rparr> = stored_call v \<and>
      s' = logged env ''call.upserted'' (c_ID v) (c_Version (stored_call v)) (PCall w) (db_last (s_db s) + 1) s"
    and "s_mem s' = (put_call (stored_call v) (s_mem s))\<lparr>mem_sequence := db_last (s_db s) + 1\<rparr>"
    and "\<not> version_taken (c_ID v) (c_Version (stored_call v)) s"
    and "get_Call s (c_ID v) = Some old \<Longrightarrow> c_Version v = c_Version old + 1"
proof -
  obtain w where w: "w\<lparr>c_TelegramMsgIDs := []\<rparr> = stored_call v"
    and old: "\<forall>old. get_Call s (c_ID v) = Some old \<longrightarrow> c_Version v = c_Version old + 1"
    and app: "appendLocked env ''call.upserted'' (c_ID v) (c_Version (stored_call v)) (PCall w) s = (Inr e, s')"
    using UpsertCall_append [OF assms] by blast
  have s': "\<not> version_taken (c_ID v) (c_Version (stored_call v)) s"
    "s' = logged env ''call.upserted'' (c_ID v) (c_Version (stored_call v)) (PCall w) (db_last (s_db s) + 1) s"
    using append_mem [OF _ app] by auto
  show "\<exists>w. w\<lparr>c_TelegramMsgIDs := []\<rparr> = stored_call v \<and>
      s' = logged env ''call.upserted'' (c_ID v) (c_Version (stored_call v)) (PCall w) (db_last (s_db s) + 1) s"
    using w s'(2) by blast
  show "s_mem s' = (put_call (stored_call v) (s_mem s))\<lparr>mem_sequence := db_last (s_db s) + 1\<rparr>"
    using s'(2) w by simp
  show "\<not> version_taken (c_ID v) (c_Version (stored_call v)) s" by (rule s'(1))
  show "get_Call s (c_ID v) = Some old \<Longrightarrow> c_Version v = c_Version old + 1" using old by blast
qed

lemma UpsertCall_accepted:
  assumes "env_fault env 0 = None" "\<not> version_taken (c_ID v) (c_Version (stored_call v)) s"
    and "\<And>old. get_Call s (c_ID v) = Some old \<Longrightarrow> c_Version v = c_Version old + 1"
  shows "\<exists>e. UpsertCall env v s = (Inr e, snd (UpsertCall env v s))"
proof -
  obtain r s' where u: "UpsertCall env v s = (r, s')" by fastforce
  then obtain w where "appendLocked env ''call.upserted'' (c_ID v) (c_Version (stored_call v)) (PCall w) s = (r, s')"
    using UpsertCall_append [OF u] assms(3) by blast
  then show ?thesis
    using append_accepted [of "''call.upserted''" "PCall w" env "c_ID v" "c_Version (stored_call v)" s] assms(1,2) u
    by auto
qed

lemma UpsertMessage_accepted:
  assumes "env_fault env 0 = None" "\<not> version_taken (m_ID v) (m_Version (stored_message v)) s"
    and "\<And>old. get_Message s (m_ID v) = Some old \<Longrightarrow> m_Version v = m_Version old + 1"
  shows "\<exists>e. UpsertMessage env v s = (Inr e, snd (UpsertMessage env v s))"
proof -
  obtain r s' where u: "UpsertMessage env v s = (r, s')" by fastforce
  then have "appendLocked env ''message.upserted'' (m_ID v) (m_Version (stored_message v)) (PMessage (stored_message v)) s = (r, s')"
    using UpsertMessage_append [OF u] assms(3) by blast
  then show ?thesis
    using append_accepted [of "''message.upserted''" "PMessage (stored_message v)" env "m_ID v" "m_Version (stored_message v)" s]
      assms(1,2) u by auto
qed

lemma UpsertCall_err: "UpsertCall env v s = (Inl e, s') \<Longrightarrow> s' = s"
  by (auto dest!: UpsertCall_append append_mem [rotated])

lemma UpsertMessage_ok:
  assumes "UpsertMessage env v s = (Inr e, s')"
  shows "s' = logged env ''message.upserted'' (m_ID v) (m_Version (stored_message v))
           (PMessage (stored_message v)) (db_last (s_db s) + 1) s"
    and "\<not> version_taken (m_ID v) (m_Version (stored_message v)) s"
    and "get_Message s (m_ID v) = Some old \<Longrightarrow> m_Version v = m_Version old + 1"
  using UpsertMessage_append [OF assms] by (auto dest!: append_mem [rotated])

lemma UpsertMessage_err: "UpsertMessage env v s = (Inl e, s') \<Longrightarrow> s' = s"
  by (auto dest!: UpsertMessage_append append_mem [rotated])

interpretation calls: versioned_table get_Call UpsertCall c_ID c_Version stored_call
proof
  fix e v s x s' k assume "UpsertCall e v s = (Inr x, s')"
  then show "get_Call s' k = (if k = c_ID v then Some (stored_call v) else get_Call s k)"
    by (simp add: get_Call_def UpsertCall_ok(2))
qed (auto dest: UpsertCall_ok(4) UpsertCall_err)

interpretation messages: versioned_table get_Message UpsertMessage m_ID m_Version stored_message
proof
  fix e v s x s' k assume "UpsertMessage e v s = (Inr x, s')"
  from UpsertMessage_ok(1) [OF this]
  show "get_Message s' k = (if k = m_ID v then Some (stored_message v) else get_Message s k)"
    by (simp add: get_Message_def)
qed (auto dest: UpsertMessage_ok(3) UpsertMessage_err)

end
