(* ===== verification/Store_Replay.thy ===== *)
theory Store_Replay
  imports Store_Facts
begin

text \<open>
  Event sourcing: the state in memory is what replaying the log gives. The interface \<open>journal\<close>
  states what each operation owes to the log; the store implements it for every operation, so any
  sequence of operations, with any failures of the database, can be recovered by opening the
  database again. Two things are excluded because they do not hold: the time of the last device
  check, which is refreshed in memory only, and an \<open>UpdateDiskUsage\<close> whose write failed, which has
  already changed the memory.
\<close>

subsection \<open>The interface\<close>

fun redo_all :: "('r \<Rightarrow> 'm \<Rightarrow> 'm option) \<Rightarrow> 'r list \<Rightarrow> 'm \<Rightarrow> 'm option" where
  "redo_all redo [] m = Some m"
| "redo_all redo (r # rs) m = Option.bind (redo r m) (redo_all redo rs)"

lemma redo_all_append: "redo_all redo (rs @ rs') m = Option.bind (redo_all redo rs m) (redo_all redo rs')"
  by (induction rs arbitrary: m) (auto split: bind_splits)

fun run_ops :: "('o \<Rightarrow> 's \<Rightarrow> 's) \<Rightarrow> 'o list \<Rightarrow> 's \<Rightarrow> 's" where
  "run_ops step [] s = s"
| "run_ops step (q # qs) s = run_ops step qs (step q s)"

fun all_along :: "('o \<Rightarrow> 's \<Rightarrow> bool) \<Rightarrow> ('o \<Rightarrow> 's \<Rightarrow> 's) \<Rightarrow> 'o list \<Rightarrow> 's \<Rightarrow> bool" where
  "all_along safe step [] s = True"
| "all_along safe step (q # qs) s = (safe q s \<and> all_along safe step qs (step q s))"

locale journal =
  fixes log :: "'s \<Rightarrow> 'r list" and cfg :: "'s \<Rightarrow> 'k"
    and redo :: "'k \<Rightarrow> 'r \<Rightarrow> 'm \<Rightarrow> 'm option" and sim :: "'m \<Rightarrow> 's \<Rightarrow> bool"
    and step :: "'o \<Rightarrow> 's \<Rightarrow> 's" and safe :: "'o \<Rightarrow> 's \<Rightarrow> bool"
  assumes step_cfg: "cfg (step q s) = cfg s"
    and step_logged: "safe q s \<Longrightarrow> sim m s \<Longrightarrow>
      \<exists>rs m'. log (step q s) = log s @ rs \<and> redo_all (redo (cfg s)) rs m = Some m' \<and> sim m' (step q s)"
begin

lemma run_recoverable:
  assumes "redo_all (redo (cfg s)) (log s) m0 = Some m" "sim m s" "all_along safe step qs s"
  shows "\<exists>m'. redo_all (redo (cfg s)) (log (run_ops step qs s)) m0 = Some m' \<and> sim m' (run_ops step qs s)"
  using assms
proof (induction qs arbitrary: s m)
  case (Cons q qs)
  then obtain rs m' where "log (step q s) = log s @ rs" "redo_all (redo (cfg s)) rs m = Some m'" "sim m' (step q s)"
    using step_logged [of q s m] by auto
  then have "redo_all (redo (cfg (step q s))) (log (step q s)) m0 = Some m'"
    using Cons.prems(1) by (simp add: redo_all_append step_cfg)
  then show ?case
    using Cons.IH [of "step q s" m'] Cons.prems(3) \<open>sim m' (step q s)\<close> by (simp add: step_cfg)
qed auto

lemma log_grows:
  assumes "sim m s" "all_along safe step qs s"
  shows "\<exists>rs. log (run_ops step qs s) = log s @ rs"
  using assms
proof (induction qs arbitrary: s m)
  case (Cons q qs)
  then obtain rs m' where "log (step q s) = log s @ rs" "sim m' (step q s)"
    using step_logged [of q s m] by auto
  then show ?case using Cons.IH [of m' "step q s"] Cons.prems(2) by auto
qed simp

end

subsection \<open>Memory up to the time of the last check\<close>

definition timeless :: "Mem \<Rightarrow> Mem" where
  "timeless m = m\<lparr>mem_device := (mem_device m)\<lparr>d_LastCheckedAt := 0\<rparr>\<rparr>"

definition mem_eq :: "Mem \<Rightarrow> Mem \<Rightarrow> bool" where
  "mem_eq m m' \<longleftrightarrow> timeless m = timeless m'"

lemma mem_eq_refl [simp, intro]: "mem_eq m m"
  by (simp add: mem_eq_def)

lemma mem_eq_trans: "mem_eq a b \<Longrightarrow> mem_eq b c \<Longrightarrow> mem_eq a c"
  by (simp add: mem_eq_def)

lemma mem_eq_iff:
  "mem_eq m m' \<longleftrightarrow> mem_sequence m = mem_sequence m' \<and>
     (mem_device m)\<lparr>d_LastCheckedAt := 0\<rparr> = (mem_device m')\<lparr>d_LastCheckedAt := 0\<rparr> \<and>
     mem_activeCallID m = mem_activeCallID m' \<and> mem_calls m = mem_calls m' \<and>
     mem_messages m = mem_messages m' \<and> mem_conversations m = mem_conversations m' \<and>
     mem_rules m = mem_rules m' \<and> mem_recordings m = mem_recordings m' \<and> mem_settings m = mem_settings m'"
  by (cases m; cases m') (auto simp: mem_eq_def timeless_def)

lemma effect_mem_eq:
  "mem_eq m m' \<Longrightarrow> mem_eq ((effect t i p m)\<lparr>mem_sequence := q\<rparr>) ((effect t i p m')\<lparr>mem_sequence := q\<rparr>)"
  by (cases p) (auto simp: mem_eq_iff put_call_def put_message_def rebuildConversation_def Let_def)

lemma mem_eq_set_device [simp]:
  "mem_eq m (m\<lparr>mem_device := (mem_device m)\<lparr>d_LastCheckedAt := t\<rparr>\<rparr>)"
  by (simp add: mem_eq_def timeless_def)

subsection \<open>The steps of the store\<close>

datatype StoreOp =
    OpUpsertCall Env Call
  | OpUpsertMessage Env Message
  | OpMarkAllMessagesRead Env
  | OpUpsertRule Env FilterRule
  | OpDeleteRule Env string
  | OpUpdateSettings Env Settings
  | OpUpdateDevice Env DeviceStatus
  | OpUpdateDiskUsage Env float64
  | OpUpsertRecording Env Recording
  | OpDeleteRecording Env string
  | OpSubscribe
  | OpCancel nat
  | OpReceive nat

fun store_step :: "StoreOp \<Rightarrow> State \<Rightarrow> State" where
  "store_step (OpUpsertCall env v) s = snd (UpsertCall env v s)"
| "store_step (OpUpsertMessage env v) s = snd (UpsertMessage env v s)"
| "store_step (OpMarkAllMessagesRead env) s = snd (MarkAllMessagesRead env s)"
| "store_step (OpUpsertRule env v) s = snd (UpsertRule env v s)"
| "store_step (OpDeleteRule env i) s = snd (DeleteRule env i s)"
| "store_step (OpUpdateSettings env v) s = snd (UpdateSettings env v s)"
| "store_step (OpUpdateDevice env v) s = snd (UpdateDevice env v s)"
| "store_step (OpUpdateDiskUsage env pct) s = snd (UpdateDiskUsage env pct s)"
| "store_step (OpUpsertRecording env v) s = snd (UpsertRecording env v s)"
| "store_step (OpDeleteRecording env i) s = snd (DeleteRecording env i s)"
| "store_step OpSubscribe s = snd (Subscribe s)"
| "store_step (OpCancel ch) s = cancel ch s"
| "store_step (OpReceive ch) s = snd (receive ch s)"

text \<open>
  Nonces have the length the cipher asks for; the disk usage update is the one operation that
  must not fail.
\<close>

fun safe_op :: "StoreOp \<Rightarrow> State \<Rightarrow> bool" where
  "safe_op (OpUpdateSettings env v) s = nonces_ok (s_secrets s) (env_nonce env)"
| "safe_op (OpUpdateDiskUsage env pct) s = (fst (UpdateDiskUsage env pct s) = None)"
| "safe_op _ s = True"

text \<open>
  Every operation is a sequence of commits: either the log stays as it is and at most the device
  status in memory changes, or one event is logged and applied. A strict commit also keeps the
  memory in step with the log. Between commits, subscribers only take events or come and go.
\<close>

fun payload_entity :: "Payload \<Rightarrow> string \<Rightarrow> bool" where
  "payload_entity (PCall v) i \<longleftrightarrow> c_ID v = i"
| "payload_entity (PMessage v) i \<longleftrightarrow> m_ID v = i"
| "payload_entity (PRule v) i \<longleftrightarrow> r_ID v = i"
| "payload_entity (PStored v) i \<longleftrightarrow> rec_ID v = i"
| "payload_entity (PDevice _) i \<longleftrightarrow> i = ''device''"
| "payload_entity (PSettings _) i \<longleftrightarrow> i = ''settings''"
| "payload_entity _ i \<longleftrightarrow> True"

fun payload_version :: "Payload \<Rightarrow> int \<Rightarrow> int \<Rightarrow> bool" where
  "payload_version (PDevice _) ver n \<longleftrightarrow> ver = n + 1"
| "payload_version (PSettings _) ver n \<longleftrightarrow> ver = n + 1"
| "payload_version _ ver n \<longleftrightarrow> True"

definition subs_shrink :: "State \<Rightarrow> State \<Rightarrow> bool" where
  "subs_shrink s s' \<longleftrightarrow> (\<forall>c q. (c, q) \<in> set (s_subs s') \<longrightarrow>
     q = [] \<or> (\<exists>q0. (c, q0) \<in> set (s_subs s) \<and> (q = q0 \<or> q = tl q0)))"

inductive commit :: "bool \<Rightarrow> State \<Rightarrow> State \<Rightarrow> bool" where
  quiet: "s_db s' = s_db s \<Longrightarrow> s_secrets s' = s_secrets s \<Longrightarrow> s_mem s' = (s_mem s)\<lparr>mem_device := d\<rparr> \<Longrightarrow>
    (strict \<Longrightarrow> mem_eq (s_mem s) (s_mem s')) \<Longrightarrow> subs_shrink s s' \<Longrightarrow> commit strict s s'"
| append: "typed_payload t p \<Longrightarrow> \<not> version_taken i ver s \<Longrightarrow>
    (\<And>v. p = PSettings v \<Longrightarrow> strict \<Longrightarrow> nonces_ok (s_secrets s) (env_nonce env)) \<Longrightarrow>
    payload_entity p i \<Longrightarrow> payload_version p ver (mem_sequence (s_mem s)) \<Longrightarrow>
    commit strict s (logged env t i ver p (db_last (s_db s) + 1) s)"

lemma subs_shrink_same [simp]: "s_subs s' = s_subs s \<Longrightarrow> subs_shrink s s'"
  by (auto simp: subs_shrink_def)

lemma commit_refl [intro]: "commit strict s s"
  by (rule commit.quiet [of _ _ "mem_device (s_mem s)"]) auto

lemma commit_append:
  assumes "typed_payload t p" "\<And>v. p = PSettings v \<Longrightarrow> strict \<Longrightarrow> nonces_ok (s_secrets s) (env_nonce env)"
    "payload_entity p i" "payload_version p ver (mem_sequence (s_mem s))"
  shows "commit strict s (snd (appendLocked env t i ver p s))"
  using assms(1)
  by (cases rule: append_cases [of t p env i ver s]) (auto intro!: commit.append simp: assms(1,3,4) dest: assms(2))

lemma logged_set_device [simp]:
  "logged env t i ver (PDevice d) q (set_device d' s) = logged env t i ver (PDevice d) q s"
  by (simp add: logged_def set_device_def safe_payload_def)

lemma commit_disk:
  assumes "strict \<Longrightarrow> fst (UpdateDiskUsage env pct s) = None"
  shows "commit strict s (snd (UpdateDiskUsage env pct s))"
proof (cases "\<bar>d_DiskUsedPct (mem_device (s_mem s)) - pct\<bar> < 1 \<and> d_DiskUsedPct (mem_device (s_mem s)) \<noteq> 0")
  case False
  define d where "d = (mem_device (s_mem s))\<lparr>d_DiskUsedPct := pct, d_LastCheckedAt := env_now env\<rparr>"
  define ver where "ver = mem_sequence (s_mem s) + 1"
  have eq: "UpdateDiskUsage env pct s =
     (case appendLocked env ''device.updated'' ''device'' ver (PDevice d) (set_device d s) of
        (Inl e, s) \<Rightarrow> (Some e, s) | (Inr _, s) \<Rightarrow> (None, s))"
    using False unfolding UpdateDiskUsage_def d_def ver_def set_device_def Let_def by auto
  have typed: "typed_payload ''device.updated'' (PDevice d)" by simp
  show ?thesis
  proof (cases rule: append_cases [OF typed, of env "''device''" ver "set_device d s"])
    case (1 e)
    then have "\<not> strict" using assms by (auto simp: eq)
    then show ?thesis
      using 1 by (intro commit.quiet [of _ _ d]) (auto simp: eq set_device_def)
  next
    case (2 e)
    moreover have "\<not> version_taken ''device'' ver s"
      using 2(3) by (simp add: version_taken_def set_device_def)
    ultimately show ?thesis
      by (simp add: eq) (auto simp: set_device_def ver_def intro!: commit.append)
  qed
qed (auto simp: UpdateDiskUsage_def Let_def)

subsection \<open>Marking all messages read is a sequence of commits\<close>

lemma insert_event_ok:
  assumes "insert_event f t i ver now raw db = (Inr seq, db')"
  shows "seq = db_last db + 1" "db_last db' = seq"
    "db_rows db' = db_rows db @ [\<lparr>row_Sequence = seq, row_Type = t, row_Entity = i, row_Version = ver,
       row_Created = now, row_Payload = raw\<rparr>]"
    "\<not> list_ex (\<lambda>r. row_Entity r = i \<and> row_Version r = ver) (db_rows db)"
  using assms by (auto simp: insert_event_def split: option.splits if_splits)

lemma mark_inserts_Cons:
  assumes "mark_inserts env k (m # ms) (s_db s) = (Inr es, db)"
  defines "s1 \<equiv> logged env ''message.upserted'' (m_ID m) (m_Version m) (PMessage m) (db_last (s_db s) + 1) s"
  shows "commit strict s s1"
    and "\<exists>es1. mark_inserts env (Suc k) ms (s_db s1) = (Inr es1, db) \<and> length es = Suc (length es1) \<and>
      mark_apply es (s\<lparr>s_db := db\<rparr>) = mark_apply es1 (s1\<lparr>s_db := db\<rparr>)"
proof -
  obtain seq db1 where ins: "insert_event (env_fault env k) ''message.upserted'' (m_ID m) (m_Version m)
      (env_now env) (marshal_Message m) (s_db s) = (Inr seq, db1)"
    using assms(1) by (auto simp: Let_def split: prod.splits sum.splits)
  note ok = insert_event_ok [OF ins]
  have "\<not> version_taken (m_ID m) (m_Version m) s" using ok(4) by (simp add: version_taken_def)
  then show "commit strict s s1" for strict unfolding s1_def by (intro commit.append) auto
  have db1: "s_db s1 = db1"
    using ok by (cases db1) (simp add: s1_def logged_def publish_def logged_raw_def Let_def)
  define e where "e = \<lparr>ev_Sequence = seq, ev_Type = ''message.upserted'', ev_EntityID = m_ID m,
                    ev_Version = m_Version m, ev_Timestamp = env_now env, ev_Payload = Some (PMessage m),
                    ev_Raw = Some (marshal_Message m)\<rparr>"
  obtain es1 where es: "mark_inserts env (Suc k) ms db1 = (Inr es1, db)" "es = e # es1"
    using assms(1) ins by (auto simp: Let_def e_def split: prod.splits sum.splits)
  have "apply_event e (s_mem s) = (put_message m (s_mem s), None)"
    using apply_event_typed [of e "PMessage m" "s_mem s"] by (simp add: e_def)
  then have "mark_apply es (s\<lparr>s_db := db\<rparr>) = mark_apply es1 (s1\<lparr>s_db := db\<rparr>)"
    using ok(1) by (cases s) (simp add: es(2) s1_def logged_def publish_def safe_payload_def e_def Let_def)
  then show "\<exists>es1. mark_inserts env (Suc k) ms (s_db s1) = (Inr es1, db) \<and> length es = Suc (length es1) \<and>
      mark_apply es (s\<lparr>s_db := db\<rparr>) = mark_apply es1 (s1\<lparr>s_db := db\<rparr>)"
    using es db1 by auto
qed

definition put_messages :: "Message list \<Rightarrow> Mem \<Rightarrow> Mem" where
  "put_messages ms m = fold put_message ms m"

lemma put_message_sequence [simp]: "put_message v (m\<lparr>mem_sequence := q\<rparr>) = (put_message v m)\<lparr>mem_sequence := q\<rparr>"
  by (simp add: put_message_def rebuildConversation_def)

lemma put_messages_sequence [simp]:
  "put_messages ms (m\<lparr>mem_sequence := q\<rparr>) = (put_messages ms m)\<lparr>mem_sequence := q\<rparr>"
  by (induction ms arbitrary: m) (simp_all add: put_messages_def)

lemma mark_apply_commits:
  assumes "mark_inserts env k ms (s_db s) = (Inr es, db)" "mem_sequence (s_mem s) = db_last (s_db s)"
  shows "\<exists>s'. mark_apply es (s\<lparr>s_db := db\<rparr>) = (None, s') \<and> (commit strict)\<^sup>*\<^sup>* s s' \<and> length es = length ms \<and>
    s_mem s' = (put_messages ms (s_mem s))\<lparr>mem_sequence := db_last (s_db s) + int (length ms)\<rparr>"
  using assms
proof (induction ms arbitrary: k s es)
  case Nil
  then have "s\<lparr>s_db := db\<rparr> = s" "es = []" by simp_all
  with Nil(2) show ?case by (simp add: put_messages_def)
next
  case (Cons m ms)
  let ?s1 = "logged env ''message.upserted'' (m_ID m) (m_Version m) (PMessage m) (db_last (s_db s) + 1) s"
  obtain es1 where es1: "mark_inserts env (Suc k) ms (s_db ?s1) = (Inr es1, db)" "length es = Suc (length es1)"
    "mark_apply es (s\<lparr>s_db := db\<rparr>) = mark_apply es1 (?s1\<lparr>s_db := db\<rparr>)"
    using mark_inserts_Cons(2) [OF Cons.prems(1)] by blast
  have seq1: "mem_sequence (s_mem ?s1) = db_last (s_db ?s1)" by simp
  obtain s' where s': "mark_apply es1 (?s1\<lparr>s_db := db\<rparr>) = (None, s')" "(commit strict)\<^sup>*\<^sup>* ?s1 s'" "length es1 = length ms"
    "s_mem s' = (put_messages ms (s_mem ?s1))\<lparr>mem_sequence := db_last (s_db ?s1) + int (length ms)\<rparr>"
    using Cons.IH [OF es1(1) seq1] by blast
  have "(commit strict)\<^sup>*\<^sup>* s s'" using mark_inserts_Cons(1) [OF Cons.prems(1)] s'(2) by (rule converse_rtranclp_into_rtranclp)
  then show ?case using es1 s' by (simp add: put_messages_def [of "m # ms"] put_messages_def [symmetric] algebra_simps)
qed

lemma MarkAll_cases:
  assumes "mem_sequence (s_mem s) = db_last (s_db s)"
  shows "(\<exists>e. MarkAllMessagesRead env s = ((0, e), s) \<and>
             (e = None \<longrightarrow> read_updates (tvals (mem_messages (s_mem s))) = [])) \<or>
    (\<exists>s'. MarkAllMessagesRead env s = ((length (read_updates (tvals (mem_messages (s_mem s)))), None), s') \<and>
       (commit strict)\<^sup>*\<^sup>* s s' \<and>
       s_mem s' = (put_messages (read_updates (tvals (mem_messages (s_mem s)))) (s_mem s))
         \<lparr>mem_sequence := db_last (s_db s) + int (length (read_updates (tvals (mem_messages (s_mem s)))))\<rparr>)"
proof -
  let ?ms = "read_updates (tvals (mem_messages (s_mem s)))"
  obtain r db where ins: "mark_inserts env 1 ?ms (s_db s) = (r, db)" by fastforce
  show ?thesis
  proof (cases "\<exists>es. ?ms \<noteq> [] \<and> env_fault env 0 = None \<and> r = Inr es \<and> env_fault env (Suc (length ?ms)) = None")
    case True
    then obtain es where ok: "?ms \<noteq> []" "env_fault env 0 = None" "r = Inr es" "env_fault env (Suc (length ?ms)) = None"
      by blast
    obtain s' where s': "mark_apply es (s\<lparr>s_db := db\<rparr>) = (None, s')" "(commit strict)\<^sup>*\<^sup>* s s'" "length es = length ?ms"
      "s_mem s' = (put_messages ?ms (s_mem s))\<lparr>mem_sequence := db_last (s_db s) + int (length ?ms)\<rparr>"
      using mark_apply_commits [OF _ assms] ins ok(3) by blast
    have "MarkAllMessagesRead env s = ((length ?ms, None), s')"
      using ok s'(1,3) ins by (simp add: MarkAllMessagesRead_def Let_def)
    with s' show ?thesis by blast
  next
    case False
    then show ?thesis
      using ins by (auto simp: MarkAllMessagesRead_def Let_def split: option.splits sum.splits prod.splits)
  qed
qed

lemma subs_shrink_receive: "subs_shrink s (snd (receive ch s))"
  by (auto simp: subs_shrink_def receive_def split: option.split list.split if_splits dest!: map_of_SomeD)

lemma store_step_commits:
  assumes "strict \<Longrightarrow> safe_op q s" "mem_sequence (s_mem s) = db_last (s_db s)"
  shows "(commit strict)\<^sup>*\<^sup>* s (store_step q s)"
proof -
  have app: "(commit strict)\<^sup>*\<^sup>* s (snd (appendLocked env t i ver p s))"
    if "typed_payload t p" "\<And>v. p = PSettings v \<Longrightarrow> strict \<Longrightarrow> nonces_ok (s_secrets s) (env_nonce env)"
      "payload_entity p i" "payload_version p ver (mem_sequence (s_mem s))" for env t i ver p
    using commit_append [OF that] by auto
  have still: "(commit strict)\<^sup>*\<^sup>* s s'"
    if "s_db s' = s_db s" "s_secrets s' = s_secrets s" "s_mem s' = s_mem s" "subs_shrink s s'" for s'
    using that by (intro r_into_rtranclp commit.quiet [of _ _ "mem_device (s_mem s)"]) auto
  show ?thesis
  proof (cases q)
    case (OpMarkAllMessagesRead env)
    then show ?thesis using MarkAll_cases [OF assms(2), where env = env and strict = strict] by auto
  next
    case (OpUpdateDiskUsage env pct)
    then show ?thesis using assms(1) commit_disk [of strict env pct s] by auto
  next
    case (OpUpdateDevice env v)
    have "commit strict s (set_device ((mem_device (s_mem s))\<lparr>d_LastCheckedAt := t\<rparr>) s)" for t
      by (rule commit.quiet) (simp_all add: set_device_def)
    then show ?thesis using OpUpdateDevice by (auto simp: UpdateDevice_def Let_def intro!: app)
  next
    case OpSubscribe
    then show ?thesis by (auto intro!: still simp: Subscribe_def subs_shrink_def)
  next
    case (OpCancel ch)
    then show ?thesis by (auto intro!: still simp: cancel_def subs_shrink_def)
  next
    case (OpReceive ch)
    then show ?thesis
      using still [OF _ _ _ subs_shrink_receive]
      by (auto simp: receive_def split: option.split list.split)
  qed (use assms(1) in \<open>auto simp: UpsertCall_def UpsertMessage_def UpsertRule_def DeleteRule_def
        UpdateSettings_def UpsertRecording_def DeleteRecording_def Let_def intro!: app split: option.split\<close>)
qed

text \<open>
  An invariant of the commits, together with the agreement of the two sequence counters, is an
  invariant of every run of the store, whatever fails.
\<close>

lemma commit_sequence:
  "commit strict s s' \<Longrightarrow> mem_sequence (s_mem s) = db_last (s_db s) \<Longrightarrow> mem_sequence (s_mem s') = db_last (s_db s')"
  by (induction rule: commit.induct) auto

lemma commits_invariant:
  assumes "(commit strict)\<^sup>*\<^sup>* s s'" "mem_sequence (s_mem s) = db_last (s_db s)" "P s"
    and "\<And>s s'. commit strict s s' \<Longrightarrow> mem_sequence (s_mem s) = db_last (s_db s) \<Longrightarrow> P s \<Longrightarrow> P s'"
  shows "P s' \<and> mem_sequence (s_mem s') = db_last (s_db s')"
  using assms(1) by (induction rule: rtranclp_induct) (use assms(2-) commit_sequence in blast)+

lemma run_invariant:
  assumes "mem_sequence (s_mem s) = db_last (s_db s)" "P s"
    and "\<And>s s'. commit False s s' \<Longrightarrow> mem_sequence (s_mem s) = db_last (s_db s) \<Longrightarrow> P s \<Longrightarrow> P s'"
  shows "P (run_ops store_step qs s)"
  using assms(1,2)
proof (induction qs arbitrary: s)
  case (Cons q qs)
  have "(commit False)\<^sup>*\<^sup>* s (store_step q s)" using Cons.prems(1) by (intro store_step_commits) auto
  from commits_invariant [where P = P, OF this Cons.prems assms(3)] Cons.IH show ?case by simp
qed simp

lemma run_invariant_safe:
  assumes "all_along safe_op store_step qs s" "mem_sequence (s_mem s) = db_last (s_db s)" "P s"
    and "\<And>s s'. commit True s s' \<Longrightarrow> mem_sequence (s_mem s) = db_last (s_db s) \<Longrightarrow> P s \<Longrightarrow> P s'"
  shows "P (run_ops store_step qs s)"
  using assms(1-3)
proof (induction qs arbitrary: s)
  case (Cons q qs)
  have "(commit True)\<^sup>*\<^sup>* s (store_step q s)" using Cons.prems(1,2) by (intro store_step_commits) auto
  from commits_invariant [where P = P, OF this Cons.prems(2,3) assms(4)] Cons show ?case by simp
qed simp

subsection \<open>The store is a journal\<close>

definition log_ok :: "State \<Rightarrow> bool" where
  "log_ok s \<longleftrightarrow> sorted (map row_Sequence (db_rows (s_db s))) \<and>
     list_all (\<lambda>r. row_Sequence r \<le> db_last (s_db s)) (db_rows (s_db s)) \<and>
     mem_sequence (s_mem s) = db_last (s_db s)"

definition redo_row :: "aead \<Rightarrow> Row \<Rightarrow> Mem \<Rightarrow> Mem option" where
  "redo_row a r m = (case replay_row a r m of (m', None) \<Rightarrow> Some m' | (_, Some _) \<Rightarrow> None)"

definition recovered :: "Mem \<Rightarrow> State \<Rightarrow> bool" where
  "recovered m s \<longleftrightarrow> mem_eq m (s_mem s) \<and> log_ok s \<and> aead_ok (s_secrets s)"

lemma redo_all_replay: "redo_all (redo_row a) rs m = Some m' \<longleftrightarrow> replay a rs m = (m', None)"
  by (induction rs arbitrary: m) (auto simp: redo_row_def split: prod.splits option.splits)

lemma replay_logged_row:
  assumes "typed_payload t p" "aead_ok a" "\<forall>v. p = PSettings v \<longrightarrow> nonces_ok a (env_nonce env)"
  shows "replay_row a \<lparr>row_Sequence = q, row_Type = t, row_Entity = i, row_Version = ver, row_Created = c,
     row_Payload = logged_raw a env p\<rparr> m = ((effect t i p m)\<lparr>mem_sequence := q\<rparr>, None)"
proof -
  have raw: "(if t = ''settings.updated'' then decryptSettings a (logged_raw a env p) else Inr (logged_raw a env p))
      = Inr (marshal_payload p)"
    using assms by (cases p) (auto simp: logged_raw_def)
  show ?thesis
    unfolding replay_row_def Row.select_convs raw
    by (simp add: row_event_def assms(1) apply_event_typed [where p = p])
qed

lemma commit_recovered:
  assumes "commit True s s'" "recovered m s"
  shows "\<exists>rs m'. db_rows (s_db s') = db_rows (s_db s) @ rs \<and>
    redo_all (redo_row (s_secrets s)) rs m = Some m' \<and> recovered m' s' \<and> s_secrets s' = s_secrets s"
  using assms
proof (cases rule: commit.cases)
  case quiet
  then have "db_rows (s_db s') = db_rows (s_db s) @ []" "redo_all (redo_row (s_secrets s)) [] m = Some m"
    "recovered m s'" "s_secrets s' = s_secrets s"
    using assms(2) by (auto simp: recovered_def log_ok_def mem_eq_iff)
  then show ?thesis by blast
next
  case (append t p i ver env)
  have nonces: "\<forall>v. p = PSettings v \<longrightarrow> nonces_ok (s_secrets s) (env_nonce env)" using append(4) by simp
  let ?m' = "(effect t i p m)\<lparr>mem_sequence := db_last (s_db s) + 1\<rparr>"
  have "redo_row (s_secrets s) \<lparr>row_Sequence = db_last (s_db s) + 1, row_Type = t, row_Entity = i,
      row_Version = ver, row_Created = env_now env, row_Payload = logged_raw (s_secrets s) env p\<rparr> m = Some ?m'"
    using replay_logged_row [OF append(2) _ nonces] assms(2) by (simp add: redo_row_def recovered_def)
  moreover have "recovered ?m' s'"
    using assms(2) append(1) effect_mem_eq
    by (auto simp: recovered_def log_ok_def sorted_append list_all_iff)
  ultimately show ?thesis using append(1) by auto
qed

lemma commits_recovered:
  assumes "(commit True)\<^sup>*\<^sup>* s s'" "recovered m s"
  shows "\<exists>rs m'. db_rows (s_db s') = db_rows (s_db s) @ rs \<and>
    redo_all (redo_row (s_secrets s)) rs m = Some m' \<and> recovered m' s' \<and> s_secrets s' = s_secrets s"
  using assms
proof (induction rule: rtranclp_induct)
  case base
  then show ?case by auto
next
  case (step s1 s2)
  then obtain rs m1 where 1: "db_rows (s_db s1) = db_rows (s_db s) @ rs"
    "redo_all (redo_row (s_secrets s)) rs m = Some m1" "recovered m1 s1" "s_secrets s1 = s_secrets s" by auto
  from commit_recovered [OF step.hyps(2) 1(3)] obtain rs2 m2 where 2:
    "db_rows (s_db s2) = db_rows (s_db s1) @ rs2" "redo_all (redo_row (s_secrets s)) rs2 m1 = Some m2"
    "recovered m2 s2" "s_secrets s2 = s_secrets s" using 1(4) by auto
  show ?case using 1 2 by (intro exI [of _ "rs @ rs2"] exI [of _ m2]) (simp add: redo_all_append)
qed

lemma appendLocked_secrets [simp]: "s_secrets (snd (appendLocked env t i ver p s)) = s_secrets s"
  by (simp add: appendLocked_def Let_def publish_def split: sum.split prod.split option.split)

lemma mark_apply_secrets [simp]: "s_secrets (snd (mark_apply es s)) = s_secrets s"
  by (induction es s rule: mark_apply.induct) (auto simp: publish_def split: prod.split option.split)

lemma mark_apply_secretsD: "mark_apply es s = (r, s') \<Longrightarrow> s_secrets s' = s_secrets s"
  using mark_apply_secrets [of es s] by simp

lemma MarkAll_secrets [simp]: "s_secrets (snd (MarkAllMessagesRead env s)) = s_secrets s"
  by (auto simp: MarkAllMessagesRead_def Let_def split: option.split sum.split prod.split
        dest!: mark_apply_secretsD)

lemma DiskUsage_secrets [simp]: "s_secrets (snd (UpdateDiskUsage env pct s)) = s_secrets s"
proof -
  have "s_secrets (snd (case r of (Inl e, s) \<Rightarrow> (Some e, s) | (Inr x, s) \<Rightarrow> (None, s))) = s_secrets (snd r)"
    for r :: "(gerror + Event) \<times> State"
    by (auto split: sum.split prod.split)
  then show ?thesis by (simp add: UpdateDiskUsage_def Let_def set_device_def)
qed

lemma store_step_secrets: "s_secrets (store_step q s) = s_secrets s"
  by (cases q) (auto simp: UpsertCall_def UpsertMessage_def UpsertRule_def DeleteRule_def UpdateSettings_def
     UpdateDevice_def set_device_def UpsertRecording_def DeleteRecording_def Subscribe_def cancel_def receive_def
     Let_def split: option.split list.split)

interpretation log: journal "\<lambda>s. db_rows (s_db s)" s_secrets redo_row recovered store_step safe_op
proof
  fix q s m assume "safe_op q s" "recovered m s"
  moreover from this have "(commit True)\<^sup>*\<^sup>* s (store_step q s)"
    by (intro store_step_commits) (auto simp: recovered_def log_ok_def)
  ultimately show "\<exists>rs m'. db_rows (s_db (store_step q s)) = db_rows (s_db s) @ rs \<and>
      redo_all (redo_row (s_secrets s)) rs m = Some m' \<and> recovered m' (store_step q s)"
    using commits_recovered by blast
qed (rule store_step_secrets)

end
