(* ===== verification/Store_Props.thy ===== *)
theory Store_Props
  imports Store_Replay
begin

text \<open>
  The properties of the store: durability, confidentiality of the secret settings, the version
  checks, the conversation summaries, marking messages read and the subscribers' channels. The
  invariants are proved for the commits of the theory \<^verbatim>\<open>Store_Replay\<close> and hold for every run of the
  operations.
\<close>

subsection \<open>Durability\<close>

definition durable :: "State \<Rightarrow> bool" where
  "durable s \<longleftrightarrow> log_ok s \<and> aead_ok (s_secrets s) \<and>
     (\<forall>now. \<exists>m. replay (s_secrets s) (db_rows (s_db s)) (initMem now) = (m, None) \<and> mem_eq m (s_mem s))"

definition opens_with :: "(string \<Rightarrow> gerror + aead) \<Rightarrow> open_io \<Rightarrow> DB \<Rightarrow> aead \<Rightarrow> bool" where
  "opens_with newGCM io db a \<longleftrightarrow> oi_mkdir io = None \<and> oi_open io = Inr db \<and> oi_schema io = None \<and>
     oi_keydir io = None \<and> oi_query io = None \<and>
     (case loadSecretCipher newGCM (oi_key io) of Inr (b, _) \<Rightarrow> b = a | Inl _ \<Rightarrow> False)"

lemma OpenWithKey_replay:
  assumes "opens_with newGCM io db a" "sorted (map row_Sequence (db_rows db))"
  shows "OpenWithKey newGCM now io = (case replay a (db_rows db) (initMem now) of
     (_, Some e) \<Rightarrow> Inl e | (m, None) \<Rightarrow> Inr \<lparr>s_db = db, s_mem = m, s_subs = [], s_next = 0, s_secrets = a\<rparr>)"
  using assms
  by (auto simp: opens_with_def OpenWithKey_def sort_key_id_if_sorted split: sum.splits prod.splits)

lemma mem_eq_initMem: "mem_eq (initMem t) (initMem t')"
  by (simp add: mem_eq_def timeless_def initMem_def)

lemma mem_sequence_initMem [simp]: "mem_sequence (initMem t) = 0"
  by (simp add: initMem_def)

lemma mem_eq_sym: "mem_eq a b \<Longrightarrow> mem_eq b a"
  by (simp add: mem_eq_def)

lemma durable_reopen:
  assumes "durable s" "opens_with newGCM io (s_db s) (s_secrets s)"
  shows "\<exists>s2. OpenWithKey newGCM now io = Inr s2 \<and> mem_eq (s_mem s2) (s_mem s) \<and> durable s2 \<and>
    s_db s2 = s_db s \<and> s_secrets s2 = s_secrets s"
proof -
  obtain m where m: "replay (s_secrets s) (db_rows (s_db s)) (initMem now) = (m, None)" "mem_eq m (s_mem s)"
    using assms(1) unfolding durable_def by blast
  let ?s2 = "\<lparr>s_db = s_db s, s_mem = m, s_subs = [], s_next = 0, s_secrets = s_secrets s\<rparr>"
  have "OpenWithKey newGCM now io = Inr ?s2"
    using OpenWithKey_replay [OF assms(2)] assms(1) m(1) by (simp add: durable_def log_ok_def)
  moreover have "log_ok ?s2" using assms(1) m(2) by (simp add: durable_def log_ok_def mem_eq_iff)
  moreover have "\<exists>m'. replay (s_secrets s) (db_rows (s_db s)) (initMem now') = (m', None) \<and> mem_eq m' m" for now'
    using assms(1) m(2) unfolding durable_def by (meson mem_eq_sym mem_eq_trans)
  ultimately show ?thesis using m(2) assms(1) by (simp add: durable_def)
qed

lemma durable_run:
  assumes "durable s" "all_along safe_op store_step qs s"
  shows "durable (run_ops store_step qs s) \<and> s_secrets (run_ops store_step qs s) = s_secrets s"
proof -
  let ?s' = "run_ops store_step qs s"
  have sec: "s_secrets ?s' = s_secrets s"
    by (induction qs arbitrary: s) (simp_all add: store_step_secrets)
  have run: "\<exists>m'. replay (s_secrets s) (db_rows (s_db ?s')) (initMem now) = (m', None) \<and> recovered m' ?s'" for now
  proof -
    obtain m where "replay (s_secrets s) (db_rows (s_db s)) (initMem now) = (m, None)" "mem_eq m (s_mem s)"
      using assms(1) unfolding durable_def by blast
    then have "redo_all (redo_row (s_secrets s)) (db_rows (s_db s)) (initMem now) = Some m" "recovered m s"
      using assms(1) by (auto simp: redo_all_replay durable_def recovered_def)
    from log.run_recoverable [OF this assms(2)] show ?thesis by (auto simp: redo_all_replay)
  qed
  then show ?thesis using sec unfolding durable_def recovered_def by metis
qed

text \<open>
  The inputs of the witnesses below: a cipher that authenticates with its nonce and reverses the
  text, and an environment without failures.
\<close>

definition demo_aead :: aead where
  "demo_aead = \<lparr>NonceSize = 12, Seal = (\<lambda>n p. n @ rev p),
     Open = (\<lambda>n c. if take (length n) c = n then Some (rev (drop (length n) c)) else None)\<rparr>"

definition demo_io :: "DB \<Rightarrow> open_io" where
  "demo_io db = \<lparr>oi_mkdir = None, oi_open = Inr db, oi_schema = None, oi_keydir = None,
     oi_key = \<lparr>io_read = Inr (Some (replicate 32 (CHR ''k''))), io_rand = Inr [], io_write = None\<rparr>, oi_query = None\<rparr>"

definition demo_env :: "gtime \<Rightarrow> Env" where
  "demo_env t = \<lparr>env_now = t, env_nonce = (\<lambda>_. replicate 12 (CHR ''n'')), env_fault = (\<lambda>_. None)\<rparr>"

definition demo_state :: State where
  "demo_state = \<lparr>s_db = emptyDB, s_mem = initMem 0, s_subs = [], s_next = 0, s_secrets = demo_aead\<rparr>"

lemma demo_aead_ok: "aead_ok demo_aead"
  by (simp add: aead_ok_def demo_aead_def)

lemma demo_nonces_ok: "nonces_ok demo_aead (env_nonce (demo_env t))"
  by (simp add: nonces_ok_def demo_env_def demo_aead_def)

lemma demo_opens: "opens_with (\<lambda>_. Inr demo_aead) (demo_io db) db demo_aead"
  by (simp add: opens_with_def demo_io_def loadSecretCipher_def finish_cipher_def)

lemma demo_durable: "durable demo_state"
  by (simp add: durable_def log_ok_def demo_state_def emptyDB_def mem_eq_initMem demo_aead_ok)

text \<open>A new store is durable, whatever the key: the database of a fresh installation opens,
  and its state is the initial one.\<close>

theorem fresh_store_durable:
  assumes "opens_with newGCM io emptyDB a" "aead_ok a"
  shows "\<exists>s. OpenWithKey newGCM now io = Inr s \<and> s_mem s = initMem now \<and> durable s"
proof -
  have "OpenWithKey newGCM now io =
      Inr \<lparr>s_db = emptyDB, s_mem = initMem now, s_subs = [], s_next = 0, s_secrets = a\<rparr>"
    using OpenWithKey_replay [OF assms(1)] by (simp add: emptyDB_def)
  then show ?thesis
    using assms(2) by (simp add: durable_def log_ok_def emptyDB_def mem_eq_initMem)
qed

theorem fresh_store_durable_witness:
  "\<exists>s. OpenWithKey (\<lambda>_. Inr demo_aead) 7 (demo_io emptyDB) = Inr s \<and> s_mem s = initMem 7 \<and> durable s"
  by (rule fresh_store_durable [OF demo_opens demo_aead_ok])

text \<open>C1: Event sourcing. After any sequence of operations on a durable store, with any failures of
  the database (a failed disk usage update excepted), opening the resulting database with the same
  key succeeds and gives the state the store had in memory, up to the time of the last device
  check; and the reopened store is durable again.\<close>

theorem reopen_restores_state:
  assumes "durable s" "all_along safe_op store_step qs s"
    and "opens_with newGCM io (s_db (run_ops store_step qs s)) (s_secrets s)"
  shows "\<exists>s2. OpenWithKey newGCM now io = Inr s2 \<and> mem_eq (s_mem s2) (s_mem (run_ops store_step qs s)) \<and> durable s2"
  using durable_run [OF assms(1,2)] assms(3)
    durable_reopen [of "run_ops store_step qs s" newGCM io now] by auto

theorem reopen_restores_state_witness:
  "\<exists>s2. OpenWithKey (\<lambda>_. Inr demo_aead) 9
       (demo_io (s_db (run_ops store_step [OpUpdateSettings (demo_env 3) defaultSettings, OpUpsertCall (demo_env 5) zeroCall] demo_state)))
       = Inr s2 \<and>
     mem_eq (s_mem s2) (s_mem (run_ops store_step
       [OpUpdateSettings (demo_env 3) defaultSettings, OpUpsertCall (demo_env 5) zeroCall] demo_state)) \<and> durable s2"
  by (rule reopen_restores_state [OF demo_durable])
     (simp_all add: demo_opens demo_nonces_ok demo_state_def)

subsection \<open>Confidentiality\<close>

text \<open>No object inside a document, at any depth, has a key that names a secret.\<close>

definition secret_key :: "string \<Rightarrow> bool" where
  "secret_key k \<longleftrightarrow> List.member [''telegramToken'', ''providerApiKey'', ''sipPassword'', ''storagePath''] k"

fun clean_json :: "json \<Rightarrow> bool" where
  "clean_json (JArr js) \<longleftrightarrow> list_all clean_json js"
| "clean_json (JObj fs) \<longleftrightarrow> list_all (\<lambda>f. \<not> secret_key (fst f) \<and> clean_json (snd f)) fs"
| "clean_json _ \<longleftrightarrow> True"

lemma clean_atoms [simp]: "clean_json (jint i)" "clean_json (jtime_opt t)" "clean_json (jstrs xs)"
  by (simp_all add: jint_def jtime_opt_def jstrs_def list_all_iff split: option.split)

lemma list_all_omitempty [simp]: "list_all P (omitempty k z j) \<longleftrightarrow> z \<or> P (k, j)"
  by (simp add: omitempty_def)

lemma clean_marshal [simp]:
  "clean_json (marshal_DeviceStatus d)" "clean_json (marshal_Decision f)" "clean_json (marshal_Call c)"
  "clean_json (marshal_SIPDelivery_ptr sd)" "clean_json (marshal_Message m)" "clean_json (marshal_FilterRule r)"
proof -
  show dec: "clean_json (marshal_Decision f)" for f
    by (simp add: secret_key_def marshal_Decision_def)
  show sip: "clean_json (marshal_SIPDelivery_ptr sd)" for sd
    by (simp add: secret_key_def marshal_SIPDelivery_ptr_def marshal_SIPDelivery_def split: option.split)
  show "clean_json (marshal_DeviceStatus d)" "clean_json (marshal_FilterRule r)"
    by (simp_all add: secret_key_def marshal_DeviceStatus_def marshal_FilterRule_def)
  show "clean_json (marshal_Call c)" "clean_json (marshal_Message m)"
    using dec sip by (simp_all add: secret_key_def marshal_Call_def marshal_Message_def)
qed

lemma clean_marshal_hidden [simp]:
  "clean_json (marshal_Settings (hide_secrets v))" "clean_json (drop_key ''storagePath'' (marshal_Recording r))"
  by (simp_all add: secret_key_def marshal_Settings_def hide_secrets_def drop_key_def
      marshal_Recording_def omitempty_def)

definition all_queued :: "(Event list \<Rightarrow> bool) \<Rightarrow> State \<Rightarrow> bool" where
  "all_queued P s \<longleftrightarrow> list_all (\<lambda>sub. P (snd sub)) (s_subs s)"

lemma all_queued_shrink:
  assumes "all_queued P s" "subs_shrink s s'" "P []" "\<And>q. P q \<Longrightarrow> P (tl q)"
  shows "all_queued P s'"
  using assms unfolding all_queued_def subs_shrink_def list_all_iff by fastforce

lemma all_queued_publish:
  assumes "all_queued P s" "\<And>q. P q \<Longrightarrow> length q < chan_cap \<Longrightarrow> P' (q @ [e])" "\<And>q. P q \<Longrightarrow> P' q"
  shows "all_queued P' (publish e s)"
  using assms by (auto simp: all_queued_def publish_def list_all_iff offer_def)

lemma list_all_tl: "list_all P q \<Longrightarrow> list_all P (tl q)"
  by (cases q) auto

text \<open>How a commit changes the channels.\<close>

lemma commit_queues [consumes 1, case_names quiet append]:
  assumes "commit strict s s'"
  obtains "subs_shrink s s'" "s_db s' = s_db s"
    | e where "\<And>P. all_queued P s' \<longleftrightarrow> all_queued P (publish e s)" "ev_Sequence e = db_last (s_db s) + 1"
        "db_last (s_db s') = db_last (s_db s) + 1" "clean_json (marshal_Event e)"
  using assms
proof (cases rule: commit.cases)
  case (append t p i ver env)
  let ?m = "(effect t i p (s_mem s))\<lparr>mem_sequence := db_last (s_db s) + 1\<rparr>"
  let ?e = "\<lparr>ev_Sequence = db_last (s_db s) + 1, ev_Type = t, ev_EntityID = i, ev_Version = ver,
     ev_Timestamp = env_now env, ev_Payload = Some (safe_payload t i p ?m), ev_Raw = Some (marshal_payload p)\<rparr>"
  have "clean_json (marshal_payload (safe_payload t i p ?m))"
    using append(2,5) by (cases p) (auto simp: safe_payload_def secret_key_def)
  then have clean: "clean_json (marshal_Event ?e)"
    by (simp add: marshal_Event_def secret_key_def)
  have "all_queued P s' \<longleftrightarrow> all_queued P (publish ?e s)" for P
    by (simp add: append(1) logged_def all_queued_def publish_def Let_def)
  then show ?thesis using that(2) [of ?e] clean append(1) by simp
qed (use that(1) in auto)

text \<open>C2: What a subscriber is sent carries no secret. After any run of the store's operations, whatever
  fails, the JSON form of every event waiting in a channel (the form the event stream writes to its
  connection; the \<^verbatim>\<open>Raw\<close> bytes of an event stay in the process) has nowhere in it a Telegram token, a
  provider key, a SIP password or a storage path; and a snapshot taken then has the three settings
  blank and its recordings without their paths.\<close>

theorem secrets_not_published:
  assumes "mem_sequence (s_mem s) = db_last (s_db s)" "all_queued (list_all (\<lambda>e. clean_json (marshal_Event e))) s"
  shows "all_queued (list_all (\<lambda>e. clean_json (marshal_Event e))) (run_ops store_step qs s) \<and>
    clean_json (marshal_Settings (sn_Settings (get_Snapshot b (run_ops store_step qs s)))) \<and>
    list_all (\<lambda>r. rec_Path r = []) (sn_Recordings (get_Snapshot b (run_ops store_step qs s)))"
proof (intro conjI)
  let ?P = "list_all (\<lambda>e. clean_json (marshal_Event e))"
  show "all_queued ?P (run_ops store_step qs s)"
    using assms
  proof (rule run_invariant)
    fix s s' assume "commit False s s'" and ok: "all_queued ?P s"
    then show "all_queued ?P s'"
    proof (cases rule: commit_queues)
      case quiet
      then show ?thesis using all_queued_shrink [OF ok _ _ list_all_tl] by simp
    next
      case (append e)
      then show ?thesis using all_queued_publish [OF ok, of ?P] by auto
    qed
  qed
  have "sn_Settings (get_Snapshot b s') = hide_secrets (default_timeout (mem_settings (s_mem s')))" for s'
    by (simp add: get_Snapshot_def Let_def default_timeout_def hide_secrets_def)
  then show "clean_json (marshal_Settings (sn_Settings (get_Snapshot b (run_ops store_step qs s))))" by simp
  show "list_all (\<lambda>r. rec_Path r = []) (sn_Recordings (get_Snapshot b (run_ops store_step qs s)))"
    by (simp add: get_Snapshot_def Let_def list_all_iff)
qed

theorem secrets_not_published_witness:
  "all_queued (list_all (\<lambda>e. clean_json (marshal_Event e))) (run_ops store_step
       [OpSubscribe, OpUpdateSettings (demo_env 3) (defaultSettings\<lparr>st_SIPPassword := ''pw''\<rparr>)] demo_state) \<and>
   clean_json (marshal_Settings (sn_Settings (get_Snapshot True (run_ops store_step
       [OpSubscribe, OpUpdateSettings (demo_env 3) (defaultSettings\<lparr>st_SIPPassword := ''pw''\<rparr>)] demo_state)))) \<and>
   list_all (\<lambda>r. rec_Path r = []) (sn_Recordings (get_Snapshot True (run_ops store_step
       [OpSubscribe, OpUpdateSettings (demo_env 3) (defaultSettings\<lparr>st_SIPPassword := ''pw''\<rparr>)] demo_state)))"
  by (rule secrets_not_published) (simp_all add: demo_state_def emptyDB_def all_queued_def)

text \<open>The stored form of a secret: blank when it is blank, otherwise the mark followed by the base64 form of
  a nonce of the cipher's length and of what the cipher makes of the secret under that nonce.\<close>

definition sealed_secret :: "aead \<Rightarrow> string \<Rightarrow> string \<Rightarrow> bool" where
  "sealed_secret a plain x \<longleftrightarrow> (if plain = [] then x = []
     else (\<exists>n. length n = NonceSize a \<and> x = ''enc:'' @ base64_encode (n @ Seal a n plain)))"

definition sealed_row :: "aead \<Rightarrow> Row \<Rightarrow> bool" where
  "sealed_row a r \<longleftrightarrow> (row_Type r = ''settings.updated'' \<longrightarrow>
     (\<exists>v tok key pass. row_Payload r = marshal_Settings (v\<lparr>st_TelegramToken := tok, st_ProviderAPIKey := key, st_SIPPassword := pass\<rparr>) \<and>
        sealed_secret a (st_TelegramToken v) tok \<and> sealed_secret a (st_ProviderAPIKey v) key \<and>
        sealed_secret a (st_SIPPassword v) pass))"

lemma sealed_secret_seal: "length n = NonceSize a \<Longrightarrow> sealed_secret a v (seal a n v)"
  by (auto simp: sealed_secret_def seal_def)

lemma sealed_row_logged:
  assumes "typed_payload t p" "\<And>v. p = PSettings v \<Longrightarrow> nonces_ok a (env_nonce env)"
  shows "sealed_row a \<lparr>row_Sequence = n, row_Type = t, row_Entity = i, row_Version = ver, row_Created = now,
    row_Payload = logged_raw a env p\<rparr>"
proof (cases p)
  case (PSettings v)
  then show ?thesis
    using assms(2) [OF PSettings] unfolding sealed_row_def
    by (auto simp: logged_raw_def sealed_Settings_def nonces_ok_def intro!: exI [of _ v] sealed_secret_seal exI [of _ "seal _ _ _"])
qed (use assms(1) in \<open>auto simp: sealed_row_def\<close>)

text \<open>C3: Secrets at rest. After any run of operations whose random nonces have the cipher's length, and in
  which no update of the disk usage fails, every settings row of the database is the encoding of some
  settings in which each of the three secrets is replaced by its sealed form: blank for a blank one,
  otherwise the mark, the nonce and the ciphertext the cipher gives for it. The secret enters the
  database only through the cipher.\<close>

theorem secrets_sealed_at_rest:
  assumes "mem_sequence (s_mem s) = db_last (s_db s)" "list_all (sealed_row (s_secrets s)) (db_rows (s_db s))"
    and "all_along safe_op store_step qs s"
  shows "list_all (sealed_row (s_secrets s)) (db_rows (s_db (run_ops store_step qs s)))"
proof -
  let ?P = "\<lambda>s'. s_secrets s' = s_secrets s \<and> list_all (sealed_row (s_secrets s)) (db_rows (s_db s'))"
  have "?P (run_ops store_step qs s)"
    using assms(3,1)
  proof (rule run_invariant_safe)
    fix s1 s2 assume "commit True s1 s2" and ok: "?P s1"
    then show "?P s2"
    proof (cases rule: commit.cases)
      case (append t p i ver env)
      then show ?thesis using ok by (auto intro!: sealed_row_logged)
    qed auto
  qed (use assms(2) in simp)
  then show ?thesis ..
qed

theorem secrets_sealed_at_rest_witness:
  "list_all (sealed_row demo_aead) (db_rows (s_db (run_ops store_step
       [OpUpdateSettings (demo_env 3) (defaultSettings\<lparr>st_SIPPassword := ''pw''\<rparr>)] demo_state)))"
  using secrets_sealed_at_rest [of demo_state "[OpUpdateSettings (demo_env 3) (defaultSettings\<lparr>st_SIPPassword := ''pw''\<rparr>)]"]
  by (simp add: demo_state_def emptyDB_def demo_nonces_ok)

text \<open>C4: What \<^verbatim>\<open>encryptSettings\<close> stores is what \<^verbatim>\<open>decryptSettings\<close> gives back, for every cipher whose
  sealed texts open again and every choice of nonces of the right length.\<close>

theorem settings_encryption_roundtrip:
  assumes "aead_ok a" "nonces_ok a nonce"
  shows "\<exists>stored. encryptSettings a nonce (marshal_Settings v) = Inr stored \<and>
    decryptSettings a stored = Inr (marshal_Settings v)"
  using assms by simp

theorem settings_encryption_roundtrip_witness:
  "\<exists>stored. encryptSettings demo_aead (env_nonce (demo_env 1))
       (marshal_Settings (defaultSettings\<lparr>st_TelegramToken := ''enc:x''\<rparr>)) = Inr stored \<and>
     decryptSettings demo_aead stored = Inr (marshal_Settings (defaultSettings\<lparr>st_TelegramToken := ''enc:x''\<rparr>))"
  by (rule settings_encryption_roundtrip [OF demo_aead_ok demo_nonces_ok])

subsection \<open>Channels\<close>

definition queue_ok :: "int \<Rightarrow> Event list \<Rightarrow> bool" where
  "queue_ok n q \<longleftrightarrow> length q \<le> chan_cap \<and> sorted_wrt (<) (map ev_Sequence q) \<and> list_all (\<lambda>e. ev_Sequence e \<le> n) q"

lemma queue_ok_Nil [simp]: "queue_ok n []"
  by (simp add: queue_ok_def)

lemma queue_ok_tl: "queue_ok n q \<Longrightarrow> queue_ok n (tl q)"
  by (cases q) (auto simp: queue_ok_def)

lemma queue_ok_snoc:
  "queue_ok n q \<Longrightarrow> length q < chan_cap \<Longrightarrow> ev_Sequence e = n + 1 \<Longrightarrow> queue_ok (n + 1) (q @ [e])"
  by (auto simp: queue_ok_def sorted_wrt_append list_all_iff)

lemma queue_ok_mono: "queue_ok n q \<Longrightarrow> n \<le> n' \<Longrightarrow> queue_ok n' q"
  by (auto simp: queue_ok_def list_all_iff)

text \<open>A subscriber's channel never holds more than 64 events, and the events in it are in strictly
  increasing order of their sequence numbers and not newer than the log, whatever sequence of
  operations runs: a slow subscriber loses events, but never sees them out of order or twice.\<close>

theorem channels_bounded_and_ordered:
  assumes "mem_sequence (s_mem s) = db_last (s_db s)" "all_queued (queue_ok (db_last (s_db s))) s"
  shows "all_queued (queue_ok (db_last (s_db (run_ops store_step qs s)))) (run_ops store_step qs s)"
  using assms
proof (rule run_invariant)
  fix s s' assume "commit False s s'" and ok: "all_queued (queue_ok (db_last (s_db s))) s"
  then show "all_queued (queue_ok (db_last (s_db s'))) s'"
  proof (cases rule: commit_queues)
    case quiet
    then show ?thesis using all_queued_shrink [OF ok _ _ queue_ok_tl] by simp
  next
    case (append e)
    then show ?thesis
      using all_queued_publish [OF ok, of "queue_ok (db_last (s_db s'))" e] queue_ok_snoc queue_ok_mono by auto
  qed
qed

theorem channels_bounded_and_ordered_witness:
  "all_queued (queue_ok (db_last (s_db (run_ops store_step (OpSubscribe # replicate 3 (OpUpsertCall (demo_env 5) zeroCall)) demo_state))))
     (run_ops store_step (OpSubscribe # replicate 3 (OpUpsertCall (demo_env 5) zeroCall)) demo_state)"
  by (rule channels_bounded_and_ordered) (simp_all add: demo_state_def emptyDB_def all_queued_def)

subsection \<open>Versions\<close>

text \<open>C35: Of two writers that read the same version of a call, only one can write it back: once the
  first write is accepted, the other is refused and leaves the store unchanged.\<close>

theorem concurrent_call_update_refused:
  assumes "get_Call s (c_ID v) = Some old" "0 \<le> c_Version old" "UpsertCall env v s = (Inr ev, s')"
    and "c_ID w = c_ID v" "c_Version w = c_Version old + 1"
  shows "\<exists>err. UpsertCall env' w s' = (Inl err, s')"
  using assms by (rule calls.stale_write_rejected)

definition demo_call :: "int \<Rightarrow> Call" where
  "demo_call n = zeroCall\<lparr>c_ID := ''c1'', c_Version := n, c_State := CallActive\<rparr>"

definition demo_message :: "int \<Rightarrow> Message" where
  "demo_message n = zeroMessage\<lparr>m_ID := ''m1'', m_Version := n, m_Number := ''10086'', m_Unread := True,
     m_Direction := Incoming, m_CreatedAt := 4\<rparr>"

definition demo_filled :: State where
  "demo_filled = demo_state\<lparr>s_mem := (initMem 0)\<lparr>mem_calls := [(''c1'', demo_call 1)],
     mem_messages := [(''m1'', demo_message 1)], mem_activeCallID := ''c1''\<rparr>\<rparr>"

lemma demo_filled_sel [simp]:
  "get_Call demo_filled ''c1'' = Some (demo_call 1)" "get_Message demo_filled ''m1'' = Some (demo_message 1)"
  "\<not> version_taken i v demo_filled" "c_ID (demo_call n) = ''c1''" "c_Version (demo_call n) = n"
  "m_ID (demo_message n) = ''m1''" "m_Version (demo_message n) = n" "env_fault (demo_env t) k = None"
  by (simp_all add: demo_filled_def demo_state_def get_Call_def get_Message_def version_taken_def emptyDB_def
    demo_call_def demo_message_def demo_env_def)

theorem concurrent_call_update_refused_witness:
  "\<exists>err. UpsertCall (demo_env 6) (demo_call 2) (snd (UpsertCall (demo_env 5) (demo_call 2) demo_filled)) =
     (Inl err, snd (UpsertCall (demo_env 5) (demo_call 2) demo_filled))"
proof -
  obtain e where "UpsertCall (demo_env 5) (demo_call 2) demo_filled =
      (Inr e, snd (UpsertCall (demo_env 5) (demo_call 2) demo_filled))"
    using UpsertCall_accepted [of "demo_env 5" "demo_call 2" demo_filled] by auto
  then show ?thesis by (rule concurrent_call_update_refused [of _ _ "demo_call 1", rotated 2]) simp_all
qed

text \<open>No update of a message is lost: over any sequence of writes the version of a message rises
  by exactly the number of its accepted writes.\<close>

theorem message_version_counts_writes:
  assumes "get_Message s k = Some old" "0 \<le> m_Version old" "run_writes UpsertMessage ws s = (acc, s')"
  shows "\<exists>new. get_Message s' k = Some new \<and>
    m_Version new = m_Version old + int (length (filter (\<lambda>v. m_ID v = k) acc))"
  using assms by (rule messages.version_counts_writes)

theorem message_version_counts_writes_witness:
  "\<exists>new. get_Message (snd (run_writes UpsertMessage [(demo_env 5, demo_message 2), (demo_env 6, demo_message 2)] demo_filled)) ''m1''
      = Some new \<and> m_Version new = 1 + int (length (filter (\<lambda>v. m_ID v = ''m1'')
        (fst (run_writes UpsertMessage [(demo_env 5, demo_message 2), (demo_env 6, demo_message 2)] demo_filled))))"
  using message_version_counts_writes [of demo_filled "''m1''" "demo_message 1"
      "[(demo_env 5, demo_message 2), (demo_env 6, demo_message 2)]", OF _ _ surjective_pairing]
  by (simp del: run_writes.simps)

subsection \<open>Settings\<close>

definition with_defaults :: "Settings \<Rightarrow> Settings" where
  "with_defaults v = v\<lparr>st_Country := (if st_Country v = [] then ''CN'' else st_Country v),
     st_AutoBlock := (if st_AutoBlock v = [] then [''fraud'', ''insurance''] else st_AutoBlock v)\<rparr>"

lemma UpdateSettings_append:
  "UpdateSettings env v s = appendLocked env ''settings.updated'' ''settings'' (mem_sequence (s_mem s) + 1)
     (PSettings (with_defaults v)) s"
  by (simp add: UpdateSettings_def with_defaults_def Let_def)

text \<open>What an accepted settings update leaves in the store: the new settings with the defaults filled
  in, but with the old Telegram token, SIP password, provider key and provider URL wherever the new
  one is blank, and with the password mark never cleared. In particular the provider URL, once
  set, cannot be removed by an update, and an empty list of blocked categories becomes the default
  list.\<close>

theorem update_settings_result:
  assumes "UpdateSettings env v s = (Inr e, s')"
  shows "mem_settings (s_mem s') = merge_Settings (mem_settings (s_mem s)) (with_defaults v) \<and>
    (st_ProviderURL v = [] \<longrightarrow> st_ProviderURL (get_Settings s') = st_ProviderURL (get_Settings s)) \<and>
    (st_AutoBlock v = [] \<longrightarrow> st_AutoBlock (get_Settings s') = [''fraud'', ''insurance''])"
proof -
  have "s' = logged env ''settings.updated'' ''settings'' (mem_sequence (s_mem s) + 1)
     (PSettings (with_defaults v)) (db_last (s_db s) + 1) s"
    using append_mem [OF _ assms [unfolded UpdateSettings_append]] by auto
  then have "mem_settings (s_mem s') = merge_Settings (mem_settings (s_mem s)) (with_defaults v)" by simp
  then show ?thesis
    by (simp add: get_Settings_def default_timeout_def merge_Settings_def with_defaults_def)
qed

theorem update_settings_result_witness:
  "\<exists>e s'. UpdateSettings (demo_env 2) (defaultSettings\<lparr>st_AutoBlock := []\<rparr>) demo_state = (Inr e, s') \<and>
     st_AutoBlock (get_Settings s') = [''fraud'', ''insurance'']"
proof -
  obtain e s' where u: "UpdateSettings (demo_env 2) (defaultSettings\<lparr>st_AutoBlock := []\<rparr>) demo_state = (Inr e, s')"
    using append_accepted [of "''settings.updated''" "PSettings (with_defaults (defaultSettings\<lparr>st_AutoBlock := []\<rparr>))"
        "demo_env 2" "''settings''" "mem_sequence (s_mem demo_state) + 1" demo_state]
    by (auto simp: UpdateSettings_append version_taken_def demo_state_def emptyDB_def)
  with update_settings_result [OF u] show ?thesis by simp
qed

subsection \<open>Versions of the singletons\<close>

definition seq_versions :: "State \<Rightarrow> bool" where
  "seq_versions s \<longleftrightarrow> list_all (\<lambda>r. row_Sequence r \<le> db_last (s_db s) \<and>
     (row_Type r = ''settings.updated'' \<or> row_Type r = ''device.updated'' \<longrightarrow> row_Version r = row_Sequence r))
     (db_rows (s_db s))"

lemma seq_versions_run:
  assumes "mem_sequence (s_mem s) = db_last (s_db s)" "seq_versions s"
  shows "seq_versions (run_ops store_step qs s)"
  using assms
proof (rule run_invariant)
  fix s s' assume "commit False s s'" and seq: "mem_sequence (s_mem s) = db_last (s_db s)" and ok: "seq_versions s"
  then show "seq_versions s'"
  proof (cases rule: commit.cases)
    case (append t p i ver env)
    then have "t = ''settings.updated'' \<or> t = ''device.updated'' \<longrightarrow> ver = db_last (s_db s) + 1"
      using seq by (cases p) auto
    then show ?thesis using ok unfolding append(1) by (auto simp: seq_versions_def list_all_iff)
  qed (simp add: seq_versions_def)
qed

text \<open>A settings or device write is never refused for its version: at any point of any run, when
  the database works, an update of the settings succeeds unless the log holds an event of another
  kind whose entity is called \<^verbatim>\<open>settings\<close>.\<close>

theorem settings_write_not_refused:
  assumes "mem_sequence (s_mem s0) = db_last (s_db s0)" "seq_versions s0"
    and "s = run_ops store_step qs s0" "env_fault env 0 = None"
    and "\<not> list_ex (\<lambda>r. row_Entity r = ''settings'' \<and> row_Type r \<noteq> ''settings.updated'') (db_rows (s_db s))"
  shows "\<exists>e s'. UpdateSettings env v s = (Inr e, s')"
proof -
  have seq: "mem_sequence (s_mem s) = db_last (s_db s)"
    unfolding assms(3)
    by (rule run_invariant [where P = "\<lambda>s. mem_sequence (s_mem s) = db_last (s_db s)", OF assms(1,1)])
       (rule commit_sequence)
  have "seq_versions s" unfolding assms(3) by (rule seq_versions_run [OF assms(1,2)])
  then have "\<not> version_taken ''settings'' (mem_sequence (s_mem s) + 1) s"
    using assms(5) seq by (force simp: version_taken_def seq_versions_def list_all_iff list_ex_iff)
  then show ?thesis
    using append_accepted [of "''settings.updated''" "PSettings (with_defaults v)" env "''settings''"
        "mem_sequence (s_mem s) + 1" s] assms(4) by (auto simp: UpdateSettings_append)
qed

theorem settings_write_not_refused_witness:
  "\<exists>e s'. UpdateSettings (demo_env 2) defaultSettings demo_state = (Inr e, s')"
  by (rule settings_write_not_refused [of demo_state _ "[]"])
     (simp_all add: demo_state_def emptyDB_def seq_versions_def)

subsection \<open>Two operations that do not keep the log and the memory in step\<close>

text \<open>A disk usage update whose database write fails has still changed the device status in memory,
  so that memory and log disagree until the next device event.\<close>

theorem disk_usage_failure_diverges:
  assumes "d_DiskUsedPct (mem_device (s_mem s)) = 0" "pct \<noteq> 0" "env_fault env 0 = Some e"
  shows "fst (UpdateDiskUsage env pct s) = Some e \<and> s_db (snd (UpdateDiskUsage env pct s)) = s_db s \<and>
    \<not> mem_eq (s_mem s) (s_mem (snd (UpdateDiskUsage env pct s)))"
proof -
  define d where "d = (mem_device (s_mem s))\<lparr>d_DiskUsedPct := pct, d_LastCheckedAt := env_now env\<rparr>"
  have "appendLocked env ''device.updated'' ''device'' (mem_sequence (s_mem (set_device d s)) + 1) (PDevice d) (set_device d s) =
      (Inl e, set_device d s)"
    using append_rejected [of "''device.updated''" "PDevice d" env "''device''"
        "mem_sequence (s_mem (set_device d s)) + 1" "set_device d s"] assms(3) by simp
  then have "UpdateDiskUsage env pct s = (Some e, set_device d s)"
    using assms(1) by (simp add: UpdateDiskUsage_def Let_def d_def)
  moreover have "d\<lparr>d_LastCheckedAt := 0\<rparr> \<noteq> (mem_device (s_mem s))\<lparr>d_LastCheckedAt := 0\<rparr>"
  proof
    assume "d\<lparr>d_LastCheckedAt := 0\<rparr> = (mem_device (s_mem s))\<lparr>d_LastCheckedAt := 0\<rparr>"
    from arg_cong [OF this, of d_DiskUsedPct] show False using assms(1,2) by (simp add: d_def)
  qed
  ultimately show ?thesis by (auto simp: mem_eq_iff set_device_def)
qed

theorem disk_usage_failure_diverges_witness:
  "\<not> mem_eq (s_mem demo_state)
     (s_mem (snd (UpdateDiskUsage ((demo_env 2)\<lparr>env_fault := (\<lambda>_. Some ''disk I/O error'')\<rparr>) 40 demo_state)))"
  using disk_usage_failure_diverges [of demo_state 40 "(demo_env 2)\<lparr>env_fault := (\<lambda>_. Some ''disk I/O error'')\<rparr>"]
  by (simp add: demo_state_def initMem_def zeroDevice_def)

text \<open>A rule can be edited once. The version of an edit is computed from the creation time of the
  rule it replaces, so a second edit that keeps the creation time meets the uniqueness constraint:
  it is refused and nothing changes.\<close>

theorem second_rule_edit_refused:
  assumes "tget (mem_rules (s_mem s)) (r_ID v) = Some r" "UpsertRule env v s = (Inr e, s')"
    and "r_CreatedAt v = r_CreatedAt r" "r_ID w = r_ID v" "env_fault env' 0 = None"
  shows "UpsertRule env' w s' = (Inl unique_error, s')"
proof -
  let ?ver = "wrap64 (UnixNano (r_CreatedAt r) + 1)"
  have "appendLocked env ''rule.upserted'' (r_ID v) ?ver (PRule v) s = (Inr e, s')"
    using assms(1,2) by (simp add: UpsertRule_def)
  then have s': "s' = logged env ''rule.upserted'' (r_ID v) ?ver (PRule v) (db_last (s_db s) + 1) s"
    using append_mem [of "''rule.upserted''" "PRule v" env "r_ID v" ?ver s] by auto
  then have "version_taken (r_ID v) ?ver s'" "tget (mem_rules (s_mem s')) (r_ID v) = Some v"
    by (simp_all add: version_taken_def)
  then show ?thesis
    using append_rejected [of "''rule.upserted''" "PRule w" env' "r_ID v" ?ver s'] assms(3,4,5)
    by (simp add: UpsertRule_def)
qed

theorem second_rule_edit_refused_witness:
  "\<exists>s'. UpsertRule (demo_env 9) (zeroRule\<lparr>r_ID := ''r1'', r_CreatedAt := 5, r_Action := ''allow''\<rparr>) s' = (Inl unique_error, s')"
proof -
  let ?s = "demo_state\<lparr>s_mem := (initMem 0)\<lparr>mem_rules := [(''r1'', zeroRule\<lparr>r_ID := ''r1'', r_CreatedAt := 5\<rparr>)]\<rparr>\<rparr>"
  let ?v = "zeroRule\<lparr>r_ID := ''r1'', r_CreatedAt := 5, r_Action := ''block''\<rparr>"
  obtain e s' where "UpsertRule (demo_env 8) ?v ?s = (Inr e, s')"
    using append_accepted [of "''rule.upserted''" "PRule ?v" "demo_env 8" "''r1''" "wrap64 (UnixNano 5 + 1)" ?s]
    by (auto simp: UpsertRule_def version_taken_def demo_state_def emptyDB_def)
  from second_rule_edit_refused [OF _ this, of "zeroRule\<lparr>r_ID := ''r1'', r_CreatedAt := 5\<rparr>"
      "zeroRule\<lparr>r_ID := ''r1'', r_CreatedAt := 5, r_Action := ''allow''\<rparr>" "demo_env 9"]
  show ?thesis by auto
qed

end
