(* ===== verification/Store_Messages.thy ===== *)
theory Store_Messages
  imports Store_Props
begin

text \<open>
  The message table and the conversation summaries computed from it: the summaries stay exact, they
  do not depend on the order in which Go iterates over the map of messages, and marking all messages
  read is one atomic step.
\<close>

subsection \<open>The message table\<close>

definition msgs_ok :: "Mem \<Rightarrow> bool" where
  "msgs_ok m \<longleftrightarrow> wf_table (mem_messages m) \<and> list_all (\<lambda>p. m_ID (snd p) = fst p) (mem_messages m)"

lemma msgs_ok_put_message: "msgs_ok m \<Longrightarrow> msgs_ok (put_message v m)"
  by (auto simp: msgs_ok_def list_all_iff set_tput)

lemma msgs_ok_distinct: "msgs_ok m \<Longrightarrow> distinct (map m_ID (tvals (mem_messages m)))"
proof -
  assume "msgs_ok m"
  then have "map m_ID (tvals (mem_messages m)) = map fst (mem_messages m)"
    by (auto simp: msgs_ok_def tvals_def list_all_iff)
  then show ?thesis using \<open>msgs_ok m\<close> by (simp add: msgs_ok_def wf_table_def)
qed

lemma msgs_ok_tgetD: "msgs_ok m \<Longrightarrow> tget (mem_messages m) k = Some x \<Longrightarrow> m_ID x = k"
  by (drule tget_SomeD) (force simp: msgs_ok_def list_all_iff)

lemma msgs_ok_tget:
  assumes "msgs_ok m" "x \<in> set (tvals (mem_messages m))"
  shows "tget (mem_messages m) (m_ID x) = Some x"
proof -
  obtain k where k: "(k, x) \<in> set (mem_messages m)" using assms(2) by (auto simp: tvals_def)
  then have "m_ID x = k" using assms(1) by (force simp: msgs_ok_def list_all_iff)
  then show ?thesis using assms(1) k by (simp add: msgs_ok_def tget_eq_Some)
qed

lemma sort_key_Nil [simp]: "sort_key f xs = [] \<longleftrightarrow> xs = []"
  by (metis length_0_conv length_sort)

lemma find_unique:
  assumes "x \<in> set xs" "P x" "\<And>y. y \<in> set xs \<Longrightarrow> P y \<Longrightarrow> y = x"
  shows "find P xs = Some x"
  using assms(1,3)
proof (induction xs)
  case (Cons a xs)
  show ?case
  proof (cases "P a")
    case True
    then show ?thesis using Cons.prems(2) [of a] by simp
  next
    case False
    then have "x \<in> set xs" using Cons.prems(1) assms(2) by auto
    then show ?thesis using Cons.IH Cons.prems(2) False by simp
  qed
qed simp

lemma tget_put_messages:
  assumes "distinct (map m_ID ms)"
  shows "tget (mem_messages (put_messages ms m)) k =
    (case find (\<lambda>x. m_ID x = k) ms of Some x \<Rightarrow> Some x | None \<Rightarrow> tget (mem_messages m) k)"
  using assms
proof (induction ms arbitrary: m)
  case (Cons x ms)
  have "m_ID y \<noteq> m_ID x" if "y \<in> set ms" for y using distinct_map_ConsD [OF Cons.prems that] .
  then have "m_ID x = k \<Longrightarrow> find (\<lambda>y. m_ID y = k) ms = None"
    by (auto simp: find_None_iff)
  then show ?case
    using Cons.IH [of "put_message x m"] Cons.prems
    by (auto simp: put_messages_def split: option.split)
qed (simp add: put_messages_def)

lemma distinct_read_updates:
  assumes "distinct (map m_ID ms)"
  shows "distinct (map m_ID (read_updates ms))"
proof -
  have "mset (map m_ID (read_updates ms)) = mset (map m_ID (filter unread_incoming ms))"
    by (simp add: read_updates_def mark_read_def image_mset.compositionality comp_def)
  moreover have "distinct (map m_ID (filter unread_incoming ms))" using assms by (rule distinct_map_filter)
  ultimately show ?thesis using mset_eq_imp_distinct_iff by blast
qed

lemma find_read_updates:
  assumes ok: "msgs_ok m"
  shows "find (\<lambda>x. m_ID x = k) (read_updates (tvals (mem_messages m))) =
    (case tget (mem_messages m) k of
       Some y \<Rightarrow> if unread_incoming y then Some (mark_read y) else None | None \<Rightarrow> None)"
    (is "find ?P ?ms = _")
proof (cases "\<exists>y. tget (mem_messages m) k = Some y \<and> unread_incoming y")
  case True
  then obtain y where y: "tget (mem_messages m) k = Some y" "unread_incoming y" by blast
  then have mem: "mark_read y \<in> set ?ms" "?P (mark_read y)"
    using tget_in_tvals [OF y(1)] msgs_ok_tgetD [OF ok y(1)] by (auto simp: read_updates_def mark_read_def)
  moreover have "x = mark_read y" if "x \<in> set ?ms" "?P x" for x
    using that mem distinct_read_updates [OF msgs_ok_distinct [OF ok]] by (auto simp: distinct_map inj_on_def)
  ultimately have "find ?P ?ms = Some (mark_read y)" by (rule find_unique)
  then show ?thesis using y by simp
next
  case False
  have "\<not> ?P x" if x: "x \<in> set ?ms" for x
  proof
    assume "m_ID x = k"
    from x obtain y where y: "x = mark_read y" "y \<in> set (tvals (mem_messages m))" "unread_incoming y"
      by (auto simp: read_updates_def)
    then have "tget (mem_messages m) k = Some y"
      using \<open>m_ID x = k\<close> msgs_ok_tget [OF ok y(2)] by (simp add: mark_read_def)
    then show False using False y(3) by blast
  qed
  then have "find ?P ?ms = None" by (auto simp: find_None_iff)
  then show ?thesis using False by (auto split: option.split)
qed

text \<open>Marking all messages read is atomic. If any of the database calls of the batch fails, the store
  is exactly as before and the count is zero. Otherwise the count is the number of unread incoming
  messages, each of them is read and has its version raised by one, and every other message is as it
  was.\<close>

theorem mark_all_read_atomic:
  assumes "msgs_ok (s_mem s)" "mem_sequence (s_mem s) = db_last (s_db s)"
    and "MarkAllMessagesRead env s = ((n, err), s')"
  shows "(err \<noteq> None \<and> n = 0 \<and> s' = s) \<or>
    (err = None \<and> n = length (filter unread_incoming (tvals (mem_messages (s_mem s)))) \<and>
     (\<forall>k. get_Message s' k =
        map_option (\<lambda>m. if unread_incoming m then mark_read m else m) (get_Message s k)))"
  using MarkAll_cases [OF assms(2), where env = env and strict = False]
proof (elim disjE exE conjE)
  fix e
  assume e: "MarkAllMessagesRead env s = ((0, e), s)"
    "e = None \<longrightarrow> read_updates (tvals (mem_messages (s_mem s))) = []"
  show ?thesis
  proof (cases e)
    case None
    then have none: "filter unread_incoming (tvals (mem_messages (s_mem s))) = []"
      using e(2) by (simp add: read_updates_def)
    then have "\<not> unread_incoming m" if "get_Message s k = Some m" for k m
      using that tget_in_tvals by (force simp: filter_empty_conv get_Message_def)
    then show ?thesis using assms(3) e(1) None none by (auto simp: map_option_case split: option.split)
  qed (use assms(3) e in auto)
next
  fix s1
  assume s1: "MarkAllMessagesRead env s = ((length (read_updates (tvals (mem_messages (s_mem s)))), None), s1)"
    "s_mem s1 = (put_messages (read_updates (tvals (mem_messages (s_mem s)))) (s_mem s))
       \<lparr>mem_sequence := db_last (s_db s) + int (length (read_updates (tvals (mem_messages (s_mem s)))))\<rparr>"
  have "get_Message s1 k = map_option (\<lambda>m. if unread_incoming m then mark_read m else m) (get_Message s k)" for k
    using tget_put_messages [OF distinct_read_updates [OF msgs_ok_distinct [OF assms(1)]]]
      find_read_updates [OF assms(1), of k]
    by (simp add: get_Message_def s1(2) split: option.split)
  then show ?thesis using assms(3) s1(1) by (auto simp: read_updates_def)
qed

theorem mark_all_read_atomic_witness:
  "(snd (fst (MarkAllMessagesRead (demo_env 7) demo_filled)) \<noteq> None \<and>
      fst (fst (MarkAllMessagesRead (demo_env 7) demo_filled)) = 0 \<and>
      snd (MarkAllMessagesRead (demo_env 7) demo_filled) = demo_filled) \<or>
   (snd (fst (MarkAllMessagesRead (demo_env 7) demo_filled)) = None \<and>
      fst (fst (MarkAllMessagesRead (demo_env 7) demo_filled)) =
        length (filter unread_incoming (tvals (mem_messages (s_mem demo_filled)))) \<and>
     (\<forall>k. get_Message (snd (MarkAllMessagesRead (demo_env 7) demo_filled)) k =
        map_option (\<lambda>m. if unread_incoming m then mark_read m else m) (get_Message demo_filled k)))"
proof (rule mark_all_read_atomic)
  show "MarkAllMessagesRead (demo_env 7) demo_filled =
      ((fst (fst (MarkAllMessagesRead (demo_env 7) demo_filled)), snd (fst (MarkAllMessagesRead (demo_env 7) demo_filled))),
       snd (MarkAllMessagesRead (demo_env 7) demo_filled))" by simp
qed (simp_all add: msgs_ok_def demo_filled_def demo_state_def emptyDB_def wf_table_def initMem_def)

subsection \<open>Conversations\<close>

definition counted :: "string \<Rightarrow> Message \<Rightarrow> bool" where
  "counted number m \<longleftrightarrow> m_Number m = number \<and> \<not> m_Deleted m"

text \<open>
  What a summary has to say of the messages of a number that are not deleted, without regard to how it is
  computed: the badge is how many of them are unread; none is later than the time shown; and the time, the
  text and the filter mark are those of one of them, or the zero values when none has a time after the zero
  time. The messages enter only as a multiset.
\<close>

definition latest_shown :: "Message multiset \<Rightarrow> Conversation \<Rightarrow> bool" where
  "latest_shown M c \<longleftrightarrow>
     (\<forall>m. m \<in># M \<longrightarrow> m_CreatedAt m \<le> cv_LastAt c) \<and>
     ((\<exists>m. m \<in># M \<and> cv_LastAt c = m_CreatedAt m \<and> cv_LastBody c = m_Body m \<and> cv_Filtered c = m_Filtered m) \<or>
      (cv_LastAt c = zeroTime \<and> cv_LastBody c = [] \<and> \<not> cv_Filtered c))"

definition summarises :: "string \<Rightarrow> Message multiset \<Rightarrow> Conversation \<Rightarrow> bool" where
  "summarises n M c \<longleftrightarrow> cv_ID c = n \<and> cv_Number c = n \<and>
     cv_Unread c = int (size (filter_mset m_Unread (filter_mset (counted n) M))) \<and>
     latest_shown (filter_mset (counted n) M) c"

lemma conv_step_skip [simp]: "\<not> counted n m \<Longrightarrow> conv_step n c m = c"
  by (auto simp: counted_def conv_step_def)

lemma summarises_step:
  assumes "summarises n M c"
  shows "summarises n (add_mset m M) (conv_step n c m)"
proof (cases "counted n m")
  case True
  then show ?thesis
    using assms by (fastforce simp: summarises_def latest_shown_def counted_def conv_step_def Let_def)
qed (use assms in \<open>simp add: summarises_def\<close>)

lemma summarises_fold:
  "summarises n M c \<Longrightarrow> summarises n (M + mset ms) (foldl (conv_step n) c ms)"
proof (induction ms arbitrary: M c)
  case (Cons m ms)
  from Cons.IH [OF summarises_step [OF Cons.prems]] show ?case by simp
qed simp

text \<open>The order in which Go visits the map of the messages does not matter for this.\<close>

lemma summarises_build_conv: "summarises n (mset ms) (build_conv n ms)"
  using summarises_fold [of n "{#}" _ ms]
  by (simp add: build_conv_def summarises_def latest_shown_def zeroTime_def)

lemma build_conv_any_order: "mset ms' = mset ms \<Longrightarrow> summarises n (mset ms) (build_conv n ms')"
  using summarises_build_conv [of n ms'] by simp

lemma summarises_cong: "filter_mset (counted n) M = filter_mset (counted n) M' \<Longrightarrow> summarises n M c = summarises n M' c"
  by (simp add: summarises_def)

text \<open>The summaries in memory are exact: every message's number has one.\<close>

definition summaries_exact :: "Mem \<Rightarrow> bool" where
  "summaries_exact m \<longleftrightarrow> (\<forall>k x. tget (mem_messages m) k = Some x \<longrightarrow>
     (\<exists>c. tget (mem_conversations m) (m_Number x) = Some c \<and> summarises (m_Number x) (mset (tvals (mem_messages m))) c))"

definition conv_inv :: "Mem \<Rightarrow> bool" where
  "conv_inv m \<longleftrightarrow> msgs_ok m \<and> summaries_exact m"

lemma counted_tput:
  assumes "\<And>old. tget t k = Some old \<Longrightarrow> m_Number old \<noteq> n" "m_Number v \<noteq> n"
  shows "filter (counted n) (tvals (tput k v t)) = filter (counted n) (tvals t)"
  using assms
proof (induction t)
  case Nil
  then show ?case by (simp add: tvals_def counted_def)
next
  case (Cons p t)
  then show ?case by (cases p) (auto simp: tvals_def counted_def split: if_splits)
qed

lemma conv_inv_put_message:
  assumes "conv_inv m" "\<And>old. tget (mem_messages m) (m_ID v) = Some old \<Longrightarrow> m_Number old = m_Number v"
  shows "conv_inv (put_message v m)"
proof -
  let ?ms = "tvals (tput (m_ID v) v (mem_messages m))"
  have "summarises n (mset ?ms) c = summarises n (mset (tvals (mem_messages m))) c" if "n \<noteq> m_Number v" for n c
  proof (rule summarises_cong)
    have "filter (counted n) ?ms = filter (counted n) (tvals (mem_messages m))"
      using assms(2) that by (cases "tget (mem_messages m) (m_ID v)") (auto intro!: counted_tput)
    then show "filter_mset (counted n) (mset ?ms) = filter_mset (counted n) (mset (tvals (mem_messages m)))"
      by (metis mset_filter)
  qed
  moreover have "mem_conversations (put_message v m) = tput (m_Number v) (build_conv (m_Number v) ?ms) (mem_conversations m)"
    by (simp add: put_message_def rebuildConversation_def)
  ultimately show ?thesis
    using assms(1) unfolding conv_inv_def summaries_exact_def
    by (auto intro: msgs_ok_put_message simp: summarises_build_conv)
qed

lemma conv_inv_sequence [simp]: "conv_inv (m\<lparr>mem_sequence := q\<rparr>) = conv_inv m"
  by (simp add: conv_inv_def summaries_exact_def msgs_ok_def)

lemma conv_inv_put_messages:
  assumes "conv_inv m" "distinct (map m_ID ms)"
    and "\<And>x old. x \<in> set ms \<Longrightarrow> tget (mem_messages m) (m_ID x) = Some old \<Longrightarrow> m_Number old = m_Number x"
  shows "conv_inv (put_messages ms m)"
  using assms
proof (induction ms arbitrary: m)
  case (Cons x ms)
  have inv: "conv_inv (put_message x m)"
    by (rule conv_inv_put_message [OF Cons.prems(1)]) (rule Cons.prems(3), simp)
  have other: "m_ID y \<noteq> m_ID x" if "y \<in> set ms" for y
    using distinct_map_ConsD [OF Cons.prems(2) that] .
  have "conv_inv (put_messages ms (put_message x m))"
  proof (rule Cons.IH [OF inv])
    show "distinct (map m_ID ms)" using Cons.prems(2) by simp
    fix y old assume y: "y \<in> set ms" "tget (mem_messages (put_message x m)) (m_ID y) = Some old"
    then show "m_Number old = m_Number y" using other [OF y(1)] by (intro Cons.prems(3)) simp_all
  qed
  then show ?case by (simp add: put_messages_def)
qed (simp add: put_messages_def)

fun is_PMessage :: "Payload \<Rightarrow> bool" where
  "is_PMessage (PMessage _) = True"
| "is_PMessage _ = False"

lemma effect_keeps_messages:
  assumes "\<not> is_PMessage p"
  shows "conv_inv (effect t i p m) = conv_inv m"
  using assms by (cases p) (simp_all add: conv_inv_def summaries_exact_def msgs_ok_def put_call_def Let_def)

lemma append_keeps_messages:
  assumes "typed_payload t p" "\<not> is_PMessage p"
  shows "conv_inv (s_mem (snd (appendLocked env t i ver p s))) = conv_inv (s_mem s)"
  using assms(1)
  by (cases rule: append_cases [of t p env i ver s]) (simp_all add: assms effect_keeps_messages)

fun numbers_kept :: "StoreOp \<Rightarrow> State \<Rightarrow> bool" where
  "numbers_kept (OpUpsertMessage env v) s =
     (case get_Message s (m_ID v) of Some old \<Rightarrow> m_Number old = m_Number v | None \<Rightarrow> True)"
| "numbers_kept _ s = True"

lemma conv_inv_mark_all:
  assumes "conv_inv (s_mem s)" "mem_sequence (s_mem s) = db_last (s_db s)"
  shows "conv_inv (s_mem (snd (MarkAllMessagesRead env s)))"
proof -
  let ?ms = "read_updates (tvals (mem_messages (s_mem s)))"
  have ok: "msgs_ok (s_mem s)" using assms(1) by (simp add: conv_inv_def)
  have "m_Number old = m_Number x" if "x \<in> set ?ms" "tget (mem_messages (s_mem s)) (m_ID x) = Some old" for x old
    using that msgs_ok_tget [OF ok] by (auto simp: read_updates_def mark_read_def)
  then have "conv_inv (put_messages ?ms (s_mem s))"
    using assms(1) distinct_read_updates [OF msgs_ok_distinct [OF ok]] by (intro conv_inv_put_messages) auto
  then show ?thesis
    using MarkAll_cases [OF assms(2), where env = env and strict = False] assms(1) by auto
qed

lemma conv_inv_set_device [simp]: "conv_inv (s_mem (set_device d s)) = conv_inv (s_mem s)"
  by (simp add: set_device_def conv_inv_def summaries_exact_def msgs_ok_def)

lemma conv_inv_disk: "conv_inv (s_mem (snd (UpdateDiskUsage env pct s))) = conv_inv (s_mem s)"
proof -
  have "snd (case r of (Inl e, s) \<Rightarrow> (Some e, s) | (Inr x, s) \<Rightarrow> (None, s)) = snd r"
    for r :: "(gerror + Event) \<times> State"
    by (auto split: sum.split prod.split)
  then show ?thesis by (simp add: UpdateDiskUsage_def Let_def append_keeps_messages)
qed

lemma conv_inv_upsert:
  assumes "conv_inv (s_mem s)" "numbers_kept (OpUpsertMessage env v) s"
  shows "conv_inv (s_mem (snd (UpsertMessage env v s)))"
proof -
  obtain r s' where u: "UpsertMessage env v s = (r, s')" by fastforce
  show ?thesis
  proof (cases r)
    case (Inl e)
    then show ?thesis using u UpsertMessage_err [of env v s e s'] assms(1) by simp
  next
    case (Inr e)
    with u have "s' = logged env ''message.upserted'' (m_ID v) (m_Version (stored_message v))
           (PMessage (stored_message v)) (db_last (s_db s) + 1) s"
      using UpsertMessage_ok(1) by blast
    moreover have "conv_inv (put_message (stored_message v) (s_mem s))"
      using assms by (intro conv_inv_put_message) (auto simp: get_Message_def)
    ultimately show ?thesis using u by simp
  qed
qed

lemma conv_inv_run:
  assumes "conv_inv (s_mem s)" "mem_sequence (s_mem s) = db_last (s_db s)" "all_along numbers_kept store_step qs s"
  shows "conv_inv (s_mem (run_ops store_step qs s))"
  using assms
proof (induction qs arbitrary: s)
  case (Cons q qs)
  have "(commit False)\<^sup>*\<^sup>* s (store_step q s)" using Cons.prems(2) by (intro store_step_commits) auto
  then have "mem_sequence (s_mem (store_step q s)) = db_last (s_db (store_step q s))"
    using commits_invariant [where P = "\<lambda>_. True"] Cons.prems(2) by blast
  moreover have "conv_inv (s_mem (store_step q s))"
  proof (cases q)
    case (OpUpsertMessage env v)
    then show ?thesis using Cons.prems conv_inv_upsert by simp
  next
    case (OpMarkAllMessagesRead env)
    then show ?thesis using Cons.prems conv_inv_mark_all by simp
  next
    case (OpUpdateDiskUsage env pct)
    then show ?thesis using Cons.prems conv_inv_disk by simp
  qed (use Cons.prems(1) in \<open>auto simp: UpsertCall_def UpsertRule_def DeleteRule_def UpdateSettings_def UpdateDevice_def
     UpsertRecording_def DeleteRecording_def Subscribe_def cancel_def receive_def Let_def append_keeps_messages
     split: option.split list.split\<close>)
  ultimately show ?case using Cons by simp
qed simp

text \<open>C36: The conversation summaries are exact. From a table of messages filed under their own identifiers whose summaries are exact, after
  any run of the store's operations, with any database failures, in which no update changes the number of a
  stored message: the number of every message has a summary; its badge is how many of the number's messages
  are unread and not deleted; its time is the latest among those that are not deleted; and its text and
  filter mark are those of a message with that time (none of them later than the zero time leaves the zero
  values).\<close>

theorem conversations_exact:
  assumes "msgs_ok (s_mem s)" "summaries_exact (s_mem s)" "mem_sequence (s_mem s) = db_last (s_db s)"
    and "all_along numbers_kept store_step qs s"
  shows "summaries_exact (s_mem (run_ops store_step qs s))"
  using conv_inv_run [OF _ assms(3,4)] assms(1,2) by (simp add: conv_inv_def)

theorem conversations_exact_witness:
  "summaries_exact (s_mem (run_ops store_step [OpUpsertMessage (demo_env 3) (demo_message 1),
     OpMarkAllMessagesRead (demo_env 4)] demo_state))"
  by (rule conversations_exact)
     (simp_all add: summaries_exact_def msgs_ok_def demo_state_def initMem_def emptyDB_def get_Message_def)

end
