(* ===== verification/Service_Props.thy ===== *)
theory Service_Props
  imports Service Store_Messages
begin

text \<open>
  Properties of the service. The central invariant is that at most one call is live and that the store
  knows which: it is kept by every operation and every modem event. The interface \<open>call_book\<close> states
  what the operations rely on; the store's call table implements it.
\<close>

subsection \<open>What the operations leave alone\<close>

abbreviation smem :: "Svc \<Rightarrow> Mem" where
  "smem v \<equiv> s_mem (v_state v)"

lemma act_sel [simp]:
  "v_state (act a v) = v_state v" "v_state (media env a v) = v_state v" "v_state (notify f v) = v_state v"
  "v_state (notifyIncomingCall c v) = v_state v" "v_state (notifyIncomingSMS m v) = v_state v"
  "v_state (notifyCallEnded c v) = v_state v" "v_trace (act a v) = v_trace v @ [a]"
  by (simp_all add: act_def media_def notify_def notifyIncomingCall_def notifyIncomingSMS_def notifyCallEnded_def)

lemma ask_state: "ask env c v = (r, v') \<Longrightarrow> v_state v' = v_state v"
  by (auto simp: ask_def)

lemma snd_ask_state [simp]: "v_state (snd (ask env c v)) = v_state v"
  by (simp add: ask_def)

lemma select_route_state: "select_route env g u v = (r, v') \<Longrightarrow> v_state v' = v_state v"
  by (auto simp: select_route_def ask_def split: if_splits)

lemma snd_select_route_state [simp]: "v_state (snd (select_route env g u v)) = v_state v"
  by (simp add: select_route_def)

subsection \<open>At most one live call\<close>

definition call_inv :: "Mem \<Rightarrow> bool" where
  "call_inv m \<longleftrightarrow> wf_table (mem_calls m) \<and>
     (\<forall>k c. tget (mem_calls m) k = Some c \<longrightarrow>
        c_ID c = k \<and> k \<noteq> [] \<and> (live_state (c_State c) \<longleftrightarrow> mem_activeCallID m = k))"

definition admissible :: "Call \<Rightarrow> Mem \<Rightarrow> bool" where
  "admissible c m \<longleftrightarrow> c_ID c \<noteq> [] \<and>
     (live_state (c_State c) \<longrightarrow> lookup_active m = None \<or> mem_activeCallID m = c_ID c)"

lemma call_inv_put_call:
  assumes "call_inv m" "admissible c m"
  shows "call_inv (put_call c m)"
proof -
  have other: "\<not> live_state (c_State d)" if "tget (mem_calls m) k = Some d" "lookup_active m = None" for k d
    using assms(1) that by (auto simp: call_inv_def lookup_active_def)
  show ?thesis
    using assms other unfolding call_inv_def admissible_def put_call_def Let_def
    by (auto simp: lookup_active_def)
qed

lemma call_inv_cong:
  "mem_calls m' = mem_calls m \<Longrightarrow> mem_activeCallID m' = mem_activeCallID m \<Longrightarrow> call_inv m' = call_inv m"
  by (simp add: call_inv_def)

text \<open>The contract between the service and the book of calls it works on.\<close>

locale call_book =
  fixes get :: "'s \<Rightarrow> string \<Rightarrow> Call option" and active :: "'s \<Rightarrow> Call option"
    and put :: "'e \<Rightarrow> Call \<Rightarrow> 's \<Rightarrow> (gerror + 'x) \<times> 's"
    and inv :: "'s \<Rightarrow> bool" and adm :: "Call \<Rightarrow> 's \<Rightarrow> bool"
  assumes put_inv: "inv s \<Longrightarrow> adm c s \<Longrightarrow> inv (snd (put e c s))"
    and get_live: "inv s \<Longrightarrow> get s k = Some c \<Longrightarrow> live_state (c_State c) \<Longrightarrow> active s = Some c"
    and active_live: "inv s \<Longrightarrow> active s = Some c \<Longrightarrow> live_state (c_State c) \<and> get s (c_ID c) = Some c"
    and get_key: "inv s \<Longrightarrow> get s k = Some c \<Longrightarrow> c_ID c = k \<and> k \<noteq> []"
    and adm_idle: "active s = None \<Longrightarrow> c_ID c \<noteq> [] \<Longrightarrow> adm c s"
    and adm_dead: "\<not> live_state (c_State c) \<Longrightarrow> c_ID c \<noteq> [] \<Longrightarrow> adm c s"
    and adm_active: "inv s \<Longrightarrow> active s = Some d \<Longrightarrow> c_ID c = c_ID d \<Longrightarrow> adm c s"
begin

lemma live_unique:
  assumes "inv s" "get s k = Some c" "live_state (c_State c)" "get s k' = Some d" "live_state (c_State d)"
  shows "k = k' \<and> c = d"
  using get_live [OF assms(1,2,3)] get_live [OF assms(1,4,5)] get_key [OF assms(1,2)] get_key [OF assms(1,4)]
  by auto

lemma idle_dead: "inv s \<Longrightarrow> active s = None \<Longrightarrow> get s k = Some c \<Longrightarrow> \<not> live_state (c_State c)"
  using get_live by fastforce

lemma put_update:
  assumes "inv s" "get s k = Some c" "live_state (c_State c)" "c_ID d = k"
  shows "inv (snd (put e d s))"
  using put_inv adm_active [OF assms(1) get_live [OF assms(1,2,3)]] assms get_key by metis

end

lemma lookup_active_id: "call_inv m \<Longrightarrow> lookup_active m = Some c \<Longrightarrow> mem_activeCallID m = c_ID c"
  by (auto simp: call_inv_def lookup_active_def)

interpretation book: call_book get_Call ActiveCall UpsertCall "\<lambda>s :: State. call_inv (s_mem s)" "\<lambda>c (s :: State). admissible c (s_mem s)"
proof
  fix s :: State and c :: Call and e :: Env assume inv: "call_inv (s_mem s)" and adm: "admissible c (s_mem s)"
  obtain r s' where u: "UpsertCall e c s = (r, s')" by fastforce
  show "call_inv (s_mem (snd (UpsertCall e c s)))"
  proof (cases r)
    case (Inl err)
    then show ?thesis using u UpsertCall_err inv by fastforce
  next
    case (Inr ev)
    have "admissible (stored_call c) (s_mem s)" using adm by (simp add: admissible_def)
    then have "call_inv (put_call (stored_call c) (s_mem s))" by (rule call_inv_put_call [OF inv])
    moreover have "s_mem s' = (put_call (stored_call c) (s_mem s))\<lparr>mem_sequence := db_last (s_db s) + 1\<rparr>"
      using u Inr by (intro UpsertCall_ok(2)) simp
    ultimately show ?thesis using u call_inv_cong [of "s_mem s'" "put_call (stored_call c) (s_mem s)"] by simp
  qed
qed (auto simp: call_inv_def get_Call_def ActiveCall_def lookup_active_def admissible_def)

lemma upsert_call_state: "v_state (snd (upsert_call env k c v)) = snd (UpsertCall (se_store env k) c (v_state v))"
  by (simp add: upsert_call_def split: prod.split sum.split)

lemma upsert_call_None:
  assumes "upsert_call env k c v = (None, v')"
  shows "\<exists>e. UpsertCall (se_store env k) c (v_state v) = (Inr e, v_state v')"
  using assms by (auto simp: upsert_call_def split: prod.splits sum.splits)

lemma upsert_call_stored:
  assumes "upsert_call env k c v = (None, v')"
  shows "get_Call (v_state v') i = (if i = c_ID c then Some (stored_call c) else get_Call (v_state v) i)"
  using upsert_call_None [OF assms] calls.put_get by blast

lemma upsert_call_Some:
  assumes "upsert_call env k c v = (Some e, v')"
  shows "v_state v' = v_state v"
  using assms by (auto simp: upsert_call_def dest: UpsertCall_err split: prod.splits sum.splits)

text \<open>
  What the service and the other components do to the store is a sequence of writes: calls that
  keep at most one of them live, and operations that do not touch the calls. Every operation of
  the service is shown to be such a sequence once; what the writes keep, the operations keep.
\<close>

fun callless :: "StoreOp \<Rightarrow> bool" where
  "callless (OpUpsertCall env v) \<longleftrightarrow> False"
| "callless q \<longleftrightarrow> True"

inductive svc_write :: "State \<Rightarrow> State \<Rightarrow> bool" where
  write_call: "admissible c (s_mem s) \<Longrightarrow> svc_write s (snd (UpsertCall e c s))"
| write_other: "callless q \<Longrightarrow> safe_op q s \<Longrightarrow> svc_write s (store_step q s)"

abbreviation svc_writes :: "State \<Rightarrow> State \<Rightarrow> bool" where
  "svc_writes \<equiv> svc_write\<^sup>*\<^sup>*"

lemma svc_write_op: "svc_write s s' \<Longrightarrow> \<exists>q. s' = store_step q s \<and> safe_op q s"
  by (induction rule: svc_write.induct) (metis store_step.simps(1) safe_op.simps, blast)

lemma write_message: "svc_write s (snd (UpsertMessage e m s))"
  and write_device: "svc_write s (snd (UpdateDevice e d s))"
  and write_read: "svc_write s (snd (MarkAllMessagesRead e s))"
  using svc_write.write_other [of "OpUpsertMessage e m" s] svc_write.write_other [of "OpUpdateDevice e d" s]
    svc_write.write_other [of "OpMarkAllMessagesRead e" s] by simp_all

lemma call_inv_put_message [simp]: "call_inv (put_message x m) = call_inv m"
  by (rule call_inv_cong) (simp_all add: put_message_def rebuildConversation_def)

lemma call_inv_put_messages [simp]: "call_inv (put_messages xs m) = call_inv m"
  unfolding put_messages_def by (induction xs arbitrary: m) simp_all

lemma call_inv_upd [simp]:
  "call_inv (m\<lparr>mem_sequence := q\<rparr>) = call_inv m" "call_inv (m\<lparr>mem_device := d\<rparr>) = call_inv m"
  "call_inv (m\<lparr>mem_rules := rs\<rparr>) = call_inv m" "call_inv (m\<lparr>mem_recordings := xs\<rparr>) = call_inv m"
  "call_inv (m\<lparr>mem_settings := st\<rparr>) = call_inv m"
  by (rule call_inv_cong; simp)+

definition svc_ok :: "State \<Rightarrow> bool" where
  "svc_ok s \<longleftrightarrow> call_inv (s_mem s) \<and> mem_sequence (s_mem s) = db_last (s_db s)"

lemma svc_okD: "svc_ok s \<Longrightarrow> call_inv (s_mem s)"
  by (simp add: svc_ok_def)

lemma append_inv:
  assumes "call_inv (s_mem s)" "typed_payload t p" "\<forall>v. p \<noteq> PCall v"
  shows "call_inv (s_mem (snd (appendLocked e t i ver p s)))"
  using assms(2)
proof (cases rule: append_cases [of t p e i ver s])
  case accepted
  then show ?thesis using assms(1,3) by (cases p) auto
qed (use assms(1) in simp)

lemma MarkAll_inv: "svc_ok s \<Longrightarrow> call_inv (s_mem (snd (MarkAllMessagesRead e s)))"
  using MarkAll_cases [where s = s and env = e and strict = False] by (auto simp: svc_ok_def)

lemma snd_case_sum [simp]: "snd (case r of (Inl e, s) \<Rightarrow> (Some e, s) | (Inr x, s) \<Rightarrow> (None, s)) = snd r"
  by (auto split: prod.split sum.split)

lemma callless_inv:
  assumes "svc_ok s" "callless q"
  shows "call_inv (s_mem (store_step q s))"
proof (cases q)
  case (OpMarkAllMessagesRead env)
  then show ?thesis using MarkAll_inv [OF assms(1)] by simp
qed (use assms in \<open>auto simp: svc_okD UpsertMessage_def UpsertRule_def DeleteRule_def UpdateSettings_def UpdateDevice_def
       UpdateDiskUsage_def set_device_def UpsertRecording_def DeleteRecording_def Subscribe_def cancel_def receive_def
       Let_def intro!: append_inv split: option.split list.split\<close>)

lemma svc_write_ok: "svc_write s s' \<Longrightarrow> svc_ok s \<Longrightarrow> svc_ok s'"
proof -
  assume w: "svc_write s s'" and ok: "svc_ok s"
  have "call_inv (s_mem s')"
    using w ok
    by (induction rule: svc_write.induct)
       (auto dest: svc_okD intro: book.put_inv callless_inv)
  moreover have "mem_sequence (s_mem s') = db_last (s_db s')"
    using svc_write_op [OF w] ok commits_invariant [OF store_step_commits [of False], where P = "\<lambda>_. True"]
    by (auto simp: svc_ok_def)
  ultimately show ?thesis by (simp add: svc_ok_def)
qed

lemma svc_writes_ok: "svc_writes s s' \<Longrightarrow> svc_ok s \<Longrightarrow> svc_ok s'"
  by (induction rule: rtranclp_induct) (auto intro: svc_write_ok)

text \<open>The writes of an operation: of a live call, of the first live call, of a dead call, and a second
  write of the call just written.\<close>

lemma writes_live:
  assumes "svc_ok (v_state v)" "get_Call (v_state v) (c_ID d) = Some c" "live_state (c_State c)"
  shows "svc_writes (v_state v) (v_state (snd (upsert_call env k d v)))"
  unfolding upsert_call_state
  using book.adm_active [OF svc_okD [OF assms(1)] book.get_live [OF svc_okD [OF assms(1)] assms(2,3)]]
    book.get_key [OF svc_okD [OF assms(1)] assms(2)]
  by (auto intro!: svc_write.write_call)

lemma writes_idle:
  assumes "ActiveCall (v_state v) = None" "c_ID d \<noteq> []"
  shows "svc_writes (v_state v) (v_state (snd (upsert_call env k d v)))"
  unfolding upsert_call_state using book.adm_idle [OF assms] by (auto intro!: svc_write.write_call)

lemma writes_dead:
  assumes "\<not> live_state (c_State d)" "c_ID d \<noteq> []"
  shows "svc_writes (v_state v) (v_state (snd (upsert_call env k d v)))"
  unfolding upsert_call_state using book.adm_dead [OF assms] by (auto intro!: svc_write.write_call)

lemma live_states [simp]:
  "live_state CallIncoming" "live_state CallDialing" "live_state CallAlerting" "live_state CallActive"
  "\<not> live_state CallEnded" "\<not> live_state CallFailed"
  by (simp_all add: live_state_def)

lemma bump_sel [simp]:
  "c_ID (bump c) = c_ID c" "c_State (bump c) = c_State c" "c_MediaOwner (bump c) = c_MediaOwner c"
  "c_Version (bump c) = c_Version c + 1" "c_Held (bump c) = c_Held c" "c_GatewayID (bump c) = c_GatewayID c"
  by (simp_all add: bump_def)

lemma NewID_not_Nil [simp]: "NewID p b \<noteq> []"
  by (simp add: NewID_def)

subsection \<open>Every operation is a sequence of such writes\<close>

text \<open>An operation on a live call follows it through its writes and the modem's answers.\<close>

definition track :: "State \<Rightarrow> string \<Rightarrow> Svc \<Rightarrow> bool" where
  "track s i v \<longleftrightarrow> svc_ok (v_state v) \<and> svc_writes s (v_state v) \<and>
     (\<exists>c. get_Call (v_state v) i = Some c \<and> live_state (c_State c))"

lemma track_start:
  "svc_ok (v_state v) \<Longrightarrow> get_Call (v_state v) i = Some c \<Longrightarrow> live_state (c_State c) \<Longrightarrow> track (v_state v) i v"
  by (simp add: track_def)

lemma track_cong: "track s i v \<Longrightarrow> v_state v' = v_state v \<Longrightarrow> track s i v'"
  by (simp add: track_def)

lemma track_ask: "ask env q v = (r, v') \<Longrightarrow> track s i v \<Longrightarrow> track s i v'"
  by (metis ask_state track_cong)

lemma track_select: "select_route env g u v = (r, v') \<Longrightarrow> track s i v \<Longrightarrow> track s i v'"
  by (metis select_route_state track_cong)

lemma track_writes: "track s i v \<Longrightarrow> svc_writes s (v_state v)"
  by (simp add: track_def)

lemma track_last:
  assumes "track s i v" "c_ID d = i"
  shows "svc_writes s (v_state (snd (upsert_call env k d v)))"
  using assms writes_live [of v d _ env k] by (auto simp: track_def intro: rtranclp_trans)

lemma track_last_pair: "upsert_call env k d v = (r, v') \<Longrightarrow> track s i v \<Longrightarrow> c_ID d = i \<Longrightarrow> svc_writes s (v_state v')"
  using track_last [of s i v d env k] by simp

lemma track_upsert:
  assumes "upsert_call env k d v = (r, v')" "track s i v" "c_ID d = i" "live_state (c_State d)"
  shows "track s i v'"
proof (cases r)
  case None
  have w: "svc_writes (v_state v) (v_state v')" "svc_ok (v_state v)"
    using assms writes_live [of v d _ env k] by (auto simp: track_def)
  show ?thesis
    using track_last_pair [OF assms(1-3)] svc_writes_ok [OF w] upsert_call_stored [of env k d v v' i] assms None
    by (simp add: track_def)
next
  case (Some e)
  then show ?thesis using assms(1,2) upsert_call_Some track_cong by blast
qed

lemmas track_dests = track_ask track_select track_upsert

lemma new_call_id [simp]:
  "c_ID (dialled_call env owner route n d) \<noteq> []" "live_state (c_State (dialled_call env owner route n d))"
  "c_ID (incoming_call env e n d) \<noteq> []" "live_state (c_State (incoming_call env e n d))"
  "c_ID (alerting_call env e n d) \<noteq> []" "live_state (c_State (alerting_call env e n d))"
  by (simp_all add: dialled_call_def incoming_call_def alerting_call_def)

lemma track_new:
  assumes "svc_ok (v_state v)" "ActiveCall (v_state v) = None" "upsert_call env k c v = (None, v')"
    "c_ID c \<noteq> []" "live_state (c_State c)"
  shows "track (v_state v) (c_ID c) v'"
  using writes_idle [OF assms(2,4), of env k] svc_writes_ok [OF _ assms(1)] upsert_call_stored [OF assms(3), of "c_ID c"] assms
  by (simp add: track_def)

lemma commit_writes:
  assumes "svc_ok (v_state v)" "ActiveCall (v_state v) = None"
  shows "svc_writes (v_state v) (v_state (snd (DialRoute_commit env owner route nd v)))"
  unfolding DialRoute_commit_def Let_def
  by (auto split: prod.split option.split dest!: upsert_call_Some track_new [OF assms] dest: track_ask
        intro: track_last track_writes)

lemma dial_writes:
  assumes "svc_ok (v_state v)"
  shows "svc_writes (v_state v) (v_state (snd (DialRoute env raw owner route v)))"
  using commit_writes [OF assms]
  by (auto simp: DialRoute_def DialRoute_check_def Let_def split: sum.split)

lemma claim_writes:
  assumes "svc_ok (v_state v)" "AnswerFrom_claim env i owner v = (r, v')"
  shows "svc_writes (v_state v) (v_state v')" and "r = Inr call \<Longrightarrow> track (v_state v) i v' \<and> c_ID call = i \<and> c_State call = CallIncoming"
  using assms book.get_key [OF svc_okD [OF assms(1)], of i]
  by (auto simp: AnswerFrom_claim_def Let_def split: option.splits prod.splits if_splits
        dest!: track_start [OF assms(1)] dest: track_select track_upsert intro: track_writes)

lemma track_media: "track s i v \<Longrightarrow> track s i (media env a v)" "track s i v \<Longrightarrow> track s i (act a v)"
  by (rule track_cong; simp)+

lemma finish_writes:
  assumes "track s (c_ID call) v" "live_state (c_State call)"
  shows "svc_writes s (v_state (snd (AnswerFrom_finish env owner call r v)))"
  unfolding AnswerFrom_finish_def Let_def
  using assms
  by (auto split: option.split prod.split intro: track_last track_last_pair [OF _ track_media(1)] track_last_pair)

lemma answer_writes:
  assumes "svc_ok (v_state v)"
  shows "svc_writes (v_state v) (v_state (snd (AnswerFrom env i owner v)))"
proof -
  obtain r v' where claim: "AnswerFrom_claim env i owner v = (r, v')" by fastforce
  note c = claim_writes [OF assms claim]
  show ?thesis
  proof (cases r)
    case (Inl e)
    then show ?thesis using c(1) by (simp add: AnswerFrom_def claim)
  next
    case (Inr call)
    have "track (v_state v) (c_ID call) (act (AModem MAnswer) v')" "live_state (c_State call)"
      using c(2) [OF Inr] by (auto intro: track_media)
    then show ?thesis by (simp add: AnswerFrom_def claim Inr ask_def finish_writes)
  qed
qed

text \<open>Rules for the operations that wait for the modem between their writes, read off their text.\<close>

definition followed :: "State \<Rightarrow> 'r \<times> Svc \<Rightarrow> bool" where
  "followed s x \<longleftrightarrow> svc_writes s (v_state (snd x))"

lemma followed_ask: "track s i v \<Longrightarrow> (\<And>r v'. track s i v' \<Longrightarrow> followed s (f r v')) \<Longrightarrow> followed s (case_prod f (ask env q v))"
  by (auto split: prod.split dest: track_ask)

lemma followed_select:
  "track s i v \<Longrightarrow> (\<And>r v'. track s i v' \<Longrightarrow> followed s (f r v')) \<Longrightarrow> followed s (case_prod f (select_route env g u v))"
  by (auto split: prod.split dest: track_select)

lemma followed_upsert:
  "track s i v \<Longrightarrow> c_ID d = i \<Longrightarrow> live_state (c_State d) \<Longrightarrow> (\<And>r v'. track s i v' \<Longrightarrow> followed s (f r v')) \<Longrightarrow>
     followed s (case_prod f (upsert_call env k d v))"
  by (auto split: prod.split dest: track_upsert)

lemma followed_end: "track s i v \<Longrightarrow> followed s (r, v)"
  by (simp add: followed_def track_writes)

lemma followed_last: "track s i v \<Longrightarrow> c_ID d = i \<Longrightarrow> followed s (r, snd (upsert_call env k d v))"
  by (simp add: followed_def track_last)

lemma followed_cases:
  "(c \<Longrightarrow> followed s x) \<Longrightarrow> (\<not> c \<Longrightarrow> followed s y) \<Longrightarrow> followed s (if c then x else y)"
  "followed s x \<Longrightarrow> (\<And>e. followed s (g e)) \<Longrightarrow> followed s (case r of None \<Rightarrow> x | Some e \<Rightarrow> g e)"
  by (auto split: option.split)

lemmas followed_intros = followed_cases followed_select followed_ask followed_last followed_upsert followed_end track_media

lemma on_live_call:
  assumes "svc_ok (v_state v)"
    and "\<And>call. get_Call (v_state v) i = Some call \<Longrightarrow> live_state (c_State call) \<Longrightarrow> track (v_state v) (c_ID call) v \<Longrightarrow> P"
    and "(\<And>call. get_Call (v_state v) i = Some call \<Longrightarrow> \<not> live_state (c_State call)) \<Longrightarrow> P"
  shows P
proof (cases "\<exists>call. get_Call (v_state v) i = Some call \<and> live_state (c_State call)")
  case True
  then obtain call where "get_Call (v_state v) i = Some call" "live_state (c_State call)" by auto
  then show ?thesis
    using assms(2) track_start [OF assms(1)] book.get_key [OF svc_okD [OF assms(1)]] by metis
qed (use assms(3) in blast)

lemma hold_writes: "svc_ok (v_state v) \<Longrightarrow> followed (v_state v) (Hold env i v)"
proof (rule on_live_call)
  fix call assume live: "live_state (c_State call)" and t: "track (v_state v) (c_ID call) v"
    and call: "get_Call (v_state v) i = Some call"
  show "followed (v_state v) (Hold env i v)"
    unfolding Hold_def call option.case Let_def by (intro followed_intros) (auto simp: live intro: t)
qed (auto simp: Hold_def followed_def split: option.split)

lemma resume_writes: "svc_ok (v_state v) \<Longrightarrow> followed (v_state v) (Resume env i v)"
proof (rule on_live_call)
  fix call assume live: "live_state (c_State call)" and t: "track (v_state v) (c_ID call) v"
    and call: "get_Call (v_state v) i = Some call"
  show "followed (v_state v) (Resume env i v)"
    unfolding Resume_def call option.case Let_def by (intro followed_intros) (auto simp: live intro: t)
qed (auto simp: Resume_def followed_def split: option.split)

lemma transfer_writes: "svc_ok (v_state v) \<Longrightarrow> followed (v_state v) (TransferToVoicemail env i v)"
proof (rule on_live_call)
  fix call assume live: "live_state (c_State call)" and t: "track (v_state v) (c_ID call) v"
    and call: "get_Call (v_state v) i = Some call"
  show "followed (v_state v) (TransferToVoicemail env i v)"
    unfolding TransferToVoicemail_def call option.case Let_def by (intro followed_intros) (auto simp: live intro: t track_media)
qed (auto simp: TransferToVoicemail_def followed_def split: option.split)

lemma mute_writes: "svc_ok (v_state v) \<Longrightarrow> followed (v_state v) (Mute env i b v)"
proof (rule on_live_call)
  fix call assume live: "live_state (c_State call)" and t: "track (v_state v) (c_ID call) v"
    and call: "get_Call (v_state v) i = Some call"
  show "followed (v_state v) (Mute env i b v)"
    unfolding Mute_def call option.case Let_def by (intro followed_intros) (auto simp: live intro: t)
qed (auto simp: Mute_def followed_def split: option.split)

lemma voicemailAfter_writes: "svc_ok (v_state v) \<Longrightarrow> svc_writes (v_state v) (v_state (voicemailAfter env i v))"
proof (rule on_live_call)
  fix call assume live: "live_state (c_State call)" and t: "track (v_state v) (c_ID call) v"
    and [simp]: "get_Call (v_state v) i = Some call"
  show "svc_writes (v_state v) (v_state (voicemailAfter env i v))"
    unfolding voicemailAfter_def using t live
    by (auto simp: Let_def split: option.split prod.split dest!: track_dests intro: track_writes track_last)
qed (auto simp: voicemailAfter_def split: option.split)

lemma hangup_writes:
  assumes "svc_ok (v_state v)"
  shows "svc_writes (v_state v) (v_state (snd (Hangup env k i reason v)))"
proof -
  have dead: "svc_writes (v_state v) (v_state v'')"
    if "upsert_call env k c v' = (r, v'')" "v_state v' = v_state v" "c_State c = CallEnded" "c_ID c \<noteq> []" for c v' v'' r
    using writes_dead [of c v' env k] that by auto
  show ?thesis
    unfolding Hangup_def Let_def using book.get_key [OF svc_okD [OF assms]]
    by (auto split: option.split prod.split dest!: ask_state intro: dead)
qed

lemma message_writes: "svc_writes (v_state v) (v_state (snd (upsert_message env k m v)))"
proof -
  have "v_state (snd (upsert_message env k m v)) = snd (UpsertMessage (se_store env k) m (v_state v))"
    by (simp add: upsert_message_def split: prod.split sum.split)
  then show ?thesis by (auto intro: write_message)
qed

lemma message_writes_pair: "upsert_message env k m v = (r, v') \<Longrightarrow> v_state v = s \<Longrightarrow> svc_writes s (v_state v')"
  using message_writes [of v env k m] by simp

lemma message_writes_trans:
  "svc_writes s (v_state v) \<Longrightarrow> v_state v' = v_state v \<Longrightarrow> svc_writes s (v_state (snd (upsert_message env k m v')))"
  using message_writes [of v' env k m] by simp

lemma send_writes: "svc_writes (v_state v) (v_state (snd (SendSMSRoute env raw body route v)))"
  unfolding SendSMSRoute_def SendSMSRoute_finish_def Let_def
  by (auto split: sum.split prod.split option.split dest: message_writes_pair dest!: ask_state
        intro: message_writes_trans rtranclp_trans)

lemma delete_writes: "svc_writes (v_state v) (v_state (snd (DeleteMessage env i v)))"
  unfolding DeleteMessage_def Let_def
  by (auto split: prod.split option.split intro: message_writes_pair)

lemma MarkAllRead_state: "v_state (snd (MarkAllRead env v)) = snd (MarkAllMessagesRead (se_store env 0) (v_state v))"
  by (simp add: MarkAllRead_def split: prod.split)

lemma read_writes:
  "svc_writes (v_state v) (v_state (snd (MarkRead env i v)))" "svc_writes (v_state v) (v_state (snd (MarkAllRead env v)))"
  unfolding MarkRead_def Let_def
  by (auto split: prod.split option.split intro: message_writes_pair)
     (metis MarkAllRead_state write_read r_into_rtranclp)

lemma device_writes: "svc_writes (v_state v) (v_state (update_device env d v))"
  unfolding update_device_def by (auto intro: write_device)

lemma probe_writes: "svc_writes (v_state v) (v_state (probe env v))"
  using device_writes [of "v\<lparr>v_lastProbe := se_probe env\<rparr>" env] by (simp add: probe_def Let_def)

lemma incoming_writes:
  assumes "svc_ok (v_state v)"
  shows "svc_writes (v_state v) (v_state (on_call_incoming env e v))"
proof (cases "ActiveCall (v_state v)")
  case (Some current)
  then have "get_Call (v_state v) (c_ID current) = Some current" "live_state (c_State current)"
    using book.active_live [OF svc_okD [OF assms]] by auto
  then show ?thesis
    using writes_live [OF assms, of "(bump current)\<lparr>c_Number := me_Number e\<rparr>" current env 0] Some
    by (simp add: on_call_incoming_def)
next
  case None
  obtain r v0 where sel: "select_route env (me_GatewayID e) (me_SubscriptionID e) v = (r, v0)" by fastforce
  have v0: "v_state v0 = v_state v" using select_route_state [OF sel] .
  define call where "call = incoming_call env e (event_number env e v0)
    (Decide (se_lib env) (v_state v0) (event_number env e v0) [] ''call'')"
  define v1 where "v1 = snd (upsert_call env 0 call v0)"
  have w: "svc_writes (v_state v) (v_state v1)"
    using writes_idle [of v0 call env 0] None v0 by (simp add: v1_def call_def)
  have "svc_writes (v_state v) (v_state (snd (Hangup env 1 (c_ID call) ''filtered'' v1)))"
    using hangup_writes [OF svc_writes_ok [OF w assms]] w by (meson rtranclp_trans)
  moreover have "svc_writes (v_state v) (v_state v0)" by (simp add: v0)
  ultimately show ?thesis
    using None sel w
    by (auto simp: on_call_incoming_def Let_def call_def [symmetric] v1_def [symmetric] split: option.split)
qed

lemma active_event_writes:
  assumes "svc_ok (v_state v)"
  shows "svc_writes (v_state v) (v_state (on_call_alerting env e v))" (is ?alerting)
    and "svc_writes (v_state v) (v_state (on_call_active env e v))" (is ?active)
    and "svc_writes (v_state v) (v_state (on_call_ended env e v))" (is ?ended)
proof -
  have upd: "svc_writes (v_state v) (v_state (snd (upsert_call env 0 d v')))"
    if "ActiveCall (v_state v) = Some call" "c_ID d = c_ID call" "v_state v' = v_state v" for call d v'
    using writes_live [of v' d call env 0] book.active_live [OF svc_okD [OF assms]] that assms by auto
  show ?active ?ended
    unfolding on_call_active_def on_call_ended_def Let_def
    by (auto split: option.split intro!: upd)
  show ?alerting
    unfolding on_call_alerting_def Let_def
    by (auto split: option.split prod.split dest!: select_route_state intro: upd)
       (metis new_call_id(5) writes_idle)+
qed

end
