(* ===== verification/Service_Runs.thy ===== *)
theory Service_Runs
  imports Service_Props
begin

text \<open>
  Runs of the service: its operations, the modem's events, the timers and the store writes of the
  other components, in any order and with any failures, each operation from its beginning to its end.
  The theorems say what every run keeps and what each operation on a call or a message achieves.
  The modem's events do not wait for an operation to end: the theory \<^verbatim>\<open>Service_Interleaving\<close> runs the
  single accesses of the operations on calls in any order.
\<close>

subsection \<open>Runs\<close>

datatype SvcOp =
    SDial string string Route
  | SAnswer string string
  | SHold string
  | SResume string
  | STransfer string
  | SHangup string string
  | SDTMF string string
  | SMute string bool
  | SSend string string Route
  | SDelete string
  | SRead string
  | SReadAll
  | SProbe
  | SVoicemail string
  | SModem MEvent
  | SObserver
  | SStore StoreOp

fun svc_step :: "SEnv \<times> SvcOp \<Rightarrow> Svc \<Rightarrow> Svc" where
  "svc_step (env, SDial raw owner route) v = snd (DialRoute env raw owner route v)"
| "svc_step (env, SAnswer i owner) v = snd (AnswerFrom env i owner v)"
| "svc_step (env, SHold i) v = snd (Hold env i v)"
| "svc_step (env, SResume i) v = snd (Resume env i v)"
| "svc_step (env, STransfer i) v = snd (TransferToVoicemail env i v)"
| "svc_step (env, SHangup i reason) v = snd (Hangup env 0 i reason v)"
| "svc_step (env, SDTMF i key) v = snd (DTMF env i key v)"
| "svc_step (env, SMute i b) v = snd (Mute env i b v)"
| "svc_step (env, SSend raw body route) v = snd (SendSMSRoute env raw body route v)"
| "svc_step (env, SDelete i) v = snd (DeleteMessage env i v)"
| "svc_step (env, SRead i) v = snd (MarkRead env i v)"
| "svc_step (env, SReadAll) v = snd (MarkAllRead env v)"
| "svc_step (env, SProbe) v = probe env v"
| "svc_step (env, SVoicemail i) v = voicemailAfter env i v"
| "svc_step (env, SModem e) v = handleModem env e v"
| "svc_step (env, SObserver) v = AddObserver v"
| "svc_step (env, SStore q) v = v\<lparr>v_state := store_step q (v_state v)\<rparr>"

text \<open>The other components write settings, rules, messages, recordings and the device state, and the recorder
  sets two fields of a stored call, whose state it leaves alone.\<close>

fun updates_call :: "StoreOp \<Rightarrow> State \<Rightarrow> bool" where
  "updates_call (OpUpsertCall e c) s \<longleftrightarrow> (\<exists>old. get_Call s (c_ID c) = Some old \<and> c_State c = c_State old)"
| "updates_call _ s \<longleftrightarrow> False"

fun svc_safe :: "SEnv \<times> SvcOp \<Rightarrow> Svc \<Rightarrow> bool" where
  "svc_safe (env, SStore q) v \<longleftrightarrow> safe_op q (v_state v) \<and> (callless q \<or> updates_call q (v_state v))"
| "svc_safe x v \<longleftrightarrow> True"

lemma modem_writes: "svc_ok (v_state v) \<Longrightarrow> svc_writes (v_state v) (v_state (handleModem env e v))"
  unfolding handleModem_def Let_def
  by (simp add: incoming_writes active_event_writes on_device_online_def on_device_offline_def on_sms_received_def
        on_sms_status_def Let_def device_writes message_writes split: option.split)

lemma DTMF_state [simp]: "v_state (snd (DTMF env i key v)) = v_state v"
  by (auto simp: DTMF_def split: option.split prod.split dest!: select_route_state)

lemma updates_call_writes:
  assumes "svc_ok s" "updates_call q s"
  shows "svc_writes s (store_step q s)"
proof (cases q)
  case (OpUpsertCall e c)
  then obtain old where old: "get_Call s (c_ID c) = Some old" "c_State c = c_State old" using assms(2) by auto
  note inv = svc_okD [OF assms(1)]
  have "admissible c (s_mem s)"
    using book.get_live [OF inv old(1)] book.adm_active [OF inv, of old c] book.adm_dead [of c s] book.get_key [OF inv old(1)] old(2)
    by auto
  then show ?thesis using svc_write.write_call OpUpsertCall by auto
qed (use assms(2) in auto)

lemma svc_step_writes:
  assumes "svc_ok (v_state v)" "svc_safe x v"
  shows "svc_writes (v_state v) (v_state (svc_step x v))"
proof -
  obtain env q where x: "x = (env, q)" by fastforce
  show ?thesis
  proof (cases q)
    case (SStore p)
    then show ?thesis using assms updates_call_writes [of "v_state v" p] x by (auto intro: svc_write.write_other)
  qed (use assms(1) x in \<open>simp_all add: dial_writes answer_writes hold_writes [unfolded followed_def]
         resume_writes [unfolded followed_def] transfer_writes [unfolded followed_def]
         mute_writes [unfolded followed_def] hangup_writes send_writes delete_writes read_writes probe_writes
         voicemailAfter_writes modem_writes AddObserver_def\<close>)
qed

lemma svc_run_writes:
  assumes "svc_ok (v_state v)" "all_along svc_safe svc_step xs v"
  shows "svc_writes (v_state v) (v_state (run_ops svc_step xs v))"
  using assms
proof (induction xs arbitrary: v)
  case (Cons x xs)
  note w = svc_step_writes [of v x]
  have "svc_writes (v_state (svc_step x v)) (v_state (run_ops svc_step xs (svc_step x v)))"
    using Cons w svc_writes_ok by simp
  then show ?case using w Cons.prems by simp
qed simp

text \<open>C6: The service never breaks the durability of the store: after any such run, opening the database
  with its key succeeds and gives back every call and every message of the running service.\<close>

theorem service_survives_restart:
  assumes "svc_ok (v_state v)" "durable (v_state v)" "all_along svc_safe svc_step xs v"
    and "opens_with newGCM io (s_db (v_state (run_ops svc_step xs v))) (s_secrets (v_state v))"
  shows "\<exists>s2. OpenWithKey newGCM now io = Inr s2 \<and> durable s2 \<and>
    (\<forall>i. get_Call s2 i = get_Call (v_state (run_ops svc_step xs v)) i \<and>
         get_Message s2 i = get_Message (v_state (run_ops svc_step xs v)) i) \<and>
    ActiveCall s2 = ActiveCall (v_state (run_ops svc_step xs v))"
proof -
  have step: "durable s' \<and> s_secrets s' = s_secrets s" if "svc_write s s'" "durable s" for s s'
    using svc_write_op [OF that(1)] durable_run [OF that(2), of "[q]" for q] by fastforce
  have "durable s' \<and> s_secrets s' = s_secrets s" if "svc_writes s s'" "durable s" for s s'
    using that by (induction rule: rtranclp_induct) (auto dest: step)
  from this [OF svc_run_writes [OF assms(1,3)] assms(2)] obtain s2 where
    "OpenWithKey newGCM now io = Inr s2" "mem_eq (s_mem s2) (s_mem (v_state (run_ops svc_step xs v)))" "durable s2"
    using durable_reopen [of "v_state (run_ops svc_step xs v)" newGCM io now] assms(4) by auto
  then show ?thesis
    by (auto simp: mem_eq_iff get_Call_def get_Message_def ActiveCall_def lookup_active_def)
qed

definition demo_senv :: SEnv where
  "demo_senv = \<lparr>se_now = 60, se_rand = [1, 2], se_store = (\<lambda>_. demo_env 60), se_lib = demo_lib, se_routed = False,
     se_media = True, se_modem = (\<lambda>_ _. None), se_healthy = (\<lambda>_. True), se_audio = True, se_probe = zeroStatus,
     se_statuses = []\<rparr>"

definition demo_event :: "string \<Rightarrow> MEvent" where
  "demo_event t = zeroMEvent\<lparr>me_Type := t, me_Number := ''+8613800138000''\<rparr>"

definition demo_svc :: Svc where
  "demo_svc = new_service demo_state 0"

lemma demo_svc_ok: "svc_ok (v_state demo_svc)"
  by (simp add: svc_ok_def call_inv_def demo_svc_def new_service_def demo_state_def initMem_def emptyDB_def)

subsection \<open>Writes that are accepted\<close>

definition ready :: "string \<Rightarrow> int \<Rightarrow> State \<Rightarrow> bool" where
  "ready i ver s \<longleftrightarrow> 0 < ver \<and> (\<forall>r \<in> set (db_rows (s_db s)). row_Entity r = i \<longrightarrow> row_Version r < ver) \<and>
     (\<forall>old. get_Call s i = Some old \<longrightarrow> ver = c_Version old + 1)"

abbreviation no_fault :: "SEnv \<Rightarrow> bool" where
  "no_fault env \<equiv> \<forall>k. env_fault (se_store env k) 0 = None"

lemma ready_upsert:
  assumes "no_fault env" "ready (c_ID c) (c_Version c) (v_state v)"
  obtains v' where "upsert_call env k c v = (None, v')" "ready (c_ID c) (c_Version c + 1) (v_state v')"
    "v_trace v' = v_trace v" "v_observers v' = v_observers v"
    "get_Settings (v_state v') = get_Settings (v_state v)"
    "s_mem (v_state v') = (put_call (stored_call c) (s_mem (v_state v)))\<lparr>mem_sequence := db_last (s_db (v_state v)) + 1\<rparr>"
proof -
  let ?s = "v_state v"
  have ver: "c_Version (stored_call c) = c_Version c" "0 < c_Version c" using assms(2) by (auto simp: ready_def)
  have free: "\<not> version_taken (c_ID c) (c_Version (stored_call c)) ?s"
    using assms(2) unfolding ver by (fastforce simp: ready_def version_taken_def list_ex_iff)
  obtain e s' where u: "UpsertCall (se_store env k) c ?s = (Inr e, s')"
    using UpsertCall_accepted [OF spec [OF assms(1), of k] free] assms(2) by (auto simp: ready_def)
  obtain w where s': "s' = logged (se_store env k) ''call.upserted'' (c_ID c) (c_Version (stored_call c)) (PCall w) (db_last (s_db ?s) + 1) ?s"
    using UpsertCall_ok(1) [OF u] by blast
  have "ready (c_ID c) (c_Version c + 1) s'"
    using assms(2) ver calls.put_get [OF u, of "c_ID c"] by (auto simp: ready_def s')
  then show ?thesis
    using that [of "v\<lparr>v_state := s'\<rparr>"] UpsertCall_ok(2) [OF u] u
    by (simp add: upsert_call_def get_Settings_def put_call_def Let_def)
qed

lemma ready_other:
  assumes "upsert_call env k c v = (None, v')" "ready i ver (v_state v)" "i \<noteq> c_ID c"
  shows "ready i ver (v_state v')"
proof -
  obtain e where u: "UpsertCall (se_store env k) c (v_state v) = (Inr e, v_state v')"
    using upsert_call_None [OF assms(1)] by blast
  then show ?thesis
    using UpsertCall_ok(1) [OF u] calls.put_get [OF u, of i] assms(2,3) by (auto simp: ready_def)
qed

lemma get_after_put:
  assumes "s_mem s = (put_call c m)\<lparr>mem_sequence := q\<rparr>"
  shows "get_Call s i = (if i = c_ID c then Some c else tget (mem_calls m) i)"
    "live_state (c_State c) \<Longrightarrow> ActiveCall s = Some c"
    "call_inv m \<Longrightarrow> c_ID c \<noteq> [] \<Longrightarrow> \<not> live_state (c_State c) \<Longrightarrow>
       mem_activeCallID m = c_ID c \<or> lookup_active m = None \<Longrightarrow> ActiveCall s = None"
proof -
  show "get_Call s i = (if i = c_ID c then Some c else tget (mem_calls m) i)"
    "live_state (c_State c) \<Longrightarrow> ActiveCall s = Some c"
    using assms by (auto simp: get_Call_def ActiveCall_def lookup_active_def put_call_def Let_def)
  assume "call_inv m" "c_ID c \<noteq> []" "\<not> live_state (c_State c)" "mem_activeCallID m = c_ID c \<or> lookup_active m = None"
  moreover from this have "tget (mem_calls m) [] = None" by (cases "tget (mem_calls m) []") (auto simp: call_inv_def)
  ultimately show "ActiveCall s = None"
    using assms by (auto simp: ActiveCall_def lookup_active_def put_call_def Let_def)
qed

lemma stored_call_same [simp]: "c_Version c \<noteq> 0 \<Longrightarrow> c_TelegramMsgIDs c = [] \<Longrightarrow> stored_call c = c"
  by (simp add: stored_call_def)

lemma new_call_sel [simp]:
  "c_TelegramMsgIDs (dialled_call env owner route n d) = []" "c_Version (dialled_call env owner route n d) = 1"
  "c_ID (dialled_call env owner route n d) = NewID ''call'' (se_rand env)"
  "c_TelegramMsgIDs (incoming_call env e n d) = []" "c_Version (incoming_call env e n d) = 1"
  "c_ID (incoming_call env e n d) = NewID ''call'' (se_rand env)"
  by (simp_all add: dialled_call_def incoming_call_def zeroCall_def)

lemma bump_telegram [simp]: "c_TelegramMsgIDs (bump c) = c_TelegramMsgIDs c"
  by (simp add: bump_def)

text \<open>An accepted write of the active call, or of a call while none is active.\<close>

lemma ready_step:
  assumes "no_fault env" "ready (c_ID c) (c_Version c) (v_state v)" "c_TelegramMsgIDs c = []" "svc_ok (v_state v)"
    and "c_ID c \<noteq> []" "ActiveCall (v_state v) = None \<or> mem_activeCallID (smem v) = c_ID c"
  obtains v' where "upsert_call env k c v = (None, v')" "ready (c_ID c) (c_Version c + 1) (v_state v')"
    "v_trace v' = v_trace v" "v_observers v' = v_observers v" "svc_ok (v_state v')"
    "get_Settings (v_state v') = get_Settings (v_state v)" "get_Call (v_state v') (c_ID c) = Some c"
    "ActiveCall (v_state v') = (if live_state (c_State c) then Some c else None)"
    "live_state (c_State c) \<Longrightarrow> mem_activeCallID (smem v') = c_ID c"
proof -
  have "c_Version c \<noteq> 0" using assms(2) by (auto simp: ready_def)
  then have [simp]: "stored_call c = c" using assms(3) by simp
  obtain v' where v': "upsert_call env k c v = (None, v')" "ready (c_ID c) (c_Version c + 1) (v_state v')"
    "v_trace v' = v_trace v" "v_observers v' = v_observers v" "get_Settings (v_state v') = get_Settings (v_state v)"
    and m: "smem v' = (put_call (stored_call c) (smem v))\<lparr>mem_sequence := db_last (s_db (v_state v)) + 1\<rparr>"
    using ready_upsert [OF assms(1,2), of k] by metis
  have act: "mem_activeCallID (smem v) = c_ID c \<or> lookup_active (smem v) = None" using assms(6) by (auto simp: ActiveCall_def)
  then have "admissible c (smem v)" using assms(5) by (auto simp: admissible_def)
  then have "svc_writes (v_state v) (v_state v')"
    using upsert_call_state [of env k c v] v'(1) by (auto intro: svc_write.write_call)
  then have ok: "svc_ok (v_state v')" using svc_writes_ok assms(4) by blast
  have "ActiveCall (v_state v') = (if live_state (c_State c) then Some c else None)"
    using get_after_put(2,3) [OF m] svc_okD [OF assms(4)] act assms(5) by simp
  then show ?thesis
    using that [OF v'(1-4) ok v'(5)] get_after_put(1) [OF m] lookup_active_id [OF svc_okD [OF ok], of c]
    by (simp add: ActiveCall_def)
qed

text \<open>Writes that are not of a call leave the calls alone.\<close>

definition same_calls :: "State \<Rightarrow> State \<Rightarrow> bool" where
  "same_calls s s' \<longleftrightarrow> mem_calls (s_mem s') = mem_calls (s_mem s) \<and> mem_activeCallID (s_mem s') = mem_activeCallID (s_mem s)"

lemma append_same_calls:
  assumes "typed_payload t p" "\<forall>v. p \<noteq> PCall v"
  shows "same_calls s (snd (appendLocked e t i ver p s))"
  using assms(1)
proof (cases rule: append_cases [of t p e i ver s])
  case accepted
  then show ?thesis
    using assms(2) by (cases p) (auto simp: same_calls_def put_message_def rebuildConversation_def)
qed (simp add: same_calls_def)

lemma put_messages_calls: "mem_calls (put_messages xs m) = mem_calls m" "mem_activeCallID (put_messages xs m) = mem_activeCallID m"
  unfolding put_messages_def
  by (induction xs arbitrary: m) (simp_all add: put_message_def rebuildConversation_def)

lemma same_calls_mark: "mem_sequence (s_mem s) = db_last (s_db s) \<Longrightarrow> same_calls s (snd (MarkAllMessagesRead e s))"
  using MarkAll_cases [where s = s and env = e and strict = False]
  by (auto simp: same_calls_def put_messages_calls)

lemma same_calls_refl [simp]: "same_calls s s"
  by (simp add: same_calls_def)

lemma same_calls_set_device [simp]: "same_calls s (set_device d s')  = same_calls s s'" "same_calls (set_device d s) s' = same_calls s s'"
  by (simp_all add: same_calls_def set_device_def)

lemma callless_same_calls:
  assumes "mem_sequence (s_mem s) = db_last (s_db s)" "callless q"
  shows "same_calls s (store_step q s)"
proof (cases q)
  case (OpMarkAllMessagesRead env)
  then show ?thesis using same_calls_mark [OF assms(1)] by simp
next
  case (OpUpdateDiskUsage env pct)
  have "same_calls s (snd (appendLocked env t i ver (PDevice d) (set_device d s)))" if "typed_payload t (PDevice d)" for t i ver d
    using append_same_calls [OF that, of "set_device d s" env i ver] by simp
  then show ?thesis by (simp add: OpUpdateDiskUsage UpdateDiskUsage_def Let_def)
qed (use assms(2) in \<open>auto simp: UpsertMessage_def UpsertRule_def DeleteRule_def UpdateSettings_def UpdateDevice_def
       UpsertRecording_def DeleteRecording_def Subscribe_def cancel_def receive_def Let_def same_calls_def [of s "s\<lparr>s_subs := x\<rparr>" for x]
       same_calls_def [of s "s\<lparr>s_subs := x, s_next := y\<rparr>" for x y] intro!: append_same_calls split: option.split list.split\<close>)

lemma same_calls_gets: "same_calls s s' \<Longrightarrow> get_Call s' = get_Call s \<and> ActiveCall s' = ActiveCall s"
  by (auto simp: same_calls_def get_Call_def ActiveCall_def lookup_active_def)

lemma stored_call_version: "c_Version (stored_call c) \<noteq> 0" "c_Version c \<le> c_Version (stored_call c)"
  by (auto simp: stored_call_def)

lemma put_raises:
  assumes "UpsertCall e c s = (Inr x, s')" "get_Call s (c_ID c) = Some old"
  shows "c_Version old < c_Version (stored_call c)"
  using calls.put_next [OF assms] stored_call_version [of c] by linarith

text \<open>Whatever is written, a call stays on record, and it changes only by rising in its version.\<close>

lemma call_rises:
  assumes "mem_sequence (s_mem s) = db_last (s_db s)" "get_Call s i = Some c"
  shows "\<exists>c'. get_Call (run_ops store_step qs s) i = Some c' \<and> (c' = c \<or> c_Version c < c_Version c')"
  using assms
proof (induction qs arbitrary: s c)
  case (Cons q qs)
  have "\<exists>c'. get_Call (store_step q s) i = Some c' \<and> (c' = c \<or> c_Version c < c_Version c')"
  proof (cases "\<exists>e d x. q = OpUpsertCall e d \<and> fst (UpsertCall e d s) = Inr x")
    case True
    then obtain e d x s' where u: "q = OpUpsertCall e d" "UpsertCall e d s = (Inr x, s')" by (metis prod.collapse)
    then show ?thesis
      using calls.put_get [OF u(2), of i] put_raises [OF u(2)] Cons.prems(2) by (cases "i = c_ID d") auto
  next
    case False
    have "same_calls s (store_step q s)"
    proof (cases "callless q")
      case True
      then show ?thesis using callless_same_calls Cons.prems(1) by blast
    next
      case False
      then obtain e d where q: "q = OpUpsertCall e d" by (cases q) auto
      obtain r s' where u: "UpsertCall e d s = (r, s')" by fastforce
      then have "s' = s" using \<open>\<not> (\<exists>e d x. q = OpUpsertCall e d \<and> fst (UpsertCall e d s) = Inr x)\<close> q UpsertCall_err
        by (cases r) auto
      then show ?thesis by (simp add: q u)
    qed
    then show ?thesis using same_calls_gets Cons.prems(2) by auto
  qed
  moreover have "mem_sequence (s_mem (store_step q s)) = db_last (s_db (store_step q s))"
    using commits_invariant [OF store_step_commits [of False], where P = "\<lambda>_. True"] Cons.prems(1) by blast
  ultimately show ?case using Cons.IH by fastforce
qed simp

subsection \<open>Dialling\<close>

definition dial_command :: "SEnv \<Rightarrow> Route \<Rightarrow> string \<Rightarrow> ModemCall" where
  "dial_command env route number = (if se_routed env then MDialRoute route number else MDial number)"

text \<open>C7: Placing a call. When the checks pass (calls are enabled, no call is active, the number is valid
  and not blocked) and the database accepts the writes, exactly one command goes to the modem. If the modem
  takes it, the dialled call is the active one. If it refuses, the caller gets its error, the call is on record
  as failed with that reason and the line is free again.\<close>

theorem dial_outcome:
  assumes "svc_ok (v_state v)" "no_fault env" "ready (NewID ''call'' (se_rand env)) 1 (v_state v)"
    and "DialRoute_check env raw v = Inr (number, d)"
    and "DialRoute env raw owner route v = ((res, err), v')"
  shows "v_trace v' = v_trace v @ [AModem (dial_command env route number)] \<and>
    err = se_modem env (length (v_trace v)) (dial_command env route number) \<and>
    (\<exists>call. res = Some call \<and> c_Number call = number \<and> c_Direction call = Outgoing \<and>
       get_Call (v_state v') (NewID ''call'' (se_rand env)) = Some call \<and>
       (case err of
          None \<Rightarrow> c_State call = CallDialing \<and> ActiveCall (v_state v') = Some call
        | Some e \<Rightarrow> c_State call = CallFailed \<and> c_EndReason call = e \<and> ActiveCall (v_state v') = None))"
proof -
  let ?c = "dialled_call env owner route number d"
  let ?q = "dial_command env route number"
  have idle: "ActiveCall (v_state v) = None" using assms(4) by (auto simp: DialRoute_check_def Let_def split: if_splits)
  obtain v1 where v1: "upsert_call env 0 ?c v = (None, v1)" "ready (c_ID ?c) 2 (v_state v1)"
    "v_trace v1 = v_trace v" "svc_ok (v_state v1)" "get_Call (v_state v1) (c_ID ?c) = Some ?c"
    "ActiveCall (v_state v1) = Some ?c" "mem_activeCallID (smem v1) = c_ID ?c"
    using ready_step [OF assms(2), of ?c v 0] assms(1,3) idle by auto
  have sel: "c_Number ?c = number" "c_Direction ?c = Outgoing" "c_State ?c = CallDialing" by (simp_all add: dialled_call_def)
  show ?thesis
  proof (cases "se_modem env (length (v_trace v)) ?q")
    case None
    have "DialRoute env raw owner route v = ((Some ?c, None), act (AModem ?q) v1)"
      using None v1(1,3) by (simp add: DialRoute_def assms(4) DialRoute_commit_def ask_def dial_command_def [symmetric] Let_def)
    then have res: "res = Some ?c" "err = None" "v' = act (AModem ?q) v1" using assms(5) by auto
    show ?thesis using v1 sel by (simp add: res None)
  next
    case (Some e)
    let ?d = "(bump ?c)\<lparr>c_State := CallFailed, c_EndedAt := Some (se_now env), c_EndReason := e\<rparr>"
    obtain v2 where v2: "upsert_call env 1 ?d (act (AModem ?q) v1) = (None, v2)" "v_trace v2 = v_trace v1 @ [AModem ?q]"
      "get_Call (v_state v2) (c_ID ?c) = Some ?d" "ActiveCall (v_state v2) = None"
      using ready_step [OF assms(2), of ?d "act (AModem ?q) v1" 1] v1 by auto
    have "DialRoute env raw owner route v = ((Some ?d, Some e), v2)"
      using Some v1(1,3) v2(1) by (simp add: DialRoute_def assms(4) DialRoute_commit_def ask_def dial_command_def [symmetric] Let_def)
    then have res: "res = Some ?d" "err = Some e" "v' = v2" using assms(5) by auto
    have "c_Number ?d = number" "c_Direction ?d = Outgoing" using sel by (simp_all add: bump_def)
    then show ?thesis using v1(3) v2 by (simp add: res Some)
  qed
qed

subsection \<open>Answering\<close>

definition routes_ok :: "SEnv \<Rightarrow> bool" where
  "routes_ok env \<longleftrightarrow> (\<forall>n r. se_modem env n (MSelectRoute r) = None)"

definition routing :: "SEnv \<Rightarrow> string \<Rightarrow> int \<Rightarrow> Action list" where
  "routing env g u = (if se_routed env then [AModem (MSelectRoute \<lparr>ro_GatewayID = g, ro_SubscriptionID = u\<rparr>)] else [])"

lemma select_ok:
  "snd (select_route env g u v) = v\<lparr>v_trace := v_trace v @ routing env g u\<rparr>"
  "routes_ok env \<Longrightarrow> select_route env g u v = (None, v\<lparr>v_trace := v_trace v @ routing env g u\<rparr>)"
  by (simp_all add: routes_ok_def routing_def select_route_def ask_def act_def)

lemma live_id:
  assumes "svc_ok (v_state v)" "get_Call (v_state v) i = Some c" "live_state (c_State c)"
  shows "mem_activeCallID (smem v) = i" "c_ID c = i" "i \<noteq> []"
  using assms book.get_key [OF svc_okD [OF assms(1)] assms(2)] book.get_live [OF svc_okD [OF assms(1)] assms(2,3)]
    lookup_active_id [OF svc_okD [OF assms(1)], of c] by (auto simp: ActiveCall_def)

text \<open>What becomes of a claimed call once the modem has answered: if nothing has changed the call since the
  claim, it is written back; if something has, the store refuses the write.\<close>

lemma finish_unchanged:
  assumes "no_fault env" "get_Call (v_state v) i = Some claimed" "c_ID claimed = i" "0 < c_Version claimed"
    and "c_TelegramMsgIDs claimed = []" "c_State claimed = CallIncoming"
    and "\<not> version_taken i (c_Version claimed + 1) (v_state v)"
    and "AnswerFrom_finish env owner claimed r v = ((res, err), v')"
  shows "err = r \<and> (\<exists>call'. get_Call (v_state v') i = Some call' \<and> ActiveCall (v_state v') = Some call' \<and>
    c_Version call' = c_Version claimed + 1 \<and>
    (case r of
       None \<Rightarrow> res = Some call' \<and> c_State call' = CallAlerting \<and> c_MediaOwner call' = c_MediaOwner claimed
     | Some e \<Rightarrow> res = None \<and> c_State call' = CallIncoming \<and> c_MediaOwner call' = []))"
proof -
  have up: "\<exists>v'. upsert_call env 1 c w = (None, v') \<and> get_Call (v_state v') i = Some c \<and> ActiveCall (v_state v') = Some c"
    if w: "v_state w = v_state v" and c: "c_ID c = i" "c_Version c = c_Version claimed + 1" "c_TelegramMsgIDs c = []" "live_state (c_State c)" for c w
  proof -
    have st: "stored_call c = c" using c assms(4) by simp
    obtain x s' where u: "UpsertCall (se_store env 1) c (v_state v) = (Inr x, s')"
      using UpsertCall_accepted [of "se_store env 1" c "v_state v"] assms(1,2,7) c st by auto
    note put = get_after_put [OF UpsertCall_ok(2) [OF u]]
    show ?thesis using u w put(1) [of i] put(2) c by (simp add: upsert_call_def st)
  qed
  show ?thesis
  proof (cases r)
    case None
    let ?w = "if owner = ''web'' then media env (BeginWaitingMedia i) v else v"
    let ?c = "(bump claimed)\<lparr>c_State := CallAlerting\<rparr>"
    obtain v4 where v4: "upsert_call env 1 ?c ?w = (None, v4)" "get_Call (v_state v4) i = Some ?c" "ActiveCall (v_state v4) = Some ?c"
      using up [of ?w ?c] assms(3,5) by auto
    then have "res = Some ?c" "err = None" "v' = v4" using assms(8) assms(3) None by (auto simp: AnswerFrom_finish_def Let_def)
    then show ?thesis using v4 None by simp
  next
    case (Some e)
    let ?c = "(bump claimed)\<lparr>c_MediaOwner := []\<rparr>"
    obtain v4 where v4: "upsert_call env 1 ?c v = (None, v4)" "get_Call (v_state v4) i = Some ?c" "ActiveCall (v_state v4) = Some ?c"
      using up [of v ?c] assms(3,5,6) by auto
    then have "res = None" "err = Some e" "v' = v4" using assms(8) Some by (auto simp: AnswerFrom_finish_def)
    then show ?thesis using v4 Some assms(6) by simp
  qed
qed

lemma finish_changed:
  assumes "get_Call (v_state v) (c_ID claimed) = Some c" "c_Version claimed < c_Version c"
    and "AnswerFrom_finish env owner claimed r v = ((res, err), v')"
  shows "v_state v' = v_state v \<and> err \<noteq> None \<and> (r \<noteq> None \<longrightarrow> err = r)"
proof -
  have up: "\<exists>e. upsert_call env 1 d w = (Some e, w)"
    if "v_state w = v_state v" "c_ID d = c_ID claimed" "c_Version d = c_Version claimed + 1" for d w
  proof (cases "UpsertCall (se_store env 1) d (v_state v)")
    case (Pair x s')
    show ?thesis
    proof (cases x)
      case (Inl e)
      then have "s' = v_state v" using Pair UpsertCall_err by blast
      then show ?thesis using that(1) Pair Inl by (simp add: upsert_call_def)
    next
      case (Inr y)
      then show ?thesis using calls.put_next [of "se_store env 1" d "v_state v" y s' c] Pair assms(1,2) that by simp
    qed
  qed
  show ?thesis
  proof (cases r)
    case None
    let ?w = "if owner = ''web'' then media env (BeginWaitingMedia (c_ID claimed)) v else v"
    show ?thesis using up [of ?w "(bump claimed)\<lparr>c_State := CallAlerting\<rparr>"] assms(3) None by (auto simp: AnswerFrom_finish_def Let_def)
  next
    case (Some e)
    show ?thesis using up [of v "(bump claimed)\<lparr>c_MediaOwner := []\<rparr>"] assms(3) Some by (auto simp: AnswerFrom_finish_def)
  qed
qed

text \<open>C8: Answering, with modem events and other writes while the modem is asked. A ringing call nobody has
  claimed is first claimed for the caller. Let then any writes happen to the store before the modem's
  answer \<open>r\<close> comes back. If the call is still as claimed and the database accepts the write, then an answered
  call is on its way to active and its media belong to the caller, and a refusal is passed on and leaves the
  call ringing with no owner, so that it can be answered again. If the call has changed meanwhile (the
  modem's report that it is connected came first, or it was ended), its record is left as those writes made
  it, at a later version, and the caller gets an error: the modem's, or the store's for a call that was answered.\<close>

theorem answer_outcome:
  assumes "svc_ok (v_state v)" "no_fault env" "routes_ok env" "get_Call (v_state v) i = Some call"
    and "c_State call = CallIncoming" "c_MediaOwner call = []" "c_TelegramMsgIDs call = []"
    and "ready i (c_Version call + 1) (v_state v)"
    and "claimed = call\<lparr>c_Version := c_Version call + 1, c_MediaOwner := owner\<rparr>"
  shows "\<exists>v1. AnswerFrom_claim env i owner v = (Inr claimed, v1) \<and> ActiveCall (v_state v1) = Some claimed \<and>
    AnswerFrom env i owner v = (case ask env MAnswer v1 of (r, v2) \<Rightarrow> AnswerFrom_finish env owner claimed r v2) \<and>
    (\<forall>qs r v2 res err v'. v_state v2 = run_ops store_step qs (v_state v1) \<and>
       AnswerFrom_finish env owner claimed r v2 = ((res, err), v') \<longrightarrow>
       (if get_Call (v_state v2) i = Some claimed
        then \<not> version_taken i (c_Version call + 2) (v_state v2) \<longrightarrow>
          err = r \<and> (\<exists>call'. get_Call (v_state v') i = Some call' \<and> ActiveCall (v_state v') = Some call' \<and>
            c_Version call' = c_Version call + 2 \<and>
            (case r of
               None \<Rightarrow> res = Some call' \<and> c_State call' = CallAlerting \<and> c_MediaOwner call' = owner
             | Some e \<Rightarrow> res = None \<and> c_State call' = CallIncoming \<and> c_MediaOwner call' = []))
        else v_state v' = v_state v2 \<and> err \<noteq> None \<and> (r \<noteq> None \<longrightarrow> err = r) \<and>
          (\<exists>c. get_Call (v_state v2) i = Some c \<and> c_Version call + 1 < c_Version c)))"
proof -
  let ?v0 = "v\<lparr>v_trace := v_trace v @ routing env (c_GatewayID call) (c_SubscriptionID call)\<rparr>"
  note i = live_id [OF assms(1,4), simplified assms(5) live_states, simplified]
  have cl: "claimed = (bump call)\<lparr>c_MediaOwner := owner\<rparr>" by (simp add: assms(9) bump_def)
  have sel: "c_ID claimed = i" "0 < c_Version claimed" "c_TelegramMsgIDs claimed = []" "c_State claimed = CallIncoming"
    "c_MediaOwner claimed = owner" "c_Version claimed = c_Version call + 1"
    using assms(5,7,8) i by (auto simp: assms(9) ready_def)
  obtain v1 where v1: "upsert_call env 0 claimed ?v0 = (None, v1)" "svc_ok (v_state v1)" "ActiveCall (v_state v1) = Some claimed"
    "get_Call (v_state v1) i = Some claimed"
  proof (rule ready_step [OF assms(2), of claimed ?v0 0])
    show "ready (c_ID claimed) (c_Version claimed) (v_state ?v0)" using assms(8) sel by simp
  qed (use assms(1) i sel in simp_all)
  have claim: "AnswerFrom_claim env i owner v = (Inr claimed, v1)"
    using assms(4-6) v1(1) select_ok(2) [OF assms(3)] by (simp add: AnswerFrom_claim_def Let_def cl)
  show ?thesis
  proof (intro exI [of _ v1] conjI allI impI claim v1(3))
    show "AnswerFrom env i owner v = (case ask env MAnswer v1 of (r, v2) \<Rightarrow> AnswerFrom_finish env owner claimed r v2)"
      by (simp add: AnswerFrom_def claim)
  next
    fix qs r v2 res err v'
    assume run: "v_state v2 = run_ops store_step qs (v_state v1) \<and> AnswerFrom_finish env owner claimed r v2 = ((res, err), v')"
    then obtain c where "get_Call (v_state v2) i = Some c" "c = claimed \<or> c_Version claimed < c_Version c"
      using call_rises [of "v_state v1" i claimed qs] v1(2,4) by (auto simp: svc_ok_def)
    moreover from this have "c \<noteq> claimed \<Longrightarrow> v_state v' = v_state v2 \<and> err \<noteq> None \<and> (r \<noteq> None \<longrightarrow> err = r)"
      using finish_changed [of v2 claimed c env owner r res err v'] run sel(1) by auto
    ultimately show "if get_Call (v_state v2) i = Some claimed
       then \<not> version_taken i (c_Version call + 2) (v_state v2) \<longrightarrow>
         err = r \<and> (\<exists>call'. get_Call (v_state v') i = Some call' \<and> ActiveCall (v_state v') = Some call' \<and>
           c_Version call' = c_Version call + 2 \<and>
           (case r of
              None \<Rightarrow> res = Some call' \<and> c_State call' = CallAlerting \<and> c_MediaOwner call' = owner
            | Some e \<Rightarrow> res = None \<and> c_State call' = CallIncoming \<and> c_MediaOwner call' = []))
       else v_state v' = v_state v2 \<and> err \<noteq> None \<and> (r \<noteq> None \<longrightarrow> err = r) \<and>
         (\<exists>c. get_Call (v_state v2) i = Some c \<and> c_Version call + 1 < c_Version c)"
      using finish_unchanged [OF assms(2) _ sel(1-4), of v2 owner r res err v'] run sel(5,6)
      by (auto simp: add.assoc)
  qed
qed

subsection \<open>Hanging up\<close>

definition observed :: "(nat \<Rightarrow> Action) \<Rightarrow> Svc \<Rightarrow> Action list" where
  "observed f v = map f [0..<v_observers v]"

lemma hangup_step:
  fixes reason :: string
  assumes "svc_ok (v_state v)" "no_fault env" "get_Call (v_state v) i = Some call" "live_state (c_State call)"
    and "c_TelegramMsgIDs call = []" "ready i (c_Version call + 1) (v_state v)"
  defines "ended \<equiv> (bump call)\<lparr>c_State := CallEnded, c_Held := False, c_EndedAt := Some (se_now env),
      c_EndReason := hangup_reason reason call\<rparr>"
    and "path \<equiv> routing env (c_GatewayID call) (c_SubscriptionID call)"
  shows "\<exists>v'. Hangup env k i reason v = ((Some ended, se_modem env (length (v_trace v @ path)) MHangup), v') \<and>
    get_Call (v_state v') i = Some ended \<and> ActiveCall (v_state v') = None \<and>
    v_trace v' = v_trace v @ path @ [AModem MHangup] @ observed (\<lambda>n. NotifyCallEnded n ended) v"
proof -
  let ?v0 = "act (AModem MHangup) (v\<lparr>v_trace := v_trace v @ path\<rparr>)"
  note i = live_id [OF assms(1,3,4)]
  obtain v1 where v1: "upsert_call env k ended ?v0 = (None, v1)" "v_trace v1 = v_trace ?v0" "v_observers v1 = v_observers ?v0"
    "get_Call (v_state v1) i = Some ended" "ActiveCall (v_state v1) = None"
    by (rule ready_step [OF assms(2), of ended ?v0 k]) (use assms(1,5,6) i in \<open>simp_all add: ended_def\<close>)
  have alive: "c_State call \<noteq> CallEnded" "c_State call \<noteq> CallFailed" using assms(4) by (auto simp: live_state_def)
  have "Hangup env k i reason v = ((Some ended, se_modem env (length (v_trace v @ path)) MHangup), notifyCallEnded ended v1)"
    unfolding Hangup_def assms(3) option.case Let_def
    using alive v1(1) by (simp add: ask_def select_ok(1) path_def [symmetric] ended_def [symmetric])
  then show ?thesis using v1 by (simp add: notifyCallEnded_def notify_def observed_def act_def)
qed

text \<open>C10: Hanging up always ends the call on record, whatever the modem answers (its error is passed on):
  no call is active afterwards, the reason is the given one or tells a rejected from a finished call, and every
  observer is told.\<close>

theorem hangup_outcome:
  assumes "svc_ok (v_state v)" "no_fault env" "get_Call (v_state v) i = Some call" "live_state (c_State call)"
    and "c_TelegramMsgIDs call = []" "ready i (c_Version call + 1) (v_state v)"
    and "Hangup env 0 i reason v = ((res, err), v')"
  shows "ActiveCall (v_state v') = None \<and>
    (\<exists>call'. res = Some call' \<and> get_Call (v_state v') i = Some call' \<and> c_State call' = CallEnded \<and> \<not> c_Held call' \<and>
       c_EndReason call' = (if reason \<noteq> [] then reason
         else if c_Direction call = Incoming \<and> c_ConnectedAt call = None then ''rejected'' else ''local_hangup'') \<and>
       (\<forall>n < v_observers v. NotifyCallEnded n call' \<in> set (v_trace v')))"
  using hangup_step [OF assms(1-6), of 0 reason] assms(7)
  by (auto simp: hangup_reason_def observed_def)

subsection \<open>Incoming calls\<close>

definition screened :: "SEnv \<Rightarrow> MEvent \<Rightarrow> Svc \<Rightarrow> Decision" where
  "screened env e v = Decide (se_lib env) (v_state v) (event_number env e v) [] ''call''"

definition rejects :: "SEnv \<Rightarrow> MEvent \<Rightarrow> Svc \<Rightarrow> bool" where
  "rejects env e v \<longleftrightarrow> \<not> st_Calls (get_Settings (v_state v)) \<or> dc_Action (screened env e v) = ''block''"

definition voicemail_timer :: "SEnv \<Rightarrow> string \<Rightarrow> Svc \<Rightarrow> Action list" where
  "voicemail_timer env i v =
     (let st = get_Settings (v_state v) in
      if st_VoicemailEnabled st \<and> se_media env then [SpawnVoicemail i (st_VoicemailTimeout st * second)] else [])"

lemma timeout_positive: "st_VoicemailTimeout (get_Settings s) \<noteq> 0"
  by (simp add: get_Settings_def default_timeout_def)

lemma incoming_step:
  assumes "svc_ok (v_state v)" "no_fault env" "routes_ok env" "ActiveCall (v_state v) = None"
    and "ready (NewID ''call'' (se_rand env)) 1 (v_state v)" "me_Type e = ''call.incoming''"
    and "handleModem env e v = v'"
  shows "if rejects env e v then
      ActiveCall (v_state v') = None \<and>
      (\<exists>c. get_Call (v_state v') (NewID ''call'' (se_rand env)) = Some c \<and> c_State c = CallEnded \<and> c_EndReason c = ''filtered'' \<and>
         c_Number c = event_number env e v \<and>
         v_trace v' = v_trace v @ routing env (me_GatewayID e) (me_SubscriptionID e) @
           routing env (me_GatewayID e) (me_SubscriptionID e) @ [AModem MHangup] @ observed (\<lambda>n. NotifyCallEnded n c) v)
    else
      (let call = incoming_call env e (event_number env e v) (screened env e v) in
       ActiveCall (v_state v') = Some call \<and>
       v_trace v' = v_trace v @ routing env (me_GatewayID e) (me_SubscriptionID e) @
         observed (\<lambda>n. NotifyIncomingCall n call) v @ voicemail_timer env (c_ID call) v)"
proof -
  let ?v0 = "v\<lparr>v_trace := v_trace v @ routing env (me_GatewayID e) (me_SubscriptionID e)\<rparr>"
  define c where "c = incoming_call env e (event_number env e v) (screened env e v)"
  have [simp]: "event_number env e ?v0 = event_number env e v" by (simp add: event_number_def)
  then have [simp]: "screened env e ?v0 = screened env e v" by (simp add: screened_def)
  obtain v1 where v1: "upsert_call env 0 c ?v0 = (None, v1)" "ready (c_ID c) 2 (v_state v1)" "v_trace v1 = v_trace ?v0"
    "v_observers v1 = v_observers v" "svc_ok (v_state v1)" "get_Settings (v_state v1) = get_Settings (v_state v)"
    "get_Call (v_state v1) (c_ID c) = Some c" "ActiveCall (v_state v1) = Some c"
    by (rule ready_step [OF assms(2), of c ?v0 0]) (use assms(1,4,5) in \<open>simp_all add: c_def\<close>)
  have c: "c_ID c = NewID ''call'' (se_rand env)" "live_state (c_State c)" "c_TelegramMsgIDs c = []" "c_Version c = 1"
    by (simp_all add: c_def)
  have route: "c_GatewayID c = me_GatewayID e" "c_SubscriptionID c = me_SubscriptionID e" "c_Number c = event_number env e v"
    by (simp_all add: c_def incoming_call_def)
  have v': "v' = (if rejects env e v then snd (Hangup env 1 (c_ID c) ''filtered'' v1)
      else (let v2 = notifyIncomingCall c v1 in v2\<lparr>v_trace := v_trace v2 @ voicemail_timer env (c_ID c) v\<rparr>))"
    using v1(1,6) c(1) timeout_positive [of "v_state v"]
    by (simp cong: if_cong add: assms(7) [symmetric] assms(6) handleModem_def on_call_incoming_def assms(4) select_ok(2) [OF assms(3)] screened_def [symmetric]
          c_def [symmetric] rejects_def voicemail_timer_def act_def Let_def)
  show ?thesis
  proof (cases "rejects env e v")
    case True
    then show ?thesis
      using hangup_step [OF v1(5) assms(2) v1(7) c(2,3), of 1 "''filtered''"] v1(2,3,4) c route
      by (auto simp: v' hangup_reason_def observed_def bump_def)
  next
    case False
    then show ?thesis
      using v1 by (simp add: v' c_def [symmetric] notifyIncomingCall_def notify_def observed_def Let_def)
  qed
qed

text \<open>C9: A call comes in while no other is active. If calls are switched off or the filter blocks the
  number, exactly one hang-up goes to the modem, the call is on record as ended and filtered, no observer is told
  of an incoming call, and each observer is told once, with the caller's number, that a call has ended.
  Otherwise the call is the active one, every observer is told once that it rings, and the voicemail timer
  is started exactly when voicemail is on.\<close>

theorem incoming_outcome:
  assumes "svc_ok (v_state v)" "no_fault env" "routes_ok env" "ActiveCall (v_state v) = None"
    and "ready (NewID ''call'' (se_rand env)) 1 (v_state v)" "me_Type e = ''call.incoming''"
    and "handleModem env e v = v'"
  shows "if rejects env e v then
      ActiveCall (v_state v') = None \<and>
      (\<exists>c. get_Call (v_state v') (NewID ''call'' (se_rand env)) = Some c \<and> c_State c = CallEnded \<and> c_EndReason c = ''filtered'' \<and>
         c_Number c = event_number env e v \<and>
         v_trace v' = v_trace v @ routing env (me_GatewayID e) (me_SubscriptionID e) @
           routing env (me_GatewayID e) (me_SubscriptionID e) @ [AModem MHangup] @ observed (\<lambda>n. NotifyCallEnded n c) v)
    else
      (let call = incoming_call env e (event_number env e v) (screened env e v) in
       ActiveCall (v_state v') = Some call \<and>
       v_trace v' = v_trace v @ routing env (me_GatewayID e) (me_SubscriptionID e) @
         observed (\<lambda>n. NotifyIncomingCall n call) v @ voicemail_timer env (c_ID call) v)"
  using assms by (rule incoming_step)

subsection \<open>Concrete runs\<close>

abbreviation demo_id :: string where
  "demo_id \<equiv> NewID ''call'' (se_rand demo_senv)"

lemma demo_no_fault: "no_fault demo_senv"
  by (simp add: demo_senv_def demo_env_def)

lemma demo_routes: "routes_ok demo_senv"
  by (simp add: routes_ok_def demo_senv_def)

lemma demo_idle: "ActiveCall (v_state demo_svc) = None" "ready i 1 (v_state demo_svc)"
  by (simp_all add: demo_svc_def new_service_def demo_state_def initMem_def emptyDB_def ActiveCall_def
        lookup_active_def ready_def get_Call_def)

lemma demo_settings: "get_Settings (v_state demo_svc) = defaultSettings"
  by (simp add: demo_svc_def new_service_def demo_state_def initMem_def get_Settings_def default_timeout_def defaultSettings_def)

lemma demo_decide: "Decide lib (v_state demo_svc) n b scope = zeroDecision\<lparr>dc_Action := ''allow''\<rparr>"
  by (simp add: Decide_def demo_settings)
     (simp add: demo_svc_def new_service_def demo_state_def initMem_def get_Rules_def tvals_def decide_rules_def
        defaultSettings_def zeroSettings_def)

lemma demo_accepts: "\<not> rejects demo_senv (demo_event ''call.incoming'') demo_svc"
  by (simp add: rejects_def screened_def demo_settings demo_decide defaultSettings_def)

lemma demo_normalize: "Normalize (se_lib demo_senv) ''+861'' c = Inr ''+861''"
proof -
  have "trim_space ''+861'' = ''+861''" by code_simp
  then show ?thesis by (simp add: Normalize_def demo_lib_def demo_senv_def)
qed

lemma demo_check: "DialRoute_check demo_senv ''+861'' demo_svc = Inr (''+861'', zeroDecision\<lparr>dc_Action := ''allow''\<rparr>)"
  by (simp add: DialRoute_check_def Let_def demo_settings demo_idle demo_decide demo_normalize) (simp add: defaultSettings_def)

text \<open>A call that rings.\<close>

definition demo_ringing :: Svc where
  "demo_ringing = snd (upsert_call demo_senv 0 (incoming_call demo_senv (demo_event []) ''+861'' zeroDecision) demo_svc)"

lemma demo_ringing:
  "svc_ok (v_state demo_ringing)" "ready demo_id 2 (v_state demo_ringing)"
  "get_Call (v_state demo_ringing) demo_id = Some (incoming_call demo_senv (demo_event []) ''+861'' zeroDecision)"
  "ActiveCall (v_state demo_ringing) = Some (incoming_call demo_senv (demo_event []) ''+861'' zeroDecision)"
proof -
  let ?c = "incoming_call demo_senv (demo_event []) ''+861'' zeroDecision"
  obtain v' where "upsert_call demo_senv 0 ?c demo_svc = (None, v')" "ready (c_ID ?c) (c_Version ?c + 1) (v_state v')"
    "svc_ok (v_state v')" "get_Call (v_state v') (c_ID ?c) = Some ?c" "ActiveCall (v_state v') = Some ?c"
    by (rule ready_step [OF demo_no_fault, of ?c demo_svc 0]) (simp_all add: demo_idle demo_svc_ok)
  then show "svc_ok (v_state demo_ringing)" "ready demo_id 2 (v_state demo_ringing)"
    "get_Call (v_state demo_ringing) demo_id = Some ?c" "ActiveCall (v_state demo_ringing) = Some ?c"
    by (simp_all add: demo_ringing_def)
qed

lemma demo_incoming_sel:
  "c_State (incoming_call env e n d) = CallIncoming" "c_MediaOwner (incoming_call env e n d) = []"
  by (simp_all add: incoming_call_def zeroCall_def)

theorem service_survives_restart_witness:
  "\<exists>s2. OpenWithKey (\<lambda>_. Inr demo_aead) 9 (demo_io (s_db (v_state (run_ops svc_step
       [(demo_senv, SModem (demo_event ''call.incoming'')), (demo_senv, SHangup demo_id [])] demo_svc)))) = Inr s2 \<and> durable s2 \<and>
    (\<forall>i. get_Call s2 i = get_Call (v_state (run_ops svc_step
           [(demo_senv, SModem (demo_event ''call.incoming'')), (demo_senv, SHangup demo_id [])] demo_svc)) i \<and>
         get_Message s2 i = get_Message (v_state (run_ops svc_step
           [(demo_senv, SModem (demo_event ''call.incoming'')), (demo_senv, SHangup demo_id [])] demo_svc)) i) \<and>
    ActiveCall s2 = ActiveCall (v_state (run_ops svc_step
       [(demo_senv, SModem (demo_event ''call.incoming'')), (demo_senv, SHangup demo_id [])] demo_svc))"
proof (rule service_survives_restart [OF demo_svc_ok])
  have "v_state demo_svc = demo_state" by (simp add: demo_svc_def new_service_def)
  then show "durable (v_state demo_svc)" using demo_durable by simp
  show "opens_with (\<lambda>_. Inr demo_aead) (demo_io (s_db (v_state (run_ops svc_step
       [(demo_senv, SModem (demo_event ''call.incoming'')), (demo_senv, SHangup demo_id [])] demo_svc))))
     (s_db (v_state (run_ops svc_step
       [(demo_senv, SModem (demo_event ''call.incoming'')), (demo_senv, SHangup demo_id [])] demo_svc))) (s_secrets (v_state demo_svc))"
    using demo_opens by (simp add: demo_svc_def new_service_def demo_state_def)
qed simp

theorem dial_outcome_witness:
  "\<exists>v'. \<exists>call. DialRoute demo_senv ''+861'' ''web'' \<lparr>ro_GatewayID = [], ro_SubscriptionID = 0\<rparr> demo_svc = ((Some call, None), v') \<and>
     ActiveCall (v_state v') = Some call \<and> c_State call = CallDialing"
proof -
  obtain res err v' where d: "DialRoute demo_senv ''+861'' ''web'' \<lparr>ro_GatewayID = [], ro_SubscriptionID = 0\<rparr> demo_svc = ((res, err), v')"
    by (metis prod.collapse)
  from dial_outcome [OF demo_svc_ok demo_no_fault demo_idle(2) demo_check d]
  show ?thesis using d by (auto simp: demo_senv_def)
qed

theorem answer_outcome_witness:
  "\<exists>v' call. AnswerFrom demo_senv demo_id ''sip'' demo_ringing = ((Some call, None), v') \<and>
     ActiveCall (v_state v') = Some call \<and> c_MediaOwner call = ''sip'' \<and> c_State call = CallAlerting"
proof -
  let ?c = "incoming_call demo_senv (demo_event []) ''+861'' zeroDecision"
  let ?d = "?c\<lparr>c_Version := c_Version ?c + 1, c_MediaOwner := ''sip''\<rparr>"
  obtain w where w: "upsert_call demo_senv 0 ?d demo_ringing = (None, w)" "ready demo_id 3 (v_state w)" "get_Call (v_state w) demo_id = Some ?d"
    by (rule ready_step [OF demo_no_fault, of ?d demo_ringing 0])
       (use demo_ringing live_id [OF demo_ringing(1,3) new_call_id(4)] in simp_all)
  have free: "\<not> version_taken demo_id (c_Version ?c + 2) (v_state w)"
    using w(2) by (fastforce simp: ready_def version_taken_def list_ex_iff)
  have "select_route demo_senv g u v = (None, v)" for g u v by (simp add: select_route_def demo_senv_def)
  then have claim: "AnswerFrom_claim demo_senv demo_id ''sip'' demo_ringing = (Inr ?d, w)"
    using w(1) by (simp add: AnswerFrom_claim_def demo_ringing(3) demo_incoming_sel Let_def bump_def)
  obtain res err v' where fin: "AnswerFrom_finish demo_senv ''sip'' ?d None (act (AModem MAnswer) w) = ((res, err), v')"
    by (metis prod.collapse)
  have ready: "ready demo_id (c_Version ?c + 1) (v_state demo_ringing)" using demo_ringing(2) by simp
  show ?thesis
    using answer_outcome [OF demo_ringing(1) demo_no_fault demo_routes demo_ringing(3) demo_incoming_sel new_call_sel(4) ready refl, of "''sip''"]
  proof (elim exE conjE, goal_cases)
    case (1 v1)
    have "v1 = w" using 1(1) claim by simp
    note out = 1(4) [THEN spec [of _ "[]"], THEN spec [of _ None], THEN spec [of _ "act (AModem MAnswer) w"], THEN spec [of _ res],
      THEN spec [of _ err], THEN spec [of _ v'], THEN mp, OF conjI [OF _ fin]]
    have "ask demo_senv MAnswer w = (None, act (AModem MAnswer) w)" by (simp add: ask_def demo_senv_def)
    then have "AnswerFrom demo_senv demo_id ''sip'' demo_ringing = ((res, err), v')"
      unfolding 1(3) \<open>v1 = w\<close> by (simp only: prod.case fin)
    then show ?thesis using out w(3) free \<open>v1 = w\<close> by auto
  qed
qed

theorem hangup_outcome_witness:
  "\<exists>call err v'. Hangup demo_senv 0 demo_id [] demo_ringing = ((Some call, err), v') \<and>
     ActiveCall (v_state v') = None \<and> c_EndReason call = ''rejected''"
proof -
  obtain res err v' where d: "Hangup demo_senv 0 demo_id [] demo_ringing = ((res, err), v')" by (metis prod.collapse)
  let ?c = "incoming_call demo_senv (demo_event []) ''+861'' zeroDecision"
  have ready: "ready demo_id (c_Version ?c + 1) (v_state demo_ringing)" using demo_ringing(2) by simp
  from hangup_outcome [OF demo_ringing(1) demo_no_fault demo_ringing(3) new_call_id(4) new_call_sel(4) ready d]
  show ?thesis using d by (auto simp: incoming_call_def zeroCall_def)
qed

theorem incoming_outcome_witness:
  "\<exists>call. ActiveCall (v_state (handleModem demo_senv (demo_event ''call.incoming'') demo_svc)) = Some call \<and>
     c_State call = CallIncoming"
  using incoming_outcome [OF demo_svc_ok demo_no_fault demo_routes demo_idle, of "demo_event ''call.incoming''"] demo_accepts
  by (auto simp: demo_event_def Let_def demo_incoming_sel)

end
