(* ===== verification/Service_Events.thy ===== *)
theory Service_Events
  imports Service_Runs
begin

text \<open>
  Text messages through the service, and the interleavings of an operation that waits for the modem with
  the events handled meanwhile.
\<close>

subsection \<open>Messages that are written\<close>

definition msg_ready :: "string \<Rightarrow> int \<Rightarrow> State \<Rightarrow> bool" where
  "msg_ready i ver s \<longleftrightarrow> 0 < ver \<and> (\<forall>r \<in> set (db_rows (s_db s)). row_Entity r = i \<longrightarrow> row_Version r < ver) \<and>
     (\<forall>old. get_Message s i = Some old \<longrightarrow> ver = m_Version old + 1)"

lemma msg_ready_step:
  assumes "no_fault env" "msg_ready (m_ID m) (m_Version m) (v_state v)"
  obtains v' where "upsert_message env k m v = (None, v')" "msg_ready (m_ID m) (m_Version m + 1) (v_state v')"
    "v_trace v' = v_trace v" "v_observers v' = v_observers v" "get_Settings (v_state v') = get_Settings (v_state v)"
    "get_Message (v_state v') (m_ID m) = Some m"
proof -
  let ?s = "v_state v"
  have ver: "0 < m_Version m" using assms(2) by (auto simp: msg_ready_def)
  then have [simp]: "stored_message m = m" by (simp add: stored_message_def)
  have free: "\<not> version_taken (m_ID m) (m_Version (stored_message m)) ?s"
    using assms(2) by (fastforce simp: msg_ready_def version_taken_def list_ex_iff)
  obtain e s' where u: "UpsertMessage (se_store env k) m ?s = (Inr e, s')"
    using UpsertMessage_accepted [OF spec [OF assms(1), of k] free] assms(2) by (auto simp: msg_ready_def)
  note s' = UpsertMessage_ok(1) [OF u, simplified]
  have get: "get_Message s' (m_ID m) = Some m" using messages.put_get [OF u, of "m_ID m"] by simp
  then have "msg_ready (m_ID m) (m_Version m + 1) s'"
    using assms(2) ver by (auto simp: msg_ready_def s')
  moreover have "get_Settings s' = get_Settings ?s"
    by (simp add: s' get_Settings_def put_message_def rebuildConversation_def)
  ultimately show ?thesis using that [of "v\<lparr>v_state := s'\<rparr>"] u get by (simp add: upsert_message_def)
qed

lemma snapshot_message: "get_Message s i = Some m \<Longrightarrow> m \<in> set (sn_Messages (get_Snapshot b s))"
  unfolding get_Message_def tget_def by (auto simp: get_Snapshot_def tvals_def Let_def intro: rev_image_eqI dest!: map_of_SomeD)

subsection \<open>Receiving\<close>

lemma received_sel [simp]:
  "m_ID (received_message env e n d b) = NewID ''msg'' (se_rand env)" "m_Version (received_message env e n d b) = 1"
  "m_ProviderID (received_message env e n d b) = me_ProviderID e" "m_Body (received_message env e n d b) = me_Body e"
  "m_Filtered (received_message env e n d b) \<longleftrightarrow> dc_Action d = ''block''" "m_Unread (received_message env e n d b)"
  "m_Direction (received_message env e n d b) = Incoming" "m_Number (received_message env e n d b) = n"
  by (simp_all add: received_message_def)

definition sms_decision :: "SEnv \<Rightarrow> MEvent \<Rightarrow> Svc \<Rightarrow> Decision" where
  "sms_decision env e v = Decide (se_lib env) (v_state v) (event_number env e v) (me_Body e) ''sms''"

text \<open>C11: A message with a provider identifier is stored once. The first delivery stores the text, unread,
  under its number; the observers are told, each once, unless messages are switched off or the filter blocks
  it, in which case it is stored as filtered. A second delivery with the same identifier changes nothing and
  tells nobody.\<close>

theorem sms_stored_once:
  assumes "no_fault env" "msg_ready (NewID ''msg'' (se_rand env)) 1 (v_state v)"
    and "me_Type e = ''sms.received''" "me_ProviderID e \<noteq> []"
    and "\<forall>m \<in> set (sn_Messages (get_Snapshot False (v_state v))). m_ProviderID m \<noteq> me_ProviderID e"
    and "me_Type e' = ''sms.received''" "me_ProviderID e' = me_ProviderID e" "handleModem env e v = v'"
  shows "(\<exists>m. get_Message (v_state v') (NewID ''msg'' (se_rand env)) = Some m \<and> m_Body m = me_Body e \<and> m_Unread m \<and>
      m_Direction m = Incoming \<and> m_Number m = event_number env e v \<and>
      m_Filtered m = (dc_Action (sms_decision env e v) = ''block'') \<and>
      v_trace v' = v_trace v @ (if st_SMS (get_Settings (v_state v)) \<and> \<not> m_Filtered m
        then observed (\<lambda>n. NotifyIncomingSMS n m) v else [])) \<and>
    handleModem env' e' v' = v'"
proof -
  define m where "m = received_message env e (event_number env e v) (sms_decision env e v) (st_SIPEnabled (get_Settings (v_state v)))"
  obtain v1 where v1: "upsert_message env 0 m v = (None, v1)" "v_trace v1 = v_trace v" "v_observers v1 = v_observers v"
    "get_Settings (v_state v1) = get_Settings (v_state v)" "get_Message (v_state v1) (m_ID m) = Some m"
    by (rule msg_ready_step [OF assms(1), of m v 0]) (use assms(2) in \<open>simp_all add: m_def\<close>)
  have filtered: "m_Filtered m \<longleftrightarrow> dc_Action (sms_decision env e v) = ''block''" by (simp add: m_def)
  have v': "v' = (if st_SMS (get_Settings (v_state v)) \<and> \<not> m_Filtered m then notifyIncomingSMS m v1 else v1)"
    using assms(3,4,5) v1(1,4) filtered
    by (simp add: assms(8) [symmetric] handleModem_def on_sms_received_def list_ex_iff sms_decision_def [symmetric]
          m_def [symmetric] Let_def cong: if_cong)
  then have st: "v_state v' = v_state v1" by simp
  have provider: "m_ProviderID m = me_ProviderID e'" using assms(7) by (simp add: m_def)
  have "list_ex (\<lambda>m. m_ProviderID m = me_ProviderID e') (sn_Messages (get_Snapshot False (v_state v')))"
    using snapshot_message [OF v1(5), of False] provider unfolding st list_ex_iff by blast
  then have "handleModem env' e' v' = v'" using assms(4,6,7) by (simp add: handleModem_def on_sms_received_def)
  moreover have "v_trace v' = v_trace v @ (if st_SMS (get_Settings (v_state v)) \<and> \<not> m_Filtered m
      then observed (\<lambda>n. NotifyIncomingSMS n m) v else [])"
    using v1 by (simp add: v' notifyIncomingSMS_def notify_def observed_def)
  ultimately show ?thesis using v1(5) unfolding st by (intro conjI exI [of _ m]) (simp_all add: m_def)
qed

subsection \<open>Sending\<close>

lemma sent_sel [simp]:
  "m_ID (sent_message env route n b d) = NewID ''msg'' (se_rand env)" "m_Version (sent_message env route n b d) = 1"
  "m_Body (sent_message env route n b d) = b" "m_Number (sent_message env route n b d) = n"
  "m_Direction (sent_message env route n b d) = Outgoing"
  by (simp_all add: sent_message_def)

lemma bump_msg_sel [simp]:
  "m_ID (bump_msg m) = m_ID m" "m_Version (bump_msg m) = m_Version m + 1" "m_Body (bump_msg m) = m_Body m"
  "m_Number (bump_msg m) = m_Number m" "m_Direction (bump_msg m) = m_Direction m"
  by (simp_all add: bump_msg_def)

definition send_command :: "SEnv \<Rightarrow> Route \<Rightarrow> Message \<Rightarrow> ModemCall" where
  "send_command env route m = (if se_routed env then MSendSMSRoute route (m_ID m) (m_Number m) (m_Body m)
     else MSendSMS (m_ID m) (m_Number m) (m_Body m))"

text \<open>Sending a message. A refused text or number changes nothing. Otherwise exactly one command goes to
  the modem, with the trimmed text and the identifier under which the message is stored; the modem's error is
  passed on and the stored message is marked sent or failed accordingly.\<close>

theorem send_outcome:
  assumes "no_fault env" "msg_ready (NewID ''msg'' (se_rand env)) 1 (v_state v)"
    and "SendSMSRoute env raw body route v = ((res, err), v')"
  shows "case SendSMSRoute_check env raw body route v of
      Inl e \<Rightarrow> res = None \<and> err = Some e \<and> v' = v
    | Inr msg \<Rightarrow>
        v_trace v' = v_trace v @ [AModem (send_command env route msg)] \<and> m_Body msg = trim_space body \<and>
        err = se_modem env (length (v_trace v)) (send_command env route msg) \<and>
        (\<exists>m. res = Some m \<and> get_Message (v_state v') (NewID ''msg'' (se_rand env)) = Some m \<and>
           m = msg\<lparr>m_Version := 2, m_Status := (if err = None then ''sent'' else ''failed'')\<rparr>)"
proof (cases "SendSMSRoute_check env raw body route v")
  case (Inl e)
  then show ?thesis using assms(3) by (simp add: SendSMSRoute_def)
next
  case (Inr msg)
  then obtain n d where msg: "msg = sent_message env route n (trim_space body) d"
    by (auto simp: SendSMSRoute_check_def Let_def split: if_splits sum.splits)
  let ?q = "send_command env route msg"
  obtain v1 where v1: "upsert_message env 0 msg v = (None, v1)" "msg_ready (m_ID msg) 2 (v_state v1)" "v_trace v1 = v_trace v"
    by (rule msg_ready_step [OF assms(1), of msg v 0]) (use assms(2) in \<open>simp_all add: msg\<close>)
  define r where "r = se_modem env (length (v_trace v)) ?q"
  define m where "m = msg\<lparr>m_Version := 2, m_Status := (if r = None then ''sent'' else ''failed'')\<rparr>"
  obtain v2 where v2: "upsert_message env 1 m (act (AModem ?q) v1) = (None, v2)" "v_trace v2 = v_trace v @ [AModem ?q]"
    "get_Message (v_state v2) (m_ID m) = Some m"
    by (rule msg_ready_step [OF assms(1), of m "act (AModem ?q) v1" 1]) (use v1(2,3) in \<open>simp_all add: m_def\<close>)
  have "SendSMSRoute env raw body route v = SendSMSRoute_finish env msg r (act (AModem ?q) v1)"
    using v1(1,3) by (simp add: SendSMSRoute_def Inr ask_def send_command_def [symmetric] r_def)
  also have "\<dots> = ((Some m, r), v2)"
    using v2(1) by (cases r) (simp_all add: SendSMSRoute_finish_def m_def msg bump_msg_def)
  finally have res: "res = Some m" "err = r" "v' = v2" using assms(3) by auto
  have "m_ID m = NewID ''msg'' (se_rand env)" by (simp add: m_def msg)
  then show ?thesis using v2 by (simp add: Inr res r_def [symmetric]) (simp add: m_def msg)
qed

subsection \<open>Events while an operation waits\<close>

text \<open>The end of a call is attributed to whatever call is active: an event \<^verbatim>\<open>call.ended\<close> that comes from
  another gateway than the one carrying the active call ends that call all the same.\<close>

theorem foreign_end_event_ends_call:
  assumes "svc_ok (v_state v)" "no_fault env" "ActiveCall (v_state v) = Some call" "c_TelegramMsgIDs call = []"
    and "ready (c_ID call) (c_Version call + 1) (v_state v)"
    and "me_Type e = ''call.ended''" "me_GatewayID e \<noteq> c_GatewayID call"
  shows "ActiveCall (v_state (handleModem env e v)) = None \<and>
    (\<exists>c. get_Call (v_state (handleModem env e v)) (c_ID call) = Some c \<and> c_State c = CallEnded)"
proof -
  define c where "c = (bump call)\<lparr>c_State := CallEnded, c_Held := False, c_EndedAt := Some (se_now env),
    c_EndReason := (if me_Reason e \<noteq> [] then me_Reason e else ''remote_hangup'')\<rparr>"
  have live: "live_state (c_State call)" "get_Call (v_state v) (c_ID call) = Some call"
    using book.active_live [OF svc_okD [OF assms(1)] assms(3)] by auto
  obtain v1 where v1: "upsert_call env 0 c v = (None, v1)" "get_Call (v_state v1) (c_ID call) = Some c"
    "ActiveCall (v_state v1) = None"
    by (rule ready_step [OF assms(2), of c v 0]) (use assms(1,4,5) live_id [OF assms(1) live(2,1)] in \<open>simp_all add: c_def\<close>)
  have "handleModem env e v = notifyCallEnded c (act (AModem (MEnableAudio False)) v1)"
    using assms(6) v1(1) by (simp add: handleModem_def on_call_ended_def assms(3) c_def [symmetric] ask_def Let_def)
  then show ?thesis using v1 by (simp add: c_def)
qed

text \<open>C40: Dialling races with an incoming call. The check that no call is active and the write of the
  dialled call are separate steps, and a modem event can be handled between them. If a call comes in there and
  is not rejected, and the dialling then succeeds, two calls are live: the ringing one is still on record as
  incoming but is no longer the active call.\<close>

theorem dial_race_two_live_calls:
  assumes "svc_ok (v_state v)" "no_fault env'" "routes_ok env'" "ready (NewID ''call'' (se_rand env')) 1 (v_state v)"
    and "DialRoute_check env raw v = Inr nd" "NewID ''call'' (se_rand env) \<noteq> NewID ''call'' (se_rand env')"
    and "me_Type e = ''call.incoming''" "\<not> rejects env' e v"
    and "DialRoute_commit env owner route nd (handleModem env' e v) = ((Some call, None), v')"
  shows "\<exists>c d. get_Call (v_state v') (NewID ''call'' (se_rand env')) = Some c \<and> c_State c = CallIncoming \<and>
    get_Call (v_state v') (NewID ''call'' (se_rand env)) = Some d \<and> c_State d = CallDialing \<and>
    ActiveCall (v_state v') = Some d"
proof -
  let ?v1 = "handleModem env' e v"
  let ?c = "incoming_call env' e (event_number env' e v) (screened env' e v)"
  let ?d = "dialled_call env owner route (fst nd) (snd nd)"
  have idle: "ActiveCall (v_state v) = None" using assms(5) by (auto simp: DialRoute_check_def Let_def split: if_splits)
  have "ActiveCall (v_state ?v1) = Some ?c" "svc_ok (v_state ?v1)"
    using incoming_step [OF assms(1-3) idle assms(4,7) refl] assms(8)
      svc_writes_ok [OF modem_writes [OF assms(1)] assms(1), of env' e] by (auto simp: Let_def)
  then have c: "get_Call (v_state ?v1) (NewID ''call'' (se_rand env')) = Some ?c"
    using book.active_live [OF svc_okD, of "v_state ?v1" ?c] by simp
  obtain v2 where v2: "upsert_call env 0 ?d ?v1 = (None, v2)" "v_state v' = v_state v2"
    using assms(9) by (auto simp: DialRoute_commit_def Let_def split: prod.splits option.splits if_splits dest!: ask_state)
  obtain ev where "UpsertCall (se_store env 0) ?d (v_state ?v1) = (Inr ev, v_state v2)"
    using upsert_call_None [OF v2(1)] by blast
  note put = get_after_put [OF UpsertCall_ok(2) [OF this]]
  show ?thesis
    using put(1) put(2) c assms(6) unfolding v2(2)
    by (auto simp: get_Call_def incoming_call_def dialled_call_def)
qed

text \<open>Answering races with the modem's report. The claimed version of the call is written back after the
  modem has answered. If the event \<^verbatim>\<open>call.active\<close> of that very call is handled first, the caller gets a conflict
  although its call is connected; the record keeps the connected state and the owner.\<close>

theorem answer_race_conflict:
  assumes "svc_ok (v_state v)" "no_fault env'" "AnswerFrom_claim env i owner v = (Inr call, v1)"
    and "ready i (c_Version call + 1) (v_state v1)" "0 < c_Version call" "c_TelegramMsgIDs call = []"
    and "me_Type e = ''call.active''" "AnswerFrom_finish env owner call None (handleModem env' e v1) = ((res, err), v')"
  shows "err \<noteq> None \<and>
    (\<exists>c. ActiveCall (v_state v') = Some c \<and> c_ID c = i \<and> c_State c = CallActive \<and> c_MediaOwner c = owner)"
proof -
  have t: "track (v_state v) i v1" "c_ID call = i" "c_State call = CallIncoming"
    using claim_writes(2) [OF assms(1,3) refl] by auto
  have stored: "get_Call (v_state v1) i = Some call" "c_MediaOwner call = owner"
    using assms(3,5,6) t(2)
    by (auto simp: AnswerFrom_claim_def Let_def split: option.splits if_splits prod.splits dest!: upsert_call_stored [of _ _ _ _ _ i])
  have live: "live_state (c_State call)" by (simp add: t(3))
  have ok1: "svc_ok (v_state v1)" using t(1) by (simp add: track_def)
  note i = live_id [OF ok1 stored(1) live]
  have act: "ActiveCall (v_state v1) = Some call" using book.get_live [OF svc_okD [OF ok1] stored(1) live] .
  let ?w = "snd (select_route env' (c_GatewayID call) (c_SubscriptionID call) v1)"
  let ?c = "(bump call)\<lparr>c_State := CallActive, c_ConnectedAt := Some (se_now env')\<rparr>"
  obtain v2 where v2: "upsert_call env' 0 ?c ?w = (None, v2)" "get_Call (v_state v2) i = Some ?c" "ActiveCall (v_state v2) = Some ?c"
    by (rule ready_step [OF assms(2), of ?c ?w 0]) (use assms(4,6) ok1 i in simp_all)
  have st: "v_state (handleModem env' e v1) = v_state v2"
    using assms(7) v2(1) by (simp add: handleModem_def on_call_active_def act Let_def)
  let ?x = "(if owner = ''web'' then media env (BeginWaitingMedia i) (handleModem env' e v1) else handleModem env' e v1)"
  have x: "v_state ?x = v_state v2" using st by simp
  have fin: "upsert_call env 1 ((bump call)\<lparr>c_State := CallAlerting\<rparr>) ?x = (err, v')"
    using assms(8) t(2) by (auto simp: AnswerFrom_finish_def Let_def split: prod.splits)
  have "err \<noteq> None"
    using upsert_call_None [of env 1 "(bump call)\<lparr>c_State := CallAlerting\<rparr>" ?x v'] fin x v2(2) calls.put_next i(2)
    by fastforce
  then have "v_state v' = v_state v2" using fin x upsert_call_Some by (metis option.exhaust)
  then show ?thesis using \<open>err \<noteq> None\<close> v2(3) i(2) stored(2) by simp
qed

subsection \<open>Concrete runs\<close>

lemma demo_msg_ready: "msg_ready i 1 (v_state demo_svc)"
  by (simp add: msg_ready_def demo_svc_def new_service_def demo_state_def initMem_def emptyDB_def get_Message_def)

lemma demo_no_messages: "sn_Messages (get_Snapshot b (v_state demo_svc)) = []"
  by (simp add: get_Snapshot_def demo_svc_def new_service_def demo_state_def initMem_def tvals_def Let_def)

theorem sms_stored_once_witness:
  "\<exists>m. get_Message (v_state (handleModem demo_senv ((demo_event ''sms.received'')\<lparr>me_ProviderID := ''p1'', me_Body := ''hi''\<rparr>) demo_svc))
       (NewID ''msg'' (se_rand demo_senv)) = Some m \<and> m_Body m = ''hi'' \<and>
     handleModem demo_senv ((demo_event ''sms.received'')\<lparr>me_ProviderID := ''p1''\<rparr>)
       (handleModem demo_senv ((demo_event ''sms.received'')\<lparr>me_ProviderID := ''p1'', me_Body := ''hi''\<rparr>) demo_svc) =
     handleModem demo_senv ((demo_event ''sms.received'')\<lparr>me_ProviderID := ''p1'', me_Body := ''hi''\<rparr>) demo_svc"
  using sms_stored_once [OF demo_no_fault demo_msg_ready, of "(demo_event ''sms.received'')\<lparr>me_ProviderID := ''p1'', me_Body := ''hi''\<rparr>"
      "(demo_event ''sms.received'')\<lparr>me_ProviderID := ''p1''\<rparr>" _ demo_senv, OF _ _ _ _ _ refl]
  by (auto simp: demo_event_def demo_no_messages)

theorem send_outcome_witness:
  "\<exists>v' m. SendSMSRoute demo_senv ''+861'' '' hi '' \<lparr>ro_GatewayID = [], ro_SubscriptionID = 0\<rparr> demo_svc = ((Some m, None), v') \<and>
     m_Status m = ''sent'' \<and> get_Message (v_state v') (NewID ''msg'' (se_rand demo_senv)) = Some m"
proof -
  let ?r = "\<lparr>ro_GatewayID = [], ro_SubscriptionID = 0\<rparr>"
  have body: "trim_space '' hi '' = ''hi''" by code_simp
  have len: "length (runes ''hi'') = 2" by code_simp
  have "SendSMSRoute_check demo_senv ''+861'' '' hi '' ?r demo_svc =
      Inr (sent_message demo_senv ?r ''+861'' ''hi'' (zeroDecision\<lparr>dc_Action := ''allow''\<rparr>))"
    using body len by (simp add: SendSMSRoute_check_def Let_def demo_settings demo_decide demo_normalize)
      (simp add: defaultSettings_def)
  moreover obtain res err v' where d: "SendSMSRoute demo_senv ''+861'' '' hi '' ?r demo_svc = ((res, err), v')" by (metis prod.collapse)
  ultimately show ?thesis
    using send_outcome [OF demo_no_fault demo_msg_ready d] d by (auto simp: demo_senv_def)
qed

theorem foreign_end_event_ends_call_witness:
  "ActiveCall (v_state (handleModem demo_senv ((demo_event ''call.ended'')\<lparr>me_GatewayID := ''other''\<rparr>) demo_ringing)) = None \<and>
   (\<exists>c. get_Call (v_state (handleModem demo_senv ((demo_event ''call.ended'')\<lparr>me_GatewayID := ''other''\<rparr>) demo_ringing))
      demo_id = Some c \<and> c_State c = CallEnded)"
proof -
  let ?e = "(demo_event ''call.ended'')\<lparr>me_GatewayID := ''other''\<rparr>"
  let ?c = "incoming_call demo_senv (demo_event []) ''+861'' zeroDecision"
  have "me_Type ?e = ''call.ended''" "me_GatewayID ?e \<noteq> c_GatewayID ?c"
    by (simp_all add: demo_event_def incoming_call_def zeroMEvent_def)
  moreover have "ready (c_ID ?c) (c_Version ?c + 1) (v_state demo_ringing)" using demo_ringing(2) by simp
  ultimately show ?thesis
    using foreign_end_event_ends_call [OF demo_ringing(1) demo_no_fault demo_ringing(4) new_call_sel(4), of ?e] by simp
qed

theorem dial_race_two_live_calls_witness:
  "\<exists>v' call c d. DialRoute_commit (demo_senv\<lparr>se_rand := [9]\<rparr>) ''web'' \<lparr>ro_GatewayID = [], ro_SubscriptionID = 0\<rparr>
       (''+861'', zeroDecision\<lparr>dc_Action := ''allow''\<rparr>) (handleModem demo_senv (demo_event ''call.incoming'') demo_svc) =
     ((Some call, None), v') \<and>
     get_Call (v_state v') demo_id = Some c \<and> c_State c = CallIncoming \<and>
     get_Call (v_state v') (NewID ''call'' [9]) = Some d \<and> c_State d = CallDialing"
proof -
  let ?e = "demo_event ''call.incoming''" and ?env = "demo_senv\<lparr>se_rand := [9]\<rparr>" and ?r = "\<lparr>ro_GatewayID = [], ro_SubscriptionID = 0\<rparr>"
  let ?nd = "(''+861'', zeroDecision\<lparr>dc_Action := ''allow''\<rparr>)"
  let ?v1 = "handleModem demo_senv ?e demo_svc"
  let ?c = "incoming_call demo_senv ?e (event_number demo_senv ?e demo_svc) (screened demo_senv ?e demo_svc)"
  have ids: "NewID ''call'' [9] \<noteq> demo_id" by (simp add: NewID_def demo_senv_def) code_simp
  obtain w where w: "upsert_call demo_senv 0 ?c demo_svc = (None, w)" "get_Settings (v_state w) = defaultSettings"
    by (rule ready_step [OF demo_no_fault, of ?c demo_svc 0]) (simp_all add: demo_idle demo_svc_ok demo_settings)
  have "select_route demo_senv g u v = (None, v)" for g u v by (simp add: select_route_def demo_senv_def)
  moreover have "me_Type ?e = ''call.incoming''" by (simp add: demo_event_def)
  ultimately have "v_state ?v1 = v_state w"
    using w demo_accepts
    by (simp add: handleModem_def on_call_incoming_def demo_idle screened_def [symmetric] rejects_def demo_settings Let_def)
  then have "ready (NewID ''call'' [9]) 1 (v_state ?v1)"
    using ready_other [OF w(1) demo_idle(2), of "NewID ''call'' [9]"] ids by simp
  then obtain v2 where v2: "upsert_call ?env 0 (dialled_call ?env ''web'' ?r ''+861'' (snd ?nd)) ?v1 = (None, v2)"
    using ready_upsert [of ?env "dialled_call ?env ''web'' ?r ''+861'' (snd ?nd)" ?v1 0] demo_no_fault by auto
  obtain call v' where commit: "DialRoute_commit ?env ''web'' ?r ?nd ?v1 = ((Some call, None), v')"
    using v2 by (simp add: DialRoute_commit_def ask_def demo_senv_def Let_def)
  have "se_lib ?env = se_lib demo_senv" by simp
  then have check: "DialRoute_check ?env ''+861'' demo_svc = Inr ?nd"
    using demo_check unfolding DialRoute_check_def by (simp only:)
  from dial_race_two_live_calls [OF demo_svc_ok demo_no_fault demo_routes demo_idle(2) check _ _ demo_accepts commit] ids
  show ?thesis using commit by (auto simp: demo_event_def)
qed

theorem answer_race_conflict_witness:
  "\<exists>call v1 res err v'. AnswerFrom_claim demo_senv demo_id ''web'' demo_ringing = (Inr call, v1) \<and>
     AnswerFrom_finish demo_senv ''web'' call None (handleModem demo_senv (demo_event ''call.active'') v1) = ((res, err), v') \<and>
     err \<noteq> None \<and> (\<exists>c. ActiveCall (v_state v') = Some c \<and> c_State c = CallActive)"
proof -
  let ?c = "incoming_call demo_senv (demo_event []) ''+861'' zeroDecision"
  let ?d = "(bump ?c)\<lparr>c_MediaOwner := ''web''\<rparr>"
  obtain v1 where v1: "upsert_call demo_senv 0 ?d demo_ringing = (None, v1)" "ready demo_id 3 (v_state v1)"
    by (rule ready_step [OF demo_no_fault, of ?d demo_ringing 0])
       (use demo_ringing live_id [OF demo_ringing(1,3) new_call_id(4)] in simp_all)
  have "select_route demo_senv g u v = (None, v)" for g u v by (simp add: select_route_def demo_senv_def)
  then have claim: "AnswerFrom_claim demo_senv demo_id ''web'' demo_ringing = (Inr ?d, v1)"
    using v1(1) by (simp add: AnswerFrom_claim_def demo_ringing(3) demo_incoming_sel Let_def)
  obtain res err v' where fin: "AnswerFrom_finish demo_senv ''web'' ?d None (handleModem demo_senv (demo_event ''call.active'') v1)
      = ((res, err), v')" by (metis prod.collapse)
  have "ready demo_id (c_Version ?d + 1) (v_state v1)" "0 < c_Version ?d" "c_TelegramMsgIDs ?d = []"
    "me_Type (demo_event ''call.active'') = ''call.active''"
    using v1(2) by (simp_all add: demo_event_def)
  from answer_race_conflict [OF demo_ringing(1) demo_no_fault claim this fin] show ?thesis using claim fin by blast
qed

end
