(* ===== verification/Go_Float.thy ===== *)
theory Go_Float
  imports Json "HOL-Library.Log_Nat"
begin

text \<open>
  Go's \<^verbatim>\<open>float64\<close> arithmetic. A finite \<^verbatim>\<open>float64\<close> is the rational number it denotes; the result of
  an operation is the exact result rounded to 53 significant bits, ties to even (\<open>fl\<close>). The program
  computes with samples, sample positions and nanoseconds, whose size is far from the largest and the
  smallest \<^verbatim>\<open>float64\<close>, so overflow and subnormal numbers are left out. A conversion to an integer
  truncates towards zero (\<open>truncate_to\<close>); Go leaves it open when the value does not fit, which is why the
  audio component proves that it fits.
\<close>

definition round_even :: "rat \<Rightarrow> int" where
  "round_even x =
     (let f = \<lfloor>x\<rfloor>; d = x - of_int f in
      if d < 1 / 2 then f else if 1 / 2 < d then f + 1 else if even f then f else f + 1)"

text \<open>The exponent of the leading bit: from the lengths of numerator and denominator, up to one.\<close>

definition pow2 :: "int \<Rightarrow> rat" where
  "pow2 e = 2 powi e"

definition fl_exp :: "rat \<Rightarrow> int" where
  "fl_exp x =
     (let (p, q) = quotient_of \<bar>x\<bar>; k = bitlen p - bitlen q in
      if pow2 k \<le> \<bar>x\<bar> then k else k - 1)"

definition fl :: "rat \<Rightarrow> rat" where
  "fl x = (if x = 0 then 0 else let u = pow2 (fl_exp x - 52) in of_int (round_even (x / u)) * u)"

definition truncate_to :: "rat \<Rightarrow> int" where
  "truncate_to x = (if 0 \<le> x then \<lfloor>x\<rfloor> else - \<lfloor>- x\<rfloor>)"

subsection \<open>Rounding\<close>

lemma round_even_of_int [simp]: "round_even (of_int n) = n"
  by (simp add: round_even_def)

lemma round_even_bounds: "\<bar>of_int (round_even x) - x\<bar> \<le> 1 / 2"
  using floor_correct [of x] unfolding round_even_def Let_def abs_le_iff
  by (auto simp del: of_int_floor_le floor_correct)

lemma round_even_le: "x \<le> of_int n \<Longrightarrow> round_even x \<le> n"
proof -
  assume x: "x \<le> of_int n"
  show ?thesis
  proof (cases "x = of_int n")
    case False
    then have "\<lfloor>x\<rfloor> + 1 \<le> n" using x by linarith
    then show ?thesis by (auto simp: round_even_def Let_def)
  qed simp
qed

lemma round_even_ge: "of_int n \<le> x \<Longrightarrow> n \<le> round_even x"
proof -
  assume "of_int n \<le> x"
  then have "n \<le> \<lfloor>x\<rfloor>" by linarith
  then show ?thesis by (auto simp: round_even_def Let_def)
qed

lemma pow2_pos [simp]: "0 < pow2 e"
  by (simp add: pow2_def)

lemma pow2_nonzero [simp]: "pow2 e \<noteq> 0"
  by (simp add: pow2_def)

lemma pow2_mono: "a \<le> b \<Longrightarrow> pow2 a \<le> pow2 b"
  by (simp add: pow2_def power_int_increasing)

lemma pow2_less: "a < b \<Longrightarrow> pow2 a < pow2 b"
  by (simp add: pow2_def power_int_strict_increasing)

lemma pow2_of_nat: "0 \<le> e \<Longrightarrow> pow2 e = 2 ^ nat e"
  by (simp add: pow2_def power_int_nonneg_exp)

lemma pow2_neg: "e \<le> 0 \<Longrightarrow> of_int n / pow2 e = of_int (n * 2 ^ nat (- e))"
  using power_int_minus_divide [of "2::rat" "- e"] by (simp add: pow2_def power_int_nonneg_exp)

lemma bitlen_pow2_bounds:
  assumes "0 < a"
  shows "pow2 (bitlen a - 1) \<le> of_int a" "of_int a < pow2 (bitlen a)"
proof -
  have "1 \<le> bitlen a" using bitlen_nonneg [of a] bitlen_eq_zero_iff [of a] assms by linarith
  then have "pow2 (bitlen a - 1) = of_int (2 ^ nat (bitlen a - 1))" "pow2 (bitlen a) = of_int (2 ^ nat (bitlen a))"
    by (simp_all add: pow2_of_nat)
  then show "pow2 (bitlen a - 1) \<le> of_int a" "of_int a < pow2 (bitlen a)"
    using bitlen_bounds [OF assms] by (metis of_int_le_iff, metis of_int_less_iff)
qed

lemma pow2_divide: "pow2 a / pow2 b = pow2 (a - b)"
  by (simp add: pow2_def power_int_diff)

lemma fl_exp_bounds:
  assumes "x \<noteq> 0"
  shows "pow2 (fl_exp x) \<le> \<bar>x\<bar>" "\<bar>x\<bar> < pow2 (fl_exp x + 1)"
proof -
  obtain p q where pq: "quotient_of \<bar>x\<bar> = (p, q)" by fastforce
  have x: "\<bar>x\<bar> = of_int p / of_int q" and q: "0 < q"
    using quotient_of_div [OF pq] quotient_of_denom_pos [OF pq] by auto
  with assms have p: "0 < p" by (metis zero_less_abs_iff of_int_0_less_iff zero_less_divide_iff not_less_iff_gr_or_eq)
  let ?k = "bitlen p - bitlen q"
  note num = bitlen_pow2_bounds
  have "pow2 (?k - 1) = pow2 (bitlen p - 1) / pow2 (bitlen q)" "pow2 (?k + 1) = pow2 (bitlen p) / pow2 (bitlen q - 1)"
    by (simp_all add: pow2_divide algebra_simps)
  moreover have "pow2 (bitlen p - 1) / pow2 (bitlen q) \<le> of_int p / of_int q"
    using num [OF p] num [OF q] q p by (intro frac_le) (auto intro: less_imp_le)
  moreover have "of_int p / of_int q < pow2 (bitlen p) / pow2 (bitlen q - 1)"
    using num [OF p] num [OF q] q p by (intro frac_less) auto
  ultimately show "pow2 (fl_exp x) \<le> \<bar>x\<bar>" "\<bar>x\<bar> < pow2 (fl_exp x + 1)"
    by (auto simp: fl_exp_def pq Let_def simp flip: x split: if_split)
qed

text \<open>A number is rounded by at most half a unit of its last place.\<close>

lemma fl_error: "\<bar>x\<bar> < pow2 e \<Longrightarrow> \<bar>fl x - x\<bar> \<le> pow2 (e - 54)"
proof (cases "x = 0")
  case False
  assume small: "\<bar>x\<bar> < pow2 e"
  let ?u = "pow2 (fl_exp x - 52)"
  have "pow2 (fl_exp x) < pow2 e" using fl_exp_bounds(1) [OF False] small by simp
  then have "fl_exp x < e" using pow2_mono [of e "fl_exp x"] by linarith
  then have "?u / 2 \<le> pow2 (e - 54)"
    using pow2_mono [of "fl_exp x - 53" "e - 54"] pow2_divide [of "fl_exp x - 52" 1] by (simp add: pow2_def)
  moreover have "\<bar>fl x - x\<bar> = \<bar>of_int (round_even (x / ?u)) - x / ?u\<bar> * ?u"
    using False abs_mult_pos [of ?u "of_int (round_even (x / ?u)) - x / ?u"]
    by (simp add: fl_def Let_def left_diff_distrib less_imp_le)
  moreover have "\<dots> \<le> 1 / 2 * ?u"
    by (intro mult_right_mono round_even_bounds) (simp add: less_imp_le)
  ultimately show ?thesis by linarith
qed (simp add: fl_def less_imp_le)

text \<open>Rounding does not cross an integer that has at most 53 bits.\<close>

lemma fl_unit_small: "x \<noteq> 0 \<Longrightarrow> \<bar>x\<bar> < 2 ^ 53 \<Longrightarrow> fl_exp x - 52 \<le> 0"
proof -
  assume "x \<noteq> 0" "\<bar>x\<bar> < 2 ^ 53"
  then have "pow2 (fl_exp x) < pow2 53" using fl_exp_bounds(1) [of x] by (simp add: pow2_def)
  then show ?thesis using pow2_mono [of 53 "fl_exp x"] by linarith
qed

lemma fl_le_int:
  assumes "\<bar>x\<bar> < 2 ^ 53" "x \<le> of_int n"
  shows "fl x \<le> of_int n"
proof (cases "x = 0")
  case False
  let ?e = "fl_exp x - 52"
  have e: "?e \<le> 0" using fl_unit_small [OF False assms(1)] .
  have "x / pow2 ?e \<le> of_int (n * 2 ^ nat (- ?e))"
    unfolding pow2_neg [OF e, symmetric] using assms(2) by (simp add: divide_right_mono less_imp_le)
  from round_even_le [OF this] have "of_int (round_even (x / pow2 ?e)) \<le> of_int n / pow2 ?e"
    by (metis of_int_le_iff pow2_neg [OF e])
  then show ?thesis using False by (simp add: fl_def Let_def pos_le_divide_eq)
qed (use assms in \<open>simp add: fl_def\<close>)

lemma fl_ge_int:
  assumes "\<bar>x\<bar> < 2 ^ 53" "of_int n \<le> x"
  shows "of_int n \<le> fl x"
proof (cases "x = 0")
  case False
  let ?e = "fl_exp x - 52"
  have e: "?e \<le> 0" using fl_unit_small [OF False assms(1)] .
  have "of_int (n * 2 ^ nat (- ?e)) \<le> x / pow2 ?e"
    unfolding pow2_neg [OF e, symmetric] using assms(2) by (simp add: divide_right_mono less_imp_le)
  from round_even_ge [OF this] have "of_int n / pow2 ?e \<le> of_int (round_even (x / pow2 ?e))"
    by (metis of_int_le_iff pow2_neg [OF e])
  then show ?thesis using False by (simp add: fl_def Let_def pos_divide_le_eq)
qed (use assms in \<open>simp add: fl_def\<close>)

lemma fl_of_int: "\<bar>n\<bar> < 2 ^ 53 \<Longrightarrow> fl (of_int n) = of_int n"
proof -
  assume "\<bar>n\<bar> < 2 ^ 53"
  then have "\<bar>of_int n\<bar> < (2::rat) ^ 53"
    by (metis of_int_abs of_int_less_iff of_int_numeral of_int_power)
  then show ?thesis using fl_le_int [of "of_int n" n] fl_ge_int [of "of_int n" n] by simp
qed

lemma fl_nonneg: "0 \<le> x \<Longrightarrow> 0 \<le> fl x"
  using round_even_ge [of 0 "x / pow2 (fl_exp x - 52)"]
  by (simp add: fl_def Let_def divide_nonneg_pos less_imp_le)

lemma fl_unit: "0 \<le> x \<Longrightarrow> x \<le> 1 \<Longrightarrow> 0 \<le> fl x \<and> fl x \<le> 1"
  using fl_le_int [of x 1] fl_ge_int [of x 0] by simp

subsection \<open>Truncation\<close>

lemma truncate_to_of_int [simp]: "truncate_to (of_int n) = n"
  by (simp add: truncate_to_def)

lemma truncate_to_range: "of_int m - 1 < x \<Longrightarrow> m \<le> 0 \<Longrightarrow> x < of_int n + 1 \<Longrightarrow> 0 \<le> n \<Longrightarrow> m \<le> truncate_to x \<and> truncate_to x \<le> n"
  unfolding truncate_to_def by (auto split: if_split) linarith+

lemma truncate_to_fraction: "0 \<le> x \<Longrightarrow> 0 \<le> x - of_nat (nat (truncate_to x)) \<and> x - of_nat (nat (truncate_to x)) \<le> 1"
  by (simp add: truncate_to_def) linarith

lemma truncate_to_mono: "0 \<le> x \<Longrightarrow> x \<le> y \<Longrightarrow> truncate_to x \<le> truncate_to y"
  by (simp add: truncate_to_def floor_mono)

lemma truncate_to_le: "0 \<le> x \<Longrightarrow> x \<le> of_int n \<Longrightarrow> truncate_to x \<le> n"
  using truncate_to_mono [of x "of_int n"] by simp

end
