(* ===== verification/Media_Wav.thy ===== *)
theory Media_Wav
  imports Go_Float "HOL-Library.Signed_Division" "HOL-Library.Monad_Syntax"
begin

text \<open>
  The audio formats of the media manager (\<^verbatim>\<open>internal/media/manager.go\<close>: \<^verbatim>\<open>parseWAV\<close>, \<^verbatim>\<open>encodeWAV\<close>,
  \<^verbatim>\<open>int16Bytes\<close> and the sample arithmetic of the bridges). A file is a list of 8-bit words, a sample a
  16-bit word read as a signed number, and an \<^verbatim>\<open>int32\<close> an integer with its wrap-around (\<open>wrap32\<close>). Reading
  outside a slice panics in Go; here it is the value \<open>None\<close>, so that a theorem can say that it never
  happens.
\<close>

unbundle bit_operations_syntax

type_synonym byte8 = "8 word"
type_synonym int16 = "16 word"
type_synonym duration = int

definition ascii :: "string \<Rightarrow> byte8 list" where
  "ascii s = map (\<lambda>c. of_nat (of_char c)) s"

definition subslice :: "'a list \<Rightarrow> nat \<Rightarrow> nat \<Rightarrow> 'a list option" where
  "subslice xs i j = (if i \<le> j \<and> j \<le> length xs then Some (take (j - i) (drop i xs)) else None)"

definition nth_opt :: "'a list \<Rightarrow> nat \<Rightarrow> 'a option" where
  "nth_opt xs i = (if i < length xs then Some (xs ! i) else None)"

subsection \<open>Little-endian numbers\<close>

definition le16 :: "int16 \<Rightarrow> byte8 list" where
  "le16 w = [ucast w, ucast (drop_bit 8 w)]"

definition le32 :: "32 word \<Rightarrow> byte8 list" where
  "le32 w = [ucast w, ucast (drop_bit 8 w), ucast (drop_bit 16 w), ucast (drop_bit 24 w)]"

fun uint16_of :: "byte8 list \<Rightarrow> int16 option" where
  "uint16_of (a # b # _) = Some (ucast a OR push_bit 8 (ucast b))"
| "uint16_of _ = None"

fun uint32_of :: "byte8 list \<Rightarrow> 32 word option" where
  "uint32_of (a # b # c # d # _) =
     Some (ucast a OR push_bit 8 (ucast b) OR push_bit 16 (ucast c) OR push_bit 24 (ucast d))"
| "uint32_of _ = None"

definition get16 :: "byte8 list \<Rightarrow> nat \<Rightarrow> int16 option" where
  "get16 b i = uint16_of (drop i b)"

definition get32 :: "byte8 list \<Rightarrow> nat \<Rightarrow> 32 word option" where
  "get32 b i = uint32_of (drop i b)"

lemma uint16_of_le16 [simp]: "uint16_of (le16 w @ bs) = Some w"
  by (simp add: le16_def bit_eq_iff)
    (auto simp: bit_simps dest: bit_imp_le_length)

lemma uint32_of_le32 [simp]: "uint32_of (le32 w @ bs) = Some w"
proof -
  have "(ucast (ucast w :: byte8) :: 32 word) OR push_bit 8 (ucast (ucast (drop_bit 8 w) :: byte8)) OR
    push_bit 16 (ucast (ucast (drop_bit 16 w) :: byte8)) OR push_bit 24 (ucast (ucast (drop_bit 24 w) :: byte8)) = w"
  proof (rule bit_word_eqI)
    fix n assume "n < LENGTH(32)"
    then consider "n < 8" | "8 \<le> n" "n - 8 < 8" | "16 \<le> n" "n - 16 < 8" | "24 \<le> n" "n - 24 < 8" by fastforce
    then show "bit ((ucast (ucast w :: byte8) :: 32 word) OR push_bit 8 (ucast (ucast (drop_bit 8 w) :: byte8)) OR
      push_bit 16 (ucast (ucast (drop_bit 16 w) :: byte8)) OR push_bit 24 (ucast (ucast (drop_bit 24 w) :: byte8))) n
      = bit w n"
      using \<open>n < LENGTH(32)\<close> by cases (auto simp: bit_simps)
  qed
  then show ?thesis by (simp add: le32_def)
qed

lemma length_le [simp]: "length (le16 w) = 2" "length (le32 v) = 4"
  by (simp_all add: le16_def le32_def)

lemma uint16_of_None [simp]: "uint16_of b = None \<longleftrightarrow> length b < 2"
  by (cases b rule: uint16_of.cases) auto

lemma uint32_of_None [simp]: "uint32_of b = None \<longleftrightarrow> length b < 4"
  by (cases b rule: uint32_of.cases) auto

lemma get16_None: "get16 b i = None \<longleftrightarrow> length b < i + 2"
  by (auto simp: get16_def)

lemma get32_None: "get32 b i = None \<longleftrightarrow> length b < i + 4"
  by (auto simp: get32_def)

lemma get32_Some: "get32 b i = Some w \<Longrightarrow> i + 4 \<le> length b"
  by (metis get32_None not_le option.distinct(1))

definition int16Bytes :: "int16 list \<Rightarrow> byte8 list" where
  "int16Bytes p = concat (map le16 p)"

interpretation samples: cell_codec le16 uint16_of "\<lambda>_. True" 2
proof
  fix w :: int16
  show "uint16_of (le16 w) = Some w" using uint16_of_le16 [of w "[]"] by simp
qed auto

subsection \<open>Reading a WAV file\<close>

definition prompt_invalid :: gerror where "prompt_invalid = ''VOICEMAIL_PROMPT_INVALID''"
definition greeting_too_long :: gerror where "greeting_too_long = ''VOICEMAIL_GREETING_TOO_LONG''"

definition wrap32 :: "int \<Rightarrow> int" where
  "wrap32 i = signed_take_bit 31 i"

definition to_int16 :: "int \<Rightarrow> int16" where
  "to_int16 i = word_of_int i"

text \<open>What the chunks of the file have said so far.\<close>

record wav_head =
  wh_rate :: nat
  wh_channels :: nat
  wh_bits :: nat
  wh_format :: nat
  wh_data :: "byte8 list"

definition no_head :: wav_head where
  "no_head = \<lparr>wh_rate = 0, wh_channels = 0, wh_bits = 0, wh_format = 0, wh_data = []\<rparr>"

definition read_fmt :: "byte8 list \<Rightarrow> nat \<Rightarrow> wav_head \<Rightarrow> wav_head option" where
  "read_fmt raw start h =
     do { format \<leftarrow> get16 raw start;
          channels \<leftarrow> get16 raw (start + 2);
          rate \<leftarrow> get32 raw (start + 4);
          bits \<leftarrow> get16 raw (start + 14);
          Some (h\<lparr>wh_format := unat format, wh_channels := unat channels, wh_rate := unat rate,
                  wh_bits := unat bits\<rparr>) }"

text \<open>One chunk: its effect on the head, with where it ends and its size.\<close>

definition read_chunk :: "byte8 list \<Rightarrow> nat \<Rightarrow> wav_head \<Rightarrow> (gerror + nat \<times> nat \<times> wav_head) option" where
  "read_chunk raw pos h =
     do { name \<leftarrow> subslice raw pos (pos + 4);
          word \<leftarrow> get32 raw (pos + 4);
          let size = unat word; start = pos + 8; stop = pos + 8 + size in
          if length raw < stop \<and> (name \<noteq> ascii ''data'' \<or> size < 0x7fff0000) then Some (Inl prompt_invalid)
          else let stop = (if length raw < stop then length raw else stop) in
            if name = ascii ''fmt '' then
              if size < 16 then Some (Inl prompt_invalid)
              else do { h \<leftarrow> read_fmt raw start h; Some (Inr (stop, size, h)) }
            else if name = ascii ''data'' then
              do { data \<leftarrow> subslice raw start stop; Some (Inr (stop, size, h\<lparr>wh_data := data\<rparr>)) }
            else Some (Inr (stop, size, h)) }"

lemma read_chunk_progress:
  assumes "read_chunk raw pos h = Some (Inr (stop, sz, h'))"
  shows "pos + 8 \<le> stop \<and> stop \<le> length raw"
proof -
  have "\<not> length raw < pos + 8"
    using assms by (auto simp: read_chunk_def Option.bind_eq_Some_conv dest!: get32_Some)
  then show ?thesis
    using assms by (auto simp: read_chunk_def Let_def Option.bind_eq_Some_conv split: if_splits)
qed

function wav_chunks :: "byte8 list \<Rightarrow> nat \<Rightarrow> wav_head \<Rightarrow> (gerror + wav_head) option" where
  "wav_chunks raw pos h =
     (if length raw < pos + 8 then Some (Inr h)
      else case read_chunk raw pos h of
        None \<Rightarrow> None
      | Some (Inl e) \<Rightarrow> Some (Inl e)
      | Some (Inr (stop, sz, h)) \<Rightarrow>
          if stop = length raw then Some (Inr h) else wav_chunks raw (stop + sz mod 2) h)"
  by pat_completeness auto
termination
  by (relation "measure (\<lambda>(raw, pos, h). length raw - pos)") (auto dest!: read_chunk_progress)

declare wav_chunks.simps [simp del]

text \<open>The average of the channels of frame \<open>i\<close>, summed in 32 bits.\<close>

fun sum_channels :: "byte8 list \<Rightarrow> nat \<Rightarrow> nat \<Rightarrow> int \<Rightarrow> int option" where
  "sum_channels data from 0 acc = Some acc"
| "sum_channels data from (Suc n) acc =
     do { v \<leftarrow> get16 data (from * 2); sum_channels data (Suc from) n (wrap32 (acc + sint v)) }"

definition mono_sample :: "byte8 list \<Rightarrow> nat \<Rightarrow> nat \<Rightarrow> int16 option" where
  "mono_sample data channels i =
     map_option (\<lambda>total. to_int16 (total sdiv int channels)) (sum_channels data (i * channels) channels 0)"

definition mono_source :: "byte8 list \<Rightarrow> nat \<Rightarrow> int16 list option" where
  "mono_source data channels = those (map (mono_sample data channels) [0..<length data div 2 div channels])"

text \<open>\<^verbatim>\<open>time.Duration(float64(n) / float64(rate) * float64(time.Second))\<close>\<close>

definition wav_duration :: "nat \<Rightarrow> nat \<Rightarrow> duration" where
  "wav_duration n rate = truncate_to (fl (fl (of_nat n / of_nat rate) * of_int second))"

text \<open>Linear interpolation between two samples, in \<^verbatim>\<open>float64\<close>.\<close>

definition lerp :: "int16 \<Rightarrow> int16 \<Rightarrow> float64 \<Rightarrow> float64" where
  "lerp a b fraction = fl (fl (of_int (sint a) * fl (1 - fraction)) + fl (of_int (sint b) * fraction))"

definition resample_at :: "int16 list \<Rightarrow> nat \<Rightarrow> nat \<Rightarrow> int16 option" where
  "resample_at source rate i =
     (let position = fl (fl (of_nat i * of_nat rate) / 16000);
          left = nat (truncate_to position) in
      if length source - 1 \<le> left then nth_opt source (length source - 1)
      else do { a \<leftarrow> nth_opt source left;
                b \<leftarrow> nth_opt source (left + 1);
                Some (to_int16 (truncate_to (lerp a b (fl (position - of_nat left))))) })"

definition resample :: "int16 list \<Rightarrow> nat \<Rightarrow> int16 list option" where
  "resample source rate = those (map (resample_at source rate) [0..<length source * 16000 div rate])"

definition head_ok :: "wav_head \<Rightarrow> bool" where
  "head_ok h \<longleftrightarrow> wh_format h = 1 \<and> 8000 \<le> wh_rate h \<and> wh_rate h \<le> 192000 \<and> 1 \<le> wh_channels h \<and>
     wh_channels h \<le> 8 \<and> wh_bits h = 16 \<and> 2 * wh_channels h \<le> length (wh_data h)"

text \<open>
  The samples or the error, and the duration. \<open>None\<close> is a read outside of a slice. The divisions by the number of
  channels and by the rate come after \<open>head_ok\<close>, which keeps both above zero, so that they cannot fail either.
\<close>

definition parseWAV :: "byte8 list \<Rightarrow> ((gerror + int16 list) \<times> duration) option" where
  "parseWAV raw =
     (if length raw < 12 \<or> subslice raw 0 4 \<noteq> Some (ascii ''RIFF'') \<or> subslice raw 8 12 \<noteq> Some (ascii ''WAVE'')
      then Some (Inl prompt_invalid, 0)
      else case wav_chunks raw 12 no_head of
        None \<Rightarrow> None
      | Some (Inl e) \<Rightarrow> Some (Inl e, 0)
      | Some (Inr h) \<Rightarrow>
          if \<not> head_ok h then Some (Inl prompt_invalid, 0)
          else do { source \<leftarrow> mono_source (wh_data h) (wh_channels h);
                    let duration = wav_duration (length source) (wh_rate h) in
                    if 30 * second < duration then Some (Inl greeting_too_long, duration)
                    else if wh_rate h = 16000 then Some (Inr source, duration)
                    else do { target \<leftarrow> resample source (wh_rate h); Some (Inr target, duration) } })"

subsection \<open>Writing a WAV file\<close>

definition encodeWAV :: "int16 list \<Rightarrow> byte8 list" where
  "encodeWAV pcm =
     ascii ''RIFF'' @ le32 (of_nat (44 + length pcm * 2 - 8)) @ ascii ''WAVE'' @
     ascii ''fmt '' @ le32 16 @ le16 1 @ le16 1 @ le32 16000 @ le32 32000 @ le16 2 @ le16 16 @
     ascii ''data'' @ le32 (of_nat (length pcm * 2)) @ int16Bytes pcm"

subsection \<open>The bridges\<close>

text \<open>\<^verbatim>\<open>writeRecording\<close>: the far side mixed with what the near side sent last.\<close>

definition mix_sample :: "int16 \<Rightarrow> int16 \<Rightarrow> int16" where
  "mix_sample v near =
     (let sum = wrap32 (sint v + sint near);
          sum = (if sum > 32767 then 32767 else sum);
          sum = (if sum < -32768 then -32768 else sum)
      in to_int16 (sum sdiv 2))"

definition mix_recording :: "int16 list \<Rightarrow> int16 list \<Rightarrow> int16 list" where
  "mix_recording latestNear far =
     map (\<lambda>i. mix_sample (far ! i) (if i < length latestNear then latestNear ! i else 0)) [0..<length far]"

text \<open>One frame from the SIP side, 8 kHz, to the modem, 16 kHz: every sample twice. One frame back:
  the average of two samples.\<close>

definition sip_samples :: "byte8 list \<Rightarrow> int16 list option" where
  "sip_samples pcm8 = those (map (\<lambda>i. get16 pcm8 (i * 2)) [0..<length pcm8 div 2])"

definition sip_to_modem_frame :: "byte8 list \<Rightarrow> (int16 list \<times> byte8 list) option" where
  "sip_to_modem_frame pcm8 =
     do { samples \<leftarrow> sip_samples pcm8; Some (samples, concat (map (\<lambda>v. le16 v @ le16 v) samples)) }"

definition average2 :: "int16 \<Rightarrow> int16 \<Rightarrow> int16" where
  "average2 a b = to_int16 (wrap32 (sint a + sint b) sdiv 2)"

definition modem_to_sip_frame :: "byte8 list \<Rightarrow> (int16 list \<times> byte8 list) option" where
  "modem_to_sip_frame raw16 =
     do { far \<leftarrow> those (map (\<lambda>i. do { a \<leftarrow> get16 raw16 (i * 4); b \<leftarrow> get16 raw16 (i * 4 + 2); Some (average2 a b) })
                        [0..<160]);
          Some (far, int16Bytes far) }"

text \<open>\<^verbatim>\<open>writePCMRealtime\<close> writes frames of 320 samples.\<close>

function pcm_frames :: "int16 list \<Rightarrow> byte8 list list" where
  "pcm_frames pcm = (if pcm = [] then [] else int16Bytes (take 320 pcm) # pcm_frames (drop 320 pcm))"
  by pat_completeness auto
termination
  by (relation "measure length") auto

declare pcm_frames.simps [simp del]

end
