(* ===== verification/Media_Wav_Props.thy ===== *)
theory Media_Wav_Props
  imports Media_Wav
begin

text \<open>
  What the audio formats guarantee: \<^verbatim>\<open>parseWAV\<close> never reads outside its input and reads back what
  \<^verbatim>\<open>encodeWAV\<close> writes, the arithmetic on samples never leaves its width, and the two SIP bridges undo
  each other.
\<close>

subsection \<open>No read outside the input\<close>

lemma bind_not_None: "m \<noteq> None \<Longrightarrow> (\<And>x. m = Some x \<Longrightarrow> f x \<noteq> None) \<Longrightarrow> Option.bind m f \<noteq> None"
  by (cases m) auto

lemma those_not_None: "(\<And>x. x \<in> set xs \<Longrightarrow> f x \<noteq> None) \<Longrightarrow> those (map f xs) \<noteq> None"
  by (induction xs) (auto simp del: not_None_eq split: option.split)

lemma those_length: "those xs = Some ys \<Longrightarrow> length ys = length xs"
  by (induction xs arbitrary: ys) (auto split: option.splits)

lemma those_map_Some: "(\<And>x. x \<in> set xs \<Longrightarrow> f x = Some (g x)) \<Longrightarrow> those (map f xs) = Some (map g xs)"
  by (induction xs) auto

lemma subslice_None: "subslice xs i j = None \<longleftrightarrow> \<not> (i \<le> j \<and> j \<le> length xs)"
  by (simp add: subslice_def)

lemma chunk_names [simp]: "ascii ''data'' \<noteq> ascii ''fmt ''" "ascii ''fmt '' \<noteq> ascii ''data''"
  by (simp_all add: ascii_def)

lemma read_fmt_reads: "start + 16 \<le> length raw \<Longrightarrow> read_fmt raw start h \<noteq> None"
  unfolding read_fmt_def by (intro bind_not_None) (auto simp: get16_None get32_None)

lemma read_chunk_reads: "pos + 8 \<le> length raw \<Longrightarrow> read_chunk raw pos h \<noteq> None"
  unfolding read_chunk_def
  by (intro bind_not_None)
    (auto simp: get32_None subslice_None Let_def Option.bind_eq_None_conv read_fmt_reads simp del: not_None_eq)

lemma wav_chunks_reads: "wav_chunks raw pos h \<noteq> None"
  by (induction raw pos h rule: wav_chunks.induct)
    (subst wav_chunks.simps, auto simp: not_less read_chunk_reads simp del: not_None_eq split: option.split sum.split)

lemma sum_channels_reads: "(from + n) * 2 \<le> length data \<Longrightarrow> sum_channels data from n acc \<noteq> None"
  by (induction data "from" n acc rule: sum_channels.induct)
    (auto simp: get16_None Option.bind_eq_None_conv)

lemma mono_sample_reads:
  assumes "i < length data div 2 div channels"
  shows "mono_sample data channels i \<noteq> None"
proof -
  have "Suc i * channels \<le> length data div 2"
    using assms by (metis Suc_leI le_trans mult_le_mono1 div_times_less_eq_dividend)
  then have "(i * channels + channels) * 2 \<le> length data" by simp
  from sum_channels_reads [OF this] show ?thesis by (simp add: mono_sample_def)
qed

lemma mono_source_reads: "mono_source data channels \<noteq> None"
  unfolding mono_source_def by (intro those_not_None) (simp add: mono_sample_reads)

lemma mono_source_length: "mono_source data channels = Some src \<Longrightarrow> length src = length data div 2 div channels"
  by (simp add: mono_source_def those_length)

lemma resample_reads: "source \<noteq> [] \<Longrightarrow> resample source rate \<noteq> None"
  unfolding resample_def
  by (intro those_not_None)
    (auto simp: resample_at_def nth_opt_def Let_def Option.bind_eq_None_conv split: if_splits)

lemma head_ok_source: "head_ok h \<Longrightarrow> mono_source (wh_data h) (wh_channels h) = Some src \<Longrightarrow> src \<noteq> []"
  by (frule mono_source_length) (auto simp: head_ok_def div_eq_0_iff)

lemma parseWAV_defined: "parseWAV raw \<noteq> None"
  unfolding parseWAV_def
  by (auto simp: wav_chunks_reads mono_source_reads Let_def Option.bind_eq_None_conv resample_reads head_ok_source
      simp del: not_None_eq split: option.split sum.split)

text \<open>C21: \<^verbatim>\<open>parseWAV\<close> never panics: on no input, however malformed (an uploaded greeting is arbitrary bytes),
  does it read outside a slice; it returns samples or an error.\<close>

theorem parseWAV_never_panics:
  "\<exists>pcm e d. parseWAV raw = Some (Inr pcm, d) \<or> parseWAV raw = Some (Inl e, d)"
  using parseWAV_defined [of raw] by (metis not_None_eq surj_pair sum.exhaust_sel)

subsection \<open>Sample arithmetic\<close>

lemma sint16: "- 32768 \<le> sint (v :: int16)" "sint (v :: int16) \<le> 32767"
  using sint_ge [of v] sint_lt [of v] by simp_all

lemma sint_to_int16: "- 32768 \<le> i \<Longrightarrow> i \<le> 32767 \<Longrightarrow> sint (to_int16 i) = i"
  by (simp add: to_int16_def sint_sbintrunc' signed_take_bit_int_eq_self)

lemma to_int16_sint [simp]: "to_int16 (sint v) = v"
  by (simp add: to_int16_def)

lemma wrap32_id: "- 2147483648 \<le> i \<Longrightarrow> i < 2147483648 \<Longrightarrow> wrap32 i = i"
  by (simp add: wrap32_def signed_take_bit_int_eq_self)

lemma sdiv_range:
  fixes a k :: int
  assumes "0 < k" "- 32768 * k \<le> a" "a \<le> 32767 * k"
  shows "- 32768 \<le> a sdiv k" "a sdiv k \<le> 32767"
proof -
  have "a sdiv k = (if 0 \<le> a then a div k else - (- a div k))"
    using assms(1) by (auto simp: signed_divide_int_def sgn_if)
  moreover have "0 \<le> a \<Longrightarrow> a div k \<le> 32767" using assms zdiv_mono1 [of a "32767 * k" k] by simp
  moreover have "- a div k \<le> 32768" using assms zdiv_mono1 [of "- a" "32768 * k" k] by simp
  moreover have "0 \<le> a \<Longrightarrow> 0 \<le> a div k" "\<not> 0 \<le> a \<Longrightarrow> 0 \<le> - a div k"
    using assms(1) by (simp_all add: pos_imp_zdiv_nonneg_iff)
  ultimately show "- 32768 \<le> a sdiv k" "a sdiv k \<le> 32767" by (auto split: if_splits)
qed

text \<open>The exact sum of the channels of a frame.\<close>

fun channel_sum :: "byte8 list \<Rightarrow> nat \<Rightarrow> nat \<Rightarrow> int" where
  "channel_sum data from 0 = 0"
| "channel_sum data from (Suc n) = sint (the (get16 data (from * 2))) + channel_sum data (Suc from) n"

lemma channel_sum_range: "- 32768 * int n \<le> channel_sum data from n \<and> channel_sum data from n \<le> 32767 * int n"
proof (induction data "from" n rule: channel_sum.induct)
  case (2 data "from" n)
  then show ?case using sint16 [of "the (get16 data (from * 2))"] by simp
qed simp

lemma sum_channels_exact:
  assumes "sum_channels data from n acc = Some t" "\<bar>acc\<bar> \<le> 32768 * (8 - int n)" "n \<le> 8"
  shows "t = acc + channel_sum data from n"
  using assms
proof (induction data "from" n acc rule: sum_channels.induct)
  case (2 data "from" n acc)
  then obtain v where v: "get16 data (from * 2) = Some v"
    "sum_channels data (Suc from) n (wrap32 (acc + sint v)) = Some t"
    by (auto simp: Option.bind_eq_Some_conv)
  have "wrap32 (acc + sint v) = acc + sint v"
    using 2(3,4) sint16 [of v] by (intro wrap32_id) (auto simp: algebra_simps)
  moreover have "\<bar>acc + sint v\<bar> \<le> 32768 * (8 - int n)"
    using 2(3) sint16 [of v] by (auto simp: algebra_simps)
  ultimately show ?case using 2(1) [OF v(1)] v 2(4) by simp
qed simp

text \<open>Mixing down to one channel never leaves the width of the numbers: for up to eight channels
  the 32-bit sum does not wrap and its average, truncated towards zero, fits in 16 bits.\<close>

theorem mono_sample_exact:
  assumes "1 \<le> channels" "channels \<le> 8" "i < length data div 2 div channels"
  shows "\<exists>v. mono_sample data channels i = Some v \<and>
    sint v = channel_sum data (i * channels) channels sdiv int channels"
proof -
  obtain t where t: "sum_channels data (i * channels) channels 0 = Some t"
    using mono_sample_reads [OF assms(3)] by (auto simp: mono_sample_def)
  then have "t = channel_sum data (i * channels) channels"
    using sum_channels_exact [OF t] assms by simp
  then show ?thesis
    using channel_sum_range [of channels data "i * channels"] sdiv_range [of "int channels" t] assms(1) t
    by (simp add: mono_sample_def sint_to_int16)
qed

lemma mix_sample_value:
  "sint (mix_sample v near) = max (- 32768) (min 32767 (sint v + sint near)) sdiv 2"
proof -
  let ?s = "max (- 32768) (min 32767 (sint v + sint near))"
  have "wrap32 (sint v + sint near) = sint v + sint near"
    using sint16 [of v] sint16 [of near] by (intro wrap32_id) auto
  moreover have "- 32768 \<le> ?s sdiv 2" "?s sdiv 2 \<le> 32767" using sdiv_range [of 2 ?s] by auto
  ultimately show ?thesis by (auto simp: mix_sample_def Let_def sint_to_int16 max_def min_def)
qed

lemma average2_value: "sint (average2 a b) = (sint a + sint b) sdiv 2"
proof -
  have "wrap32 (sint a + sint b) = sint a + sint b"
    using sint16 [of a] sint16 [of b] by (intro wrap32_id) auto
  moreover have "- 32768 \<le> (sint a + sint b) sdiv 2" "(sint a + sint b) sdiv 2 \<le> 32767"
    using sdiv_range [of 2 "sint a + sint b"] sint16 [of a] sint16 [of b] by auto
  ultimately show ?thesis by (simp add: average2_def sint_to_int16)
qed

subsection \<open>Resampling\<close>

lemma weight_error: "0 \<le> f \<Longrightarrow> f \<le> 1 \<Longrightarrow> 0 \<le> fl (1 - f) \<and> fl (1 - f) \<le> 1 \<and> \<bar>fl (1 - f) - (1 - f)\<bar> \<le> pow2 (- 53)"
  using fl_unit [of "1 - f"] fl_error [of "1 - f" 1] by (simp add: pow2_def)

lemma weighted:
  assumes "0 \<le> g" "g \<le> 1"
  shows "of_int (sint (a :: int16)) * g \<le> 32767 * g" "- (32768 * g) \<le> of_int (sint a) * g"
    "\<bar>fl (of_int (sint a) * g) - of_int (sint a) * g\<bar> \<le> pow2 (- 38)"
proof -
  have "of_int (sint a) \<le> (of_int 32767 :: rat)" "(of_int (- 32768) :: rat) \<le> of_int (sint a)"
    using sint16 [of a] by (simp_all only: of_int_le_iff)
  then have r: "of_int (sint a) \<le> (32767 :: rat)" "- 32768 \<le> (of_int (sint a) :: rat)" by simp_all
  from mult_right_mono [OF r(1) assms(1)] mult_right_mono [OF r(2) assms(1)]
  show ineq: "of_int (sint a) * g \<le> 32767 * g" "- (32768 * g) \<le> of_int (sint a) * g" by simp_all
  then have "\<bar>of_int (sint a) * g\<bar> < pow2 16"
    using assms by (auto simp: pow2_def abs_less_iff)
  from fl_error [OF this] show "\<bar>fl (of_int (sint a) * g) - of_int (sint a) * g\<bar> \<le> pow2 (- 38)" by simp
qed

lemma lerp_range:
  assumes "0 \<le> f" "f \<le> 1"
  shows "- 32768 \<le> truncate_to (lerp a b f)" "truncate_to (lerp a b f) \<le> 32767"
proof -
  define g where "g = fl (1 - f)"
  define t where "t = fl (of_int (sint a) * g) + fl (of_int (sint b) * f)"
  have g: "0 \<le> g" "g \<le> 1" "\<bar>g - (1 - f)\<bar> \<le> 1 / 2 ^ 53"
    using weight_error [OF assms] by (simp_all add: g_def pow2_def)
  have eps: "pow2 (- 38) = 1 / 2 ^ 38" by (simp add: pow2_def)
  note wa = weighted [OF g(1,2), of a, unfolded eps] and wb = weighted [OF assms, of b, unfolded eps]
  have t: "t \<le> 32767 + 1 / 4" "- 32768 - 1 / 4 \<le> t"
    using wa wb g(3) unfolding t_def abs_le_iff by (simp_all add: field_simps)
  then have "\<bar>t\<bar> < pow2 17" by (auto simp: pow2_def abs_less_iff)
  from fl_error [OF this] have "\<bar>fl t - t\<bar> \<le> 1 / 4" by (simp add: pow2_def)
  then have "of_int (- 32768) - 1 < fl t" "fl t < of_int 32767 + 1" using t unfolding abs_le_iff by auto
  from truncate_to_range [OF this(1) _ this(2)]
  show "- 32768 \<le> truncate_to (lerp a b f)" "truncate_to (lerp a b f) \<le> 32767"
    by (simp_all add: lerp_def t_def g_def)
qed

text \<open>Resampling never converts a number that does not fit: where \<^verbatim>\<open>parseWAV\<close> interpolates between two
  samples in \<^verbatim>\<open>float64\<close>, with all its rounding, the result lies in the range of 16 bits, so the stored
  sample is the truncated interpolation.\<close>

theorem resample_in_range:
  assumes "p = fl (fl (of_nat i * of_nat rate) / 16000)" "left = nat (truncate_to p)" "left + 1 < length source"
  shows "\<exists>v. resample_at source rate i = Some v \<and>
    sint v = truncate_to (lerp (source ! left) (source ! (left + 1)) (fl (p - of_nat left)))"
proof -
  have "0 \<le> p" by (simp add: assms(1) fl_nonneg)
  then have "0 \<le> fl (p - of_nat left)" "fl (p - of_nat left) \<le> 1"
    using fl_unit truncate_to_fraction [of p] by (auto simp: assms(2))
  from lerp_range [OF this] have "sint (to_int16 (truncate_to (lerp (source ! left) (source ! (left + 1)) (fl (p - of_nat left)))))
    = truncate_to (lerp (source ! left) (source ! (left + 1)) (fl (p - of_nat left)))"
    by (intro sint_to_int16)
  moreover have "resample_at source rate i =
      Some (to_int16 (truncate_to (lerp (source ! left) (source ! (left + 1)) (fl (p - of_nat left)))))"
    using assms(3) unfolding resample_at_def Let_def assms(1)[symmetric] assms(2)[symmetric]
    by (auto simp: nth_opt_def)
  ultimately show ?thesis by simp
qed

theorem resample_in_range_witness:
  "\<exists>v. resample_at [0, 32767, 32767] 8000 1 = Some v \<and> sint v = truncate_to (lerp 0 32767 (1 / 2))"
proof -
  have half: "fl (1 / 2) = 1 / 2" by code_simp
  have "truncate_to (1 / 2) = 0" by code_simp
  then have left: "0 = nat (truncate_to (1 / 2))" by simp
  have position: "1 / 2 = fl (fl (of_nat 1 * of_nat 8000) / 16000)" using fl_of_int [of 8000] half by simp
  have "0 + 1 < length [0, 32767, 32767 :: int16]" by simp
  from resample_in_range [OF position left this] show ?thesis
    by (simp add: half)
qed

subsection \<open>Round trips\<close>

lemma get16_at: "b = xs @ le16 w @ ys \<Longrightarrow> length xs = i \<Longrightarrow> get16 b i = Some w"
  by (auto simp: get16_def)

lemma get32_at: "b = xs @ le32 w @ ys \<Longrightarrow> length xs = i \<Longrightarrow> get32 b i = Some w"
  by (auto simp: get32_def)

lemma subslice_at: "b = xs @ ys @ zs \<Longrightarrow> length xs = i \<Longrightarrow> i + length ys = j \<Longrightarrow> subslice b i j = Some ys"
  by (auto simp: subslice_def)

lemma length_ascii [simp]: "length (ascii s) = length s"
  by (simp add: ascii_def)

lemma length_int16Bytes [simp]: "length (int16Bytes p) = 2 * length p"
  by (simp add: int16Bytes_def samples.length_cells)

lemma int16Bytes_eq_Nil [simp]: "int16Bytes p = [] \<longleftrightarrow> p = []"
  by (cases p) (simp_all add: int16Bytes_def le16_def)

lemma int16Bytes_append: "int16Bytes (p @ q) = int16Bytes p @ int16Bytes q"
  by (simp add: int16Bytes_def)

lemma get16_int16Bytes: "i < length p \<Longrightarrow> get16 (int16Bytes p) (i * 2) = Some (p ! i)"
  using arg_cong [OF id_take_nth_drop [of i p], of int16Bytes]
  by (intro get16_at [where xs = "int16Bytes (take i p)" and ys = "int16Bytes (drop (Suc i) p)"])
    (simp_all add: int16Bytes_append, simp add: int16Bytes_def)

lemma mono_source_int16Bytes: "mono_source (int16Bytes p) 1 = Some p"
proof -
  have "mono_sample (int16Bytes p) 1 i = Some (p ! i)" if "i < length p" for i
    using get16_int16Bytes [OF that] sint16 [of "p ! i"] by (simp add: mono_sample_def wrap32_id)
  then have "mono_source (int16Bytes p) 1 = Some (map (\<lambda>i. p ! i) [0..<length p])"
    unfolding mono_source_def by (subst those_map_Some [where g = "\<lambda>i. p ! i"]) auto
  then show ?thesis by (simp add: map_nth)
qed

text \<open>The limit of 30 seconds, computed in \<^verbatim>\<open>float64\<close>, is exact.\<close>

lemma duration_at_most:
  assumes "0 < rate" "n \<le> 30 * rate"
  shows "wav_duration n rate \<le> 30 * second"
proof -
  let ?x = "of_nat n / of_nat rate :: rat"
  have "of_nat n \<le> (of_nat (30 * rate) :: rat)" using assms(2) by (simp only: of_nat_le_iff)
  then have x: "0 \<le> ?x" "?x \<le> of_int 30" using assms(1) by (simp_all add: divide_le_eq)
  then have "\<bar>?x\<bar> < 2 ^ 53" by (simp add: abs_less_iff)
  from fl_le_int [OF this x(2)] fl_nonneg [OF x(1)]
  have y: "0 \<le> fl ?x * of_int second" "fl ?x * of_int second \<le> of_int (30 * second)"
    by (simp_all add: second_def)
  then have "\<bar>fl ?x * of_int second\<bar> < 2 ^ 53" by (simp add: second_def abs_less_iff)
  from fl_le_int [OF this y(2)] fl_nonneg [OF y(1)] show ?thesis
    unfolding wav_duration_def by (intro truncate_to_le)
qed

lemma duration_more_than:
  assumes "8000 \<le> rate" "rate \<le> 192000" "30 * rate < n" "n < 2 ^ 32"
  shows "30 * second < wav_duration n rate"
proof -
  define x where "x = (of_nat n / of_nat rate :: rat)"
  have "of_nat 8000 \<le> (of_nat rate :: rat)" "(of_nat rate :: rat) \<le> of_nat 192000"
    "of_nat (30 * rate + 1) \<le> (of_nat n :: rat)" "(of_nat n :: rat) < of_nat (2 ^ 32)"
    using assms by (simp_all only: of_nat_le_iff of_nat_less_iff)
  then have r: "8000 \<le> (of_nat rate :: rat)" "(of_nat rate :: rat) \<le> 192000"
    and n: "30 * of_nat rate + 1 \<le> (of_nat n :: rat)" "(of_nat n :: rat) < 2 ^ 32" by simp_all
  have "1 / 192000 \<le> (1 / of_nat rate :: rat)" using r by (simp add: frac_le)
  moreover have "(30 * of_nat rate + 1) / of_nat rate \<le> x" unfolding x_def using n(1) by (rule divide_right_mono) simp
  moreover have "(30 * of_nat rate + 1) / of_nat rate = 30 + (1 / of_nat rate :: rat)"
    using r(1) by (simp add: add_divide_distrib)
  ultimately have low: "30 + 1 / 192000 \<le> x" by linarith
  have "x \<le> 2 ^ 32 / 8000" unfolding x_def using n r(1) by (intro frac_le) auto
  then have high: "x \<le> of_int 1000000" "\<bar>x\<bar> < 2 ^ 53" using low by (auto simp: abs_less_iff)
  note top = fl_le_int [OF high(2,1)]
  have y: "30 + 1 / 192001 \<le> fl x"
  proof (cases "x < 2 ^ 5")
    case True
    then have "\<bar>x\<bar> < pow2 5" using low by (simp add: pow2_def abs_less_iff)
    from fl_error [OF this] have "\<bar>fl x - x\<bar> \<le> 1 / 2 ^ 49" by (simp add: pow2_def)
    then show ?thesis using low unfolding abs_le_iff by auto
  next
    case False
    then show ?thesis using fl_ge_int [of x 32] high(2) by simp
  qed
  let ?z = "fl x * of_int second"
  have z: "of_int (30 * second + 1) \<le> ?z" "\<bar>?z\<bar> < 2 ^ 53"
    using y top by (auto simp: second_def abs_less_iff)
  from fl_ge_int [OF z(2,1)] have "of_int (30 * second + 1) \<le> fl ?z" .
  from truncate_to_mono [OF _ this] show ?thesis
    by (simp only: wav_duration_def x_def truncate_to_of_int) (simp add: second_def)
qed

lemma duration_limit:
  assumes "8000 \<le> rate" "rate \<le> 192000" "n < 2 ^ 32"
  shows "wav_duration n rate \<le> 30 * second \<longleftrightarrow> n \<le> 30 * rate"
  using duration_at_most [of rate n] duration_more_than [of rate n] assms by (metis gr0I le_zero_eq not_le zero_neq_numeral)

text \<open>A mono file at any rate; \<^verbatim>\<open>encodeWAV\<close> writes the one at 16 kHz.\<close>

definition wav_at :: "32 word \<Rightarrow> int16 list \<Rightarrow> byte8 list" where
  "wav_at rate pcm =
     ascii ''RIFF'' @ le32 (of_nat (44 + length pcm * 2 - 8)) @ ascii ''WAVE'' @
     ascii ''fmt '' @ le32 16 @ le16 1 @ le16 1 @ le32 rate @ le32 (2 * rate) @ le16 2 @ le16 16 @
     ascii ''data'' @ le32 (of_nat (length pcm * 2)) @ int16Bytes pcm"

lemma encodeWAV_wav_at: "encodeWAV pcm = wav_at 16000 pcm"
  by (simp add: encodeWAV_def wav_at_def)

lemma wav_at_length [simp]: "length (wav_at rate pcm) = 44 + 2 * length pcm"
  by (simp add: wav_at_def)

lemma encodeWAV_length [simp]: "length (encodeWAV pcm) = 44 + 2 * length pcm"
  by (simp add: encodeWAV_wav_at)

lemma wav_at_fmt:
  "read_chunk (wav_at rate pcm) 12 no_head =
    Some (Inr (36, 16, no_head\<lparr>wh_format := 1, wh_channels := 1, wh_rate := unat rate, wh_bits := 16\<rparr>))"
proof -
  let ?raw = "wav_at rate pcm"
  let ?h = "ascii ''RIFF'' @ le32 (of_nat (44 + length pcm * 2 - 8)) @ ascii ''WAVE''"
  have "subslice ?raw 12 16 = Some (ascii ''fmt '')" "get32 ?raw 16 = Some 16"
    "get16 ?raw 20 = Some 1" "get16 ?raw 22 = Some 1" "get32 ?raw 24 = Some rate" "get16 ?raw 34 = Some 16"
    by (rule subslice_at [where xs = ?h], simp_all add: wav_at_def,
        rule get32_at [where xs = "?h @ ascii ''fmt ''"], simp_all,
        rule get16_at [where xs = "?h @ ascii ''fmt '' @ le32 16"], simp_all,
        rule get16_at [where xs = "?h @ ascii ''fmt '' @ le32 16 @ le16 1"], simp_all,
        rule get32_at [where xs = "?h @ ascii ''fmt '' @ le32 16 @ le16 1 @ le16 1"], simp_all,
        rule get16_at [where xs = "?h @ ascii ''fmt '' @ le32 16 @ le16 1 @ le16 1 @ le32 rate @ le32 (2 * rate) @ le16 2"],
        simp_all)
  then show ?thesis by (simp add: read_chunk_def read_fmt_def Let_def)
qed

lemma wav_at_data:
  assumes "2 * length pcm < 2 ^ 32"
  shows "read_chunk (wav_at rate pcm) 36 h = Some (Inr (44 + 2 * length pcm, 2 * length pcm, h\<lparr>wh_data := int16Bytes pcm\<rparr>))"
proof -
  let ?raw = "wav_at rate pcm"
  let ?h = "ascii ''RIFF'' @ le32 (of_nat (44 + length pcm * 2 - 8)) @ ascii ''WAVE'' @ ascii ''fmt '' @ le32 16 @
    le16 1 @ le16 1 @ le32 rate @ le32 (2 * rate) @ le16 2 @ le16 16"
  let ?n = "of_nat (length pcm * 2)"
  have "subslice ?raw 36 40 = Some (ascii ''data'')" "get32 ?raw 40 = Some ?n"
    "subslice ?raw 44 (44 + 2 * length pcm) = Some (int16Bytes pcm)"
    by (rule subslice_at [where xs = ?h], simp_all add: wav_at_def,
        rule get32_at [where xs = "?h @ ascii ''data''"], simp_all,
        rule subslice_at [where xs = "?h @ ascii ''data'' @ le32 ?n" and zs = "[]"], simp_all)
  moreover have "unat (?n :: 32 word) = 2 * length pcm"
    using assms by (simp add: unat_of_nat mult.commute del: of_nat_mult)
  ultimately show ?thesis by (simp add: read_chunk_def Let_def)
qed

lemma wav_at_chunks:
  assumes "2 * length pcm < 2 ^ 32"
  shows "wav_chunks (wav_at rate pcm) 12 no_head = Some (Inr \<lparr>wh_rate = unat rate, wh_channels = 1, wh_bits = 16,
    wh_format = 1, wh_data = int16Bytes pcm\<rparr>)"
  by (subst wav_chunks.simps, simp add: wav_at_fmt, subst wav_chunks.simps,
      simp add: wav_at_data [OF assms] no_head_def)

lemma wav_at_magic:
  "subslice (wav_at rate pcm) 0 4 = Some (ascii ''RIFF'')" "subslice (wav_at rate pcm) 8 12 = Some (ascii ''WAVE'')"
  by (rule subslice_at [where xs = "[]"], simp_all add: wav_at_def,
      rule subslice_at [where xs = "ascii ''RIFF'' @ le32 (of_nat (44 + length pcm * 2 - 8))"], simp_all)

lemma parse_wav_at:
  assumes "2 * length pcm < 2 ^ 32" "8000 \<le> unat rate" "unat rate \<le> 192000"
  shows "parseWAV (wav_at rate pcm) =
    (if pcm = [] then Some (Inl prompt_invalid, 0)
     else let d = wav_duration (length pcm) (unat rate) in
       if 30 * unat rate < length pcm then Some (Inl greeting_too_long, d)
       else if unat rate = 16000 then Some (Inr pcm, d)
       else map_option (\<lambda>t. (Inr t, d)) (resample pcm (unat rate)))"
proof -
  have "wav_duration (length pcm) (unat rate) \<le> 30 * second \<longleftrightarrow> length pcm \<le> 30 * unat rate"
    using duration_limit [of "unat rate" "length pcm"] assms by simp
  moreover have "1 \<le> length pcm" if "pcm \<noteq> []" using that by (cases pcm) auto
  ultimately show ?thesis
    using assms(2,3) unfolding parseWAV_def wav_at_chunks [OF assms(1)]
    by (auto simp: wav_at_magic head_ok_def mono_source_int16Bytes [simplified] Let_def not_less
        map_option_case split: option.split)
qed

text \<open>One sample at 192 kHz is less than one sample at 16 kHz.\<close>

lemma parse_tiny: "parseWAV (wav_at 192000 [v]) = Some (Inr [], wav_duration 1 192000)"
  using parse_wav_at [of "[v]" 192000] by (simp add: Let_def resample_def)

lemma parseWAV_encodeWAV:
  assumes "2 * length pcm < 2 ^ 32"
  shows "parseWAV (encodeWAV pcm) =
    (if pcm = [] then Some (Inl prompt_invalid, 0)
     else if length pcm \<le> 480000 then Some (Inr pcm, wav_duration (length pcm) 16000)
     else Some (Inl greeting_too_long, wav_duration (length pcm) 16000))"
  using parse_wav_at [of pcm 16000] assms by (auto simp: encodeWAV_wav_at Let_def not_le)

text \<open>C22: \<^verbatim>\<open>parseWAV\<close> reads back exactly what \<^verbatim>\<open>encodeWAV\<close> writes: for any recording of one sample up to 30
  seconds the samples come back unchanged.\<close>

theorem wav_roundtrip:
  assumes "pcm \<noteq> []" "length pcm \<le> 480000"
  shows "parseWAV (encodeWAV pcm) = Some (Inr pcm, wav_duration (length pcm) 16000)"
  using parseWAV_encodeWAV [of pcm] assms by simp

theorem wav_roundtrip_witness:
  "parseWAV (encodeWAV [1, - 2]) = Some (Inr [1, - 2], wav_duration 2 16000)"
  using wav_roundtrip [of "[1, - 2]"] by (simp add: numeral_2_eq_2)

subsection \<open>How much a file holds\<close>

lemma read_chunk_data:
  assumes "read_chunk raw pos h = Some (Inr (stop, sz, h'))" "length (wh_data h) \<le> length raw"
  shows "length (wh_data h') \<le> length raw"
  using assms
  by (auto simp: read_chunk_def read_fmt_def Let_def Option.bind_eq_Some_conv subslice_def split: if_splits)

lemma wav_chunks_data:
  "wav_chunks raw pos h = Some (Inr h') \<Longrightarrow> length (wh_data h) \<le> length raw \<Longrightarrow> length (wh_data h') \<le> length raw"
proof (induction raw pos h rule: wav_chunks.induct)
  case (1 raw pos h)
  then show ?case
    by (subst (asm) (2) wav_chunks.simps)
      (auto dest: read_chunk_data split: if_splits option.splits sum.splits prod.splits)
qed

lemma resample_length: "resample source rate = Some t \<Longrightarrow> length t = length source * 16000 div rate"
  by (simp add: resample_def those_length)

lemma parsed_length:
  assumes "parseWAV raw = Some (Inr pcm, d)" "length raw < 2 ^ 32"
  shows "length pcm \<le> 480000"
proof -
  obtain h src where h: "wav_chunks raw 12 no_head = Some (Inr h)" "head_ok h"
    and src: "mono_source (wh_data h) (wh_channels h) = Some src"
    and d: "\<not> 30 * second < wav_duration (length src) (wh_rate h)"
    and pcm: "wh_rate h = 16000 \<and> pcm = src \<or> resample src (wh_rate h) = Some pcm"
    using assms(1)
    by (auto simp: parseWAV_def Let_def Option.bind_eq_Some_conv split: if_splits option.splits sum.splits)
  have "length src \<le> length (wh_data h)" using mono_source_length [OF src] div_le_dividend le_trans by metis
  also have "\<dots> \<le> length raw" using wav_chunks_data [OF h(1)] by (simp add: no_head_def)
  finally have "length src < 2 ^ 32" using assms(2) by simp
  then have "length src \<le> 30 * wh_rate h"
    using d duration_limit [of "wh_rate h" "length src"] h(2) by (auto simp: head_ok_def)
  then have "length src * 16000 div wh_rate h \<le> 480000"
    using h(2) div_le_mono [of "length src * 16000" "480000 * wh_rate h" "wh_rate h"] by (simp add: head_ok_def)
  then show ?thesis using pcm resample_length \<open>length src \<le> 30 * wh_rate h\<close> by auto
qed

subsection \<open>The SIP bridges\<close>

lemma average2_same: "average2 v v = v"
proof -
  have "sint (average2 v v) = sint v"
    using nonzero_mult_div_cancel_left [of 2 "- sint v"]
    by (simp add: average2_value signed_divide_int_def sgn_if abs_if)
  then show ?thesis by (metis to_int16_sint)
qed

lemma those_get16_int16Bytes: "those (map (\<lambda>i. get16 (int16Bytes p) (i * 2)) [0..<length p]) = Some p"
  using those_map_Some [of "[0..<length p]" "\<lambda>i. get16 (int16Bytes p) (i * 2)" "\<lambda>i. p ! i"]
  by (simp add: get16_int16Bytes map_nth)

definition doubled :: "int16 list \<Rightarrow> int16 list" where
  "doubled p = concat (map (\<lambda>v. [v, v]) p)"

lemma length_doubled [simp]: "length (doubled p) = 2 * length p"
  by (induction p) (auto simp: doubled_def)

lemma nth_doubled: "i < 2 * length p \<Longrightarrow> doubled p ! i = p ! (i div 2)"
proof (induction p arbitrary: i)
  case (Cons v p)
  then show ?case
    by (cases i rule: nat.exhaust; cases "i - 1" rule: nat.exhaust) (auto simp: doubled_def)
qed simp

lemma sip_to_modem_int16Bytes: "sip_to_modem_frame (int16Bytes p) = Some (p, int16Bytes (doubled p))"
proof -
  have "concat (map (\<lambda>v. le16 v @ le16 v) p) = int16Bytes (doubled p)"
    by (induction p) (simp_all add: int16Bytes_def doubled_def)
  then show ?thesis by (simp add: sip_to_modem_frame_def sip_samples_def those_get16_int16Bytes)
qed

text \<open>A frame that goes from the SIP side to the modem and comes back is unchanged: the samples are
  doubled to 16 kHz, and the average of the two copies of a sample is the sample.\<close>

theorem sip_bridge_roundtrip:
  assumes "length p = 160"
  shows "sip_to_modem_frame (int16Bytes p) = Some (p, int16Bytes (doubled p)) \<and>
    modem_to_sip_frame (int16Bytes (doubled p)) = Some (p, int16Bytes p)"
proof -
  have "get16 (int16Bytes (doubled p)) (i * 4) = Some (p ! i)" "get16 (int16Bytes (doubled p)) (i * 4 + 2) = Some (p ! i)"
    if "i < 160" for i
    using that assms get16_int16Bytes [of "2 * i" "doubled p"] get16_int16Bytes [of "2 * i + 1" "doubled p"]
    by (simp_all add: nth_doubled mult.commute)
  then have "those (map (\<lambda>i. do { a \<leftarrow> get16 (int16Bytes (doubled p)) (i * 4);
      b \<leftarrow> get16 (int16Bytes (doubled p)) (i * 4 + 2); Some (average2 a b) }) [0..<160]) = Some (map (\<lambda>i. p ! i) [0..<160])"
    by (intro those_map_Some) (simp add: average2_same)
  then show ?thesis
    using map_nth [of p] assms by (simp add: modem_to_sip_frame_def sip_to_modem_int16Bytes)
qed

theorem sip_bridge_roundtrip_witness:
  "modem_to_sip_frame (int16Bytes (doubled (replicate 160 7))) = Some (replicate 160 7, int16Bytes (replicate 160 7))"
  using sip_bridge_roundtrip [of "replicate 160 7"] by simp

lemma pcm_frames_bytes: "concat (pcm_frames pcm) = int16Bytes pcm"
proof (induction pcm rule: pcm_frames.induct)
  case (1 pcm)
  then show ?case
    by (subst pcm_frames.simps) (auto simp: int16Bytes_def simp flip: concat_append map_append)
qed

lemma pcm_frames_size: "f \<in> set (pcm_frames pcm) \<Longrightarrow> 0 < length f \<and> length f \<le> 640"
proof (induction pcm rule: pcm_frames.induct)
  case (1 pcm)
  then show ?case
    by (subst (asm) (2) pcm_frames.simps) (auto split: if_splits)
qed

end
