(* ===== verification/Media_Tone.thy ===== *)
theory Media_Tone
  imports Media_Wav_Props
begin

text \<open>
  The tones of the media manager (\<^verbatim>\<open>waitingTonePCM\<close>, \<^verbatim>\<open>dualTonePCM\<close>, \<^verbatim>\<open>sinePCM\<close> and \<^verbatim>\<open>clampPCM\<close>). The
  sine of Go's \<^verbatim>\<open>math\<close> package is the parameter \<open>sn\<close>; all that is used of it is that its values
  lie between -1 and 1.
\<close>

text \<open>\<^verbatim>\<open>Duration.Seconds\<close>\<close>

definition Seconds :: "duration \<Rightarrow> float64" where
  "Seconds d = fl (of_int (d sdiv second) + fl (of_int (d - second * (d sdiv second)) / of_int second))"

definition millisecond :: int where
  "millisecond = 1000000"

definition tone_count :: "duration \<Rightarrow> nat" where
  "tone_count d = nat (truncate_to (fl (16000 * Seconds d)))"

text \<open>The exact constant \<^verbatim>\<open>2 * math.Pi\<close>, rounded where it meets a \<^verbatim>\<open>float64\<close>.\<close>

definition two_pi :: rat where
  "two_pi = fl (2 * (314159265358979323846264338327950288419716939937510582097494459 / 10 ^ 62))"

definition tone_envelope :: "nat \<Rightarrow> nat \<Rightarrow> float64" where
  "tone_envelope cnt i =
     (if i < 160 then fl (of_nat i / 160)
      else if cnt - i < 160 then fl (of_nat (cnt - i) / 160)
      else 1)"

definition tone_angle :: "float64 \<Rightarrow> nat \<Rightarrow> float64" where
  "tone_angle frequency i = fl (fl (fl (two_pi * frequency) * of_nat i) / 16000)"

definition dual_value :: "(float64 \<Rightarrow> float64) \<Rightarrow> float64 \<Rightarrow> float64 \<Rightarrow> nat \<Rightarrow> float64 \<Rightarrow> nat \<Rightarrow> float64" where
  "dual_value sn f1 f2 cnt amplitude i =
     (let a = sn (tone_angle f1 i); b = sn (tone_angle f2 i)
      in fl (fl (fl (fl (fl (a + b) * (1 / 2)) * amplitude) * tone_envelope cnt i) * 32767))"

definition dualTonePCM :: "(float64 \<Rightarrow> float64) \<Rightarrow> float64 \<Rightarrow> float64 \<Rightarrow> duration \<Rightarrow> float64 \<Rightarrow> int16 list" where
  "dualTonePCM sn f1 f2 d amplitude =
     (let cnt = tone_count d
      in map (\<lambda>i. to_int16 (truncate_to (dual_value sn f1 f2 cnt amplitude i))) [0..<cnt])"

definition sine_value :: "(float64 \<Rightarrow> float64) \<Rightarrow> float64 \<Rightarrow> nat \<Rightarrow> float64 \<Rightarrow> nat \<Rightarrow> float64" where
  "sine_value sn f cnt amplitude i =
     fl (fl (fl (sn (tone_angle f i) * amplitude) * tone_envelope cnt i) * 32767)"

definition sinePCM :: "(float64 \<Rightarrow> float64) \<Rightarrow> float64 \<Rightarrow> duration \<Rightarrow> float64 \<Rightarrow> int16 list" where
  "sinePCM sn f d amplitude =
     (let cnt = tone_count d
      in map (\<lambda>i. to_int16 (truncate_to (sine_value sn f cnt amplitude i))) [0..<cnt])"

definition waitingTonePCM :: "(float64 \<Rightarrow> float64) \<Rightarrow> int16 list" where
  "waitingTonePCM sn =
     dualTonePCM sn 440 480 (400 * millisecond) (fl (16 / 100)) @ replicate (16000 * 200 div 1000) 0 @
     dualTonePCM sn 440 480 (400 * millisecond) (fl (16 / 100)) @ replicate (16000 * 3) 0"

text \<open>The beep before a voicemail is recorded.\<close>

definition beepPCM :: "(float64 \<Rightarrow> float64) \<Rightarrow> int16 list" where
  "beepPCM sn = sinePCM sn 1000 (850 * millisecond) (fl (28 / 100))"

definition clampPCM :: "float64 \<Rightarrow> int16" where
  "clampPCM v = (if v > 32767 then 32767 else if v < -32768 then to_int16 (-32768) else to_int16 (truncate_to v))"

subsection \<open>The tones fit in 16 bits\<close>

text \<open>Rounding keeps a number between -1 and 1, or between -32767 and 32767, in its range.\<close>

lemma fl_abs_le_int:
  assumes "\<bar>x\<bar> \<le> of_int n" "n < 2 ^ 53"
  shows "\<bar>fl x\<bar> \<le> of_int n"
proof -
  have "of_int n < (2 :: rat) ^ 53" using assms(2) by (metis of_int_less_iff of_int_numeral of_int_power)
  then have "\<bar>x\<bar> < 2 ^ 53" using assms(1) by simp
  then show ?thesis using fl_le_int [of x n] fl_ge_int [of x "- n"] assms(1) by (auto simp: abs_le_iff)
qed

lemma fl_abs_unit: "\<bar>x\<bar> \<le> 1 \<Longrightarrow> \<bar>fl x\<bar> \<le> 1"
  using fl_abs_le_int [of x 1] by simp

lemma abs_mult_unit: "\<bar>x\<bar> \<le> 1 \<Longrightarrow> \<bar>y\<bar> \<le> 1 \<Longrightarrow> \<bar>x * y\<bar> \<le> 1" for x y :: rat
  by (simp add: abs_mult mult_le_one)

lemma fl_scale: "\<bar>x\<bar> \<le> 1 \<Longrightarrow> \<bar>fl (x * 32767)\<bar> \<le> 32767"
  using fl_abs_le_int [of "x * 32767" 32767] by (simp add: abs_mult)

lemma envelope_unit: "\<bar>tone_envelope cnt i\<bar> \<le> 1"
  by (auto simp: tone_envelope_def intro!: fl_abs_unit)

lemma truncate_to_int16: "\<bar>x\<bar> \<le> 32767 \<Longrightarrow> sint (to_int16 (truncate_to x)) = truncate_to x"
  using truncate_to_range [of "- 32767" x 32767] by (auto simp: abs_le_iff intro!: sint_to_int16)

text \<open>The tones are computed without overflow: whatever the frequencies and for an amplitude of at most 1,
  every sample of the ringback tone and of the beep lies in the range of 16 bits before it is
  converted.\<close>

theorem tones_in_range:
  assumes "\<And>x. \<bar>sn x\<bar> \<le> 1" "\<bar>amplitude\<bar> \<le> 1"
  shows "\<bar>dual_value sn f1 f2 cnt amplitude i\<bar> \<le> 32767 \<and> \<bar>sine_value sn f cnt amplitude i\<bar> \<le> 32767"
proof
  have "\<bar>sn (tone_angle f1 i) + sn (tone_angle f2 i)\<bar> \<le> of_int 2"
    using assms(1) [of "tone_angle f1 i"] assms(1) [of "tone_angle f2 i"] by (auto simp: abs_le_iff)
  from fl_abs_le_int [OF this] have "\<bar>fl (sn (tone_angle f1 i) + sn (tone_angle f2 i)) * (1 / 2)\<bar> \<le> 1" by simp
  note half = fl_abs_unit [OF this]
  show "\<bar>dual_value sn f1 f2 cnt amplitude i\<bar> \<le> 32767"
    unfolding dual_value_def Let_def
    by (rule fl_scale [OF fl_abs_unit [OF abs_mult_unit [OF fl_abs_unit [OF abs_mult_unit [OF half assms(2)]] envelope_unit]]])
  show "\<bar>sine_value sn f cnt amplitude i\<bar> \<le> 32767"
    unfolding sine_value_def by (intro fl_scale fl_abs_unit abs_mult_unit envelope_unit assms)
qed

theorem tones_in_range_witness:
  "\<bar>dual_value (\<lambda>_. 1) 440 480 6400 (fl (16 / 100)) 200\<bar> \<le> 32767"
  using tones_in_range [of "\<lambda>_. 1" "fl (16 / 100)"] fl_abs_unit [of "16 / 100"] by simp

lemma tone_count_400: "tone_count (400 * millisecond) = 6400"
  by code_simp

lemma length_waitingTone: "length (waitingTonePCM sn) = 64000"
  by (simp add: waitingTonePCM_def dualTonePCM_def tone_count_400)

end
