(* ===== verification/Media_Session.thy ===== *)
theory Media_Session
  imports Media_Tone Store_Replay
begin

text \<open>
  One browser audio session (\<^verbatim>\<open>internal/media/web_session.go\<close>, type \<^verbatim>\<open>callAudioSession\<close>). Each critical
  section of the session's mutex and each operation on the microphone channel is one function;
  what releases the mutex in the middle (\<^verbatim>\<open>enqueueMic\<close>, the turns of \<^verbatim>\<open>writeUplink\<close> and \<^verbatim>\<open>readDownlink\<close>, and the
  operations that empty the channel afterwards) is split there, and a run of the session interleaves the
  pieces in any order. Contexts and tracks are numbers. What
  \<^verbatim>\<open>attachPeer\<close> cancels and what \<^verbatim>\<open>enqueueMic\<close> answers is the first component of its result. Logging is
  left out.
\<close>

definition webFrameSamples :: nat where
  "webFrameSamples = 320"

record MediaStatus =
  md_State :: string
  md_Error :: gerror
  md_SessionStartedAt :: gtime
  md_AudioOpenedAt :: "gtime option"
  md_OfferReceivedAt :: "gtime option"
  md_PeerConnectedAt :: "gtime option"
  md_FirstRTPAt :: "gtime option"
  md_FirstPCMAt :: "gtime option"
  md_LastDisconnectAt :: "gtime option"

text \<open>
  The channels: \<open>ss_ready\<close>, \<open>ss_done\<close> and \<open>ss_firstPCM\<close> say whether the channel is closed, \<open>ss_mic\<close> holds
  the buffered frames. The session's context is kept by the manager.
\<close>

record Session =
  ss_callID :: string
  ss_ready :: bool
  ss_done :: bool
  ss_mic :: "int16 list list"
  ss_firstPCM :: bool
  ss_startErr :: "gerror option"
  ss_peerID :: "64 word"
  ss_peerCancel :: "nat option"
  ss_out :: "nat option"
  ss_bridged :: bool
  ss_everBridged :: bool
  ss_held :: bool
  ss_fadeFrames :: int
  ss_deadlineGen :: "64 word"
  ss_status :: MediaStatus

definition mic_cap :: nat where
  "mic_cap = 100"

definition new_session :: "string \<Rightarrow> gtime \<Rightarrow> Session" where
  "new_session callID now =
     \<lparr>ss_callID = callID, ss_ready = False, ss_done = False, ss_mic = [], ss_firstPCM = False,
      ss_startErr = None, ss_peerID = 0, ss_peerCancel = None, ss_out = None, ss_bridged = False,
      ss_everBridged = False, ss_held = False, ss_fadeFrames = 0, ss_deadlineGen = 0,
      ss_status = \<lparr>md_State = ''waiting_for_permission'', md_Error = [], md_SessionStartedAt = now,
        md_AudioOpenedAt = None, md_OfferReceivedAt = None, md_PeerConnectedAt = None, md_FirstRTPAt = None,
        md_FirstPCMAt = None, md_LastDisconnectAt = None\<rparr>\<rparr>"

definition upd_status :: "(MediaStatus \<Rightarrow> MediaStatus) \<Rightarrow> Session \<Rightarrow> Session" where
  "upd_status f s = s\<lparr>ss_status := f (ss_status s)\<rparr>"

definition failStart :: "gerror \<Rightarrow> Session \<Rightarrow> Session" where
  "failStart err s =
     (upd_status (\<lambda>m. m\<lparr>md_State := ''unavailable'', md_Error := err\<rparr>) (s\<lparr>ss_startErr := Some err\<rparr>))\<lparr>ss_ready := True\<rparr>"

definition audio_opened :: "gtime \<Rightarrow> Session \<Rightarrow> Session" where
  "audio_opened now s = (upd_status (\<lambda>m. m\<lparr>md_AudioOpenedAt := Some now\<rparr>) s)\<lparr>ss_ready := True\<rparr>"

text \<open>\<^verbatim>\<open>waitReady\<close> once the session is ready.\<close>

definition waitReady :: "Session \<Rightarrow> gerror option" where
  "waitReady s = (case ss_startErr s of Some _ \<Rightarrow> Some ''MEDIA_UNAVAILABLE'' | None \<Rightarrow> None)"

definition setError :: "gerror \<Rightarrow> Session \<Rightarrow> Session" where
  "setError code s = upd_status (\<lambda>m. m\<lparr>md_State := ''unavailable'', md_Error := code\<rparr>) s"

definition drainMic :: "Session \<Rightarrow> Session" where
  "drainMic s = s\<lparr>ss_mic := []\<rparr>"

text \<open>
  \<^verbatim>\<open>attachPeer\<close>, \<^verbatim>\<open>detachPeer\<close>, \<^verbatim>\<open>markRecovering\<close> and \<^verbatim>\<open>setHeld\<close> empty the microphone channel after they have
  released the mutex: the first function of each pair is the critical section. \<open>take_mic\<close> is one receive of
  the loop that empties the channel.
\<close>

definition take_mic :: "Session \<Rightarrow> Session" where
  "take_mic s = s\<lparr>ss_mic := tl (ss_mic s)\<rparr>"

definition attach_locked :: "gtime \<Rightarrow> nat \<Rightarrow> nat \<Rightarrow> Session \<Rightarrow> (64 word \<times> nat option) \<times> Session" where
  "attach_locked now out pc s =
     (let previous = ss_peerCancel s; i = ss_peerID s + 1;
          s = s\<lparr>ss_peerID := i, ss_peerCancel := Some pc, ss_out := Some out, ss_bridged := False, ss_fadeFrames := 0\<rparr>;
          s = upd_status (\<lambda>m. m\<lparr>md_State := ''negotiating'', md_Error := [], md_OfferReceivedAt := Some now\<rparr>) s
      in ((i, previous), s))"

definition attachPeer :: "gtime \<Rightarrow> nat \<Rightarrow> nat \<Rightarrow> Session \<Rightarrow> (64 word \<times> nat option) \<times> Session" where
  "attachPeer now out pc s = (let (r, s) = attach_locked now out pc s in (r, drainMic s))"

definition detach_locked :: "64 word \<Rightarrow> Session \<Rightarrow> Session" where
  "detach_locked i s =
     (if ss_peerID s = i
      then (let s = s\<lparr>ss_out := None, ss_peerCancel := None, ss_bridged := False\<rparr>
            in if md_State (ss_status s) \<noteq> ''timeout'' then upd_status (\<lambda>m. m\<lparr>md_State := ''recovering''\<rparr>) s else s)
      else s)"

definition detachPeer :: "64 word \<Rightarrow> Session \<Rightarrow> Session" where
  "detachPeer i s = drainMic (detach_locked i s)"

definition markNegotiating :: "gtime \<Rightarrow> 64 word \<Rightarrow> Session \<Rightarrow> Session" where
  "markNegotiating now i s =
     (if ss_peerID s = i
      then (let s = upd_status (\<lambda>m. m\<lparr>md_PeerConnectedAt := Some now\<rparr>) s
            in if \<not> ss_bridged s then upd_status (\<lambda>m. m\<lparr>md_State := ''negotiating''\<rparr>) s else s)
      else s)"

definition recovering_locked :: "gtime \<Rightarrow> 64 word \<Rightarrow> Session \<Rightarrow> Session" where
  "recovering_locked now i s =
     (if ss_peerID s = i
      then upd_status (\<lambda>m. m\<lparr>md_State := ''recovering'', md_LastDisconnectAt := Some now\<rparr>)
             (s\<lparr>ss_bridged := False, ss_fadeFrames := 0\<rparr>)
      else s)"

definition markRecovering :: "gtime \<Rightarrow> 64 word \<Rightarrow> Session \<Rightarrow> Session" where
  "markRecovering now i s = drainMic (recovering_locked now i s)"

subsection \<open>The microphone\<close>

datatype mic_check = Stale | Held | Enqueue bool

text \<open>The first critical section of \<^verbatim>\<open>enqueueMic\<close>; \<open>Enqueue first\<close> when the frame is to be sent on.\<close>

definition enqueue_check :: "64 word \<Rightarrow> Session \<Rightarrow> mic_check" where
  "enqueue_check i s =
     (if ss_peerID s \<noteq> i then Stale else if ss_held s then Held else Enqueue (\<not> ss_bridged s))"

text \<open>Sending on the full channel drops the oldest frame.\<close>

definition mic_send :: "int16 list \<Rightarrow> int16 list list \<Rightarrow> int16 list list" where
  "mic_send frame q =
     (if length q < mic_cap then q @ [frame]
      else let q = tl q in if length q < mic_cap then q @ [frame] else q)"

definition enqueue_send :: "int16 list \<Rightarrow> Session \<Rightarrow> Session" where
  "enqueue_send frame s = s\<lparr>ss_mic := mic_send frame (ss_mic s)\<rparr>"

text \<open>The second critical section, entered when the session was not bridged.\<close>

definition enqueue_first :: "gtime \<Rightarrow> 64 word \<Rightarrow> Session \<Rightarrow> bool \<times> Session" where
  "enqueue_first now i s =
     (if ss_peerID s \<noteq> i then (False, s)
      else (True, upd_status (\<lambda>m. m\<lparr>md_FirstRTPAt := Some now\<rparr>) (s\<lparr>ss_bridged := True, ss_fadeFrames := 5\<rparr>)))"

definition enqueueMic :: "gtime \<Rightarrow> 64 word \<Rightarrow> int16 list \<Rightarrow> Session \<Rightarrow> bool \<times> Session" where
  "enqueueMic now i frame s =
     (case enqueue_check i s of
        Stale \<Rightarrow> (False, s)
      | Held \<Rightarrow> (True, s)
      | Enqueue first \<Rightarrow>
          (let s = enqueue_send frame s in if first then enqueue_first now i s else (True, s)))"

text \<open>\<^verbatim>\<open>browserToSession\<close>: of the decoded 48 kHz samples every third one, cut into frames of 320 samples, the last
  one filled up with zeros.\<close>

definition every_third :: "int16 list \<Rightarrow> int16 list" where
  "every_third pcm48 = map (\<lambda>i. pcm48 ! (i * 3)) [0..<length pcm48 div 3]"

definition pad_frame :: "int16 list \<Rightarrow> int16 list" where
  "pad_frame xs = xs @ replicate (webFrameSamples - length xs) 0"

function web_frames :: "int16 list \<Rightarrow> int16 list list" where
  "web_frames pcm =
     (if pcm = [] then [] else pad_frame (take webFrameSamples pcm) # web_frames (drop webFrameSamples pcm))"
  by pat_completeness auto
termination
  by (relation "measure length") (auto simp: webFrameSamples_def)

declare web_frames.simps [simp del]

text \<open>One packet: \<open>False\<close> when the peer has been replaced, else all frames were handed over and the samples are
  what the near side sent last.\<close>

fun enqueue_frames :: "gtime \<Rightarrow> 64 word \<Rightarrow> int16 list list \<Rightarrow> Session \<Rightarrow> bool \<times> Session" where
  "enqueue_frames now i [] s = (True, s)"
| "enqueue_frames now i (f # fs) s =
     (case enqueueMic now i f s of
        (False, s) \<Rightarrow> (False, s)
      | (True, s) \<Rightarrow> enqueue_frames now i fs s)"

definition browser_packet :: "gtime \<Rightarrow> 64 word \<Rightarrow> int16 list \<Rightarrow> Session \<Rightarrow> int16 list option \<times> Session" where
  "browser_packet now i pcm48 s =
     (let pcm16 = every_third pcm48 in
      case enqueue_frames now i (web_frames pcm16) s of
        (True, s) \<Rightarrow> (Some pcm16, s)
      | (False, s) \<Rightarrow> (None, s))"

subsection \<open>The uplink\<close>

text \<open>The local variables of one turn of \<^verbatim>\<open>writeUplink\<close>.\<close>

record Uplink =
  up_tone :: "int16 list"
  up_offset :: nat
  up_toneFrame :: "int16 list"
  up_bridged :: bool
  up_fade :: int
  up_frame :: "int16 list"
  up_gotMic :: bool

definition tone_frame :: "int16 list \<Rightarrow> nat \<Rightarrow> int16 list" where
  "tone_frame tone offset = map (\<lambda>i. tone ! ((offset + i) mod length tone)) [0..<webFrameSamples]"

definition uplink_begin :: "Session \<Rightarrow> Uplink \<Rightarrow> Uplink \<times> Session" where
  "uplink_begin s u =
     (let toneFrame = tone_frame (up_tone u) (up_offset u);
          u = u\<lparr>up_toneFrame := toneFrame, up_offset := (up_offset u + webFrameSamples) mod length (up_tone u),
                up_bridged := ss_bridged s \<and> \<not> ss_held s, up_fade := ss_fadeFrames s,
                up_frame := toneFrame, up_gotMic := False\<rparr>
      in (u, if ss_fadeFrames s > 0 then s\<lparr>ss_fadeFrames := ss_fadeFrames s - 1\<rparr> else s))"

definition copy_frame :: "int16 list \<Rightarrow> int16 list" where
  "copy_frame mic = take webFrameSamples mic @ replicate (webFrameSamples - length mic) 0"

definition fade_sample :: "int \<Rightarrow> int16 \<Rightarrow> int16 \<Rightarrow> int16" where
  "fade_sample fade m t =
     (let w = fl (of_int (6 - fade) / 5)
      in clampPCM (fl (fl (of_int (sint m) * w) + fl (of_int (sint t) * fl (1 - w)))))"

definition uplink_mic :: "Uplink \<Rightarrow> Session \<Rightarrow> Uplink \<times> Session" where
  "uplink_mic u s =
     (if up_bridged u then
        (case ss_mic s of
           [] \<Rightarrow> (u\<lparr>up_frame := replicate webFrameSamples 0\<rparr>, s)
         | m # q \<Rightarrow>
             (let frame = copy_frame m;
                  frame = (if up_fade u > 0 then map2 (fade_sample (up_fade u)) frame (up_toneFrame u) else frame)
              in (u\<lparr>up_frame := frame, up_gotMic := True\<rparr>, s\<lparr>ss_mic := q\<rparr>)))
      else (u, s))"

text \<open>After the frame has been written to the port.\<close>

definition uplink_end :: "gtime \<Rightarrow> Uplink \<Rightarrow> Session \<Rightarrow> Session" where
  "uplink_end now u s =
     (if up_bridged u \<and> up_gotMic u
      then (let firstBridge = \<not> ss_everBridged s;
                s = upd_status (\<lambda>m. m\<lparr>md_State := ''bridged'',
                      md_FirstPCMAt := (if md_FirstPCMAt m = None then Some now else md_FirstPCMAt m)\<rparr>)
                    (s\<lparr>ss_everBridged := True\<rparr>)
            in if firstBridge then s\<lparr>ss_firstPCM := True\<rparr> else s)
      else s)"

subsection \<open>The downlink\<close>

text \<open>
  One frame from the phone. Under the mutex \<^verbatim>\<open>readDownlink\<close> copies the track, the number of the peer and
  whether the call is held; with the copies, after the mutex is released, it sends the frame to the browser
  (a failed write marks the peer as recovering) and hands it to the recording.
\<close>

record Down =
  dn_pcm :: "int16 list"
  dn_out :: "nat option"
  dn_peerID :: "64 word"
  dn_held :: bool

definition downlink_read :: "int16 list \<Rightarrow> Session \<Rightarrow> Down" where
  "downlink_read pcm s = \<lparr>dn_pcm = pcm, dn_out = ss_out s, dn_peerID = ss_peerID s, dn_held = ss_held s\<rparr>"

definition downlink_send :: "Down \<Rightarrow> (nat \<times> int16 list) option" where
  "downlink_send d = (case dn_out d of Some out \<Rightarrow> if dn_held d then None else Some (out, dn_pcm d) | None \<Rightarrow> None)"

definition downlink_record :: "Down \<Rightarrow> int16 list option" where
  "downlink_record d = (if dn_held d then None else Some (dn_pcm d))"

subsection \<open>Holding and the answer deadline\<close>

definition held_locked :: "bool \<Rightarrow> Session \<Rightarrow> Session" where
  "held_locked held s =
     (let s = s\<lparr>ss_held := held\<rparr>
      in if held then s\<lparr>ss_deadlineGen := ss_deadlineGen s + 1, ss_fadeFrames := 0\<rparr>
         else if ss_bridged s then s\<lparr>ss_fadeFrames := 5\<rparr> else s)"

definition setHeld :: "bool \<Rightarrow> Session \<Rightarrow> Session" where
  "setHeld held s = (let s = held_locked held s in if held then drainMic s else s)"

definition startAnswerDeadline :: "Session \<Rightarrow> 64 word \<times> Session" where
  "startAnswerDeadline s = (let g = ss_deadlineGen s + 1 in (g, s\<lparr>ss_deadlineGen := g\<rparr>))"

text \<open>The goroutine waits for the first PCM frame, the end of the session or the timer. This is what follows
  when it has taken the timer of generation \<open>g\<close>: whether the timeout handler is called.\<close>

definition deadline_fires :: "Call option \<Rightarrow> 64 word \<Rightarrow> Session \<Rightarrow> bool \<times> Session" where
  "deadline_fires call g s =
     (case call of
        None \<Rightarrow> (False, s)
      | Some c \<Rightarrow>
          if c_State c \<noteq> CallActive \<or> c_MediaOwner c \<noteq> ''web'' \<or> c_Held c then (False, s)
          else if g \<noteq> ss_deadlineGen s \<or> ss_everBridged s then (False, s)
          else (True, upd_status (\<lambda>m. m\<lparr>md_State := ''timeout'', md_Error := ''WEB_MEDIA_TIMEOUT''\<rparr>) s))"

end
