(* ===== verification/Go_Path.thy ===== *)
theory Go_Path
  imports Go_Lib
begin

text \<open>
  The functions of Go's \<^verbatim>\<open>path/filepath\<close> that the program uses, for Unix: \<^verbatim>\<open>Clean\<close>, \<^verbatim>\<open>Dir\<close>, \<^verbatim>\<open>Base\<close> and \<^verbatim>\<open>Join\<close>.
\<close>

definition slash :: char where
  "slash = CHR ''/''"

text \<open>One component of a path, after the components kept so far.\<close>

definition clean_step :: "bool \<Rightarrow> string list \<Rightarrow> string \<Rightarrow> string list" where
  "clean_step rooted acc c =
     (if c = [] \<or> c = ''.'' then acc
      else if c = ''..'' then
        if acc \<noteq> [] \<and> last acc \<noteq> ''..'' then butlast acc else if rooted then acc else acc @ [''..'']
      else acc @ [c])"

definition clean_parts :: "string \<Rightarrow> string list" where
  "clean_parts p = foldl (clean_step (p \<noteq> [] \<and> hd p = slash)) [] (split_on slash p)"

definition Clean :: "string \<Rightarrow> string" where
  "Clean p =
     (if p = [] then ''.''
      else let cs = clean_parts p; out = join ''/'' cs
           in if hd p = slash then slash # out else if cs = [] then ''.'' else out)"

definition path_Dir :: "string \<Rightarrow> string" where
  "path_Dir p = Clean (rev (dropWhile (\<lambda>c. c \<noteq> slash) (rev p)))"

definition path_Base :: "string \<Rightarrow> string" where
  "path_Base p =
     (if p = [] then ''.''
      else let q = rev (dropWhile (\<lambda>c. c = slash) (rev p));
               b = rev (takeWhile (\<lambda>c. c \<noteq> slash) (rev q))
           in if b = [] then ''/'' else b)"

fun path_Join :: "string list \<Rightarrow> string" where
  "path_Join [] = []"
| "path_Join (e # es) = (if e = [] then path_Join es else Clean (join ''/'' (e # es)))"

subsection \<open>Base names and joins\<close>

lemma path_Base_no_slash: "slash \<in> set (path_Base p) \<Longrightarrow> path_Base p = ''/''"
  by (auto simp: path_Base_def Let_def slash_def dest: set_takeWhileD split: if_splits)

text \<open>A path is clean when it is rooted, has at least one component, and every component is a name.\<close>

definition is_name :: "string \<Rightarrow> bool" where
  "is_name c \<longleftrightarrow> c \<noteq> [] \<and> c \<noteq> ''.'' \<and> c \<noteq> ''..'' \<and> slash \<notin> set c"

definition clean_abs :: "string \<Rightarrow> bool" where
  "clean_abs p \<longleftrightarrow> (\<exists>cs. cs \<noteq> [] \<and> list_all is_name cs \<and> p = slash # join ''/'' cs)"

lemma split_on_join: "cs \<noteq> [] \<Longrightarrow> list_all is_name cs \<Longrightarrow> split_on slash (join ''/'' cs) = cs"
proof (induction cs)
  case (Cons c cs)
  then show ?case
  proof (cases cs)
    case (Cons d ds)
    then have "join ''/'' (c # cs) = c @ slash # join ''/'' cs" by (simp add: slash_def)
    then show ?thesis using Cons.IH Cons.prems Cons split_on_append [of slash c] by (simp add: is_name_def)
  qed (simp add: is_name_def)
qed simp

lemma clean_names: "list_all is_name cs \<Longrightarrow> foldl (clean_step rooted) acc cs = acc @ cs"
  by (induction cs arbitrary: acc) (auto simp: clean_step_def is_name_def)

lemma Clean_abs:
  assumes "cs \<noteq> []" "list_all is_name cs"
  shows "Clean (slash # join ''/'' cs) = slash # join ''/'' cs"
proof -
  have "split_on slash (slash # join ''/'' cs) = [] # cs"
    using split_on_append [of slash "[]" "join ''/'' cs"] split_on_join [OF assms] by simp
  then show ?thesis
    using clean_names [OF assms(2), of True "[]"] by (simp add: Clean_def clean_parts_def Let_def clean_step_def)
qed

lemma join_snoc: "cs \<noteq> [] \<Longrightarrow> join ''/'' (cs @ [c]) = join ''/'' cs @ slash # c"
proof (induction cs)
  case (Cons a cs)
  then show ?case by (cases cs) (auto simp: slash_def)
qed simp

text \<open>Joining a clean directory and a name adds the name as one component.\<close>

lemma path_Join_name:
  assumes "clean_abs d" "is_name c"
  shows "path_Join [d, c] = d @ slash # c" "clean_abs (d @ slash # c)"
proof -
  obtain cs where cs: "cs \<noteq> []" "list_all is_name cs" "d = slash # join ''/'' cs"
    using assms(1) by (auto simp: clean_abs_def)
  then have d: "d @ slash # c = slash # join ''/'' (cs @ [c])" by (simp add: join_snoc)
  moreover have "list_all is_name (cs @ [c])" using cs(2) assms(2) by simp
  ultimately show "path_Join [d, c] = d @ slash # c" "clean_abs (d @ slash # c)"
    using Clean_abs [of "cs @ [c]"] cs(3) by (simp add: slash_def, metis append_is_Nil_conv clean_abs_def not_Cons_self2)
qed

end
