(* ===== verification/Media_Files.thy ===== *)
theory Media_Files
  imports Media_Wav_Props Media_Tone Go_Path Store
begin

text \<open>
  The files of the media manager (\<^verbatim>\<open>internal/media/manager.go\<close>): the voicemail greeting and the recordings.
  The file system is a map from paths to contents; which of the calls of an operation fail, and what a
  failed call leaves behind, is its \<open>os\<close> argument. The greeting built into the program is the argument
  \<open>builtin\<close>, the recordings directory the argument \<open>dir\<close>.
\<close>

type_synonym files = "string \<Rightarrow> byte8 list option"

record os =
  os_mkdir :: "gerror option"
  os_write :: "(byte8 list \<times> gerror) option"
  os_rename :: "gerror option"
  os_read :: "string \<Rightarrow> bool"
  os_remove :: "string \<Rightarrow> gerror option"

definition os_ok :: os where
  "os_ok = \<lparr>os_mkdir = None, os_write = None, os_rename = None, os_read = (\<lambda>_. True), os_remove = (\<lambda>_. None)\<rparr>"

datatype os_error = NotExist | OsError gerror

definition os_error_text :: "os_error \<Rightarrow> gerror" where
  "os_error_text e = (case e of NotExist \<Rightarrow> ''file does not exist'' | OsError t \<Rightarrow> t)"

definition ReadFile :: "os \<Rightarrow> string \<Rightarrow> files \<Rightarrow> byte8 list option" where
  "ReadFile os p fs = (if os_read os p then fs p else None)"

text \<open>A write that fails may leave part of the content in the file.\<close>

definition WriteFile :: "os \<Rightarrow> string \<Rightarrow> byte8 list \<Rightarrow> files \<Rightarrow> gerror option \<times> files" where
  "WriteFile os p b fs =
     (case os_write os of
        Some (partial, e) \<Rightarrow> (Some e, fs(p \<mapsto> partial))
      | None \<Rightarrow> (None, fs(p \<mapsto> b)))"

definition Rename :: "os \<Rightarrow> string \<Rightarrow> string \<Rightarrow> files \<Rightarrow> gerror option \<times> files" where
  "Rename os p q fs =
     (case os_rename os of
        Some e \<Rightarrow> (Some e, fs)
      | None \<Rightarrow> (None, (fs(q := fs p))(p := None)))"

definition Remove :: "os \<Rightarrow> string \<Rightarrow> files \<Rightarrow> os_error option \<times> files" where
  "Remove os p fs =
     (case os_remove os p of
        Some e \<Rightarrow> (Some (OsError e), fs)
      | None \<Rightarrow> if fs p = None then (Some NotExist, fs) else (None, fs(p := None)))"

subsection \<open>The greeting\<close>

text \<open>\<^verbatim>\<open>parseWAV\<close> without its panic, which does not happen.\<close>

definition parse_total :: "byte8 list \<Rightarrow> (gerror + int16 list) \<times> duration" where
  "parse_total raw = (case parseWAV raw of Some r \<Rightarrow> r | None \<Rightarrow> (Inl [], 0))"

record GreetingInfo =
  gi_Custom :: bool
  gi_DurationSeconds :: float64

definition greetingPath :: "string \<Rightarrow> string" where
  "greetingPath dir = path_Join [path_Dir dir, ''voicemail-greeting.wav'']"

definition greeting_too_large :: gerror where
  "greeting_too_large = ''VOICEMAIL_GREETING_TOO_LARGE''"

definition max_upload :: nat where
  "max_upload = 10 * 2 ^ 20"

definition SaveGreeting :: "os \<Rightarrow> string \<Rightarrow> byte8 list \<Rightarrow> files \<Rightarrow> (gerror + GreetingInfo) \<times> files" where
  "SaveGreeting os dir raw fs =
     (if max_upload < length raw then (Inl greeting_too_large, fs)
      else case parse_total raw of
        (Inl e, _) \<Rightarrow> (Inl e, fs)
      | (Inr pcm, d) \<Rightarrow>
          (case os_mkdir os of
             Some e \<Rightarrow> (Inl e, fs)
           | None \<Rightarrow>
               (let temp = greetingPath dir @ ''.tmp'' in
                case WriteFile os temp (encodeWAV pcm) fs of
                  (Some e, fs) \<Rightarrow> (Inl e, fs)
                | (None, fs) \<Rightarrow>
                    (case Rename os temp (greetingPath dir) fs of
                       (Some e, fs) \<Rightarrow> (Inl e, snd (Remove os temp fs))
                     | (None, fs) \<Rightarrow> (Inr \<lparr>gi_Custom = True, gi_DurationSeconds = Seconds d\<rparr>, fs)))))"

definition Greeting :: "os \<Rightarrow> byte8 list \<Rightarrow> string \<Rightarrow> files \<Rightarrow> GreetingInfo" where
  "Greeting os builtin dir fs =
     (let standard = (case parse_total builtin of
                        (Inl _, _) \<Rightarrow> \<lparr>gi_Custom = False, gi_DurationSeconds = 0\<rparr>
                      | (Inr _, d) \<Rightarrow> \<lparr>gi_Custom = False, gi_DurationSeconds = Seconds d\<rparr>)
      in case ReadFile os (greetingPath dir) fs of
           Some raw \<Rightarrow> (case parse_total raw of
                          (Inr _, d) \<Rightarrow> \<lparr>gi_Custom = True, gi_DurationSeconds = Seconds d\<rparr>
                        | (Inl _, _) \<Rightarrow> standard)
         | None \<Rightarrow> standard)"

definition ResetGreeting :: "os \<Rightarrow> string \<Rightarrow> files \<Rightarrow> gerror option \<times> files" where
  "ResetGreeting os dir fs =
     (case Remove os (greetingPath dir) fs of
        (Some (OsError e), fs) \<Rightarrow> (Some e, fs)
      | (_, fs) \<Rightarrow> (None, fs))"

definition GreetingPath :: "os \<Rightarrow> byte8 list \<Rightarrow> string \<Rightarrow> files \<Rightarrow> gerror + string" where
  "GreetingPath os builtin dir fs =
     (if gi_Custom (Greeting os builtin dir fs) then Inr (greetingPath dir) else Inl not_found)"

definition GreetingAudio :: "os \<Rightarrow> byte8 list \<Rightarrow> string \<Rightarrow> files \<Rightarrow> gerror + byte8 list" where
  "GreetingAudio os builtin dir fs =
     (let standard = (case parse_total builtin of
                        (Inl _, _) \<Rightarrow> Inl ''VOICEMAIL_PROMPT_UNAVAILABLE''
                      | (Inr _, _) \<Rightarrow> Inr builtin)
      in case ReadFile os (greetingPath dir) fs of
           Some raw \<Rightarrow> (case parse_total raw of (Inr _, _) \<Rightarrow> Inr raw | (Inl _, _) \<Rightarrow> standard)
         | None \<Rightarrow> standard)"

definition voicemailPromptPCM :: "os \<Rightarrow> byte8 list \<Rightarrow> string \<Rightarrow> files \<Rightarrow> gerror + int16 list" where
  "voicemailPromptPCM os builtin dir fs =
     (let standard = fst (parse_total builtin)
      in case ReadFile os (greetingPath dir) fs of
           Some raw \<Rightarrow> (case parse_total raw of
                          (Inr pcm, _) \<Rightarrow> if pcm \<noteq> [] then Inr pcm else standard
                        | (Inl _, _) \<Rightarrow> standard)
         | None \<Rightarrow> standard)"

subsection \<open>Recordings\<close>

definition recordingPath :: "string \<Rightarrow> Recording \<Rightarrow> string" where
  "recordingPath dir r =
     (if rec_Path r \<noteq> [] then rec_Path r else path_Join [dir, path_Base (rec_FileName r)])"

definition OriginalPath :: "string \<Rightarrow> string \<Rightarrow> State \<Rightarrow> gerror + string" where
  "OriginalPath dir i s =
     (case get_Recording s i of None \<Rightarrow> Inl not_found | Some r \<Rightarrow> Inr (recordingPath dir r))"

text \<open>The converter \<^verbatim>\<open>opusdec\<close>: its output and the file it leaves behind, or the converted file.\<close>

definition convert_wav ::
  "os \<Rightarrow> (string \<times> byte8 list option) + byte8 list \<Rightarrow> string \<Rightarrow> string \<Rightarrow> files \<Rightarrow> (gerror + string) \<times> files" where
  "convert_wav os opusdec temp wav fs =
     (let fs = snd (Remove os temp fs) in
      case opusdec of
        Inl (output, left) \<Rightarrow> (Inl (''RECORDING_CONVERSION_FAILED: '' @ trim_space output), fs(temp := left))
      | Inr b \<Rightarrow>
          (case Rename os temp wav (fs(temp \<mapsto> b)) of
             (Some e, fs) \<Rightarrow> (Inl e, snd (Remove os temp fs))
           | (None, fs) \<Rightarrow> (Inr wav, fs)))"

definition PlaybackPath ::
  "os \<Rightarrow> (string \<times> byte8 list option) + byte8 list \<Rightarrow> string \<Rightarrow> string \<Rightarrow> State \<Rightarrow> files \<Rightarrow> (gerror + string) \<times> files" where
  "PlaybackPath os opusdec dir i s fs =
     (case get_Recording s i of
        None \<Rightarrow> (Inl not_found, fs)
      | Some r \<Rightarrow>
          (let original = recordingPath dir r; wav = original @ ''.wav''; temp = original @ ''.tmp.wav'' in
           case fs wav of
             Some b \<Rightarrow> if 44 < length b then (Inr wav, fs) else convert_wav os opusdec temp wav fs
           | None \<Rightarrow> convert_wav os opusdec temp wav fs))"

definition delete_file :: "os \<Rightarrow> string \<Rightarrow> files \<Rightarrow> gerror option \<times> files" where
  "delete_file os p fs =
     (case Remove os p fs of
        (Some (OsError e), fs) \<Rightarrow> (Some e, fs)
      | (_, fs) \<Rightarrow> (None, fs))"

definition delete_recording ::
  "os \<Rightarrow> Env \<Rightarrow> string \<Rightarrow> string \<Rightarrow> State \<Rightarrow> files \<Rightarrow> gerror option \<times> State \<times> files" where
  "delete_recording os env dir i s fs =
     (case get_Recording s i of
        None \<Rightarrow> (Some not_found, s, fs)
      | Some r \<Rightarrow>
          (let original = recordingPath dir r in
           case delete_file os original fs of
             (Some e, fs) \<Rightarrow> (Some e, s, fs)
           | (None, fs) \<Rightarrow>
               (case delete_file os (original @ ''.wav'') fs of
                  (Some e, fs) \<Rightarrow> (Some e, s, fs)
                | (None, fs) \<Rightarrow>
                    (case DeleteRecording env i s of
                       (Inl e, s) \<Rightarrow> (Some e, s, fs)
                     | (Inr _, s) \<Rightarrow> (None, s, fs)))))"

end
