(* ===== verification/Media.thy ===== *)
theory Media
  imports Media_Session Media_Files Modem
begin

text \<open>
  The media manager (\<^verbatim>\<open>internal/media/manager.go\<close>, type \<^verbatim>\<open>Manager\<close>, with the session table of
  \<^verbatim>\<open>web_session.go\<close>): which call owns the modem's sound, which context stops its owner, the recorder and
  the table of browser sessions. Every critical section of the manager's mutex is one function.
  Contexts are numbered in the order they are made, and \<open>mg_cancelled\<close> lists those that have been
  cancelled; a browser session has the number of its context. What the operating system, the external
  encoder and the modem answer is the environment of an operation.
\<close>

record Recorder =
  rc_id :: string
  rc_callID :: string
  rc_name :: string
  rc_path :: string
  rc_kind :: string
  rc_started :: gtime
  rc_stdin :: "byte8 list"

record Manager =
  mg_recordings :: string
  mg_activeCall :: string
  mg_cancel :: "nat option"
  mg_generation :: "64 word"
  mg_latestNear :: "int16 list"
  mg_recorder :: "Recorder option"
  mg_webSessions :: "nat table"
  mg_mediaTimeout :: bool
  mg_session :: "nat \<Rightarrow> Session"
  mg_cancelled :: "nat list"
  mg_next :: nat

definition new_manager :: "string \<Rightarrow> Manager" where
  "new_manager dir = \<lparr>mg_recordings = dir, mg_activeCall = [], mg_cancel = None, mg_generation = 0, mg_latestNear = [],
     mg_recorder = None, mg_webSessions = [], mg_mediaTimeout = False, mg_session = (\<lambda>_. new_session [] 0),
     mg_cancelled = [], mg_next = 0\<rparr>"

definition media_unavailable :: gerror where "media_unavailable = ''MEDIA_UNAVAILABLE''"
definition media_in_use :: gerror where "media_in_use = ''MEDIA_BUSY''"

subsection \<open>Owning the sound\<close>

definition cancel_ctx :: "nat \<Rightarrow> Manager \<Rightarrow> Manager" where
  "cancel_ctx c m = m\<lparr>mg_cancelled := c # mg_cancelled m\<rparr>"

definition cancel_current :: "Manager \<Rightarrow> Manager" where
  "cancel_current m = (case mg_cancel m of None \<Rightarrow> m | Some c \<Rightarrow> cancel_ctx c m)"

text \<open>What \<^verbatim>\<open>BridgePCM\<close>, \<^verbatim>\<open>ensureWebSession\<close> and \<^verbatim>\<open>runVoicemail\<close> do to become the owner: stop the present one, and
  take the next generation with a context of their own.\<close>

definition take_over :: "string \<Rightarrow> Manager \<Rightarrow> (nat \<times> 64 word) \<times> Manager" where
  "take_over callID m =
     (let m = cancel_current m; c = mg_next m; g = mg_generation m + 1
      in ((c, g), m\<lparr>mg_next := Suc c, mg_generation := g, mg_cancel := Some c, mg_activeCall := callID\<rparr>))"

definition release :: "string \<Rightarrow> 64 word \<Rightarrow> Manager \<Rightarrow> Manager" where
  "release callID g m =
     (if mg_activeCall m = callID \<and> mg_generation m = g then m\<lparr>mg_activeCall := [], mg_cancel := None\<rparr> else m)"

definition busy_for :: "string \<Rightarrow> Manager \<Rightarrow> bool" where
  "busy_for callID m \<longleftrightarrow> mg_activeCall m \<noteq> [] \<and> mg_activeCall m \<noteq> callID"

text \<open>\<^verbatim>\<open>BridgePCM\<close> up to the point where it owns the sound, and its end.\<close>

definition BridgePCM_claim :: "string \<Rightarrow> string \<Rightarrow> State \<Rightarrow> Manager \<Rightarrow> (gerror + nat \<times> 64 word) \<times> Manager" where
  "BridgePCM_claim callID owner s m =
     (case get_Call s callID of
        None \<Rightarrow> (Inl call_conflict, m)
      | Some call \<Rightarrow>
          if c_State call \<noteq> CallActive \<or> c_MediaOwner call \<noteq> owner then (Inl call_conflict, m)
          else if busy_for callID m then (Inl media_in_use, m)
          else let (cg, m) = take_over callID m in (Inr cg, m))"

definition BridgePCM_finish :: "string \<Rightarrow> nat \<times> 64 word \<Rightarrow> Manager \<Rightarrow> Manager" where
  "BridgePCM_finish callID cg m = release callID (snd cg) (cancel_ctx (fst cg) m)"

subsection \<open>The modem's sound\<close>

record AudioEnv =
  ae_routed :: bool
  ae_select :: "Route \<Rightarrow> gerror option"
  ae_enable :: "gerror option"
  ae_open :: "gerror option"

definition selectCallRoute :: "AudioEnv \<Rightarrow> string \<Rightarrow> State \<Rightarrow> gerror option" where
  "selectCallRoute ae callID s =
     (case get_Call s callID of
        None \<Rightarrow> Some ''CALL_NOT_FOUND''
      | Some call \<Rightarrow>
          if ae_routed ae
          then ae_select ae \<lparr>ro_GatewayID = c_GatewayID call, ro_SubscriptionID = c_SubscriptionID call\<rparr>
          else None)"

definition open_audio :: "AudioEnv \<Rightarrow> gerror option" where
  "open_audio ae = (case ae_enable ae of Some e \<Rightarrow> Some e | None \<Rightarrow> ae_open ae)"

text \<open>What \<^verbatim>\<open>BridgePCM\<close> answers when the modem gives no sound.\<close>

definition BridgePCM_open :: "AudioEnv \<Rightarrow> gerror option" where
  "BridgePCM_open ae = map_option (\<lambda>_. media_unavailable) (open_audio ae)"

subsection \<open>Browser sessions\<close>

text \<open>\<^verbatim>\<open>ensureWebSession\<close>: the number of the session, and its claim when it is new.\<close>

definition ensureWebSession ::
  "gtime \<Rightarrow> string \<Rightarrow> Manager \<Rightarrow> (gerror + nat \<times> (nat \<times> 64 word) option) \<times> Manager" where
  "ensureWebSession now callID m =
     (case tget (mg_webSessions m) callID of
        Some sid \<Rightarrow> (Inr (sid, None), m)
      | None \<Rightarrow>
          if busy_for callID m then (Inl media_in_use, m)
          else let (cg, m) = take_over callID m; sid = fst cg
               in (Inr (sid, Some cg), m\<lparr>mg_webSessions := tput callID sid (mg_webSessions m),
                     mg_session := (mg_session m)(sid := new_session callID now)\<rparr>))"

text \<open>One look of \<^verbatim>\<open>waitForActiveCall\<close> at the call: \<open>None\<close> when it has to wait longer.\<close>

definition waitForActiveCall :: "Call option \<Rightarrow> gerror option option" where
  "waitForActiveCall call =
     (case call of
        None \<Rightarrow> Some (Some call_conflict)
      | Some c \<Rightarrow>
          if c_State c = CallEnded \<or> c_State c = CallFailed then Some (Some call_conflict)
          else if c_State c = CallActive then Some None
          else None)"

definition run_start :: "AudioEnv \<Rightarrow> gtime \<Rightarrow> string \<Rightarrow> State \<Rightarrow> Session \<Rightarrow> Session" where
  "run_start ae now callID s sess =
     (case waitForActiveCall (get_Call s callID) of
        None \<Rightarrow> sess
      | Some (Some e) \<Rightarrow> failStart e sess
      | Some None \<Rightarrow>
          (case selectCallRoute ae callID s of
             Some e \<Rightarrow> failStart e sess
           | None \<Rightarrow>
               (case open_audio ae of
                  Some e \<Rightarrow> failStart e sess
                | None \<Rightarrow> audio_opened now sess)))"

definition upd_session :: "nat \<Rightarrow> (Session \<Rightarrow> Session) \<Rightarrow> Manager \<Rightarrow> Manager" where
  "upd_session sid f m = m\<lparr>mg_session := (mg_session m)(sid := f (mg_session m sid))\<rparr>"

text \<open>The end of \<^verbatim>\<open>run\<close>: a write error is reported in the status and cancels the session; then the
  session leaves the table if it is still the one there, and, in a critical section of its own, releases the
  sound.\<close>

definition run_failed :: "nat \<Rightarrow> Manager \<Rightarrow> Manager" where
  "run_failed sid m = cancel_ctx sid (upd_session sid (setError ''ANDROID_AUDIO_DISCONNECTED'') m)"

definition run_leave :: "string \<Rightarrow> nat \<Rightarrow> Manager \<Rightarrow> Manager" where
  "run_leave callID sid m =
     (if tget (mg_webSessions m) callID = Some sid then m\<lparr>mg_webSessions := tdel callID (mg_webSessions m)\<rparr> else m)"

definition run_exit :: "string \<Rightarrow> nat \<times> 64 word \<Rightarrow> Manager \<Rightarrow> Manager" where
  "run_exit callID cg m = upd_session (fst cg) (\<lambda>s. s\<lparr>ss_done := True\<rparr>) (release callID (snd cg) m)"

definition stopWebSession :: "string \<Rightarrow> Manager \<Rightarrow> Manager" where
  "stopWebSession callID m =
     (case tget (mg_webSessions m) callID of None \<Rightarrow> m | Some sid \<Rightarrow> cancel_ctx sid m)"

text \<open>Before a voicemail the session of the call is cancelled; waiting for its end is bounded and changes nothing.\<close>

definition stopWebSessionAndWait :: "string \<Rightarrow> Manager \<Rightarrow> Manager" where
  "stopWebSessionAndWait callID m = stopWebSession callID m"

definition get_MediaStatus :: "string \<Rightarrow> Manager \<Rightarrow> MediaStatus" where
  "get_MediaStatus callID m =
     (case tget (mg_webSessions m) callID of
        None \<Rightarrow> (ss_status (new_session [] zeroTime))\<lparr>md_State := ''unavailable'', md_Error := ''MEDIA_SESSION_NOT_FOUND''\<rparr>
      | Some sid \<Rightarrow> ss_status (mg_session m sid))"

text \<open>\<^verbatim>\<open>SetHeld\<close> on a call without a session makes one when the call is put on hold; \<open>ready\<close> says whether that session
  came up.\<close>

definition SetHeld_media :: "gtime \<Rightarrow> bool \<Rightarrow> string \<Rightarrow> bool \<Rightarrow> Manager \<Rightarrow> Manager" where
  "SetHeld_media now ready callID held m =
     (case tget (mg_webSessions m) callID of
        Some sid \<Rightarrow> upd_session sid (setHeld held) m
      | None \<Rightarrow>
          if held then
            (case ensureWebSession now callID m of
               (Inl _, m) \<Rightarrow> m
             | (Inr (sid, _), m) \<Rightarrow> if ready then upd_session sid (setHeld True) m else m)
          else m)"

definition BeginWaitingMedia_media :: "gtime \<Rightarrow> bool \<Rightarrow> string \<Rightarrow> State \<Rightarrow> Manager \<Rightarrow> Manager" where
  "BeginWaitingMedia_media now ready callID s m =
     (case ensureWebSession now callID m of
        (Inl _, m) \<Rightarrow> m
      | (Inr (sid, _), m) \<Rightarrow>
          if ready then
            (case get_Call s callID of
               Some call \<Rightarrow> if c_Held call then m else upd_session sid (snd \<circ> startAnswerDeadline) m
             | None \<Rightarrow> m)
          else m)"

definition SetMediaTimeoutHandler :: "Manager \<Rightarrow> Manager" where
  "SetMediaTimeoutHandler m = m\<lparr>mg_mediaTimeout := True\<rparr>"

text \<open>The checks of \<^verbatim>\<open>Offer\<close> before the peer connection is made.\<close>

definition Offer_check :: "string \<Rightarrow> State \<Rightarrow> gerror option" where
  "Offer_check callID s =
     (case get_Call s callID of
        None \<Rightarrow> Some call_conflict
      | Some call \<Rightarrow>
          if c_State call \<noteq> CallActive then Some call_conflict
          else if c_MediaOwner call \<noteq> [] \<and> c_MediaOwner call \<noteq> ''web'' then Some media_in_use
          else None)"

text \<open>
  What the WebRTC library answers while \<^verbatim>\<open>Offer\<close> sets up a peer connection: the errors of making the connection, the
  track, adding the track, the remote description, the answer and the local description, how the gathering
  of addresses ended, and the local description. \<open>pe_out\<close> and \<open>pe_cancel\<close> number the track and the
  context of the peer.
\<close>

datatype gathering = Gathered | GatherTimeout | GatherCancelled gerror

record PeerEnv =
  pe_now :: gtime
  pe_ready :: "gerror option"
  pe_new :: "gerror option"
  pe_track :: "gerror option"
  pe_add :: "gerror option"
  pe_remote :: "gerror option"
  pe_answer :: "gerror option"
  pe_local :: "gerror option"
  pe_gather :: gathering
  pe_sdp :: string
  pe_out :: nat
  pe_cancel :: nat

record Offer_answer =
  of_SDP :: string
  of_Type :: string
  of_MediaState :: MediaStatus

fun first_error :: "gerror option list \<Rightarrow> gerror option" where
  "first_error [] = None"
| "first_error (e # es) = (case e of Some x \<Rightarrow> Some x | None \<Rightarrow> first_error es)"

definition gather_error :: "gathering \<Rightarrow> gerror option" where
  "gather_error g = (case g of Gathered \<Rightarrow> None | GatherTimeout \<Rightarrow> Some ''ICE_TIMEOUT'' | GatherCancelled e \<Rightarrow> Some e)"

definition cleanupPeer :: "nat \<Rightarrow> nat \<Rightarrow> 64 word \<Rightarrow> Manager \<Rightarrow> Manager" where
  "cleanupPeer pc sid i m = upd_session sid (detachPeer i) (cancel_ctx pc m)"

definition Offer :: "PeerEnv \<Rightarrow> string \<Rightarrow> State \<Rightarrow> Manager \<Rightarrow> (gerror + Offer_answer) \<times> Manager" where
  "Offer env callID s m =
     (case Offer_check callID s of Some e \<Rightarrow> (Inl e, m) | None \<Rightarrow>
     (case ensureWebSession (pe_now env) callID m of (Inl e, m) \<Rightarrow> (Inl e, m) | (Inr (sid, _), m) \<Rightarrow>
     (case first_error [pe_ready env, pe_new env, pe_track env, pe_add env] of Some e \<Rightarrow> (Inl e, m) | None \<Rightarrow>
       (let ((i, previous), sess) = attachPeer (pe_now env) (pe_out env) (pe_cancel env) (mg_session m sid);
            m = upd_session sid (\<lambda>_. sess) m;
            m = (case previous of None \<Rightarrow> m | Some c \<Rightarrow> cancel_ctx c m) in
        case first_error [pe_remote env, pe_answer env, pe_local env, gather_error (pe_gather env)] of
          Some e \<Rightarrow> (Inl e, cleanupPeer (pe_cancel env) sid i m)
        | None \<Rightarrow>
            (Inr \<lparr>of_SDP = pe_sdp env, of_Type = ''answer'', of_MediaState = ss_status (mg_session m sid)\<rparr>, m)))))"

text \<open>What a change of the peer connection does, and the end of the session.\<close>

datatype peer_state = Connected | Disconnected | Failed | OtherPeerState

definition peer_changed :: "gtime \<Rightarrow> peer_state \<Rightarrow> nat \<Rightarrow> nat \<Rightarrow> 64 word \<Rightarrow> Manager \<Rightarrow> Manager" where
  "peer_changed now st pc sid i m =
     (case st of
        Connected \<Rightarrow> upd_session sid (markNegotiating now i) m
      | Disconnected \<Rightarrow> upd_session sid (markRecovering now i) m
      | Failed \<Rightarrow> cleanupPeer pc sid i m
      | OtherPeerState \<Rightarrow> m)"

subsection \<open>Recording\<close>

record RecEnv =
  re_now :: gtime
  re_rand :: "nat list"
  re_mkdir :: "gerror option"
  re_pipe :: "gerror option"
  re_start :: "gerror option"
  re_wait :: "gerror option"
  re_file :: "gerror + byte8 list"
  re_open :: "gerror option"
  re_sha256 :: "byte8 list \<Rightarrow> string"
  re_store :: "nat \<Rightarrow> Env"

definition set_call :: "Env \<Rightarrow> string \<Rightarrow> (Call \<Rightarrow> Call) \<Rightarrow> State \<Rightarrow> State" where
  "set_call env callID f s =
     (case get_Call s callID of
        None \<Rightarrow> s
      | Some call \<Rightarrow> snd (UpsertCall env (f (call\<lparr>c_Version := c_Version call + 1\<rparr>)) s))"

definition startRecording ::
  "RecEnv \<Rightarrow> string \<Rightarrow> string \<Rightarrow> Manager \<Rightarrow> State \<Rightarrow> (gerror + Recording) \<times> Manager \<times> State" where
  "startRecording env callID kind m s =
     (if 95 \<le> d_DiskUsedPct (sn_Device (get_Snapshot False s)) then (Inl ''STORAGE_FULL'', m, s)
      else if mg_activeCall m \<noteq> callID then (Inl media_unavailable, m, s)
      else if mg_recorder m \<noteq> None then (Inl ''RECORDING_ACTIVE'', m, s)
      else case re_mkdir env of Some e \<Rightarrow> (Inl e, m, s) | None \<Rightarrow>
        (let i = NewID ''rec'' (re_rand env); name = i @ ''.opus''; target = path_Join [mg_recordings m, name] in
         case re_pipe env of Some e \<Rightarrow> (Inl e, m, s) | None \<Rightarrow>
         (case re_start env of Some _ \<Rightarrow> (Inl ''OPUSENC_UNAVAILABLE'', m, s) | None \<Rightarrow>
           (let m = m\<lparr>mg_recorder := Some \<lparr>rc_id = i, rc_callID = callID, rc_name = name, rc_path = target, rc_kind = kind,
                        rc_started = re_now env, rc_stdin = []\<rparr>\<rparr>;
                s = set_call (re_store env 0) callID (\<lambda>c. c\<lparr>c_Recording := True, c_RecordingID := i\<rparr>) s
            in (Inr (zeroRecording\<lparr>rec_ID := i, rec_CallID := callID, rec_FileName := name, rec_CreatedAt := re_now env,
                       rec_Kind := kind\<rparr>), m, s)))))"

definition finished_recording :: "RecEnv \<Rightarrow> Recorder \<Rightarrow> byte8 list \<Rightarrow> Recording" where
  "finished_recording env r b =
     \<lparr>rec_ID = rc_id r, rec_CallID = rc_callID r, rec_Path = rc_path r, rec_FileName = rc_name r,
      rec_Duration = truncate_to (Seconds (re_now env - rc_started r)), rec_Size = int (length b),
      rec_SHA256 = re_sha256 env b, rec_CreatedAt = rc_started r, rec_Kind = rc_kind r\<rparr>"

definition StopRecording ::
  "RecEnv \<Rightarrow> string \<Rightarrow> Manager \<Rightarrow> State \<Rightarrow> (Recording option \<times> gerror option) \<times> Manager \<times> State" where
  "StopRecording env callID m s =
     (case mg_recorder m of
        None \<Rightarrow> ((None, Some ''RECORDING_NOT_ACTIVE''), m, s)
      | Some r \<Rightarrow>
          if rc_callID r \<noteq> callID then ((None, Some ''RECORDING_NOT_ACTIVE''), m, s)
          else let m = m\<lparr>mg_recorder := None\<rparr> in
            (case re_wait env of Some e \<Rightarrow> ((None, Some e), m, s) | None \<Rightarrow>
            (case re_file env of Inl e \<Rightarrow> ((None, Some e), m, s) | Inr b \<Rightarrow>
            (case re_open env of Some e \<Rightarrow> ((None, Some e), m, s) | None \<Rightarrow>
              (let rec = finished_recording env r b in
               case UpsertRecording (re_store env 0) rec s of
                 (res, s) \<Rightarrow>
                   ((Some rec, case res of Inl e \<Rightarrow> Some e | Inr _ \<Rightarrow> None), m,
                    set_call (re_store env 1) callID (\<lambda>c. c\<lparr>c_Recording := False\<rparr>) s))))))"

definition StartRecording :: "RecEnv \<Rightarrow> string \<Rightarrow> Manager \<Rightarrow> State \<Rightarrow> (gerror + Recording) \<times> Manager \<times> State" where
  "StartRecording env callID m s = startRecording env callID ''call'' m s"

definition writeRecording :: "int16 list \<Rightarrow> Manager \<Rightarrow> Manager" where
  "writeRecording far m =
     (case mg_recorder m of
        None \<Rightarrow> m
      | Some r \<Rightarrow> m\<lparr>mg_recorder := Some (r\<lparr>rc_stdin := rc_stdin r @ int16Bytes (mix_recording (mg_latestNear m) far)\<rparr>)\<rparr>)"

definition set_near :: "int16 list \<Rightarrow> Manager \<Rightarrow> Manager" where
  "set_near pcm m = m\<lparr>mg_latestNear := pcm\<rparr>"

definition has_recording :: "string \<Rightarrow> Manager \<Rightarrow> bool" where
  "has_recording callID m \<longleftrightarrow> (case mg_recorder m of None \<Rightarrow> False | Some r \<Rightarrow> rc_callID r = callID)"

definition EndCall :: "RecEnv \<Rightarrow> string \<Rightarrow> Manager \<Rightarrow> State \<Rightarrow> Manager \<times> State" where
  "EndCall env callID m s =
     (let m = stopWebSession callID m; c = mg_cancel m;
          (m, s) = (if has_recording callID m then snd (StopRecording env callID m s) else (m, s))
      in (case c of None \<Rightarrow> m | Some c \<Rightarrow> cancel_ctx c m, s))"

subsection \<open>The bridges\<close>

text \<open>One frame of \<^verbatim>\<open>sipToModem\<close> (what is written to the modem) and one of \<^verbatim>\<open>modemToSIP\<close> (what is written to SIP).
  A read of fewer than two bytes is skipped.\<close>

definition sipToModem :: "byte8 list \<Rightarrow> Manager \<Rightarrow> (byte8 list option \<times> Manager) option" where
  "sipToModem pcm8 m =
     (if length pcm8 < 2 then Some (None, m)
      else do { (samples, raw16) \<leftarrow> sip_to_modem_frame pcm8; Some (Some raw16, set_near samples m) })"

definition modemToSIP :: "byte8 list \<Rightarrow> Manager \<Rightarrow> (byte8 list \<times> Manager) option" where
  "modemToSIP raw16 m = do { (far, raw8) \<leftarrow> modem_to_sip_frame raw16; Some (raw8, writeRecording far m) }"

text \<open>The two bridges of an earlier release between a browser and the modem, which nothing calls any more: of the
  decoded samples every third one is written; a frame of the modem is encoded, sent and recorded.\<close>

definition browserToModem :: "int16 list \<Rightarrow> Manager \<Rightarrow> byte8 list \<times> Manager" where
  "browserToModem pcm48 m = (let pcm16 = every_third pcm48 in (int16Bytes pcm16, set_near pcm16 m))"

definition modemToBrowser ::
  "(int16 list \<Rightarrow> gerror + 'd) \<Rightarrow> ('d \<Rightarrow> gerror option) \<Rightarrow> byte8 list \<Rightarrow> Manager \<Rightarrow> ((gerror + 'd) \<times> Manager) option" where
  "modemToBrowser encode send raw m =
     do { pcm \<leftarrow> those (map (\<lambda>i. get16 raw (i * 2)) [0..<320]);
          Some (case encode pcm of
                  Inl e \<Rightarrow> (Inl e, m)
                | Inr d \<Rightarrow> (case send d of Some e \<Rightarrow> (Inl e, m) | None \<Rightarrow> (Inr d, writeRecording pcm m))) }"

subsection \<open>Voicemail\<close>

definition runVoicemail_claim :: "AudioEnv \<Rightarrow> string \<Rightarrow> State \<Rightarrow> Manager \<Rightarrow> (gerror + nat \<times> 64 word) \<times> Manager" where
  "runVoicemail_claim ae callID s m =
     (case selectCallRoute ae callID s of
        Some e \<Rightarrow> (Inl e, m)
      | None \<Rightarrow> let (cg, m) = take_over callID m in (Inr cg, m))"

definition runVoicemail_open :: "AudioEnv \<Rightarrow> gerror option" where
  "runVoicemail_open ae = open_audio ae"

text \<open>What the caller hears before the recording starts.\<close>

definition voicemail_frames :: "os \<Rightarrow> (float64 \<Rightarrow> float64) \<Rightarrow> byte8 list \<Rightarrow> string \<Rightarrow> files \<Rightarrow> gerror + byte8 list list" where
  "voicemail_frames os sn builtin dir fs =
     (case voicemailPromptPCM os builtin dir fs of
        Inl e \<Rightarrow> Inl e
      | Inr prompt \<Rightarrow> Inr (pcm_frames prompt @ pcm_frames (beepPCM sn)))"

definition runVoicemail_record :: "RecEnv \<Rightarrow> string \<Rightarrow> Manager \<Rightarrow> State \<Rightarrow> (gerror + Recording) \<times> Manager \<times> State" where
  "runVoicemail_record env callID m s = startRecording env callID ''voicemail'' (m\<lparr>mg_latestNear := []\<rparr>) s"

definition runVoicemail_exit :: "RecEnv \<Rightarrow> string \<Rightarrow> nat \<times> 64 word \<Rightarrow> Manager \<Rightarrow> State \<Rightarrow> Manager \<times> State" where
  "runVoicemail_exit env callID cg m s =
     (let (m, s) = (if has_recording callID m then snd (StopRecording env callID m s) else (m, s))
      in (release callID (snd cg) m, s))"

text \<open>A frame the caller speaks is recorded.\<close>

definition voicemail_frame :: "byte8 list \<Rightarrow> Manager \<Rightarrow> Manager option" where
  "voicemail_frame raw m =
     do { pcm \<leftarrow> those (map (\<lambda>i. get16 raw (i * 2)) [0..<length raw div 2]); Some (writeRecording pcm m) }"

end
