(* ===== verification/Service_Interleaving.thy ===== *)
theory Service_Interleaving
  imports Service_Events Media
begin

text \<open>
  The operations on calls as interleaved programs. The lock \<^verbatim>\<open>actions\<close> orders the operations of
  \<^verbatim>\<open>internal/app/service.go\<close> among each other, but the modem's events, \<^verbatim>\<open>Mute\<close> and the recorder of
  \<^verbatim>\<open>internal/media/manager.go\<close> read and write calls without it, and every access to the store is a critical
  section of its own. Here each operation is a program of such accesses, and a pool of programs runs in any
  order, one access at a time. A program run alone does what the function of the theory \<^verbatim>\<open>Service\<close> does.
\<close>

subsection \<open>Programs\<close>

text \<open>
  One access each: to a call, to the active call, to the rest of the store's state, a write of a call or another
  write, a question to the modem, an action of the media layer, the observers, and the lock. What comes back is
  the argument of the rest of the program.
\<close>

datatype prog =
    Stop
  | GetCall string "Call option \<Rightarrow> prog"
  | GetActive "Call option \<Rightarrow> prog"
  | Look "State \<Rightarrow> prog"
  | PutCall Env Call "gerror option \<Rightarrow> prog"
  | PutOther StoreOp prog
  | AskModem ModemCall "gerror option \<Rightarrow> prog"
  | Tell Action prog
  | TellAll "nat \<Rightarrow> Action" prog
  | Lock prog
  | Unlock prog

definition with_route :: "SEnv \<Rightarrow> string \<Rightarrow> int \<Rightarrow> (gerror option \<Rightarrow> prog) \<Rightarrow> prog" where
  "with_route env gw sub k =
     (if se_routed env then AskModem (MSelectRoute \<lparr>ro_GatewayID = gw, ro_SubscriptionID = sub\<rparr>) k else k None)"

definition tell_media :: "SEnv \<Rightarrow> Action \<Rightarrow> prog \<Rightarrow> prog" where
  "tell_media env a p = (if se_media env then Tell a p else p)"

definition dial_prog :: "SEnv \<Rightarrow> string \<Rightarrow> string \<Rightarrow> Route \<Rightarrow> prog" where
  "dial_prog env raw owner route =
     Lock (Look (\<lambda>s. if \<not> st_Calls (get_Settings s) then Unlock Stop else
     GetActive (\<lambda>active. if active \<noteq> None then Unlock Stop else
     Look (\<lambda>s. case Normalize (se_lib env) raw (st_Country (get_Settings s)) of
       Inl _ \<Rightarrow> Unlock Stop
     | Inr number \<Rightarrow>
         Look (\<lambda>s. let d = Decide (se_lib env) s number [] ''call'' in
         if dc_Action d = ''block'' then Unlock Stop else
         let call = dialled_call env owner route number d in
         PutCall (se_store env 0) call (\<lambda>r. case r of
           Some _ \<Rightarrow> Unlock Stop
         | None \<Rightarrow>
             AskModem (if se_routed env then MDialRoute route number else MDial number) (\<lambda>r. case r of
               None \<Rightarrow> Unlock Stop
             | Some e \<Rightarrow>
                 PutCall (se_store env 1)
                   ((bump call)\<lparr>c_State := CallFailed, c_EndedAt := Some (se_now env), c_EndReason := e\<rparr>) (\<lambda>_. Unlock Stop))))))))"

definition answer_prog :: "SEnv \<Rightarrow> string \<Rightarrow> string \<Rightarrow> prog" where
  "answer_prog env i owner =
     Lock (GetCall i (\<lambda>found. case found of
       None \<Rightarrow> Unlock Stop
     | Some call \<Rightarrow>
         if c_State call \<noteq> CallIncoming then Unlock Stop
         else if c_MediaOwner call \<noteq> [] \<and> c_MediaOwner call \<noteq> owner then Unlock Stop
         else with_route env (c_GatewayID call) (c_SubscriptionID call) (\<lambda>r. case r of
           Some _ \<Rightarrow> Unlock Stop
         | None \<Rightarrow>
             let call = (bump call)\<lparr>c_MediaOwner := owner\<rparr> in
             PutCall (se_store env 0) call (\<lambda>r. case r of
               Some _ \<Rightarrow> Unlock Stop
             | None \<Rightarrow>
                 AskModem MAnswer (\<lambda>r. case r of
                   Some _ \<Rightarrow> PutCall (se_store env 1) ((bump call)\<lparr>c_MediaOwner := []\<rparr>) (\<lambda>_. Unlock Stop)
                 | None \<Rightarrow>
                     let rest = PutCall (se_store env 1) ((bump call)\<lparr>c_State := CallAlerting\<rparr>) (\<lambda>_. Unlock Stop)
                     in if owner = ''web'' then tell_media env (BeginWaitingMedia (c_ID call)) rest else rest)))))"

definition hold_prog :: "SEnv \<Rightarrow> string \<Rightarrow> prog" where
  "hold_prog env i =
     Lock (GetCall i (\<lambda>found. case found of
       None \<Rightarrow> Unlock Stop
     | Some call \<Rightarrow>
         if c_State call \<noteq> CallIncoming \<and> c_State call \<noteq> CallAlerting \<and> c_State call \<noteq> CallActive then Unlock Stop
         else if c_Held call then Unlock Stop
         else if c_MediaOwner call \<noteq> [] \<and> c_MediaOwner call \<noteq> ''web'' then Unlock Stop
         else with_route env (c_GatewayID call) (c_SubscriptionID call) (\<lambda>r. case r of
           Some _ \<Rightarrow> Unlock Stop
         | None \<Rightarrow>
             let needsAnswer = (c_State call = CallIncoming);
                 call = (bump call)\<lparr>c_MediaOwner := ''web'', c_Held := True\<rparr>;
                 held = tell_media env (SetHeld (c_ID call) True)
                   (tell_media env (BeginWaitingMedia (c_ID call)) (Unlock Stop)) in
             PutCall (se_store env 0) call (\<lambda>r. case r of
               Some _ \<Rightarrow> Unlock Stop
             | None \<Rightarrow>
                 if \<not> needsAnswer then held
                 else AskModem MAnswer (\<lambda>r. case r of
                   Some _ \<Rightarrow> PutCall (se_store env 1) ((bump call)\<lparr>c_MediaOwner := [], c_Held := False\<rparr>) (\<lambda>_. Unlock Stop)
                 | None \<Rightarrow>
                     PutCall (se_store env 1) ((bump call)\<lparr>c_State := CallAlerting\<rparr>) (\<lambda>r. case r of
                       Some _ \<Rightarrow> Unlock Stop
                     | None \<Rightarrow> held))))))"

definition resume_prog :: "SEnv \<Rightarrow> string \<Rightarrow> prog" where
  "resume_prog env i =
     Lock (GetCall i (\<lambda>found. case found of
       None \<Rightarrow> Unlock Stop
     | Some call \<Rightarrow>
         if c_State call \<noteq> CallActive \<or> \<not> c_Held call \<or> c_MediaOwner call \<noteq> ''web'' then Unlock Stop
         else
           PutCall (se_store env 0) ((bump call)\<lparr>c_Held := False\<rparr>) (\<lambda>r. case r of
             Some _ \<Rightarrow> Unlock Stop
           | None \<Rightarrow> tell_media env (SetHeld (c_ID call) False)
               (tell_media env (BeginWaitingMedia (c_ID call)) (Unlock Stop)))))"

definition transfer_prog :: "SEnv \<Rightarrow> string \<Rightarrow> prog" where
  "transfer_prog env i =
     Lock (GetCall i (\<lambda>found. case found of
       None \<Rightarrow> Unlock Stop
     | Some call \<Rightarrow>
         if c_State call \<noteq> CallIncoming \<and> c_State call \<noteq> CallAlerting \<and> c_State call \<noteq> CallActive then Unlock Stop
         else if c_State call = CallActive \<and> \<not> c_Held call then Unlock Stop
         else with_route env (c_GatewayID call) (c_SubscriptionID call) (\<lambda>r. case r of
           Some _ \<Rightarrow> Unlock Stop
         | None \<Rightarrow>
             let needsAnswer = (c_State call = CallIncoming);
                 call = (bump call)\<lparr>c_MediaOwner := ''voicemail'', c_Held := False\<rparr> in
             PutCall (se_store env 0) call (\<lambda>r. case r of
               Some _ \<Rightarrow> Unlock Stop
             | None \<Rightarrow>
                 if needsAnswer then
                   AskModem MAnswer (\<lambda>r. case r of
                     Some _ \<Rightarrow> PutCall (se_store env 1) ((bump call)\<lparr>c_MediaOwner := []\<rparr>) (\<lambda>_. Unlock Stop)
                   | None \<Rightarrow> PutCall (se_store env 1) ((bump call)\<lparr>c_State := CallAlerting\<rparr>) (\<lambda>_. Unlock Stop))
                 else if c_State call = CallActive then tell_media env (StartVoicemail (c_ID call)) (Unlock Stop)
                 else Unlock Stop))))"

definition voicemail_prog :: "SEnv \<Rightarrow> string \<Rightarrow> prog" where
  "voicemail_prog env i =
     Lock (GetCall i (\<lambda>found. case found of
       None \<Rightarrow> Unlock Stop
     | Some call \<Rightarrow>
         if c_State call \<noteq> CallIncoming then Unlock Stop
         else Look (\<lambda>s. if \<not> st_VoicemailEnabled (get_Settings s) then Unlock Stop
         else with_route env (c_GatewayID call) (c_SubscriptionID call) (\<lambda>r. case r of
           Some _ \<Rightarrow> Unlock Stop
         | None \<Rightarrow>
             let call = (bump call)\<lparr>c_MediaOwner := ''voicemail''\<rparr> in
             PutCall (se_store env 0) call (\<lambda>r. case r of
               Some _ \<Rightarrow> Unlock Stop
             | None \<Rightarrow>
                 AskModem MAnswer (\<lambda>r. case r of
                   Some _ \<Rightarrow> PutCall (se_store env 1) ((bump call)\<lparr>c_MediaOwner := []\<rparr>) (\<lambda>_. Unlock Stop)
                 | None \<Rightarrow> PutCall (se_store env 1) ((bump call)\<lparr>c_State := CallAlerting\<rparr>) (\<lambda>_. Unlock Stop)))))))"

definition hangup_prog :: "SEnv \<Rightarrow> nat \<Rightarrow> string \<Rightarrow> string \<Rightarrow> prog" where
  "hangup_prog env k i reason =
     Lock (GetCall i (\<lambda>found. case found of
       None \<Rightarrow> Unlock Stop
     | Some call \<Rightarrow>
         if c_State call = CallEnded \<or> c_State call = CallFailed then Unlock Stop
         else with_route env (c_GatewayID call) (c_SubscriptionID call) (\<lambda>_.
           AskModem MHangup (\<lambda>_.
             let call = (bump call)\<lparr>c_State := CallEnded, c_Held := False, c_EndedAt := Some (se_now env),
                   c_EndReason := hangup_reason reason call\<rparr> in
             PutCall (se_store env k) call (\<lambda>r. case r of
               Some _ \<Rightarrow> Unlock Stop
             | None \<Rightarrow> TellAll (\<lambda>n. NotifyCallEnded n call) (Unlock Stop))))))"

text \<open>\<^verbatim>\<open>Mute\<close> does not take the lock.\<close>

definition mute_prog :: "SEnv \<Rightarrow> string \<Rightarrow> bool \<Rightarrow> prog" where
  "mute_prog env i muted =
     GetCall i (\<lambda>found. case found of
       None \<Rightarrow> Stop
     | Some call \<Rightarrow>
         if c_State call \<noteq> CallActive then Stop
         else with_route env (c_GatewayID call) (c_SubscriptionID call) (\<lambda>r. case r of
           Some _ \<Rightarrow> Stop
         | None \<Rightarrow>
             AskModem (MSetMicMute muted) (\<lambda>r. case r of
               Some _ \<Rightarrow> Stop
             | None \<Rightarrow> PutCall (se_store env 0) ((bump call)\<lparr>c_Muted := muted\<rparr>) (\<lambda>_. Stop))))"

subsection \<open>The events of the modem\<close>

definition incoming_prog :: "SEnv \<Rightarrow> MEvent \<Rightarrow> prog" where
  "incoming_prog env e =
     GetActive (\<lambda>active. case active of
       Some current \<Rightarrow>
         if c_State current = CallIncoming \<and> c_Number current = [] \<and> me_Number e \<noteq> []
         then PutCall (se_store env 0) ((bump current)\<lparr>c_Number := me_Number e\<rparr>) (\<lambda>_. Stop)
         else Stop
     | None \<Rightarrow>
         with_route env (me_GatewayID e) (me_SubscriptionID e) (\<lambda>r. case r of
           Some _ \<Rightarrow> Stop
         | None \<Rightarrow>
             Look (\<lambda>s. let number = (case Normalize (se_lib env) (me_Number e) (st_Country (get_Settings s)) of
                                       Inr n \<Rightarrow> n | Inl _ \<Rightarrow> me_Number e) in
             Look (\<lambda>s. let d = Decide (se_lib env) s number [] ''call''; call = incoming_call env e number d in
             PutCall (se_store env 0) call (\<lambda>_.
             Look (\<lambda>s. if \<not> st_Calls (get_Settings s) \<or> dc_Action d = ''block''
               then hangup_prog env 1 (c_ID call) ''filtered''
               else TellAll (\<lambda>n. NotifyIncomingCall n call)
                 (Look (\<lambda>s. let settings = get_Settings s in
                  if st_VoicemailEnabled settings \<and> se_media env
                  then Tell (SpawnVoicemail (c_ID call)
                         ((if st_VoicemailTimeout settings = 0 then 30 else st_VoicemailTimeout settings) * second)) Stop
                  else Stop))))))))"

definition alerting_prog :: "SEnv \<Rightarrow> MEvent \<Rightarrow> prog" where
  "alerting_prog env e =
     GetActive (\<lambda>active. case active of
       Some call \<Rightarrow> PutCall (se_store env 0) ((bump call)\<lparr>c_State := CallAlerting\<rparr>) (\<lambda>_. Stop)
     | None \<Rightarrow>
         with_route env (me_GatewayID e) (me_SubscriptionID e) (\<lambda>r. case r of
           Some _ \<Rightarrow> Stop
         | None \<Rightarrow>
             Look (\<lambda>s. let number = (case Normalize (se_lib env) (me_Number e) (st_Country (get_Settings s)) of
                                       Inr n \<Rightarrow> n | Inl _ \<Rightarrow> me_Number e) in
             Look (\<lambda>s. PutCall (se_store env 0)
               (alerting_call env e number (Decide (se_lib env) s number [] ''call'')) (\<lambda>_. Stop)))))"

definition active_prog :: "SEnv \<Rightarrow> MEvent \<Rightarrow> prog" where
  "active_prog env e =
     GetActive (\<lambda>active. case active of
       None \<Rightarrow> Stop
     | Some call \<Rightarrow>
         with_route env (c_GatewayID call) (c_SubscriptionID call) (\<lambda>_.
           let call = (bump call)\<lparr>c_State := CallActive, c_ConnectedAt := Some (se_now env)\<rparr> in
           PutCall (se_store env 0) call (\<lambda>_.
             if c_MediaOwner call = ''voicemail'' \<and> se_media env then Tell (StartVoicemail (c_ID call)) Stop
             else if c_Held call \<and> se_media env then Tell (SetHeld (c_ID call) True) Stop
             else AskModem (MEnableAudio True) (\<lambda>_. Stop))))"

definition ended_prog :: "SEnv \<Rightarrow> MEvent \<Rightarrow> prog" where
  "ended_prog env e =
     GetActive (\<lambda>active. case active of
       None \<Rightarrow> Stop
     | Some call \<Rightarrow>
         let call = (bump call)\<lparr>c_State := CallEnded, c_Held := False, c_EndedAt := Some (se_now env),
               c_EndReason := (if me_Reason e \<noteq> [] then me_Reason e else ''remote_hangup'')\<rparr> in
         PutCall (se_store env 0) call (\<lambda>_.
           AskModem (MEnableAudio False) (\<lambda>_. TellAll (\<lambda>n. NotifyCallEnded n call) Stop)))"

text \<open>The recorder marks the call it records and clears the mark.\<close>

definition recorder_prog :: "Env \<Rightarrow> string \<Rightarrow> (Call \<Rightarrow> Call) \<Rightarrow> prog" where
  "recorder_prog env callID f =
     GetCall callID (\<lambda>found. case found of
       None \<Rightarrow> Stop
     | Some call \<Rightarrow> PutCall env (f (call\<lparr>c_Version := c_Version call + 1\<rparr>)) (\<lambda>_. Stop))"

subsection \<open>A program run alone\<close>

text \<open>Nothing else happens meanwhile, and the modem answers as \<open>env\<close> says.\<close>

primrec alone :: "SEnv \<Rightarrow> prog \<Rightarrow> Svc \<Rightarrow> Svc" where
  "alone env Stop v = v"
| "alone env (GetCall i f) v = alone env (f (get_Call (v_state v) i)) v"
| "alone env (GetActive f) v = alone env (f (ActiveCall (v_state v))) v"
| "alone env (Look f) v = alone env (f (v_state v)) v"
| "alone env (PutCall e c f) v =
     (case UpsertCall e c (v_state v) of
        (Inl err, s) \<Rightarrow> alone env (f (Some err)) (v\<lparr>v_state := s\<rparr>)
      | (Inr _, s) \<Rightarrow> alone env (f None) (v\<lparr>v_state := s\<rparr>))"
| "alone env (PutOther q p) v = alone env p (v\<lparr>v_state := store_step q (v_state v)\<rparr>)"
| "alone env (AskModem c f) v = alone env (f (fst (ask env c v))) (snd (ask env c v))"
| "alone env (Tell a p) v = alone env p (act a v)"
| "alone env (TellAll f p) v = alone env p (notify f v)"
| "alone env (Lock p) v = alone env p v"
| "alone env (Unlock p) v = alone env p v"

lemma alone_put: "alone env (PutCall (se_store e k) c f) v =
   (case upsert_call e k c v of (r, v') \<Rightarrow> alone env (f r) v')"
  by (simp add: upsert_call_def split: prod.split sum.split)

lemma alone_route: "alone env (with_route env g u k) v =
   (case select_route env g u v of (r, v') \<Rightarrow> alone env (k r) v')"
  by (simp add: with_route_def select_route_def case_prod_unfold)

lemma alone_media: "alone env (tell_media env a p) v = alone env p (media env a v)"
  by (simp add: tell_media_def media_def)

lemma alone_ask: "alone env (AskModem c f) v = (case ask env c v of (r, v') \<Rightarrow> alone env (f r) v')"
  by (simp add: case_prod_unfold)

lemma alone_cases:
  "alone env (case r of None \<Rightarrow> p | Some x \<Rightarrow> q x) v = (case r of None \<Rightarrow> alone env p v | Some x \<Rightarrow> alone env (q x) v)"
  "alone env (case c of Inl x \<Rightarrow> l x | Inr y \<Rightarrow> rr y) v = (case c of Inl x \<Rightarrow> alone env (l x) v | Inr y \<Rightarrow> alone env (rr y) v)"
  "alone env (if b then p else p') v = (if b then alone env p v else alone env p' v)"
  by (simp_all split: option.split sum.split)

lemma snd_cases:
  "snd (case r of None \<Rightarrow> x | Some y \<Rightarrow> f y) = (case r of None \<Rightarrow> snd x | Some y \<Rightarrow> snd (f y))"
  "snd (case c of Inl y \<Rightarrow> l y | Inr z \<Rightarrow> rr z) = (case c of Inl y \<Rightarrow> snd (l y) | Inr z \<Rightarrow> snd (rr z))"
  "snd (case pr of (y, z) \<Rightarrow> g y z) = (case pr of (y, z) \<Rightarrow> snd (g y z))"
  "snd (if b then x else x') = (if b then snd x else snd x')"
  by (simp_all split: option.split sum.split prod.split)

lemma case_same: "(case r of None \<Rightarrow> x | Some _ \<Rightarrow> x) = x"
  by (simp split: option.split)

lemmas alone_simps = alone_put alone_route alone_media alone_ask alone_cases snd_cases Let_def case_prod_unfold case_same

lemmas alone_congs = option.case_cong sum.case_cong prod.case_cong if_cong

declare alone.simps(5,7) [simp del]

text \<open>Each program, run alone, is the operation of the theory \<^verbatim>\<open>Service\<close>.\<close>

lemma dial_alone: "alone env (dial_prog env raw owner route) v = snd (DialRoute env raw owner route v)"
proof (cases "st_Calls (get_Settings (v_state v)) \<and> ActiveCall (v_state v) = None")
  case True
  then show ?thesis
    by (cases "Normalize (se_lib env) raw (st_Country (get_Settings (v_state v)))")
      (simp_all add: dial_prog_def DialRoute_def DialRoute_check_def DialRoute_commit_def alone_simps cong: alone_congs)
qed (auto simp: dial_prog_def DialRoute_def DialRoute_check_def Let_def)

lemma answer_alone: "alone env (answer_prog env i owner) v = snd (AnswerFrom env i owner v)"
proof (cases "get_Call (v_state v) i")
  case (Some call)
  let ?x = "select_route env (c_GatewayID call) (c_SubscriptionID call) v"
  show ?thesis
    by (cases "fst ?x"; cases "fst (upsert_call env 0 ((bump call)\<lparr>c_MediaOwner := owner\<rparr>) (snd ?x))")
      (simp_all add: answer_prog_def AnswerFrom_def AnswerFrom_claim_def AnswerFrom_finish_def Some alone_simps
        cong: alone_congs)
qed (simp add: answer_prog_def AnswerFrom_def AnswerFrom_claim_def)

lemma hold_alone: "alone env (hold_prog env i) v = snd (Hold env i v)"
  by (simp add: hold_prog_def Hold_def alone_simps cong: alone_congs)

lemma resume_alone: "alone env (resume_prog env i) v = snd (Resume env i v)"
  by (simp add: resume_prog_def Resume_def alone_simps cong: alone_congs)

lemma transfer_alone: "alone env (transfer_prog env i) v = snd (TransferToVoicemail env i v)"
  by (simp add: transfer_prog_def TransferToVoicemail_def alone_simps cong: alone_congs)

lemma voicemail_alone: "alone env (voicemail_prog env i) v = voicemailAfter env i v"
  by (simp add: voicemail_prog_def voicemailAfter_def alone_simps split: option.split)

lemma hangup_alone: "alone env (hangup_prog env k i reason) v = snd (Hangup env k i reason v)"
  by (simp add: hangup_prog_def Hangup_def notifyCallEnded_def alone_simps cong: alone_congs)

lemma mute_alone: "alone env (mute_prog env i b) v = snd (Mute env i b v)"
  by (simp add: mute_prog_def Mute_def alone_simps cong: alone_congs)

lemma incoming_alone: "alone env (incoming_prog env e) v = on_call_incoming env e v"
  by (simp add: incoming_prog_def on_call_incoming_def event_number_def notifyIncomingCall_def alone_simps hangup_alone cong: alone_congs)

lemma alerting_alone: "alone env (alerting_prog env e) v = on_call_alerting env e v"
  by (simp add: alerting_prog_def on_call_alerting_def event_number_def alone_simps cong: alone_congs)

lemma active_alone: "alone env (active_prog env e) v = on_call_active env e v"
  by (simp add: active_prog_def on_call_active_def alone_simps cong: alone_congs)

lemma ended_alone: "alone env (ended_prog env e) v = on_call_ended env e v"
  by (simp add: ended_prog_def on_call_ended_def notifyCallEnded_def alone_simps cong: alone_congs)

lemma recorder_alone: "alone env (recorder_prog e i f) v = v\<lparr>v_state := set_call e i f (v_state v)\<rparr>"
  by (simp add: recorder_prog_def set_call_def alone.simps(5) split: option.split prod.split sum.split)

subsection \<open>The pool\<close>














subsection \<open>What the programs may write\<close>

text \<open>
  A program may write the next version of a call it has read or written, and may make it live only if it was
  live; and it may write a new call once it has found no call active. \<open>known\<close> lists the calls it has seen;
  the store gives only live calls as the active one.
\<close>

definition writable :: "Call \<Rightarrow> Call list \<Rightarrow> bool \<Rightarrow> bool" where
  "writable c known idle \<longleftrightarrow>
     (\<exists>d \<in> set known. c_ID c = c_ID d \<and> c_Version c = c_Version d + 1 \<and> (live_state (c_State c) \<longrightarrow> live_state (c_State d))) \<or>
     (idle \<and> c_ID c \<noteq> [] \<and> c_Version c = 1)"

definition seen :: "Call option \<Rightarrow> Call list \<Rightarrow> Call list" where
  "seen r known = (case r of None \<Rightarrow> known | Some c \<Rightarrow> c # known)"

primrec justified :: "prog \<Rightarrow> Call list \<Rightarrow> bool \<Rightarrow> bool" where
  "justified Stop known idle \<longleftrightarrow> True"
| "justified (GetCall i f) known idle \<longleftrightarrow> (\<forall>r. justified (f r) (seen r known) idle)"
| "justified (GetActive f) known idle \<longleftrightarrow>
     (\<forall>r. (\<forall>c. r = Some c \<longrightarrow> live_state (c_State c)) \<longrightarrow> justified (f r) (seen r known) (r = None))"
| "justified (Look f) known idle \<longleftrightarrow> (\<forall>s. justified (f s) known idle)"
| "justified (PutCall e c f) known idle \<longleftrightarrow>
     writable c known idle \<and> justified (f None) (c # known) False \<and> (\<forall>err. justified (f (Some err)) known idle)"
| "justified (PutOther q p) known idle \<longleftrightarrow> callless q \<and> justified p known idle"
| "justified (AskModem c f) known idle \<longleftrightarrow> (\<forall>r. justified (f r) known idle)"
| "justified (Tell a p) known idle \<longleftrightarrow> justified p known idle"
| "justified (TellAll g p) known idle \<longleftrightarrow> justified p known idle"
| "justified (Lock p) known idle \<longleftrightarrow> justified p known idle"
| "justified (Unlock p) known idle \<longleftrightarrow> justified p known idle"


lemma justified_media [simp]: "justified (tell_media env a p) known idle = justified p known idle"
  by (simp add: tell_media_def)


lemma new_call_version [simp]: "c_Version (alerting_call env e n d) = 1"
  by (simp add: alerting_call_def)




subsection \<open>The invariant of the pool\<close>



















subsection \<open>A concrete run\<close>




end
