(* ===== verification/Media_Session_Props.thy ===== *)
theory Media_Session_Props
  imports Media_Session
begin

text \<open>
  Runs of a browser audio session: peers come and go, microphone packets arrive, the uplink writes a
  frame every 20 ms, the call is held and resumed, in any order and with the critical sections of
  different goroutines interleaved in any way.
\<close>

subsection \<open>Runs\<close>

text \<open>
  A run keeps, beside the session, the microphone frames on their way through \<^verbatim>\<open>enqueueMic\<close> (those past
  the first check, and those past the send that have to mark the session bridged), the turn of the
  uplink with its phase, the frame of the downlink with its phase, the frames written to the port, each
  with whether it came from the browser, and the frames sent to the browser and to the recording. The loop
  that empties the microphone channel is a sequence of \<open>SsTakeMic\<close>, which may happen at any time.
\<close>

datatype phase = Idle | Begun | Framed | Stopped

datatype down_phase = DownIdle | DownRead Down | DownSent Down

record SessRun =
  sr_s :: Session
  sr_checked :: "(64 word \<times> int16 list \<times> bool) list"
  sr_sent :: "64 word list"
  sr_u :: Uplink
  sr_phase :: phase
  sr_written :: "(bool \<times> byte8 list) list"
  sr_down :: down_phase
  sr_heard :: "(nat \<times> int16 list) list"
  sr_recorded :: "int16 list list"

datatype SessOp =
    SsAttach gtime nat nat
  | SsDetach "64 word"
  | SsNegotiating gtime "64 word"
  | SsRecovering gtime "64 word"
  | SsMicCheck "64 word" "int16 list"
  | SsMicSend
  | SsMicFirst gtime
  | SsUpBegin
  | SsUpMic
  | SsUpWrite gtime bool
  | SsDownRead "int16 list"
  | SsDownSend gtime bool
  | SsDownRecord
  | SsTakeMic
  | SsHeld bool
  | SsDeadline
  | SsTimer "Call option" "64 word"
  | SsOpened gtime
  | SsFail gerror
  | SsError gerror

definition on_s :: "(Session \<Rightarrow> Session) \<Rightarrow> SessRun \<Rightarrow> SessRun" where
  "on_s f r = r\<lparr>sr_s := f (sr_s r)\<rparr>"

fun sess_step :: "SessOp \<Rightarrow> SessRun \<Rightarrow> SessRun" where
  "sess_step (SsAttach now out pc) r = on_s (snd \<circ> attach_locked now out pc) r"
| "sess_step (SsDetach i) r = on_s (detach_locked i) r"
| "sess_step (SsNegotiating now i) r = on_s (markNegotiating now i) r"
| "sess_step (SsRecovering now i) r = on_s (recovering_locked now i) r"
| "sess_step (SsMicCheck i frame) r =
     (case enqueue_check i (sr_s r) of
        Enqueue first \<Rightarrow> r\<lparr>sr_checked := sr_checked r @ [(i, frame, first)]\<rparr>
      | _ \<Rightarrow> r)"
| "sess_step SsMicSend r =
     (case sr_checked r of
        [] \<Rightarrow> r
      | (i, frame, first) # rest \<Rightarrow>
          on_s (enqueue_send frame) (r\<lparr>sr_checked := rest, sr_sent := (if first then sr_sent r @ [i] else sr_sent r)\<rparr>))"
| "sess_step (SsMicFirst now) r =
     (case sr_sent r of
        [] \<Rightarrow> r
      | i # rest \<Rightarrow> on_s (snd \<circ> enqueue_first now i) (r\<lparr>sr_sent := rest\<rparr>))"
| "sess_step SsUpBegin r =
     (if sr_phase r = Idle
      then let (u, s) = uplink_begin (sr_s r) (sr_u r) in r\<lparr>sr_u := u, sr_s := s, sr_phase := Begun\<rparr> else r)"
| "sess_step SsUpMic r =
     (if sr_phase r = Begun
      then let (u, s) = uplink_mic (sr_u r) (sr_s r) in r\<lparr>sr_u := u, sr_s := s, sr_phase := Framed\<rparr> else r)"
| "sess_step (SsUpWrite now ok) r =
     (if sr_phase r = Framed
      then if ok then on_s (uplink_end now (sr_u r))
             (r\<lparr>sr_phase := Idle, sr_written := sr_written r @ [(up_bridged (sr_u r) \<and> up_gotMic (sr_u r), int16Bytes (up_frame (sr_u r)))]\<rparr>)
           else r\<lparr>sr_phase := Stopped\<rparr>
      else r)"
| "sess_step (SsDownRead pcm) r =
     (if sr_down r = DownIdle then r\<lparr>sr_down := DownRead (downlink_read pcm (sr_s r))\<rparr> else r)"
| "sess_step (SsDownSend now ok) r =
     (case sr_down r of
        DownRead d \<Rightarrow>
          (case downlink_send d of
             None \<Rightarrow> r\<lparr>sr_down := DownSent d\<rparr>
           | Some out \<Rightarrow>
               if ok then r\<lparr>sr_down := DownSent d, sr_heard := sr_heard r @ [out]\<rparr>
               else on_s (recovering_locked now (dn_peerID d)) (r\<lparr>sr_down := DownSent d\<rparr>))
      | _ \<Rightarrow> r)"
| "sess_step SsDownRecord r =
     (case sr_down r of
        DownSent d \<Rightarrow>
          r\<lparr>sr_down := DownIdle, sr_recorded := sr_recorded r @ (case downlink_record d of None \<Rightarrow> [] | Some pcm \<Rightarrow> [pcm])\<rparr>
      | _ \<Rightarrow> r)"
| "sess_step SsTakeMic r = on_s take_mic r"
| "sess_step (SsHeld b) r = on_s (held_locked b) r"
| "sess_step SsDeadline r = on_s (snd \<circ> startAnswerDeadline) r"
| "sess_step (SsTimer call g) r = on_s (snd \<circ> deadline_fires call g) r"
| "sess_step (SsOpened now) r = on_s (audio_opened now) r"
| "sess_step (SsFail e) r = on_s (failStart e) r"
| "sess_step (SsError e) r = on_s (setError e) r"

definition new_run :: "string \<Rightarrow> gtime \<Rightarrow> int16 list \<Rightarrow> SessRun" where
  "new_run callID now tone = \<lparr>sr_s = new_session callID now, sr_checked = [], sr_sent = [],
     sr_u = \<lparr>up_tone = tone, up_offset = 0, up_toneFrame = [], up_bridged = False, up_fade = 0, up_frame = [],
            up_gotMic = False\<rparr>,
     sr_phase = Idle, sr_written = [], sr_down = DownIdle, sr_heard = [], sr_recorded = []\<rparr>"

subsection \<open>What every run keeps\<close>

definition mic_ok :: "Session \<Rightarrow> bool" where
  "mic_ok s \<longleftrightarrow> length (ss_mic s) \<le> mic_cap \<and> 0 \<le> ss_fadeFrames s \<and> ss_fadeFrames s \<le> 5"

definition status_ok :: "Session \<Rightarrow> bool" where
  "status_ok s \<longleftrightarrow> (md_State (ss_status s) = ''bridged'' \<longrightarrow> ss_everBridged s) \<and>
     (ss_everBridged s \<longleftrightarrow> ss_firstPCM s) \<and> (ss_everBridged s \<longleftrightarrow> md_FirstPCMAt (ss_status s) \<noteq> None)"

lemmas session_defs = attach_locked_def detach_locked_def markNegotiating_def recovering_locked_def enqueue_send_def
  enqueue_first_def held_locked_def startAnswerDeadline_def deadline_fires_def audio_opened_def failStart_def
  setError_def take_mic_def upd_status_def Let_def

lemma length_mic_send: "length q \<le> mic_cap \<Longrightarrow> length (mic_send f q) \<le> mic_cap"
  by (auto simp: mic_send_def mic_cap_def Let_def)

lemma mic_ok_ops:
  assumes "mic_ok s"
  shows "mic_ok (snd (attach_locked now out pc s))" "mic_ok (detach_locked i s)" "mic_ok (markNegotiating now i s)"
    "mic_ok (recovering_locked now i s)" "mic_ok (enqueue_send f s)" "mic_ok (snd (enqueue_first now i s))"
    "mic_ok (held_locked b s)" "mic_ok (snd (startAnswerDeadline s))" "mic_ok (snd (deadline_fires call g s))"
    "mic_ok (audio_opened now s)" "mic_ok (failStart e s)" "mic_ok (setError e s)"
    "mic_ok (take_mic s)" "mic_ok (uplink_end now u s)"
    "mic_ok (snd (uplink_begin s u))" "mic_ok (snd (uplink_mic u s))"
  using assms length_mic_send [of "ss_mic s" f]
  by (auto simp: mic_ok_def session_defs uplink_end_def uplink_begin_def uplink_mic_def
      split: option.split list.split)

lemma status_ok_ops:
  assumes "status_ok s"
  shows "status_ok (snd (attach_locked now out pc s))" "status_ok (detach_locked i s)" "status_ok (markNegotiating now i s)"
    "status_ok (recovering_locked now i s)" "status_ok (enqueue_send f s)" "status_ok (snd (enqueue_first now i s))"
    "status_ok (held_locked b s)" "status_ok (snd (startAnswerDeadline s))" "status_ok (snd (deadline_fires call g s))"
    "status_ok (audio_opened now s)" "status_ok (failStart e s)" "status_ok (setError e s)"
    "status_ok (take_mic s)" "status_ok (uplink_end now u s)"
    "status_ok (snd (uplink_begin s u))" "status_ok (snd (uplink_mic u s))"
  using assms
  by (auto simp: status_ok_def session_defs uplink_end_def uplink_begin_def uplink_mic_def
      split: option.split list.split)

text \<open>Only the end of an uplink turn changes whether the session has ever been bridged.\<close>

lemma everBridged_ops [simp]:
  "ss_everBridged (snd (attach_locked now out pc s)) = ss_everBridged s" "ss_everBridged (detach_locked i s) = ss_everBridged s"
  "ss_everBridged (markNegotiating now i s) = ss_everBridged s" "ss_everBridged (recovering_locked now i s) = ss_everBridged s"
  "ss_everBridged (enqueue_send f s) = ss_everBridged s" "ss_everBridged (snd (enqueue_first now i s)) = ss_everBridged s"
  "ss_everBridged (held_locked b s) = ss_everBridged s" "ss_everBridged (snd (startAnswerDeadline s)) = ss_everBridged s"
  "ss_everBridged (snd (deadline_fires call g s)) = ss_everBridged s" "ss_everBridged (audio_opened now s) = ss_everBridged s"
  "ss_everBridged (failStart e s) = ss_everBridged s" "ss_everBridged (setError e s) = ss_everBridged s"
  "ss_everBridged (take_mic s) = ss_everBridged s"
  "ss_everBridged (snd (uplink_begin s u)) = ss_everBridged s" "ss_everBridged (snd (uplink_mic u s)) = ss_everBridged s"
  by (auto simp: session_defs uplink_begin_def uplink_mic_def split: option.split list.split)

lemma everBridged_end [simp]:
  "ss_everBridged (uplink_end now u s) \<longleftrightarrow> ss_everBridged s \<or> (up_bridged u \<and> up_gotMic u)"
  by (auto simp: uplink_end_def session_defs)

definition frames_ok :: "SessRun \<Rightarrow> bool" where
  "frames_ok r \<longleftrightarrow>
     (sr_phase r \<in> {Begun, Framed} \<longrightarrow> length (up_toneFrame (sr_u r)) = webFrameSamples \<and> length (up_frame (sr_u r)) = webFrameSamples) \<and>
     (\<forall>w \<in> set (sr_written r). length (snd w) = 2 * webFrameSamples)"

definition run_ok :: "SessRun \<Rightarrow> bool" where
  "run_ok r \<longleftrightarrow> mic_ok (sr_s r) \<and> status_ok (sr_s r) \<and> frames_ok r \<and>
     (ss_everBridged (sr_s r) \<longleftrightarrow> True \<in> fst ` set (sr_written r))"

lemma length_copy_frame [simp]: "length (copy_frame m) = webFrameSamples"
  by (simp add: copy_frame_def webFrameSamples_def)

lemma uplink_begin_frames:
  "length (up_toneFrame (fst (uplink_begin s u))) = webFrameSamples" "length (up_frame (fst (uplink_begin s u))) = webFrameSamples"
  by (simp_all add: uplink_begin_def tone_frame_def Let_def)

lemma uplink_mic_frames:
  "length (up_toneFrame u) = webFrameSamples \<Longrightarrow> length (up_frame u) = webFrameSamples \<Longrightarrow>
   length (up_toneFrame (fst (uplink_mic u s))) = webFrameSamples \<and> length (up_frame (fst (uplink_mic u s))) = webFrameSamples"
  by (auto simp: uplink_mic_def Let_def split: list.split)

lemma run_ok_on_s:
  "run_ok r \<Longrightarrow> mic_ok (f (sr_s r)) \<Longrightarrow> status_ok (f (sr_s r)) \<Longrightarrow> ss_everBridged (f (sr_s r)) = ss_everBridged (sr_s r)
   \<Longrightarrow> run_ok (on_s f r)"
  by (simp add: run_ok_def on_s_def frames_ok_def)

lemma sess_step_ok:
  assumes "run_ok r"
  shows "run_ok (sess_step q r)"
proof -
  have ok: "mic_ok (sr_s r)" "status_ok (sr_s r)" using assms by (simp_all add: run_ok_def)
  note ops = mic_ok_ops [OF ok(1)] status_ok_ops [OF ok(2)]
  note run = assms [unfolded run_ok_def frames_ok_def]
  show ?thesis
  proof (cases q)
    case (SsMicCheck i frame)
    then show ?thesis using assms by (simp add: run_ok_def frames_ok_def split: mic_check.split)
  next
    case SsMicSend
    then show ?thesis using run by (simp add: ops run_ok_def frames_ok_def on_s_def split: list.split)
  next
    case (SsMicFirst now)
    then show ?thesis using run by (simp add: ops run_ok_def frames_ok_def on_s_def split: list.split)
  next
    case SsUpBegin
    then show ?thesis
      using run by (simp add: ops uplink_begin_frames run_ok_def frames_ok_def case_prod_unfold Let_def)
  next
    case SsUpMic
    then show ?thesis
      using run by (simp add: ops uplink_mic_frames run_ok_def frames_ok_def case_prod_unfold Let_def)
  next
    case (SsUpWrite now ok)
    then show ?thesis using run by (auto simp: ops run_ok_def frames_ok_def on_s_def)
  next
    case (SsDownRead pcm)
    then show ?thesis using run by (simp add: run_ok_def frames_ok_def)
  next
    case (SsDownSend now ok)
    then show ?thesis using run by (auto simp: ops run_ok_def frames_ok_def on_s_def split: down_phase.split option.split)
  next
    case SsDownRecord
    then show ?thesis using run by (simp add: run_ok_def frames_ok_def split: down_phase.split)
  qed (use assms in \<open>simp_all add: run_ok_on_s ops\<close>)
qed

lemma new_run_ok: "run_ok (new_run callID now tone)"
  by (simp add: run_ok_def frames_ok_def new_run_def mic_ok_def status_ok_def new_session_def)

lemma sess_run_ok: "run_ok r \<Longrightarrow> run_ok (run_ops sess_step qs r)"
  by (induction qs arbitrary: r) (auto intro: sess_step_ok)

text \<open>C19: A session reports \<^verbatim>\<open>bridged\<close> only when the caller has been given sound from the browser: after any run
  from a new session, however its goroutines interleave, a status \<^verbatim>\<open>bridged\<close> or a set \<^verbatim>\<open>firstPcmAt\<close> means that
  a frame from the microphone has been written to the phone; and every frame ever written has
  exactly 640 bytes, at most 100 frames wait, and the cross-fade counter stays between 0 and 5.\<close>

theorem bridged_means_pcm_written:
  assumes "r = run_ops sess_step qs (new_run callID now tone)"
  shows "(md_State (ss_status (sr_s r)) = ''bridged'' \<longrightarrow> (\<exists>b. (True, b) \<in> set (sr_written r))) \<and>
    (md_FirstPCMAt (ss_status (sr_s r)) \<noteq> None \<longleftrightarrow> (\<exists>b. (True, b) \<in> set (sr_written r))) \<and>
    (\<forall>w \<in> set (sr_written r). length (snd w) = 640) \<and> length (ss_mic (sr_s r)) \<le> 100 \<and>
    0 \<le> ss_fadeFrames (sr_s r) \<and> ss_fadeFrames (sr_s r) \<le> 5"
proof -
  have "run_ok r" using sess_run_ok [OF new_run_ok] assms by simp
  then show ?thesis
    by (force simp: run_ok_def mic_ok_def status_ok_def frames_ok_def webFrameSamples_def mic_cap_def)
qed

theorem bridged_means_pcm_written_witness:
  "md_State (ss_status (sr_s (run_ops sess_step
     [SsAttach 1 0 0, SsMicCheck 1 [5], SsMicSend, SsMicFirst 2, SsUpBegin, SsUpMic, SsUpWrite 3 True]
     (new_run ''c'' 0 [0])))) = ''bridged'' \<and>
   (\<exists>b. (True, b) \<in> set (sr_written (run_ops sess_step
     [SsAttach 1 0 0, SsMicCheck 1 [5], SsMicSend, SsMicFirst 2, SsUpBegin, SsUpMic, SsUpWrite 3 True]
     (new_run ''c'' 0 [0]))))"
proof -
  let ?r = "run_ops sess_step
     [SsAttach 1 0 0, SsMicCheck 1 [5], SsMicSend, SsMicFirst 2, SsUpBegin, SsUpMic, SsUpWrite 3 True]
     (new_run ''c'' 0 [0])"
  have "md_State (ss_status (sr_s ?r)) = ''bridged''"
    by (simp add: new_run_def new_session_def on_s_def attach_locked_def upd_status_def enqueue_check_def
        enqueue_send_def mic_send_def mic_cap_def enqueue_first_def uplink_begin_def uplink_mic_def uplink_end_def Let_def)
  then show ?thesis using bridged_means_pcm_written [OF refl] by blast
qed

subsection \<open>The microphone queue\<close>

definition newest :: "nat \<Rightarrow> 'a list \<Rightarrow> 'a list" where
  "newest n xs = drop (length xs - n) xs"

lemma mic_send_newest: "length q \<le> mic_cap \<Longrightarrow> mic_send f q = newest mic_cap (q @ [f])"
  by (cases "length q < mic_cap") (auto simp: mic_send_def newest_def mic_cap_def Let_def drop_Suc)

lemma newest_newest: "newest n (newest n xs @ ys) = newest n (xs @ ys)"
proof (cases "length xs \<le> n")
  case False
  then have "length xs + length ys - n = length ys + (length xs - n)" by simp
  then show ?thesis using False by (simp add: newest_def)
qed (simp add: newest_def)

text \<open>The microphone channel behaves like an unbounded queue of which the 100 newest frames are kept: the
  caller hears the latest sound, and old frames are dropped in order.\<close>

theorem mic_keeps_newest:
  assumes "length (ss_mic s) \<le> mic_cap"
  shows "ss_mic (fold enqueue_send fs s) = newest mic_cap (ss_mic s @ fs)"
  using assms
proof (induction fs arbitrary: s)
  case Nil
  then show ?case by (simp add: newest_def)
next
  case (Cons f fs)
  have "ss_mic (enqueue_send f s) = newest mic_cap (ss_mic s @ [f])"
    using mic_send_newest [OF Cons.prems] by (simp add: enqueue_send_def)
  moreover have "length (newest mic_cap (ss_mic s @ [f])) \<le> mic_cap" by (simp add: newest_def)
  ultimately show ?case using Cons.IH [of "enqueue_send f s"] by (simp add: newest_newest)
qed

theorem mic_keeps_newest_witness:
  "ss_mic (fold enqueue_send [[1], [2]] (new_session ''c'' 0)) = newest mic_cap [[1], [2]]"
  using mic_keeps_newest [of "new_session ''c'' 0" "[[1], [2]]"] by (simp add: new_session_def)

subsection \<open>Holding a call\<close>

text \<open>A frame of the ringback tone.\<close>

definition ringback :: "int16 list \<Rightarrow> bool \<times> byte8 list \<Rightarrow> bool" where
  "ringback tone w \<longleftrightarrow> (\<exists>k. w = (False, int16Bytes (tone_frame tone k)))"

definition voiced :: "SessRun \<Rightarrow> nat" where
  "voiced r = length (filter (\<lambda>w. \<not> ringback (up_tone (sr_u r)) w) (sr_written r))"

text \<open>Whether the turn in progress may still write, send or record something else than during a hold.\<close>

definition turn_pending :: "SessRun \<Rightarrow> nat" where
  "turn_pending r = (if (sr_phase r = Begun \<or> sr_phase r = Framed) \<and>
     (up_bridged (sr_u r) \<or> \<not> (\<exists>k. up_frame (sr_u r) = tone_frame (up_tone (sr_u r)) k)) then 1 else 0)"

definition heard_pending :: "SessRun \<Rightarrow> nat" where
  "heard_pending r = (case sr_down r of DownRead d \<Rightarrow> if dn_held d then 0 else 1 | _ \<Rightarrow> 0)"

definition recorded_pending :: "SessRun \<Rightarrow> nat" where
  "recorded_pending r =
     (case sr_down r of DownIdle \<Rightarrow> 0 | DownRead d \<Rightarrow> if dn_held d then 0 else 1 | DownSent d \<Rightarrow> if dn_held d then 0 else 1)"

lemma held_ops [simp]:
  "ss_held (snd (attach_locked now out pc s)) = ss_held s" "ss_held (detach_locked i s) = ss_held s"
  "ss_held (markNegotiating now i s) = ss_held s" "ss_held (recovering_locked now i s) = ss_held s"
  "ss_held (enqueue_send f s) = ss_held s" "ss_held (snd (enqueue_first now i s)) = ss_held s"
  "ss_held (held_locked b s) = b" "ss_held (snd (startAnswerDeadline s)) = ss_held s"
  "ss_held (snd (deadline_fires call g s)) = ss_held s" "ss_held (audio_opened now s) = ss_held s"
  "ss_held (failStart e s) = ss_held s" "ss_held (setError e s) = ss_held s" "ss_held (take_mic s) = ss_held s"
  "ss_held (snd (uplink_begin s u)) = ss_held s" "ss_held (snd (uplink_mic u s)) = ss_held s" "ss_held (uplink_end now u s) = ss_held s"
  by (auto simp: session_defs uplink_begin_def uplink_mic_def uplink_end_def split: option.split list.split)

lemma tone_kept [simp]: "up_tone (fst (uplink_begin s u)) = up_tone u" "up_tone (fst (uplink_mic u s)) = up_tone u"
  by (auto simp: uplink_begin_def uplink_mic_def Let_def split: list.split)

lemma held_begin: "ss_held s \<Longrightarrow> \<not> up_bridged (fst (uplink_begin s u)) \<and> (\<exists>k. up_frame (fst (uplink_begin s u)) = tone_frame (up_tone u) k)"
  by (auto simp: uplink_begin_def Let_def)

lemma muted_mic: "\<not> up_bridged u \<Longrightarrow> uplink_mic u s = (u, s)"
  by (simp add: uplink_mic_def)

text \<open>What one step does while the call is held: what it lets through was pending before.\<close>

definition quiet_step :: "SessRun \<Rightarrow> SessRun \<Rightarrow> bool" where
  "quiet_step r r' \<longleftrightarrow> ss_held (sr_s r') \<and> up_tone (sr_u r') = up_tone (sr_u r) \<and>
     voiced r' + turn_pending r' \<le> voiced r + turn_pending r \<and>
     length (sr_heard r') + heard_pending r' \<le> length (sr_heard r) + heard_pending r \<and>
     length (sr_recorded r') + recorded_pending r' \<le> length (sr_recorded r) + recorded_pending r \<and>
     (\<exists>gone. sr_checked r = gone @ sr_checked r')"

lemmas quiet_defs = quiet_step_def voiced_def turn_pending_def heard_pending_def recorded_pending_def

lemma quiet_on_s: "ss_held (f (sr_s r)) \<Longrightarrow> quiet_step r (on_s f r)"
  by (simp add: quiet_defs on_s_def)

lemma quiet_refl: "ss_held (sr_s r) \<Longrightarrow> quiet_step r r"
  by (simp add: quiet_step_def)

lemma quiet_trans: "quiet_step r r1 \<Longrightarrow> quiet_step r1 r2 \<Longrightarrow> quiet_step r r2"
  unfolding quiet_step_def by (elim conjE exE, intro conjI) (linarith | simp)+

lemma sess_step_quiet:
  assumes held: "ss_held (sr_s r)" and q: "q \<noteq> SsHeld False"
  shows "quiet_step r (sess_step q r)"
proof (cases q)
  case (SsMicCheck i frame)
  then show ?thesis using held by (simp add: quiet_refl enqueue_check_def)
next
  case SsMicSend
  then show ?thesis using held by (auto simp: quiet_defs on_s_def split: list.split)
next
  case (SsMicFirst now)
  then show ?thesis using held by (auto simp: quiet_defs on_s_def split: list.split)
next
  case SsUpBegin
  then show ?thesis
    using held held_begin [OF held, of "sr_u r"] by (auto simp: quiet_defs case_prod_unfold Let_def)
next
  case SsUpMic
  then show ?thesis
    using held muted_mic [of "sr_u r" "sr_s r"]
    by (cases "up_bridged (sr_u r)") (auto simp: quiet_defs case_prod_unfold Let_def)
next
  case (SsUpWrite now ok)
  then show ?thesis using held by (auto simp: quiet_defs on_s_def ringback_def)
next
  case (SsDownRead pcm)
  then show ?thesis using held by (auto simp: quiet_defs downlink_read_def)
next
  case (SsDownSend now ok)
  then show ?thesis
    using held by (auto simp: quiet_defs on_s_def downlink_send_def split: down_phase.split option.split if_splits)
next
  case SsDownRecord
  then show ?thesis using held by (auto simp: quiet_defs downlink_record_def split: down_phase.split)
next
  case (SsHeld b)
  then show ?thesis using q by (auto intro: quiet_on_s)
qed (use held in \<open>auto intro!: quiet_on_s\<close>)

lemma sess_run_quiet:
  "ss_held (sr_s r) \<Longrightarrow> SsHeld False \<notin> set qs \<Longrightarrow> quiet_step r (run_ops sess_step qs r)"
proof (induction qs arbitrary: r)
  case (Cons q qs)
  have "quiet_step r (sess_step q r)" using Cons.prems by (intro sess_step_quiet) auto
  moreover from this have "quiet_step (sess_step q r) (run_ops sess_step qs (sess_step q r))"
    using Cons by (simp add: quiet_step_def)
  ultimately show ?case using quiet_trans by simp
qed (simp add: quiet_refl)

text \<open>C20: A held call is silent, but for what was on its way when it was put on hold. In every run of the session
  in which the call is held at the start and not resumed, however its goroutines interleave: the uplink
  writes at most one frame that is not the ringback tone, and none if no turn of it was in progress; at
  most one frame from the phone reaches the browser and at most one the recording, and none if the
  downlink was waiting for a frame; and no further frame of the microphone passes the check towards the
  queue.\<close>

theorem held_call_is_silent:
  assumes "ss_held (sr_s r)" "SsHeld False \<notin> set qs" "r' = run_ops sess_step qs r"
  shows "voiced r' \<le> voiced r + (if sr_phase r = Begun \<or> sr_phase r = Framed then 1 else 0) \<and>
    length (sr_heard r') \<le> length (sr_heard r) + (if sr_down r = DownIdle then 0 else 1) \<and>
    length (sr_recorded r') \<le> length (sr_recorded r) + (if sr_down r = DownIdle then 0 else 1) \<and>
    (\<exists>gone. sr_checked r = gone @ sr_checked r')"
proof -
  have "turn_pending r \<le> (if sr_phase r = Begun \<or> sr_phase r = Framed then 1 else 0)"
    "heard_pending r \<le> (if sr_down r = DownIdle then 0 else 1)" "recorded_pending r \<le> (if sr_down r = DownIdle then 0 else 1)"
    by (auto simp: quiet_defs split: down_phase.split)
  then show ?thesis
    using sess_run_quiet [OF assms(1,2)] unfolding assms(3) quiet_step_def by (elim conjE, intro conjI) linarith+
qed

definition demo_held :: SessRun where
  "demo_held = run_ops sess_step
     [SsAttach 1 0 0, SsMicCheck 1 [5], SsMicSend, SsMicFirst 2, SsUpBegin, SsUpMic, SsHeld True] (new_run ''c'' 0 [0])"

theorem held_call_is_silent_witness:
  "voiced (run_ops sess_step [SsUpWrite 3 True, SsMicCheck 1 [6], SsDownRead [7], SsDownSend 4 True] demo_held) \<le>
     voiced demo_held + 1 \<and>
   sr_heard (run_ops sess_step [SsUpWrite 3 True, SsMicCheck 1 [6], SsDownRead [7], SsDownSend 4 True] demo_held) = []"
proof -
  have *: "ss_held (sr_s demo_held)" "sr_phase demo_held = Framed" "sr_down demo_held = DownIdle" "sr_heard demo_held = []"
    by (simp_all add: demo_held_def new_run_def new_session_def on_s_def attach_locked_def upd_status_def enqueue_check_def
        enqueue_send_def mic_send_def mic_cap_def enqueue_first_def uplink_begin_def uplink_mic_def held_locked_def Let_def)
  from held_call_is_silent [OF *(1) _ refl, of "[SsUpWrite 3 True, SsMicCheck 1 [6], SsDownRead [7], SsDownSend 4 True]"]
  show ?thesis using *(2,3,4) by (simp del: sess_step.simps run_ops.simps)
qed

text \<open>The frame that was on its way is real: a turn that took a frame from the microphone before the hold writes it
  after the hold.\<close>

lemma frame_written_after_hold:
  "sr_written (sess_step (SsUpWrite 3 True) demo_held) \<noteq> [] \<and> fst (last (sr_written (sess_step (SsUpWrite 3 True) demo_held)))"
  by (simp add: demo_held_def new_run_def new_session_def on_s_def attach_locked_def upd_status_def enqueue_check_def
      enqueue_send_def mic_send_def mic_cap_def enqueue_first_def uplink_begin_def uplink_mic_def held_locked_def Let_def)

text \<open>Putting a call on hold empties the microphone channel, but a frame that has already passed the check of
  \<^verbatim>\<open>enqueueMic\<close> is still sent afterwards. It waits through the hold and is the first thing the caller
  hears when the call is resumed.\<close>

lemma hold_race_keeps_frame:
  assumes "r = run_ops sess_step
     [SsAttach 1 0 0, SsMicCheck 1 [4], SsMicSend, SsMicFirst 2, SsMicCheck 1 [5], SsHeld True, SsTakeMic, SsMicSend]
     (new_run ''c'' 0 [0])"
  shows "ss_held (sr_s r) \<and> ss_mic (sr_s r) = [[5]] \<and>
    up_gotMic (sr_u (run_ops sess_step [SsHeld False, SsUpBegin, SsUpMic] r))"
  unfolding assms
  by (simp add: new_run_def new_session_def on_s_def attach_locked_def upd_status_def enqueue_check_def held_locked_def take_mic_def
      enqueue_send_def mic_send_def mic_cap_def enqueue_first_def uplink_begin_def uplink_mic_def Let_def)

subsection \<open>The answer deadline\<close>

fun restarts :: "SessOp \<Rightarrow> bool" where
  "restarts (SsHeld b) = b"
| "restarts SsDeadline = True"
| "restarts _ = False"

lemma deadlineGen_ops [simp]:
  "ss_deadlineGen (snd (attach_locked now out pc s)) = ss_deadlineGen s" "ss_deadlineGen (detach_locked i s) = ss_deadlineGen s"
  "ss_deadlineGen (markNegotiating now i s) = ss_deadlineGen s" "ss_deadlineGen (recovering_locked now i s) = ss_deadlineGen s"
  "ss_deadlineGen (enqueue_send f s) = ss_deadlineGen s" "ss_deadlineGen (snd (enqueue_first now i s)) = ss_deadlineGen s"
  "ss_deadlineGen (snd (deadline_fires call g s)) = ss_deadlineGen s" "ss_deadlineGen (audio_opened now s) = ss_deadlineGen s"
  "ss_deadlineGen (failStart e s) = ss_deadlineGen s" "ss_deadlineGen (setError e s) = ss_deadlineGen s"
  "ss_deadlineGen (take_mic s) = ss_deadlineGen s"
  "ss_deadlineGen (snd (uplink_begin s u)) = ss_deadlineGen s" "ss_deadlineGen (snd (uplink_mic u s)) = ss_deadlineGen s"
  "ss_deadlineGen (uplink_end now u s) = ss_deadlineGen s"
  "ss_deadlineGen (held_locked b s) = (if b then ss_deadlineGen s + 1 else ss_deadlineGen s)"
  "ss_deadlineGen (snd (startAnswerDeadline s)) = ss_deadlineGen s + 1"
  by (auto simp: session_defs uplink_begin_def uplink_mic_def uplink_end_def split: option.split list.split)

lemma deadlineGen_step:
  "ss_deadlineGen (sr_s (sess_step q r)) = ss_deadlineGen (sr_s r) + (if restarts q then 1 else 0)"
  by (cases q)
    (simp_all add: on_s_def case_prod_unfold Let_def split: mic_check.split list.split down_phase.split option.split)

lemma deadlineGen_run:
  "ss_deadlineGen (sr_s (run_ops sess_step qs r)) = ss_deadlineGen (sr_s r) + of_nat (length (filter restarts qs))"
  by (induction qs arbitrary: r) (simp_all add: deadlineGen_step)

text \<open>A deadline that has been superseded never hangs up a call: if after \<^verbatim>\<open>startAnswerDeadline\<close> the call was put on
  hold, or the deadline started again, then its timer does nothing when it fires, whatever else
  happened meanwhile. The 64-bit counter is the only limit: fewer than \<open>2 ^ 64\<close> steps.\<close>

theorem superseded_deadline_is_silent:
  assumes "startAnswerDeadline s = (g, s')" "sr_s r = s'" "length qs < 2 ^ 64"
    and "\<exists>q \<in> set qs. restarts q"
  shows "deadline_fires call g (sr_s (run_ops sess_step qs r)) = (False, sr_s (run_ops sess_step qs r))"
proof -
  let ?n = "length (filter restarts qs)"
  have "ss_deadlineGen s' = g" using assms(1) by (auto simp: startAnswerDeadline_def Let_def)
  then have gen: "ss_deadlineGen (sr_s (run_ops sess_step qs r)) = g + of_nat ?n"
    using deadlineGen_run [of qs r] assms(2) by simp
  have "0 < ?n" using assms(4) by (auto simp: filter_empty_conv)
  moreover have "?n < 2 ^ 64" using assms(3) length_filter_le [of restarts qs] by linarith
  ultimately have "unat (of_nat ?n :: 64 word) \<noteq> 0" by (simp add: unat_of_nat)
  then have "(of_nat ?n :: 64 word) \<noteq> 0" by (metis unat_0)
  then show ?thesis using gen by (simp add: deadline_fires_def split: option.split)
qed

theorem superseded_deadline_is_silent_witness:
  "deadline_fires (Some (zeroCall\<lparr>c_State := CallActive, c_MediaOwner := ''web''\<rparr>)) 1 (sr_s (run_ops sess_step [SsHeld True]
     ((new_run ''c'' 0 [0])\<lparr>sr_s := (new_session ''c'' 0)\<lparr>ss_deadlineGen := 1\<rparr>\<rparr>))) =
   (False, sr_s (run_ops sess_step [SsHeld True]
     ((new_run ''c'' 0 [0])\<lparr>sr_s := (new_session ''c'' 0)\<lparr>ss_deadlineGen := 1\<rparr>\<rparr>)))"
  by (rule superseded_deadline_is_silent [where s = "new_session ''c'' 0"])
    (simp_all add: startAnswerDeadline_def new_session_def)

end
