(* ===== verification/Media_Files_Props.thy ===== *)
theory Media_Files_Props
  imports Media_Files Store_Props
begin

text \<open>
  What the file operations of the media manager promise: saving a greeting is all or nothing, what was
  saved is what the callers hear, deleting a recording removes its files before its entry, and the
  path of a recording stays in the recordings directory.
\<close>

subsection \<open>The greeting\<close>

lemma parse_total_Inr: "parse_total raw = (Inr pcm, d) \<Longrightarrow> parseWAV raw = Some (Inr pcm, d)"
  using parseWAV_defined [of raw] by (auto simp: parse_total_def split: option.splits)

lemma parse_encoded:
  assumes "length pcm \<le> 480000"
  shows "parse_total (encodeWAV pcm) =
    (if pcm = [] then (Inl prompt_invalid, 0) else (Inr pcm, wav_duration (length pcm) 16000))"
  using parseWAV_encodeWAV [of pcm] assms by (simp add: parse_total_def)

lemma saved_length: "parse_total raw = (Inr pcm, d) \<Longrightarrow> length raw \<le> max_upload \<Longrightarrow> length pcm \<le> 480000"
  using parsed_length [OF parse_total_Inr, of raw pcm d] by (simp add: max_upload_def)

lemma SaveGreeting_ok:
  assumes "SaveGreeting os dir raw fs = (Inr info, fs')"
  shows "\<exists>pcm d. parse_total raw = (Inr pcm, d) \<and> length raw \<le> max_upload \<and>
    info = \<lparr>gi_Custom = True, gi_DurationSeconds = Seconds d\<rparr> \<and> fs' (greetingPath dir) = Some (encodeWAV pcm) \<and>
    fs' (greetingPath dir @ ''.tmp'') = None"
  using assms
  by (auto simp: SaveGreeting_def WriteFile_def Rename_def Let_def split: if_splits prod.splits sum.splits option.splits)

text \<open>Saving a greeting is all or nothing: when \<^verbatim>\<open>SaveGreeting\<close> returns an error, be it the upload or any of the
  file operations that failed, the greeting in use is the one from before, and no other file than
  the temporary one has changed.\<close>

theorem failed_save_keeps_greeting:
  assumes "SaveGreeting os dir raw fs = (Inl e, fs')" "p \<noteq> greetingPath dir @ ''.tmp''"
  shows "fs' p = fs p"
  using assms
  by (auto simp: SaveGreeting_def WriteFile_def Rename_def Remove_def Let_def
      split: if_splits prod.splits sum.splits option.splits)

theorem failed_save_keeps_greeting_witness:
  "snd (SaveGreeting os_ok ''/d/rec'' [] (\<lambda>_. Some [1])) ''/d/voicemail-greeting.wav'' = Some [1]"
proof -
  have "parse_total [] = (Inl prompt_invalid, 0)" by (simp add: parse_total_def parseWAV_def)
  then obtain fs' where s: "SaveGreeting os_ok ''/d/rec'' [] (\<lambda>_. Some [1]) = (Inl prompt_invalid, fs')"
    by (simp add: SaveGreeting_def)
  have "''/d/voicemail-greeting.wav'' \<noteq> greetingPath ''/d/rec'' @ ''.tmp''" by code_simp
  from failed_save_keeps_greeting [OF s this] show ?thesis by (simp add: s)
qed

text \<open>A saved greeting is the one callers hear: after \<^verbatim>\<open>SaveGreeting\<close> succeeded on a file with sound in it,
  \<^verbatim>\<open>Greeting\<close> reports a custom greeting, the voicemail plays exactly the samples of the upload converted to
  16 kHz mono, and \<^verbatim>\<open>GreetingAudio\<close> returns their encoding; \<^verbatim>\<open>ResetGreeting\<close> then brings the built-in greeting
  back.\<close>

theorem saved_greeting_is_played:
  assumes "SaveGreeting os dir raw fs = (Inr info, fs')" "fst (parse_total raw) = Inr pcm" "pcm \<noteq> []"
  shows "gi_Custom (Greeting os_ok builtin dir fs') \<and>
    voicemailPromptPCM os_ok builtin dir fs' = Inr pcm \<and>
    GreetingAudio os_ok builtin dir fs' = Inr (encodeWAV pcm) \<and>
    \<not> gi_Custom (Greeting os_ok builtin dir (snd (ResetGreeting os_ok dir fs')))"
proof -
  obtain d where raw: "parse_total raw = (Inr pcm, d)" "length raw \<le> max_upload"
    and saved: "fs' (greetingPath dir) = Some (encodeWAV pcm)"
    using SaveGreeting_ok [OF assms(1)] assms(2) by auto
  have "parse_total (encodeWAV pcm) = (Inr pcm, wav_duration (length pcm) 16000)"
    using parse_encoded [OF saved_length [OF raw]] assms(3) by simp
  then show ?thesis
    using saved assms(3)
    by (simp add: Greeting_def voicemailPromptPCM_def GreetingAudio_def ResetGreeting_def ReadFile_def Remove_def
        os_ok_def Let_def split: prod.split sum.split)
qed

theorem saved_greeting_is_played_witness:
  "voicemailPromptPCM os_ok [] ''/d/rec'' (snd (SaveGreeting os_ok ''/d/rec'' (encodeWAV [1, - 2]) (\<lambda>_. None))) = Inr [1, - 2]"
proof -
  have p: "parse_total (encodeWAV [1, - 2]) = (Inr [1, - 2], wav_duration (length [1, - 2 :: int16]) 16000)"
    using parse_encoded [of "[1, - 2]"] by simp
  obtain info fs' where "SaveGreeting os_ok ''/d/rec'' (encodeWAV [1, - 2]) (\<lambda>_. None) = (Inr info, fs')"
    by (simp add: SaveGreeting_def p max_upload_def os_ok_def WriteFile_def Rename_def Let_def)
  from saved_greeting_is_played [OF this, of "[1, - 2]" "[]"] show ?thesis
    using \<open>SaveGreeting os_ok ''/d/rec'' (encodeWAV [1, - 2]) (\<lambda>_. None) = (Inr info, fs')\<close> by (simp add: p)
qed

text \<open>The exception: an upload whose conversion to 16 kHz leaves no sample is saved and reported as custom,
  but the file it leaves is not a valid greeting, so the built-in one is still in use.\<close>

lemma empty_greeting_is_lost:
  assumes "SaveGreeting os dir raw fs = (Inr info, fs')" "fst (parse_total raw) = Inr []"
  shows "gi_Custom info \<and> \<not> gi_Custom (Greeting os_ok builtin dir fs')"
proof -
  have "fs' (greetingPath dir) = Some (encodeWAV [])" "gi_Custom info"
    using SaveGreeting_ok [OF assms(1)] assms(2) by auto
  then show ?thesis
    using parse_encoded [of "[]"]
    by (simp add: Greeting_def ReadFile_def os_ok_def Let_def split: prod.split sum.split)
qed

lemma empty_greeting_example:
  "fst (parse_total (wav_at 192000 [1000])) = Inr [] \<and>
   (\<exists>info fs'. SaveGreeting os_ok ''/d/rec'' (wav_at 192000 [1000]) (\<lambda>_. None) = (Inr info, fs') \<and>
      gi_Custom info \<and> \<not> gi_Custom (Greeting os_ok builtin ''/d/rec'' fs'))"
proof -
  have p: "parse_total (wav_at 192000 [1000]) = (Inr [], wav_duration 1 192000)"
    using parse_tiny [of 1000] by (simp add: parse_total_def)
  obtain info fs' where "SaveGreeting os_ok ''/d/rec'' (wav_at 192000 [1000]) (\<lambda>_. None) = (Inr info, fs')"
    by (simp add: SaveGreeting_def p max_upload_def os_ok_def WriteFile_def Rename_def Let_def)
  then show ?thesis using empty_greeting_is_lost [of os_ok "''/d/rec''" _ _ info fs' builtin] p by auto
qed

subsection \<open>Recordings\<close>

lemma delete_file_ok:
  "delete_file os p fs = (None, fs') \<Longrightarrow> fs' = fs(p := None)"
  by (auto simp: delete_file_def Remove_def split: option.splits if_splits)

lemma DeleteRecording_gone:
  assumes "DeleteRecording env i s = (Inr e, s')"
  shows "get_Recording s' j = (if j = i then None else get_Recording s j)"
  using assms append_mem [of "''recording.deleted''" "PIdent i" env i "UnixNano (env_now env)" s]
  by (auto simp: DeleteRecording_def get_Recording_def split: if_splits)

text \<open>Deleting a recording that succeeds removes its original and its converted copy from the disk and its
  entry from the store, and nothing else; when removing a file fails, the entry is still there.\<close>

theorem delete_recording_complete:
  assumes "delete_recording os env dir i s fs = (r, s', fs')" "get_Recording s i = Some rec"
  shows "(r = None \<longrightarrow> get_Recording s' i = None \<and> (\<forall>j. j \<noteq> i \<longrightarrow> get_Recording s' j = get_Recording s j) \<and>
      fs' = fs(recordingPath dir rec := None, recordingPath dir rec @ ''.wav'' := None)) \<and>
    (os_remove os (recordingPath dir rec) \<noteq> None \<longrightarrow> r \<noteq> None \<and> s' = s \<and> fs' = fs)"
proof
  show "r = None \<longrightarrow> get_Recording s' i = None \<and> (\<forall>j. j \<noteq> i \<longrightarrow> get_Recording s' j = get_Recording s j) \<and>
      fs' = fs(recordingPath dir rec := None, recordingPath dir rec @ ''.wav'' := None)"
    using assms
    by (auto simp: delete_recording_def Let_def DeleteRecording_gone
        dest!: delete_file_ok split: prod.splits option.splits sum.splits)
  show "os_remove os (recordingPath dir rec) \<noteq> None \<longrightarrow> r \<noteq> None \<and> s' = s \<and> fs' = fs"
    using assms by (cases "os_remove os (recordingPath dir rec)") (auto simp: delete_recording_def Let_def delete_file_def Remove_def)
qed

definition demo_recorded :: State where
  "demo_recorded = demo_state\<lparr>s_mem := (initMem 0)\<lparr>mem_recordings := [(''rec_1'', zeroRecording\<lparr>rec_ID := ''rec_1'', rec_Path := ''/r/a''\<rparr>)]\<rparr>\<rparr>"

theorem delete_recording_complete_witness:
  "get_Recording (fst (snd (delete_recording os_ok (demo_env 5) ''/r'' ''rec_1'' demo_recorded (\<lambda>_. None)))) ''rec_1'' = None"
proof -
  obtain r s' fs' where d: "delete_recording os_ok (demo_env 5) ''/r'' ''rec_1'' demo_recorded (\<lambda>_. None) = (r, s', fs')"
    using prod_cases3 by blast
  have g: "get_Recording demo_recorded ''rec_1'' = Some (zeroRecording\<lparr>rec_ID := ''rec_1'', rec_Path := ''/r/a''\<rparr>)"
    by (simp add: demo_recorded_def get_Recording_def)
  have "fst (delete_recording os_ok (demo_env 5) ''/r'' ''rec_1'' demo_recorded (\<lambda>_. None)) = None" by code_simp
  then have "r = None" using d by simp
  then show ?thesis using delete_recording_complete [OF d g] by (simp add: d)
qed

text \<open>A recording of an older release, without a stored path, is looked up inside the recordings directory,
  whatever its file name is.\<close>

lemma old_recording_inside:
  assumes "clean_abs dir" "rec_Path rec = []" "is_name (path_Base (rec_FileName rec))"
  shows "recordingPath dir rec = dir @ slash # path_Base (rec_FileName rec)"
  using path_Join_name(1) [OF assms(1,3)] assms(2) by (simp add: recordingPath_def)

end
