(* ===== verification/Media_Props.thy ===== *)
theory Media_Props
  imports Media Media_Session_Props Media_Files_Props
begin

text \<open>
  Runs of the media manager: SIP bridges, browser sessions and voicemails claim the sound and give it
  back, recordings start and stop, calls end, in any order. The theorems say that the sound has one
  owner at a time, that a late release does no harm, and what a recording leaves in the store.
\<close>

subsection \<open>Runs\<close>

text \<open>
  \<^verbatim>\<open>SetHeld\<close> and \<^verbatim>\<open>BeginWaitingMedia\<close> are, for the manager, \<open>MdEnsure\<close> followed by a change of the session
  (\<open>MdSession\<close>), as the lemmas below show; the sessions themselves change in any way, and so does the store
  (\<open>MdStore\<close>).
\<close>

text \<open>An owner that is running: its context, its generation and its call.\<close>

record Owner =
  ow_ctx :: nat
  ow_gen :: "64 word"
  ow_call :: string

record MedRun =
  mr_m :: Manager
  mr_s :: State
  mr_live :: "Owner list"

datatype MedOp =
    MdBridge string string
  | MdBridgeDone nat
  | MdEnsure gtime string
  | MdSessionFailed nat
  | MdSessionLeave nat string
  | MdSessionDone nat
  | MdVoicemail AudioEnv string
  | MdVoicemailDone RecEnv nat
  | MdRecordVoicemail RecEnv string
  | MdStartRecording RecEnv string
  | MdStopRecording RecEnv string
  | MdEndCall RecEnv string
  | MdStop string
  | MdSession nat Session
  | MdNear "int16 list"
  | MdWrite "int16 list"
  | MdStore State

definition claim_result :: "string \<Rightarrow> (gerror + nat \<times> 64 word) \<times> Manager \<Rightarrow> MedRun \<Rightarrow> MedRun" where
  "claim_result callID res r =
     (case res of
        (Inl _, m) \<Rightarrow> r\<lparr>mr_m := m\<rparr>
      | (Inr (c, g), m) \<Rightarrow> r\<lparr>mr_m := m, mr_live := \<lparr>ow_ctx = c, ow_gen = g, ow_call = callID\<rparr> # mr_live r\<rparr>)"

text \<open>\<^verbatim>\<open>ensureWebSession\<close> as a claim: an existing session claims nothing.\<close>

definition ensure_result :: "string \<Rightarrow> (gerror + nat \<times> (nat \<times> 64 word) option) \<times> Manager \<Rightarrow> MedRun \<Rightarrow> MedRun" where
  "ensure_result callID res r =
     (case res of
        (Inr (_, Some cg), m) \<Rightarrow> claim_result callID (Inr cg, m) r
      | (_, m) \<Rightarrow> r\<lparr>mr_m := m\<rparr>)"

definition find_owner :: "nat \<Rightarrow> Owner list \<Rightarrow> Owner option" where
  "find_owner c os = find (\<lambda>p. ow_ctx p = c) os"

definition drop_owner :: "nat \<Rightarrow> MedRun \<Rightarrow> MedRun" where
  "drop_owner c r = r\<lparr>mr_live := filter (\<lambda>p. ow_ctx p \<noteq> c) (mr_live r)\<rparr>"

definition owner_done :: "nat \<Rightarrow> (Owner \<Rightarrow> Manager \<times> State \<Rightarrow> Manager \<times> State) \<Rightarrow> MedRun \<Rightarrow> MedRun" where
  "owner_done c f r =
     (case find_owner c (mr_live r) of
        None \<Rightarrow> r
      | Some p \<Rightarrow> (let (m, s) = f p (mr_m r, mr_s r) in drop_owner c (r\<lparr>mr_m := m, mr_s := s\<rparr>)))"

definition on_m :: "(Manager \<Rightarrow> Manager) \<Rightarrow> MedRun \<Rightarrow> MedRun" where
  "on_m f r = r\<lparr>mr_m := f (mr_m r)\<rparr>"

fun med_step :: "MedOp \<Rightarrow> MedRun \<Rightarrow> MedRun" where
  "med_step (MdBridge callID owner) r = claim_result callID (BridgePCM_claim callID owner (mr_s r) (mr_m r)) r"
| "med_step (MdBridgeDone c) r = owner_done c (\<lambda>p (m, s). (BridgePCM_finish (ow_call p) (c, ow_gen p) m, s)) r"
| "med_step (MdEnsure now callID) r = ensure_result callID (ensureWebSession now callID (mr_m r)) r"
| "med_step (MdSessionFailed c) r = on_m (run_failed c) r"
| "med_step (MdSessionLeave c callID) r = on_m (run_leave callID c) r"
| "med_step (MdSessionDone c) r = owner_done c (\<lambda>p (m, s). (run_exit (ow_call p) (c, ow_gen p) m, s)) r"
| "med_step (MdVoicemail ae callID) r = claim_result callID (runVoicemail_claim ae callID (mr_s r) (mr_m r)) r"
| "med_step (MdVoicemailDone env c) r =
     owner_done c (\<lambda>p (m, s). runVoicemail_exit env (ow_call p) (c, ow_gen p) m s) r"
| "med_step (MdRecordVoicemail env callID) r =
     (case runVoicemail_record env callID (mr_m r) (mr_s r) of (_, m, s) \<Rightarrow> r\<lparr>mr_m := m, mr_s := s\<rparr>)"
| "med_step (MdStartRecording env callID) r =
     (case startRecording env callID ''call'' (mr_m r) (mr_s r) of (_, m, s) \<Rightarrow> r\<lparr>mr_m := m, mr_s := s\<rparr>)"
| "med_step (MdStopRecording env callID) r =
     (case StopRecording env callID (mr_m r) (mr_s r) of (_, m, s) \<Rightarrow> r\<lparr>mr_m := m, mr_s := s\<rparr>)"
| "med_step (MdEndCall env callID) r =
     (case EndCall env callID (mr_m r) (mr_s r) of (m, s) \<Rightarrow> r\<lparr>mr_m := m, mr_s := s\<rparr>)"
| "med_step (MdStop callID) r = on_m (stopWebSession callID) r"
| "med_step (MdSession c sess) r = on_m (upd_session c (\<lambda>_. sess)) r"
| "med_step (MdNear pcm) r = on_m (set_near pcm) r"
| "med_step (MdWrite far) r = on_m (writeRecording far) r"
| "med_step (MdStore s) r = r\<lparr>mr_s := s\<rparr>"

definition med_start :: "string \<Rightarrow> State \<Rightarrow> MedRun" where
  "med_start dir s = \<lparr>mr_m = new_manager dir, mr_s = s, mr_live = []\<rparr>"

lemma ensure_result_m [simp]: "mr_m (ensure_result callID res r) = snd res" "mr_s (ensure_result callID res r) = mr_s r"
  by (auto simp: ensure_result_def claim_result_def split: prod.split sum.split option.split)

lemma SetHeld_as_steps: "\<exists>qs. mr_m (run_ops med_step qs r) = SetHeld_media now ready callID held (mr_m r)"
proof (cases "tget (mg_webSessions (mr_m r)) callID")
  case None
  show ?thesis
  proof (cases "held \<and> ready \<and> (\<exists>x. fst (ensureWebSession now callID (mr_m r)) = Inr x)")
    case True
    then obtain sid cg where e: "fst (ensureWebSession now callID (mr_m r)) = Inr (sid, cg)" by auto
    let ?m = "snd (ensureWebSession now callID (mr_m r))"
    show ?thesis
      using e None True
      by (intro exI [of _ "[MdEnsure now callID, MdSession sid (setHeld True (mg_session ?m sid))]"])
        (cases "ensureWebSession now callID (mr_m r)", simp add: SetHeld_media_def on_m_def upd_session_def)
  next
    case False
    then show ?thesis
      using None
      by (intro exI [of _ "if held then [MdEnsure now callID] else []"])
        (cases "ensureWebSession now callID (mr_m r)", auto simp: SetHeld_media_def split: sum.split)
  qed
next
  case (Some sid)
  then show ?thesis
    by (intro exI [of _ "[MdSession sid (setHeld held (mg_session (mr_m r) sid))]"])
      (simp add: SetHeld_media_def on_m_def upd_session_def)
qed

lemma BeginWaiting_as_steps: "\<exists>qs. mr_m (run_ops med_step qs r) = BeginWaitingMedia_media now ready callID s (mr_m r)"
proof -
  obtain res m where e: "ensureWebSession now callID (mr_m r) = (res, m)" by fastforce
  show ?thesis
  proof (cases res)
    case (Inr x)
    then show ?thesis
      using e
      by (intro exI [of _ "[MdEnsure now callID, MdSession (fst x) (mg_session (BeginWaitingMedia_media now ready callID s (mr_m r)) (fst x))]"])
        (auto simp: BeginWaitingMedia_media_def on_m_def upd_session_def split: prod.split option.split)
  qed (use e in \<open>auto simp: BeginWaitingMedia_media_def intro!: exI [of _ "[MdEnsure now callID]"]\<close>)
qed

subsection \<open>One owner\<close>

text \<open>What the operations that neither claim nor release leave alone.\<close>

definition keeps_owner :: "Manager \<Rightarrow> Manager \<Rightarrow> bool" where
  "keeps_owner m m' \<longleftrightarrow> mg_generation m' = mg_generation m \<and> mg_next m' = mg_next m \<and> mg_activeCall m' = mg_activeCall m \<and>
     mg_cancel m' = mg_cancel m \<and> set (mg_cancelled m) \<subseteq> set (mg_cancelled m')"

lemma keeps_owner_refl [simp]: "keeps_owner m m"
  by (simp add: keeps_owner_def)

lemma keeps_owner_trans: "keeps_owner m m' \<Longrightarrow> keeps_owner m' m'' \<Longrightarrow> keeps_owner m m''"
  by (auto simp: keeps_owner_def)

lemma startRecording_keeps: "startRecording env callID kind m s = (res, m', s') \<Longrightarrow> keeps_owner m m'"
  by (auto simp: startRecording_def keeps_owner_def Let_def split: if_splits option.splits)

lemma StopRecording_keeps: "keeps_owner m (fst (snd (StopRecording env callID m s)))"
  by (auto simp: StopRecording_def keeps_owner_def Let_def split: if_split option.split sum.split prod.split)

lemma stopWebSession_keeps: "keeps_owner m (stopWebSession callID m)"
  by (auto simp: stopWebSession_def keeps_owner_def cancel_ctx_def split: option.split)

lemma EndCall_keeps: "keeps_owner m (fst (EndCall env callID m s))"
proof -
  let ?m = "stopWebSession callID m"
  have "keeps_owner ?m (fst (EndCall env callID m s))"
    using StopRecording_keeps [of ?m env callID s]
    by (auto simp: EndCall_def Let_def keeps_owner_def cancel_ctx_def case_prod_unfold split: option.split)
  with stopWebSession_keeps show ?thesis by (rule keeps_owner_trans)
qed

lemma other_keeps:
  "keeps_owner m (run_failed c m)" "keeps_owner m (upd_session c f m)" "keeps_owner m (set_near pcm m)"
  "keeps_owner m (writeRecording far m)" "keeps_owner m (cancel_ctx c m)"
  "keeps_owner m (run_leave callID sid m)"
  by (auto simp: keeps_owner_def run_failed_def run_leave_def upd_session_def set_near_def writeRecording_def cancel_ctx_def
      split: option.split)

text \<open>Every running owner has been told to stop, or is the one the manager knows.\<close>

definition owner_ok :: "Manager \<Rightarrow> Owner \<Rightarrow> bool" where
  "owner_ok m p \<longleftrightarrow> ow_ctx p < mg_next m \<and> ow_gen p = of_nat (Suc (ow_ctx p)) \<and>
     (ow_ctx p \<in> set (mg_cancelled m) \<or>
      Suc (ow_ctx p) = mg_next m \<and> mg_cancel m = Some (ow_ctx p) \<and> mg_activeCall m = ow_call p)"

definition owners_ok :: "MedRun \<Rightarrow> bool" where
  "owners_ok r \<longleftrightarrow> mg_generation (mr_m r) = of_nat (mg_next (mr_m r)) \<and> (\<forall>p \<in> set (mr_live r). owner_ok (mr_m r) p)"

lemma owners_ok_keeps:
  "owners_ok r \<Longrightarrow> keeps_owner (mr_m r) m' \<Longrightarrow> owners_ok (r\<lparr>mr_m := m'\<rparr>)"
  by (auto simp: owners_ok_def keeps_owner_def owner_ok_def)

lemma take_over_ok:
  assumes "owners_ok r" "take_over callID (mr_m r) = ((c, g), m')"
  shows "owners_ok (r\<lparr>mr_m := m', mr_live := \<lparr>ow_ctx = c, ow_gen = g, ow_call = callID\<rparr> # mr_live r\<rparr>)"
    "mg_next m' = Suc (mg_next (mr_m r))"
  using assms
  by (auto simp: owners_ok_def owner_ok_def take_over_def cancel_current_def cancel_ctx_def Let_def add.commute
      split: option.splits)

lemma of_nat_64_inject: "a < 2 ^ 64 \<Longrightarrow> b < 2 ^ 64 \<Longrightarrow> (of_nat a :: 64 word) = of_nat b \<longleftrightarrow> a = b"
proof -
  assume "a < 2 ^ 64" "b < 2 ^ 64"
  then have "unat (of_nat a :: 64 word) = a" "unat (of_nat b :: 64 word) = b" by (simp_all add: unat_of_nat)
  then show ?thesis by metis
qed

text \<open>A release by the owner that leaves: nobody else that is still running loses the sound.\<close>

lemma release_ok:
  assumes "owners_ok r" "find_owner c (mr_live r) = Some p" "mg_next (mr_m r) < 2 ^ 64"
  shows "owners_ok (drop_owner c (r\<lparr>mr_m := release (ow_call p) (ow_gen p) (mr_m r)\<rparr>))"
proof -
  have p: "p \<in> set (mr_live r)" "ow_ctx p = c"
    using assms(2) by (auto simp: find_owner_def find_Some_iff)
  then have ok: "owner_ok (mr_m r) p" "mg_generation (mr_m r) = of_nat (mg_next (mr_m r))"
    using assms(1) by (auto simp: owners_ok_def)
  show ?thesis
  proof (cases "mg_activeCall (mr_m r) = ow_call p \<and> mg_generation (mr_m r) = ow_gen p")
    case True
    then have "Suc c = mg_next (mr_m r)"
      using ok p(2) assms(3) of_nat_64_inject [of "Suc c" "mg_next (mr_m r)"] by (auto simp: owner_ok_def)
    then show ?thesis using assms(1) True
      by (auto simp: owners_ok_def drop_owner_def release_def owner_ok_def)
  qed (use assms(1) in \<open>auto simp: owners_ok_def drop_owner_def release_def\<close>)
qed

lemma keeps_next: "keeps_owner m m' \<Longrightarrow> mg_next m' = mg_next m"
  by (simp add: keeps_owner_def)

lemma release_next [simp]: "mg_next (release callID g m) = mg_next m"
  by (simp add: release_def)

text \<open>An owner that leaves does something that does not touch the ownership, releases, and tidies up.\<close>

lemma owner_done_ok:
  assumes "owners_ok r" "mg_next (mr_m r) < 2 ^ 64"
    and f: "\<And>p. \<exists>m1 s'. f p (mr_m r, mr_s r) = (fin p (release (ow_call p) (ow_gen p) m1), s') \<and> keeps_owner (mr_m r) m1"
    and fin: "\<And>p m. keeps_owner m (fin p m)"
  shows "owners_ok (owner_done c f r) \<and> mg_next (mr_m (owner_done c f r)) = mg_next (mr_m r)"
proof (cases "find_owner c (mr_live r)")
  case (Some p)
  obtain m1 s' where m1: "f p (mr_m r, mr_s r) = (fin p (release (ow_call p) (ow_gen p) m1), s')" "keeps_owner (mr_m r) m1"
    using f by blast
  let ?r = "r\<lparr>mr_m := m1\<rparr>"
  have "owners_ok (drop_owner c (?r\<lparr>mr_m := release (ow_call p) (ow_gen p) (mr_m ?r)\<rparr>))"
    using release_ok [of ?r c p] owners_ok_keeps [OF assms(1) m1(2)] keeps_next [OF m1(2)] Some assms(2) by simp
  from owners_ok_keeps [OF this, of "fin p (release (ow_call p) (ow_gen p) m1)"] fin
  have "owners_ok (drop_owner c (r\<lparr>mr_m := fin p (release (ow_call p) (ow_gen p) m1), mr_s := s'\<rparr>))"
    by (auto simp: drop_owner_def owners_ok_def)
  then show ?thesis
    using Some m1 keeps_next [OF m1(2)] keeps_next [OF fin] by (simp add: owner_done_def drop_owner_def)
qed (simp add: owner_done_def assms(1))

lemma claim_ok:
  assumes "owners_ok r"
    and "res = (Inl e, mr_m r) \<or> res = (Inr (fst (take_over callID (mr_m r))), snd (take_over callID (mr_m r)))"
  shows "owners_ok (claim_result callID res r) \<and> mg_next (mr_m (claim_result callID res r)) \<le> Suc (mg_next (mr_m r))"
proof -
  obtain c g m' where t: "take_over callID (mr_m r) = ((c, g), m')" by (metis surj_pair)
  from take_over_ok [OF assms(1) t] show ?thesis using assms t by (auto simp: claim_result_def)
qed

lemma bridge_claim_cases:
  "(\<exists>e. BridgePCM_claim callID owner s m = (Inl e, m)) \<or>
   BridgePCM_claim callID owner s m = (Inr (fst (take_over callID m)), snd (take_over callID m))"
  by (auto simp: BridgePCM_claim_def split: option.split prod.split)

lemma voicemail_claim_cases:
  "(\<exists>e. runVoicemail_claim ae callID s m = (Inl e, m)) \<or>
   runVoicemail_claim ae callID s m = (Inr (fst (take_over callID m)), snd (take_over callID m))"
  by (auto simp: runVoicemail_claim_def split: option.split prod.split)

lemma ensure_ok:
  assumes "owners_ok r"
  shows "owners_ok (ensure_result callID (ensureWebSession now callID (mr_m r)) r) \<and>
    mg_next (mr_m (ensure_result callID (ensureWebSession now callID (mr_m r)) r)) \<le> Suc (mg_next (mr_m r))"
proof -
  obtain c g m' where t: "take_over callID (mr_m r) = ((c, g), m')" by (metis surj_pair)
  from take_over_ok [OF assms t] show ?thesis
    using assms t
    by (auto simp: ensureWebSession_def ensure_result_def claim_result_def owners_ok_def owner_ok_def split: option.split)
qed

lemma med_step_ok:
  assumes ok: "owners_ok r" and small: "mg_next (mr_m r) < 2 ^ 64"
  shows "owners_ok (med_step q r) \<and> mg_next (mr_m (med_step q r)) \<le> Suc (mg_next (mr_m r))"
proof -
  have kept: "owners_ok (r\<lparr>mr_m := m', mr_s := s'\<rparr>) \<and> mg_next m' \<le> Suc (mg_next (mr_m r))"
    if "keeps_owner (mr_m r) m'" for m' s'
    using owners_ok_keeps [OF ok that] keeps_next [OF that] by (simp add: owners_ok_def)
  have onm: "owners_ok (on_m f r) \<and> mg_next (mr_m (on_m f r)) \<le> Suc (mg_next (mr_m r))"
    if "keeps_owner (mr_m r) (f (mr_m r))" for f
    using kept [OF that, of "mr_s r"] by (simp add: on_m_def)
  note leave = owner_done_ok [OF ok small]
  show ?thesis
  proof (cases q)
    case (MdBridge callID owner)
    then show ?thesis
      using bridge_claim_cases [of callID owner "mr_s r" "mr_m r"] claim_ok [OF ok, where callID = callID] by auto
  next
    case (MdVoicemail ae callID)
    then show ?thesis
      using voicemail_claim_cases [of ae callID "mr_s r" "mr_m r"] claim_ok [OF ok, where callID = callID] by auto
  next
    case (MdBridgeDone c)
    have "owners_ok (med_step q r) \<and> mg_next (mr_m (med_step q r)) = mg_next (mr_m r)"
      unfolding MdBridgeDone med_step.simps
      by (rule leave [where fin = "\<lambda>_ m. m"]) (auto simp: BridgePCM_finish_def intro: other_keeps)
    then show ?thesis by simp
  next
    case (MdSessionDone c)
    have "owners_ok (med_step q r) \<and> mg_next (mr_m (med_step q r)) = mg_next (mr_m r)"
      unfolding MdSessionDone med_step.simps
      by (rule leave [where fin = "\<lambda>p m. upd_session c (\<lambda>s. s\<lparr>ss_done := True\<rparr>) m"])
        (auto simp: run_exit_def keeps_owner_def, simp_all add: upd_session_def)
    then show ?thesis by simp
  next
    case (MdVoicemailDone env c)
    have "owners_ok (med_step q r) \<and> mg_next (mr_m (med_step q r)) = mg_next (mr_m r)"
      unfolding MdVoicemailDone med_step.simps
      by (rule leave [where fin = "\<lambda>_ m. m"])
        (auto simp: runVoicemail_exit_def case_prod_unfold Let_def intro: StopRecording_keeps)
    then show ?thesis by simp
  next
    case (MdEnsure now callID)
    then show ?thesis using ensure_ok [OF ok] by simp
  next
    case (MdRecordVoicemail env callID)
    obtain res m' s' where e: "runVoicemail_record env callID (mr_m r) (mr_s r) = (res, m', s')" using prod_cases3 by blast
    have "keeps_owner (mr_m r) m'"
      using startRecording_keeps [OF e [unfolded runVoicemail_record_def]] by (simp add: keeps_owner_def)
    from kept [OF this, of s'] show ?thesis by (simp add: MdRecordVoicemail e)
  next
    case (MdStartRecording env callID)
    obtain res m' s' where e: "startRecording env callID ''call'' (mr_m r) (mr_s r) = (res, m', s')" using prod_cases3 by blast
    from kept [OF startRecording_keeps [OF e], of s'] show ?thesis by (simp add: MdStartRecording e)
  next
    case (MdStopRecording env callID)
    obtain res m' s' where e: "StopRecording env callID (mr_m r) (mr_s r) = (res, m', s')" using prod_cases3 by blast
    have "keeps_owner (mr_m r) m'" using StopRecording_keeps [of "mr_m r" env callID "mr_s r"] e by simp
    from kept [OF this, of s'] show ?thesis by (simp add: MdStopRecording e)
  next
    case (MdEndCall env callID)
    obtain m' s' where e: "EndCall env callID (mr_m r) (mr_s r) = (m', s')" by fastforce
    have "keeps_owner (mr_m r) m'" using EndCall_keeps [of "mr_m r" env callID "mr_s r"] e by simp
    from kept [OF this, of s'] show ?thesis by (simp add: MdEndCall e)
  next
    case (MdStore s)
    then show ?thesis using kept [OF keeps_owner_refl, of s] by simp
  qed (simp_all add: onm stopWebSession_keeps other_keeps)
qed

lemma med_run_ok:
  assumes "owners_ok r" "mg_next (mr_m r) + length qs < 2 ^ 64"
  shows "owners_ok (run_ops med_step qs r)"
  using assms
proof (induction qs arbitrary: r)
  case (Cons q qs)
  have "mg_next (mr_m r) < 2 ^ 64" using Cons.prems(2) by simp
  from med_step_ok [OF Cons.prems(1) this, of q] show ?case
    using Cons.IH [of "med_step q r"] Cons.prems(2) by simp
qed simp

text \<open>C17: The sound of the modem has one owner. Bridges, browser sessions and voicemails take the sound from each
  other and give it back, while recordings start and stop and calls end; after any such run of
  fewer than \<open>2 ^ 64\<close> steps, two owners that are running and have not been told to stop are the same, and
  it is the one the manager has registered.\<close>

theorem one_media_owner:
  assumes "r = run_ops med_step qs (med_start dir s)" "length qs < 2 ^ 64"
    and "p \<in> set (mr_live r)" "ow_ctx p \<notin> set (mg_cancelled (mr_m r))"
    and "p' \<in> set (mr_live r)" "ow_ctx p' \<notin> set (mg_cancelled (mr_m r))"
  shows "p' = p \<and> mg_cancel (mr_m r) = Some (ow_ctx p) \<and> mg_activeCall (mr_m r) = ow_call p \<and>
    mg_generation (mr_m r) = ow_gen p"
proof -
  have "owners_ok (med_start dir s)" by (simp add: owners_ok_def med_start_def new_manager_def)
  from med_run_ok [OF this] have ok: "owners_ok r"
    using assms(1,2) by (simp add: med_start_def new_manager_def)
  then have "owner_ok (mr_m r) p" "owner_ok (mr_m r) p'" using assms(3,5) by (auto simp: owners_ok_def)
  then show ?thesis
    using assms(4,6) ok by (cases p; cases p') (auto simp: owner_ok_def owners_ok_def simp flip: of_nat_Suc)
qed

definition demo_calling :: State where
  "demo_calling = demo_state\<lparr>s_mem := (initMem 0)\<lparr>mem_calls := [(''call_1'',
     zeroCall\<lparr>c_ID := ''call_1'', c_Version := 1, c_State := CallActive, c_MediaOwner := ''sip''\<rparr>)], mem_activeCallID := ''call_1''\<rparr>\<rparr>"

theorem one_media_owner_witness:
  "mg_cancel (mr_m (run_ops med_step [MdEnsure 0 ''call_1'', MdBridge ''call_1'' ''sip''] (med_start ''/r'' demo_calling))) = Some 1"
proof -
  let ?r = "run_ops med_step [MdEnsure 0 ''call_1'', MdBridge ''call_1'' ''sip''] (med_start ''/r'' demo_calling)"
  let ?p = "\<lparr>ow_ctx = 1, ow_gen = 2, ow_call = ''call_1''\<rparr>"
  have "?p \<in> set (mr_live ?r)" "ow_ctx ?p \<notin> set (mg_cancelled (mr_m ?r))"
    by (simp_all add: med_start_def new_manager_def ensureWebSession_def ensure_result_def claim_result_def busy_for_def
        take_over_def cancel_current_def cancel_ctx_def BridgePCM_claim_def get_Call_def demo_calling_def Let_def)
  with one_media_owner [OF refl, of "[MdEnsure 0 ''call_1'', MdBridge ''call_1'' ''sip'']" ?p "''/r''" demo_calling ?p]
  show ?thesis by simp
qed

subsection \<open>Recordings\<close>

lemma startRecording_ok:
  assumes "startRecording env callID kind m s = (Inr rec, m', s')"
  shows "d_DiskUsedPct (sn_Device (get_Snapshot False s)) < 95" "mg_activeCall m = callID" "mg_recorder m = None"
    "mg_recorder m' = Some \<lparr>rc_id = rec_ID rec, rc_callID = callID, rc_name = rec_ID rec @ ''.opus'',
       rc_path = path_Join [mg_recordings m, rec_ID rec @ ''.opus''], rc_kind = kind, rc_started = re_now env, rc_stdin = []\<rparr>"
    "rec_ID rec = NewID ''rec'' (re_rand env)"
    "s' = set_call (re_store env 0) callID (\<lambda>c. c\<lparr>c_Recording := True, c_RecordingID := rec_ID rec\<rparr>) s"
  using assms by (auto simp: startRecording_def Let_def split: if_splits option.splits)

lemma call_write_accepted:
  assumes "get_Call s (c_ID v) = Some old" "c_Version v = c_Version old + 1" "c_Version v \<noteq> 0"
    and "env_fault env 0 = None" "\<not> version_taken (c_ID v) (c_Version v) s"
  shows "\<exists>e. fst (UpsertCall env v s) = Inr e"
  using assms append_accepted [of "''call.upserted''" "PCall v" env "c_ID v" "c_Version v" s]
  by (auto simp: UpsertCall_def get_Call_def Let_def)

lemma set_call_accepted:
  assumes "get_Call s callID = Some call" "c_ID call = callID" "c_Version call + 1 \<noteq> 0"
    and "env_fault env 0 = None" "\<not> version_taken callID (c_Version call + 1) s"
    and "c_ID (f (call\<lparr>c_Version := c_Version call + 1\<rparr>)) = callID"
    and "c_Version (f (call\<lparr>c_Version := c_Version call + 1\<rparr>)) = c_Version call + 1"
  shows "get_Call (set_call env callID f s) callID = Some (stored_call (f (call\<lparr>c_Version := c_Version call + 1\<rparr>)))"
proof -
  let ?v = "f (call\<lparr>c_Version := c_Version call + 1\<rparr>)"
  obtain e s' where "UpsertCall env ?v s = (Inr e, s')"
    using call_write_accepted [of s ?v call env] assms by (metis prod.collapse)
  from calls.put_get [OF this, of callID] show ?thesis
    using assms(1,6) \<open>UpsertCall env ?v s = (Inr e, s')\<close> by (simp add: set_call_def)
qed

lemma writeRecording_stdin:
  assumes "mg_recorder m = Some r"
  shows "mg_recorder (fold writeRecording fars m) =
      Some (r\<lparr>rc_stdin := rc_stdin r @ concat (map (\<lambda>far. int16Bytes (mix_recording (mg_latestNear m) far)) fars)\<rparr>)"
  using assms
proof (induction fars arbitrary: m r)
  case (Cons far fars)
  have "mg_latestNear (writeRecording far m) = mg_latestNear m" by (simp add: writeRecording_def Cons.prems)
  then show ?case using Cons.IH [of "writeRecording far m"] Cons.prems by (simp add: writeRecording_def)
qed simp

lemma UpsertRecording_ok:
  assumes "UpsertRecording env v s = (Inr e, s')"
  shows "get_Recording s' i = (if i = rec_ID v then Some v else get_Recording s i)" "get_Call s' = get_Call s"
  using append_mem [of "''recording.upserted''" "PStored v" env "rec_ID v" "UnixNano (env_now env)" s] assms
  by (auto simp: UpsertRecording_def get_Recording_def get_Call_def)

lemma set_call_recordings [simp]: "get_Recording (set_call env callID f s) i = get_Recording s i"
  unfolding set_call_def
proof (cases "get_Call s callID")
  case (Some call)
  let ?v = "f (call\<lparr>c_Version := c_Version call + 1\<rparr>)"
  show "get_Recording (case get_Call s callID of None \<Rightarrow> s | Some call \<Rightarrow> snd (UpsertCall env (f (call\<lparr>c_Version := c_Version call + 1\<rparr>)) s)) i = get_Recording s i"
    using Some UpsertCall_ok(2) [of env ?v s] UpsertCall_err [of env ?v s]
    by (cases "UpsertCall env ?v s"; cases "fst (UpsertCall env ?v s)") (auto simp: get_Recording_def put_call_def Let_def)
qed simp

text \<open>C18: A recording from start to end: it starts only for the call that owns the sound, with no other recording
  running and less than 95% of the disk used; the encoder is given every frame of the caller mixed
  with the near side, in order; and when it has been stopped without an error the store holds the
  recording under the identifier given at the start, with its call, kind, time of the start, file name
  and a path in the recordings directory, the size and the SHA-256 checksum of the file the encoder
  left there, and the whole seconds between start and stop as its duration; and no recording is
  running.\<close>

theorem recording_is_kept:
  assumes "startRecording env callID kind m s = (Inr rec, m1, s1)"
    and "m2 = fold writeRecording fars (set_near near m1)"
    and "StopRecording env' callID m2 s2 = ((Some rec', None), m3, s3)"
  shows "mg_activeCall m = callID \<and> mg_recorder m = None \<and> d_DiskUsedPct (mem_device (s_mem s)) < 95 \<and>
    map_option rc_stdin (mg_recorder m2) = Some (concat (map (\<lambda>far. int16Bytes (mix_recording near far)) fars)) \<and>
    get_Recording s3 (rec_ID rec) = Some rec' \<and> rec_ID rec' = rec_ID rec \<and> rec_CallID rec' = callID \<and>
    rec_Kind rec' = kind \<and> rec_FileName rec' = rec_ID rec @ ''.opus'' \<and>
    rec_Path rec' = path_Join [mg_recordings m, rec_ID rec @ ''.opus''] \<and> mg_recorder m3 = None \<and>
    (\<exists>file. re_file env' = Inr file \<and> rec_Size rec' = int (length file) \<and> rec_SHA256 rec' = re_sha256 env' file) \<and>
    rec_CreatedAt rec' = re_now env \<and> rec_Duration rec' = truncate_to (Seconds (re_now env' - re_now env))"
proof -
  note start = startRecording_ok [OF assms(1)]
  let ?r = "\<lparr>rc_id = rec_ID rec, rc_callID = callID, rc_name = rec_ID rec @ ''.opus'',
       rc_path = path_Join [mg_recordings m, rec_ID rec @ ''.opus''], rc_kind = kind, rc_started = re_now env,
       rc_stdin = concat (map (\<lambda>far. int16Bytes (mix_recording near far)) fars)\<rparr>"
  have r: "mg_recorder m2 = Some ?r"
    using writeRecording_stdin [of "set_near near m1" _ fars] start(4) assms(2) by (simp add: set_near_def)
  obtain b s' e where stop: "rec' = finished_recording env' ?r b" "UpsertRecording (re_store env' 0) rec' s2 = (Inr e, s')"
    "s3 = set_call (re_store env' 1) callID (\<lambda>c. c\<lparr>c_Recording := False\<rparr>) s'" "mg_recorder m3 = None" "re_file env' = Inr b"
    using assms(3) by (auto simp: StopRecording_def r Let_def split: option.splits sum.splits prod.splits)
  have "get_Recording s3 (rec_ID rec) = Some rec'"
    using UpsertRecording_ok(1) [OF stop(2), of "rec_ID rec"] stop(1,3) by (simp add: finished_recording_def)
  then show ?thesis
    using start r stop by (simp add: finished_recording_def get_Snapshot_def Let_def)
qed

definition demo_recenv :: RecEnv where
  "demo_recenv = \<lparr>re_now = 9, re_rand = [1, 2], re_mkdir = None, re_pipe = None, re_start = None, re_wait = None,
     re_file = Inr [1, 2, 3], re_open = None, re_sha256 = (\<lambda>_. ''ab''), re_store = (\<lambda>i. demo_env (7 + int i))\<rparr>"

definition demo_owned :: Manager where
  "demo_owned = snd (take_over ''call_1'' (new_manager ''/r''))"

definition demo_started :: "(gerror + Recording) \<times> Manager \<times> State" where
  "demo_started = startRecording demo_recenv ''call_1'' ''call'' demo_owned demo_calling"

definition demo_stopped :: "(Recording option \<times> gerror option) \<times> Manager \<times> State" where
  "demo_stopped = StopRecording demo_recenv ''call_1'' (fold writeRecording [[4], [6]] (set_near [2] (fst (snd demo_started))))
     (snd (snd demo_started))"

definition demo_rec :: Recording where
  "demo_rec = zeroRecording\<lparr>rec_ID := NewID ''rec'' [1, 2], rec_CallID := ''call_1'',
      rec_FileName := NewID ''rec'' [1, 2] @ ''.opus'', rec_CreatedAt := 9, rec_Kind := ''call''\<rparr>"

theorem recording_is_kept_witness:
  "\<exists>rec'. get_Recording (snd (snd demo_stopped)) (NewID ''rec'' [1, 2]) = Some rec' \<and> rec_Size rec' = 3 \<and> rec_SHA256 rec' = ''ab''"
proof -
  obtain res m1 s1 where a: "demo_started = (res, m1, s1)" using prod_cases3 by blast
  have "fst demo_started = Inr demo_rec" by code_simp
  then have start: "demo_started = (Inr demo_rec, m1, s1)" using a by (metis fst_conv)
  have i: "rec_ID demo_rec = NewID ''rec'' [1, 2]" by (simp add: demo_rec_def)
  obtain x e m3 s3 where b: "demo_stopped = ((x, e), m3, s3)" by (metis surj_pair)
  have "snd (fst demo_stopped) = None" by code_simp
  moreover have "fst (fst demo_stopped) \<noteq> None" by code_simp
  ultimately obtain rec' where stop: "demo_stopped = ((Some rec', None), m3, s3)"
    using b by (metis fst_conv not_None_eq snd_conv)
  have kept: "re_file demo_recenv = Inr [1, 2, 3]" "re_sha256 demo_recenv x = ''ab''" for x by (simp_all add: demo_recenv_def)
  have "StopRecording demo_recenv ''call_1'' (fold writeRecording [[4], [6]] (set_near [2] m1)) s1 = ((Some rec', None), m3, s3)"
    using stop by (simp add: demo_stopped_def start)
  from recording_is_kept [OF start [unfolded demo_started_def] refl this] show ?thesis
    by (auto simp: i kept stop)
qed

text \<open>While the call's entry is written without interference, the flag that the call is being recorded goes
  with the recording.\<close>

lemma recording_flag:
  assumes "get_Call s callID = Some call" "c_ID call = callID" "c_Version call + 1 \<noteq> 0"
    and "env_fault env 0 = None" "\<not> version_taken callID (c_Version call + 1) s"
  shows "map_option c_Recording (get_Call (set_call env callID (\<lambda>c. c\<lparr>c_Recording := b\<rparr>) s) callID) = Some b"
  using set_call_accepted [OF assms, of "\<lambda>c. c\<lparr>c_Recording := b\<rparr>"] assms(2) by (simp add: stored_call_def)

text \<open>\<^verbatim>\<open>EndCall\<close> stops the owner of the sound without looking whose call it is: the end of one call
  takes the sound from another.\<close>

lemma EndCall_stops_other_call:
  assumes "mg_activeCall m = ''call_2''" "mg_cancel m = Some c"
  shows "c \<in> set (mg_cancelled (fst (EndCall env ''call_1'' m s)))"
  using assms stopWebSession_keeps [of m "''call_1''"]
  by (auto simp: EndCall_def Let_def cancel_ctx_def keeps_owner_def case_prod_unfold)

subsection \<open>Offers\<close>

text \<open>An offer of a call that is not active, or that somebody else answered, changes nothing. One that is accepted
  has replaced the peer before it: the old peer is stopped, and the session's track is the new one.\<close>

lemma Offer_refused: "Offer_check callID s = Some e \<Longrightarrow> Offer env callID s m = (Inl e, m)"
  by (simp add: Offer_def)

lemma Offer_replaces_peer:
  assumes "tget (mg_webSessions m) callID = Some sid" "ss_peerCancel (mg_session m sid) = Some old"
    and "Offer env callID s m = (Inr answer, m')"
  shows "old \<in> set (mg_cancelled m') \<and> ss_out (mg_session m' sid) = Some (pe_out env) \<and>
    ss_peerID (mg_session m' sid) = ss_peerID (mg_session m sid) + 1"
  using assms
  by (auto simp: Offer_def ensureWebSession_def attachPeer_def attach_locked_def upd_session_def upd_status_def drainMic_def
      cancel_ctx_def Let_def split: option.splits)

text \<open>The old peer is stopped even by an offer that turns out to be unusable: a malformed offer ends a
  connection that worked.\<close>

lemma bad_offer_drops_peer:
  assumes "tget (mg_webSessions m) callID = Some sid" "ss_peerCancel (mg_session m sid) = Some old"
    and "Offer_check callID s = None" "first_error [pe_ready env, pe_new env, pe_track env, pe_add env] = None"
    and "pe_remote env = Some e"
  shows "\<exists>m'. Offer env callID s m = (Inl e, m') \<and> old \<in> set (mg_cancelled m') \<and> ss_out (mg_session m' sid) = None"
  using assms
  by (auto simp: Offer_def ensureWebSession_def attachPeer_def attach_locked_def detachPeer_def detach_locked_def upd_session_def upd_status_def drainMic_def
      cleanupPeer_def cancel_ctx_def Let_def split: option.splits)

end
