(* ===== verification/Sip_Gateway.thy ===== *)
theory Sip_Gateway
  imports Service Auth Media Go_Net
begin

text \<open>
  The SIP gateway (\<^verbatim>\<open>internal/sipgateway/gateway.go\<close>): calls and messages between a SIP phone behind
  Asterisk and the service. The SIP library is a parameter: what a request is answered, what a
  dialog does. The gateway's own state is the table of dialogs (\<open>sg_legs\<close>, a dialog and the context that
  ends it, both numbers) and the wake-up channel of capacity one. What comes from outside in one
  operation is its \<open>SipEnv\<close>.
\<close>

record SipConfig =
  sc_Listen :: string
  sc_Asterisk :: string
  sc_Target :: string
  sc_GeneratedConfig :: string

record Leg =
  lg_dialog :: nat
  lg_cancel :: nat

record Sip =
  sg_cfg :: SipConfig
  sg_legs :: "Leg table"
  sg_wakeup :: bool
  sg_cancelled :: "nat list"

text \<open>The answers of the SIP peer: to a message, the status of its response or an error of the exchange; to a
  health question, whether it succeeded.\<close>

record SipEnv =
  sp_now :: gtime
  sp_store :: "nat \<Rightarrow> Env"
  sp_rand :: string
  sp_message :: "Message \<Rightarrow> gerror + nat"
  sp_options :: bool
  sp_lan :: string
  sp_mkdir :: "gerror option"
  sp_temp :: "gerror + string"
  sp_write :: "gerror option"
  sp_close :: "gerror option"
  sp_rename :: "gerror option"

subsection \<open>Addresses\<close>

definition atoi_error :: "string \<Rightarrow> gerror" where
  "atoi_error s = ''strconv.Atoi: parsing '' @ [CHR 0x22] @ s @ [CHR 0x22] @ '': '' @
     (if s \<noteq> [] \<and> list_all is_digit (if hd s = CHR ''-'' \<or> hd s = CHR ''+'' then tl s else s) \<and> tl s \<noteq> []
      then ''value out of range'' else ''invalid syntax'')"

definition splitHostPort :: "string \<Rightarrow> gerror + string \<times> int" where
  "splitHostPort value =
     (case SplitHostPort value of
        Inl e \<Rightarrow> Inl e
      | Inr (host, rawPort) \<Rightarrow>
          (case atoi rawPort of
             None \<Rightarrow> Inl (atoi_error rawPort)
           | Some port \<Rightarrow> Inr (host, port)))"

fun firstNonEmpty :: "string list \<Rightarrow> string" where
  "firstNonEmpty [] = ''onSIM''"
| "firstNonEmpty (v # vs) = (if v \<noteq> [] then v else firstNonEmpty vs)"

text \<open>\<^verbatim>\<open>New\<close> refuses an address it cannot split; \<open>stack\<close> is the outcome of setting up the SIP library.\<close>

definition new_sip :: "gerror option \<Rightarrow> SipConfig \<Rightarrow> gerror + Sip" where
  "new_sip stack cfg =
     (case splitHostPort (sc_Listen cfg) of
        Inl e \<Rightarrow> Inl (''sip listen: '' @ e)
      | Inr _ \<Rightarrow> (case stack of Some e \<Rightarrow> Inl e | None \<Rightarrow> Inr \<lparr>sg_cfg = cfg, sg_legs = [], sg_wakeup = False, sg_cancelled = []\<rparr>))"

subsection \<open>Status\<close>

definition sip_setStatus :: "Env \<Rightarrow> string \<Rightarrow> State \<Rightarrow> State" where
  "sip_setStatus env status s =
     snd (UpdateDevice env ((sn_Device (get_Snapshot False s))\<lparr>d_SIPStatus := status\<rparr>) s)"

definition updatePending :: "Env \<Rightarrow> nat \<Rightarrow> State \<Rightarrow> State" where
  "updatePending env pending s =
     snd (UpdateDevice env ((sn_Device (get_Snapshot False s))\<lparr>d_SIPPending := int pending\<rparr>) s)"

definition checkHealth :: "SipEnv \<Rightarrow> Sip \<Rightarrow> State \<Rightarrow> State" where
  "checkHealth env g s =
     (let set = (\<lambda>status. sip_setStatus (sp_store env 0) status s) in
      if \<not> st_SIPEnabled (get_Settings s) then set ''disabled''
      else (case splitHostPort (sc_Asterisk (sg_cfg g)) of
        Inl _ \<Rightarrow> set ''asteriskOffline''
      | Inr _ \<Rightarrow>
          if \<not> sp_options env then set ''asteriskOffline''
          else (case ActiveCall s of
            Some call \<Rightarrow> if c_MediaOwner call = ''sip'' then set ''active'' else set ''ready''
          | None \<Rightarrow> set ''ready'')))"

subsection \<open>Delivering messages to the phone\<close>

definition minute :: int where "minute = 60 * second"

definition retryDelay :: "int \<Rightarrow> int" where
  "retryDelay attempt =
     (if attempt = 1 then 30 * second
      else if attempt = 2 then 2 * minute
      else if attempt = 3 then 10 * minute
      else 60 * minute)"

text \<open>
  \<^verbatim>\<open>State.Message\<close> copies the message but not the delivery it points to: the update changes the delivery of
  the message in the store's memory, without the store's lock, and only then writes the message.
\<close>

definition alias_delivery :: "string \<Rightarrow> Message \<Rightarrow> State \<Rightarrow> State" where
  "alias_delivery i m s = s\<lparr>s_mem := (s_mem s)\<lparr>mem_messages := tput i m (mem_messages (s_mem s))\<rparr>\<rparr>"

definition updateDelivery :: "Env \<Rightarrow> string \<Rightarrow> (SIPDelivery \<Rightarrow> SIPDelivery) \<Rightarrow> State \<Rightarrow> State" where
  "updateDelivery env i f s =
     (case get_Message s i of
        None \<Rightarrow> s
      | Some msg \<Rightarrow>
          (case m_SIPDelivery msg of
             None \<Rightarrow> s
           | Some d \<Rightarrow>
               (let msg = msg\<lparr>m_SIPDelivery := Some (f d)\<rparr>; s = alias_delivery i msg s
                in snd (UpsertMessage env (msg\<lparr>m_Version := m_Version msg + 1\<rparr>) s))))"

definition expire :: "SIPDelivery \<Rightarrow> SIPDelivery" where
  "expire d = d\<lparr>sd_Status := ''expired'', sd_LastError := ''DELIVERY_EXPIRED'', sd_NextAt := None\<rparr>"

definition attempted :: "gtime \<Rightarrow> gerror option \<Rightarrow> SIPDelivery \<Rightarrow> SIPDelivery" where
  "attempted now err d =
     (let d = d\<lparr>sd_Attempts := sd_Attempts d + 1\<rparr> in
      case err of
        None \<Rightarrow> d\<lparr>sd_Status := ''delivered'', sd_LastError := [], sd_NextAt := None\<rparr>
      | Some e \<Rightarrow> d\<lparr>sd_Status := ''queued'', sd_LastError := e, sd_NextAt := Some (now + retryDelay (sd_Attempts d))\<rparr>)"

definition sendMessage :: "SipEnv \<Rightarrow> Sip \<Rightarrow> Message \<Rightarrow> gerror option" where
  "sendMessage env g msg =
     (case splitHostPort (sc_Asterisk (sg_cfg g)) of
        Inl e \<Rightarrow> Some e
      | Inr _ \<Rightarrow>
          (case sp_message env msg of
             Inl e \<Rightarrow> Some e
           | Inr status \<Rightarrow> if 200 \<le> status \<and> status \<le> 299 then None else Some (''SIP_'' @ show_nat status)))"

definition unfinished :: "Message \<Rightarrow> bool" where
  "unfinished msg \<longleftrightarrow>
     (case m_SIPDelivery msg of
        None \<Rightarrow> False
      | Some d \<Rightarrow> sd_Status d \<noteq> ''delivered'' \<and> sd_Status d \<noteq> ''expired'' \<and> \<not> m_Deleted msg)"

definition expired :: "gtime \<Rightarrow> Message \<Rightarrow> bool" where
  "expired now msg \<longleftrightarrow> (case m_SIPDelivery msg of None \<Rightarrow> False | Some d \<Rightarrow> sd_ExpiresAt d < now)"

definition due :: "gtime \<Rightarrow> State \<Rightarrow> Message \<Rightarrow> bool" where
  "due now s msg \<longleftrightarrow>
     (case m_SIPDelivery msg of
        None \<Rightarrow> False
      | Some d \<Rightarrow> st_SIPEnabled (get_Settings s) \<and> (case sd_NextAt d of None \<Rightarrow> False | Some t \<Rightarrow> t \<le> now))"

text \<open>The loop of \<^verbatim>\<open>deliverPending\<close> over the messages of the snapshot; \<open>k\<close> counts the writes. The messages that
  were sent are the first component of the result.\<close>

fun deliver_messages :: "SipEnv \<Rightarrow> Sip \<Rightarrow> nat \<Rightarrow> Message list \<Rightarrow> State \<Rightarrow> string list \<times> nat \<times> State" where
  "deliver_messages env g k [] s = ([], 0, s)"
| "deliver_messages env g k (msg # msgs) s =
     (if \<not> unfinished msg then deliver_messages env g k msgs s
      else if expired (sp_now env) msg then
        (case deliver_messages env g (Suc k) msgs (updateDelivery (sp_store env k) (m_ID msg) expire s) of
           (sent, pending, s) \<Rightarrow> (sent, Suc pending, s))
      else if \<not> due (sp_now env) s msg then
        (case deliver_messages env g k msgs s of (sent, pending, s) \<Rightarrow> (sent, Suc pending, s))
      else
        (case deliver_messages env g (Suc k) msgs
                (updateDelivery (sp_store env k) (m_ID msg) (attempted (sp_now env) (sendMessage env g msg)) s) of
           (sent, pending, s) \<Rightarrow> (m_ID msg # sent, Suc pending, s)))"

definition deliverPending :: "SipEnv \<Rightarrow> Sip \<Rightarrow> State \<Rightarrow> string list \<times> State" where
  "deliverPending env g s =
     (let msgs = sn_Messages (get_Snapshot False s) in
      case deliver_messages env g 0 msgs s of
        (sent, pending, s) \<Rightarrow> (sent, updatePending (sp_store env (length msgs)) pending s))"

definition signalDelivery :: "Sip \<Rightarrow> Sip" where
  "signalDelivery g = g\<lparr>sg_wakeup := True\<rparr>"

definition sip_IncomingSMS :: "Sip \<Rightarrow> Sip" where
  "sip_IncomingSMS g = signalDelivery g"

text \<open>One turn of \<^verbatim>\<open>deliveryLoop\<close>: the wake-up channel is read, or the ticker fires.\<close>

definition delivery_turn :: "bool \<Rightarrow> SipEnv \<Rightarrow> Sip \<Rightarrow> State \<Rightarrow> string list \<times> Sip \<times> State" where
  "delivery_turn tick env g s =
     (if tick then (case deliverPending env g s of (sent, s) \<Rightarrow> (sent, g, s))
      else if sg_wakeup g then (case deliverPending env g s of (sent, s) \<Rightarrow> (sent, g\<lparr>sg_wakeup := False\<rparr>, s))
      else ([], g, s))"

subsection \<open>Credentials\<close>

definition randomSecret :: "string \<Rightarrow> string" where
  "randomSecret bytes = base64url_encode bytes"

definition asterisk_lines :: "string \<Rightarrow> string \<Rightarrow> string list" where
  "asterisk_lines password listen =
     [''; Generated by onSIM. Local edits are overwritten.'',
      ''[transport-udp]'', ''type=transport'', ''protocol=udp'', ''bind=0.0.0.0:5060'', [],
      ''[1001-auth]'', ''type=auth'', ''auth_type=userpass'', ''username=1001'', ''password='' @ password, [],
      ''[1001]'', ''type=aor'', ''max_contacts=1'', ''remove_existing=yes'', ''qualify_frequency=30'', [],
      ''[1001]'', ''type=endpoint'', ''transport=transport-udp'', ''context=from-groundwire'',
      ''message_context=from-groundwire-message'', ''disallow=all'', ''allow=ulaw'', ''auth=1001-auth'', ''aors=1001'',
      ''direct_media=no'', ''dtmf_mode=rfc4733'', [],
      ''[onsim]'', ''type=aor'', ''contact=sip:'' @ listen, ''qualify_frequency=30'', [],
      ''[onsim]'', ''type=endpoint'', ''transport=transport-udp'', ''context=from-onsim'',
      ''message_context=from-onsim-message'', ''disallow=all'', ''allow=ulaw'', ''aors=onsim'', ''direct_media=no'',
      ''dtmf_mode=rfc4733'', [],
      ''[onsim-identify]'', ''type=identify'', ''endpoint=onsim'', ''match=127.0.0.1'']"

definition asterisk_config :: "string \<Rightarrow> string \<Rightarrow> string" where
  "asterisk_config password listen = concat (map (\<lambda>l. l @ [CHR 0x0A]) (asterisk_lines password listen))"

text \<open>The file is written under a temporary name and renamed. The second component is the content of the
  configuration file when it was replaced.\<close>

definition writeAsteriskConfig :: "SipEnv \<Rightarrow> Sip \<Rightarrow> string \<Rightarrow> gerror option \<times> string option" where
  "writeAsteriskConfig env g password =
     (if sc_GeneratedConfig (sg_cfg g) = [] then (None, None)
      else case sp_mkdir env of Some e \<Rightarrow> (Some e, None) | None \<Rightarrow>
        (case sp_temp env of Inl e \<Rightarrow> (Some e, None) | Inr _ \<Rightarrow>
        (case sp_write env of Some e \<Rightarrow> (Some e, None) | None \<Rightarrow>
        (case sp_close env of Some e \<Rightarrow> (Some e, None) | None \<Rightarrow>
        (case sp_rename env of Some e \<Rightarrow> (Some e, None) | None \<Rightarrow>
          (None, Some (asterisk_config password (sc_Listen (sg_cfg g)))))))))"

definition ensureCredentials :: "SipEnv \<Rightarrow> Sip \<Rightarrow> State \<Rightarrow> (gerror option \<times> string option) \<times> State" where
  "ensureCredentials env g s =
     (let settings = get_Settings s in
      if st_SIPPassword settings = [] then
        (let settings = settings\<lparr>st_SIPPassword := randomSecret (sp_rand env), st_SIPPasswordSeen := False\<rparr> in
         case UpdateSettings (sp_store env 0) settings s of
           (Inl e, s) \<Rightarrow> ((Some e, None), s)
         | (Inr _, s) \<Rightarrow> (writeAsteriskConfig env g (st_SIPPassword settings), s))
      else (writeAsteriskConfig env g (st_SIPPassword settings), s))"

definition credentials :: "SipEnv \<Rightarrow> Sip \<Rightarrow> string \<Rightarrow> string table" where
  "credentials env g password =
     [(''username'', sc_Target (sg_cfg g)), (''password'', password), (''server'', sp_lan env), (''transport'', ''UDP'')]"

definition RevealCredentials :: "SipEnv \<Rightarrow> Sip \<Rightarrow> State \<Rightarrow> (gerror + string table) \<times> State" where
  "RevealCredentials env g s =
     (let settings = get_Settings s in
      if st_SIPPasswordSeen settings then (Inl ''CREDENTIAL_ALREADY_REVEALED'', s)
      else case UpdateSettings (sp_store env 0) (settings\<lparr>st_SIPPasswordSeen := True\<rparr>) s of
        (Inl e, s) \<Rightarrow> (Inl e, s)
      | (Inr _, s) \<Rightarrow> (Inr (credentials env g (st_SIPPassword settings)), s))"

definition ResetCredentials :: "SipEnv \<Rightarrow> Sip \<Rightarrow> State \<Rightarrow> ((gerror + string table) \<times> string option) \<times> State" where
  "ResetCredentials env g s =
     (let password = randomSecret (sp_rand env);
          settings = (get_Settings s)\<lparr>st_SIPPassword := password, st_SIPPasswordSeen := True\<rparr> in
      case UpdateSettings (sp_store env 0) settings s of
        (Inl e, s) \<Rightarrow> ((Inl e, None), s)
      | (Inr _, s) \<Rightarrow>
          (case writeAsteriskConfig env g password of
             (Some e, file) \<Rightarrow> ((Inl e, file), s)
           | (None, file) \<Rightarrow> ((Inr (credentials env g password), file), s)))"

definition ApplySettings :: "SipEnv \<Rightarrow> SipEnv \<Rightarrow> Sip \<Rightarrow> State \<Rightarrow> (gerror option \<times> string option) \<times> Sip \<times> State" where
  "ApplySettings env env' g s =
     (case ensureCredentials env g s of
        ((Some e, file), s) \<Rightarrow> ((Some e, file), g, s)
      | ((None, file), s) \<Rightarrow> ((None, file), signalDelivery g, checkHealth env' g s))"

text \<open>\<^verbatim>\<open>Start\<close>: the credentials, then the SIP server; when it cannot listen, the status says so and no loop is started.\<close>

definition sip_Start :: "SipEnv \<Rightarrow> Env \<Rightarrow> gerror option \<Rightarrow> Sip \<Rightarrow> State \<Rightarrow> bool \<times> State" where
  "sip_Start env env' serve g s =
     (case ensureCredentials env g s of
        (_, s) \<Rightarrow> (case serve of None \<Rightarrow> (True, s) | Some _ \<Rightarrow> (False, sip_setStatus env' ''asteriskOffline'' s)))"

text \<open>\<^verbatim>\<open>lanAddress\<close>: the first private IPv4 address of an interface that is up and no loopback. The addresses of an
  interface are given with whether they are private IPv4 addresses.\<close>

record Interface =
  if_up :: bool
  if_loopback :: bool
  if_addrs :: "(string \<times> bool) list"

definition lanAddress :: "Interface list \<Rightarrow> string" where
  "lanAddress ifs =
     (case concat (map (\<lambda>i. if if_up i \<and> \<not> if_loopback i then map fst (filter snd (if_addrs i)) else []) ifs) of
        [] \<Rightarrow> ''127.0.0.1''
      | a # _ \<Rightarrow> a)"

subsection \<open>Dialogs\<close>

definition setLeg :: "string \<Rightarrow> nat \<Rightarrow> nat \<Rightarrow> Sip \<Rightarrow> Sip" where
  "setLeg callID dialog ctx g = g\<lparr>sg_legs := tput callID \<lparr>lg_dialog = dialog, lg_cancel = ctx\<rparr> (sg_legs g)\<rparr>"

definition clearLeg :: "string \<Rightarrow> nat \<Rightarrow> Sip \<Rightarrow> Sip" where
  "clearLeg callID dialog g =
     (case tget (sg_legs g) callID of
        Some leg \<Rightarrow> if lg_dialog leg = dialog then g\<lparr>sg_legs := tdel callID (sg_legs g)\<rparr> else g
      | None \<Rightarrow> g)"

text \<open>The end of a call stops its dialog; the result says which dialog is hung up.\<close>

definition sip_CallEnded :: "Call \<Rightarrow> Sip \<Rightarrow> nat option \<times> Sip" where
  "sip_CallEnded call g =
     (case tget (sg_legs g) (c_ID call) of
        None \<Rightarrow> (None, g)
      | Some leg \<Rightarrow>
          (Some (lg_dialog leg),
           g\<lparr>sg_legs := tdel (c_ID call) (sg_legs g), sg_cancelled := lg_cancel leg # sg_cancelled g\<rparr>))"

definition stop_legs :: "Sip \<Rightarrow> Sip" where
  "stop_legs g = g\<lparr>sg_cancelled := map lg_cancel (tvals (sg_legs g)) @ sg_cancelled g\<rparr>"

text \<open>One look of \<^verbatim>\<open>waitForActive\<close> at the call: \<open>None\<close> when it has to wait longer.\<close>

definition waitForActive :: "string \<Rightarrow> Call option \<Rightarrow> bool option" where
  "waitForActive owner call =
     (case call of
        None \<Rightarrow> Some False
      | Some c \<Rightarrow>
          if c_State c = CallEnded \<or> c_State c = CallFailed \<or> (c_MediaOwner c \<noteq> [] \<and> c_MediaOwner c \<noteq> owner) then Some False
          else if c_State c = CallActive then Some True
          else None)"

definition claimed_elsewhere :: "Call option \<Rightarrow> bool" where
  "claimed_elsewhere call =
     (case call of
        None \<Rightarrow> True
      | Some c \<Rightarrow> c_State c = CallEnded \<or> c_State c = CallFailed \<or> (c_MediaOwner c \<noteq> [] \<and> c_MediaOwner c \<noteq> ''sip''))"

definition dialog_code :: "gerror \<Rightarrow> nat" where
  "dialog_code e =
     (if e = ''CALL_STATE_CONFLICT'' then 486
      else if e = ''MODEM_OFFLINE'' then 503
      else if e = ''NUMBER_BLOCKED'' \<or> e = ''FEATURE_DISABLED'' then 403
      else 400)"

text \<open>The first part of \<^verbatim>\<open>handleDialog\<close>: the response that refuses the dialog, or the call that was dialled.\<close>

definition handleDialog_dial ::
  "SEnv \<Rightarrow> string \<Rightarrow> nat \<Rightarrow> nat \<Rightarrow> Sip \<Rightarrow> Svc \<Rightarrow> (nat \<times> string + Call) \<times> Sip \<times> Svc" where
  "handleDialog_dial env number dialog ctx g v =
     (if \<not> st_SIPEnabled (get_Settings (v_state v)) then (Inl (503, ''SIP gateway disabled''), g, v)
      else case DialFrom env number ''sip'' v of
        ((_, Some e), v) \<Rightarrow> (Inl (dialog_code e, e), g, v)
      | ((Some call, None), v) \<Rightarrow> (Inr call, setLeg (c_ID call) dialog ctx g, v)
      | ((None, None), v) \<Rightarrow> (Inl (400, []), g, v))"

text \<open>The rest: the call became active and the dialog was answered and bridged, or not; the leg is cleared and
  a call that is still up is hung up.\<close>

datatype dialog_end = NotActive | AnswerFailed | Bridged

definition handleDialog_end :: "SEnv \<Rightarrow> dialog_end \<Rightarrow> string \<Rightarrow> nat \<Rightarrow> Sip \<Rightarrow> Svc \<Rightarrow> Sip \<times> Svc" where
  "handleDialog_end env how callID dialog g v =
     (let v = (case how of
                 NotActive \<Rightarrow> v
               | AnswerFailed \<Rightarrow> snd (Hangup env 0 callID ''sip_answer_failed'' v)
               | Bridged \<Rightarrow>
                   (case get_Call (v_state v) callID of
                      Some call \<Rightarrow>
                        if c_State call \<noteq> CallEnded \<and> c_State call \<noteq> CallFailed
                        then snd (Hangup env 0 callID ''sip_hangup'' v) else v
                    | None \<Rightarrow> v))
      in (clearLeg callID dialog g, v))"

text \<open>\<^verbatim>\<open>originateIncoming\<close>: the phone's answer to the invitation is the status of its last response, or a dialog.\<close>

definition originateIncoming ::
  "SEnv \<Rightarrow> nat + nat \<times> nat \<Rightarrow> Call \<Rightarrow> Sip \<Rightarrow> Svc \<Rightarrow> bool \<times> Sip \<times> Svc" where
  "originateIncoming env answer call g v =
     (case splitHostPort (sc_Asterisk (sg_cfg g)) of
        Inl _ \<Rightarrow> (False, g, v)
      | Inr _ \<Rightarrow>
          (case answer of
             Inl status \<Rightarrow>
               (False, g, if status = 486 \<or> status = 603 then snd (Hangup env 0 (c_ID call) ''sip_rejected'' v) else v)
           | Inr (dialog, ctx) \<Rightarrow>
               (let g = setLeg (c_ID call) dialog ctx g in
                case AnswerFrom env (c_ID call) ''sip'' v of
                  ((_, Some e), v) \<Rightarrow> (False, clearLeg (c_ID call) dialog g, v)
                | ((_, None), v) \<Rightarrow> (True, g, v))))"

text \<open>The end of \<^verbatim>\<open>originateIncoming\<close>, after the dialog was bridged or the call was lost: the deferred \<^verbatim>\<open>clearLeg\<close>.\<close>

definition originateIncoming_end :: "string \<Rightarrow> nat \<Rightarrow> Sip \<Rightarrow> Svc \<Rightarrow> Sip \<times> Svc" where
  "originateIncoming_end callID dialog g v = (clearLeg callID dialog g, v)"

text \<open>\<^verbatim>\<open>bridgeDialog\<close>: the reader, the decoder, the writer and the encoder of the dialog's sound, then the bridge; a key
  pressed on the phone is sent to the call.\<close>

definition bridgeDialog :: "gerror option list \<Rightarrow> string \<Rightarrow> State \<Rightarrow> Manager \<Rightarrow> (gerror + nat \<times> 64 word) \<times> Manager" where
  "bridgeDialog setup callID s m =
     (case first_error setup of
        Some e \<Rightarrow> (Inl e, m)
      | None \<Rightarrow> BridgePCM_claim callID ''sip'' s m)"

definition dialog_key :: "SEnv \<Rightarrow> string \<Rightarrow> string \<Rightarrow> Svc \<Rightarrow> gerror option \<times> Svc" where
  "dialog_key env callID key v = DTMF env callID key v"

text \<open>An incoming call is offered to the phone when SIP is enabled.\<close>

definition sip_IncomingCall :: "State \<Rightarrow> bool" where
  "sip_IncomingCall s = st_SIPEnabled (get_Settings s)"

text \<open>\<^verbatim>\<open>handleMessage\<close>: the status and the reason of the response to a message from the phone.\<close>

definition lower_string :: "string \<Rightarrow> string" where
  "lower_string s = map lower_byte s"

definition handleMessage ::
  "SEnv \<Rightarrow> string option \<Rightarrow> string \<Rightarrow> string \<Rightarrow> Svc \<Rightarrow> (nat \<times> string) \<times> Svc" where
  "handleMessage env contentType user body v =
     (if \<not> st_SIPEnabled (get_Settings (v_state v)) then ((503, ''SIP gateway disabled''), v)
      else case contentType of
        None \<Rightarrow> ((415, ''text/plain required''), v)
      | Some ct \<Rightarrow>
          if \<not> has_prefix (lower_string ct) ''text/plain'' then ((415, ''text/plain required''), v)
          else (case SendSMS env user body v of
            ((_, Some e), v) \<Rightarrow>
              ((if e = ''MODEM_OFFLINE'' then 503
                else if e = ''NUMBER_BLOCKED'' \<or> e = ''FEATURE_DISABLED'' then 403 else 400, e), v)
          | ((_, None), v) \<Rightarrow> ((202, ''Accepted''), v)))"

end
