(* ===== verification/Sip_Props.thy ===== *)
theory Sip_Props
  imports Sip_Gateway Service_Runs
begin

text \<open>
  What the SIP gateway guarantees: the password is shown once, the phone and Asterisk are given the same
  one, a message is offered to the phone at most once in its retry delay, and an old dialog cannot
  remove the leg of a newer one. Three places are shown to go wrong: a failed write of the store leaves a
  delivery that only the memory knows of, a failed reset leaves the store and Asterisk with different
  passwords, and a phone that gives up while the call is ringing leaves the call behind.
\<close>

subsection \<open>Credentials\<close>

lemma UpdateSettings_merges:
  assumes "UpdateSettings env v s = (Inr e, s')"
  shows "mem_settings (s_mem s') = merge_Settings (mem_settings (s_mem s)) (with_defaults v) \<and>
    mem_sequence (s_mem s') = db_last (s_db s')"
proof -
  have "s' = logged env ''settings.updated'' ''settings'' (mem_sequence (s_mem s) + 1)
     (PSettings (with_defaults v)) (db_last (s_db s) + 1) s"
    using append_mem [OF _ assms [unfolded UpdateSettings_append]] by auto
  then show ?thesis by simp
qed

lemma UpdateSettings_accepted:
  assumes "env_fault env 0 = None" "\<not> version_taken ''settings'' (mem_sequence (s_mem s) + 1) s"
  shows "\<exists>e s'. UpdateSettings env v s = (Inr e, s')"
  using append_accepted [of "''settings.updated''" "PSettings (with_defaults v)" env "''settings''" _ s, OF _ assms]
  by (auto simp: UpdateSettings_append)

lemma get_Settings_sel [simp]:
  "st_SIPPasswordSeen (get_Settings s) = st_SIPPasswordSeen (mem_settings (s_mem s))"
  "st_SIPPassword (get_Settings s) = st_SIPPassword (mem_settings (s_mem s))"
  by (simp_all add: get_Settings_def default_timeout_def)

lemma seen_stays:
  assumes "mem_sequence (s_mem s) = db_last (s_db s)" "st_SIPPasswordSeen (mem_settings (s_mem s))"
  shows "st_SIPPasswordSeen (mem_settings (s_mem (run_ops store_step qs s)))"
  using assms
proof (rule run_invariant)
  fix s s' assume "commit False s s'" "st_SIPPasswordSeen (mem_settings (s_mem s))"
  then show "st_SIPPasswordSeen (mem_settings (s_mem s'))"
  proof (cases rule: commit.cases)
    case (append t p i ver env)
    then show ?thesis
      using \<open>st_SIPPasswordSeen (mem_settings (s_mem s))\<close>
      by (cases p) (auto simp: merge_Settings_def put_call_def put_message_def rebuildConversation_def Let_def)
  qed simp
qed

lemma reveal_ok:
  assumes "RevealCredentials env g s = (Inr c, s')"
  shows "tget c ''password'' = Some (st_SIPPassword (get_Settings s))" "\<not> st_SIPPasswordSeen (get_Settings s)"
    "st_SIPPasswordSeen (mem_settings (s_mem s'))" "mem_sequence (s_mem s') = db_last (s_db s')"
  using assms
  by (auto simp: RevealCredentials_def credentials_def merge_Settings_def with_defaults_def Let_def
      dest!: UpdateSettings_merges split: if_splits prod.splits sum.splits)

text \<open>C23: \<^verbatim>\<open>RevealCredentials\<close> gives the stored password out once: after it has returned it, every later call of
  \<^verbatim>\<open>RevealCredentials\<close> is refused and changes nothing, whatever the store was asked to write in between (no
  settings update clears the mark, and a reset of the credentials sets it); and if the store is durable,
  the call is also refused after a restart, on the database reopened with the same key. This is a statement
  about \<^verbatim>\<open>RevealCredentials\<close> alone: a reset shows the new password it has made, and the HTTP interface may
  replay the answer it stored.\<close>

theorem credentials_shown_once:
  assumes "RevealCredentials env g s = (Inr c, s')"
  shows "tget c ''password'' = Some (st_SIPPassword (get_Settings s)) \<and>
    RevealCredentials env' g' (run_ops store_step qs s') = (Inl ''CREDENTIAL_ALREADY_REVEALED'', run_ops store_step qs s') \<and>
    (durable s' \<and> all_along safe_op store_step qs s' \<and> opens_with newGCM io (s_db (run_ops store_step qs s')) (s_secrets s') \<longrightarrow>
      (\<exists>s2. OpenWithKey newGCM now io = Inr s2 \<and> fst (RevealCredentials env' g' s2) = Inl ''CREDENTIAL_ALREADY_REVEALED''))"
proof -
  let ?t = "run_ops store_step qs s'"
  have seen: "st_SIPPasswordSeen (mem_settings (s_mem ?t))" using reveal_ok [OF assms] seen_stays [of s' qs] by simp
  have "\<exists>s2. OpenWithKey newGCM now io = Inr s2 \<and> fst (RevealCredentials env' g' s2) = Inl ''CREDENTIAL_ALREADY_REVEALED''"
    if d: "durable s'" "all_along safe_op store_step qs s'" "opens_with newGCM io (s_db ?t) (s_secrets s')"
  proof -
    note run = durable_run [OF d(1,2)]
    obtain s2 where "OpenWithKey newGCM now io = Inr s2" "mem_eq (s_mem s2) (s_mem ?t)"
      using durable_reopen [OF conjunct1 [OF run], of newGCM io now] d(3) run by auto
    then show ?thesis using seen by (auto simp: RevealCredentials_def mem_eq_iff Let_def)
  qed
  then show ?thesis using reveal_ok(1) [OF assms] seen by (simp add: RevealCredentials_def Let_def)
qed

definition demo_sipenv :: SipEnv where
  "demo_sipenv = \<lparr>sp_now = 100, sp_store = (\<lambda>_. demo_env 100), sp_rand = replicate 24 (CHR ''r''),
     sp_message = (\<lambda>_. Inr 200), sp_options = True, sp_lan = ''192.168.1.2'', sp_mkdir = None, sp_temp = Inr ''t'',
     sp_write = None, sp_close = None, sp_rename = None\<rparr>"

definition demo_sip :: Sip where
  "demo_sip = \<lparr>sg_cfg = \<lparr>sc_Listen = ''127.0.0.1:5062'', sc_Asterisk = ''127.0.0.1:5060'', sc_Target = ''1001'',
     sc_GeneratedConfig = ''/a.conf''\<rparr>, sg_legs = [], sg_wakeup = False, sg_cancelled = []\<rparr>"

lemma demo_reveal: "\<exists>c s'. RevealCredentials demo_sipenv demo_sip demo_state = (Inr c, s')"
proof -
  have "\<exists>e s'. UpdateSettings (demo_env 100) ((get_Settings demo_state)\<lparr>st_SIPPasswordSeen := True\<rparr>) demo_state = (Inr e, s')"
    by (intro UpdateSettings_accepted) (simp_all add: version_taken_def demo_state_def emptyDB_def demo_env_def)
  moreover have "\<not> st_SIPPasswordSeen (get_Settings demo_state)"
    by (simp add: demo_state_def initMem_def defaultSettings_def zeroSettings_def)
  ultimately show ?thesis by (auto simp: RevealCredentials_def Let_def demo_sipenv_def)
qed

theorem credentials_shown_once_witness:
  "fst (RevealCredentials demo_sipenv demo_sip (snd (RevealCredentials demo_sipenv demo_sip demo_state))) =
     Inl ''CREDENTIAL_ALREADY_REVEALED''"
proof -
  obtain c s' where r: "RevealCredentials demo_sipenv demo_sip demo_state = (Inr c, s')" using demo_reveal by blast
  from credentials_shown_once [OF r, of demo_sipenv demo_sip "[]", THEN conjunct2, THEN conjunct1] show ?thesis by (simp add: r)
qed

lemma writeAsteriskConfig_file:
  "writeAsteriskConfig env g p = (None, Some file) \<Longrightarrow> file = asterisk_config p (sc_Listen (sg_cfg g))"
  by (auto simp: writeAsteriskConfig_def split: if_splits option.splits sum.splits)

text \<open>The phone and Asterisk agree on the password: when \<^verbatim>\<open>ensureCredentials\<close> or \<^verbatim>\<open>ResetCredentials\<close> has written the
  configuration without an error, the password in it is the one in the store, it is not empty, and
  a reset returns that very password.\<close>

theorem credentials_agree:
  assumes "randomSecret (sp_rand env) \<noteq> []"
  shows "(ensureCredentials env g s = ((None, Some file), s') \<longrightarrow>
      st_SIPPassword (get_Settings s') \<noteq> [] \<and> file = asterisk_config (st_SIPPassword (get_Settings s')) (sc_Listen (sg_cfg g))) \<and>
    (ResetCredentials env g s = ((Inr c, Some file), s') \<longrightarrow>
      st_SIPPassword (get_Settings s') \<noteq> [] \<and> file = asterisk_config (st_SIPPassword (get_Settings s')) (sc_Listen (sg_cfg g)) \<and>
      tget c ''password'' = Some (st_SIPPassword (get_Settings s')))"
  using assms
  by (auto simp: ensureCredentials_def ResetCredentials_def credentials_def Let_def merge_Settings_def with_defaults_def
      dest!: UpdateSettings_merges writeAsteriskConfig_file split: if_splits prod.splits sum.splits option.splits)

theorem credentials_agree_witness:
  "st_SIPPassword (get_Settings (snd (ensureCredentials demo_sipenv demo_sip demo_state))) \<noteq> []"
proof -
  obtain e s' where u: "UpdateSettings (demo_env 100) ((get_Settings demo_state)\<lparr>st_SIPPassword := randomSecret (sp_rand demo_sipenv),
      st_SIPPasswordSeen := False\<rparr>) demo_state = (Inr e, s')"
    using UpdateSettings_accepted [of "demo_env 100" demo_state]
    by (fastforce simp: version_taken_def demo_state_def emptyDB_def demo_env_def)
  have "st_SIPPassword (get_Settings demo_state) = []"
    by (simp add: demo_state_def initMem_def defaultSettings_def zeroSettings_def)
  then have "ensureCredentials demo_sipenv demo_sip demo_state =
      ((None, Some (asterisk_config (randomSecret (sp_rand demo_sipenv)) ''127.0.0.1:5062'')), s')"
    using u by (simp add: ensureCredentials_def Let_def writeAsteriskConfig_def demo_sipenv_def demo_sip_def)
  moreover have "randomSecret (sp_rand demo_sipenv) \<noteq> []" by code_simp
  ultimately show ?thesis using credentials_agree [of demo_sipenv demo_sip demo_state] by auto
qed

text \<open>A reset whose configuration cannot be written leaves a new password in the store that Asterisk does not
  know, and that is marked as shown.\<close>

lemma failed_reset_diverges:
  assumes "ResetCredentials env g s = ((Inl e, None), s')" "sp_mkdir env = Some e" "sc_GeneratedConfig (sg_cfg g) \<noteq> []"
    and "env_fault (sp_store env 0) 0 = None" "\<not> version_taken ''settings'' (mem_sequence (s_mem s) + 1) s"
    and "randomSecret (sp_rand env) \<noteq> []"
  shows "st_SIPPassword (get_Settings s') = randomSecret (sp_rand env) \<and> st_SIPPasswordSeen (get_Settings s')"
proof -
  let ?v = "(get_Settings s)\<lparr>st_SIPPassword := randomSecret (sp_rand env), st_SIPPasswordSeen := True\<rparr>"
  obtain x t where u: "UpdateSettings (sp_store env 0) ?v s = (Inr x, t)"
    using UpdateSettings_accepted [OF assms(4,5)] by blast
  then have "s' = t" using assms(1) by (auto simp: ResetCredentials_def Let_def split: prod.splits option.splits)
  then show ?thesis
    using UpdateSettings_merges [OF u] assms(6) by (simp add: merge_Settings_def with_defaults_def)
qed

subsection \<open>Deliveries\<close>

lemma stored_delivery [simp]: "m_SIPDelivery (stored_message v) = m_SIPDelivery v" "m_Deleted (stored_message v) = m_Deleted v"
  by (simp_all add: stored_message_def)

lemma alias_get [simp]: "get_Message (alias_delivery i m s) j = (if j = i then Some m else get_Message s j)"
  by (simp add: alias_delivery_def get_Message_def)

text \<open>An update reaches the message it is for, whether or not the store accepts the write, and no other.\<close>

lemma updateDelivery_get:
  assumes "get_Message s i = Some m" "m_ID m = i" "m_SIPDelivery m = Some d"
  shows "\<exists>m'. get_Message (updateDelivery env i f s) i = Some m' \<and> m_ID m' = i \<and> m_SIPDelivery m' = Some (f d) \<and>
      m_Deleted m' = m_Deleted m"
    and "j \<noteq> i \<Longrightarrow> get_Message (updateDelivery env i f s) j = get_Message s j"
proof -
  let ?m = "m\<lparr>m_SIPDelivery := Some (f d)\<rparr>"
  let ?v = "?m\<lparr>m_Version := m_Version m + 1\<rparr>"
  let ?s = "alias_delivery i ?m s"
  have u: "updateDelivery env i f s = snd (UpsertMessage env ?v ?s)"
    using assms by (simp add: updateDelivery_def Let_def)
  have id: "m_ID ?v = i" using assms(2) by simp
  have get: "get_Message (snd (UpsertMessage env ?v ?s)) k =
      (if k = i then Some (case fst (UpsertMessage env ?v ?s) of Inr _ \<Rightarrow> stored_message ?v | Inl _ \<Rightarrow> ?m) else get_Message s k)" for k
    using messages.put_get [of env ?v ?s _ _ k] UpsertMessage_err [of env ?v ?s] id
    by (cases "UpsertMessage env ?v ?s"; cases "fst (UpsertMessage env ?v ?s)") auto
  show "\<exists>m'. get_Message (updateDelivery env i f s) i = Some m' \<and> m_ID m' = i \<and> m_SIPDelivery m' = Some (f d) \<and>
      m_Deleted m' = m_Deleted m"
    using get [of i] assms(2) unfolding u by (auto split: sum.split)
  show "j \<noteq> i \<Longrightarrow> get_Message (updateDelivery env i f s) j = get_Message s j"
    using get [of j] unfolding u by simp
qed

definition in_store :: "State \<Rightarrow> Message list \<Rightarrow> bool" where
  "in_store s msgs \<longleftrightarrow> distinct (map m_ID msgs) \<and> (\<forall>m \<in> set msgs. get_Message s (m_ID m) = Some m)"

lemma in_store_tail: "in_store s (m # ms) \<Longrightarrow> in_store s ms"
  by (auto simp: in_store_def)

lemma in_store_update:
  assumes "in_store s (m # ms)" "m_SIPDelivery m = Some d"
  shows "in_store (updateDelivery env (m_ID m) f s) ms"
proof -
  have "get_Message s (m_ID m) = Some m" "\<And>x. x \<in> set ms \<Longrightarrow> m_ID x \<noteq> m_ID m"
    using assms(1) distinct_map_ConsD [of m_ID m ms] by (auto simp: in_store_def)
  then show ?thesis
    using assms updateDelivery_get(2) [of s "m_ID m" m d] by (auto simp: in_store_def)
qed

text \<open>A message that is finished, or whose next attempt is not before \<open>t\<close>, is not sent before \<open>t\<close>.\<close>

definition waits_until :: "gtime \<Rightarrow> Message \<Rightarrow> bool" where
  "waits_until t m \<longleftrightarrow>
     (case m_SIPDelivery m of
        None \<Rightarrow> True
      | Some d \<Rightarrow> sd_Status d = ''delivered'' \<or> sd_Status d = ''expired'' \<or> (case sd_NextAt d of None \<Rightarrow> True | Some u \<Rightarrow> t \<le> u))"

lemma waits_not_due: "waits_until t m \<Longrightarrow> now < t \<Longrightarrow> unfinished m \<Longrightarrow> \<not> due now s m"
  by (auto simp: waits_until_def due_def unfinished_def split: option.splits)

text \<open>What a pass has done to a message: an attempt if it was sent, otherwise nothing, or it has expired.\<close>

definition after_pass :: "SipEnv \<Rightarrow> Sip \<Rightarrow> bool \<Rightarrow> Message \<Rightarrow> Message \<Rightarrow> bool" where
  "after_pass env g sent m m' \<longleftrightarrow> m_ID m' = m_ID m \<and>
     (if sent
      then unfinished m \<and> m_SIPDelivery m' = map_option (attempted (sp_now env) (sendMessage env g m)) (m_SIPDelivery m)
      else m_SIPDelivery m' = m_SIPDelivery m \<or> m_SIPDelivery m' = map_option expire (m_SIPDelivery m))"

lemma after_pass_waits: "after_pass env g False m m' \<Longrightarrow> waits_until t m \<Longrightarrow> waits_until t m'"
  by (auto simp: after_pass_def waits_until_def expire_def split: option.splits)

lemma deliver_messages_spec:
  assumes "in_store s msgs" "deliver_messages env g k msgs s = (sent, pending, s')"
  shows "set sent \<subseteq> m_ID ` set (filter (\<lambda>m. unfinished m \<and> (\<exists>s. due (sp_now env) s m)) msgs) \<and> distinct sent \<and>
    (\<forall>j. j \<notin> m_ID ` set msgs \<longrightarrow> get_Message s' j = get_Message s j) \<and>
    (\<forall>m \<in> set msgs. \<exists>m'. get_Message s' (m_ID m) = Some m' \<and> after_pass env g (m_ID m \<in> set sent) m m')"
  using assms
proof (induction msgs arbitrary: k s sent pending)
  case (Cons m ms)
  note tail = in_store_tail [OF Cons.prems(1)]
  have new: "m_ID m \<notin> m_ID ` set ms" and here: "get_Message s (m_ID m) = Some m"
    using Cons.prems(1) by (auto simp: in_store_def)
  have skip: ?case if "deliver_messages env g k ms s = (sent, n, s')" for n
  proof -
    note ih = Cons.IH [OF tail that]
    then have "m_ID m \<notin> set sent" "get_Message s' (m_ID m) = Some m" using new here by auto
    then show ?thesis using ih by (auto simp: after_pass_def)
  qed
  show ?case
  proof (cases "m_SIPDelivery m")
    case None
    then show ?thesis using Cons.prems(2) skip by (simp add: unfinished_def)
  next
    case (Some d)
    note upd = in_store_update [OF Cons.prems(1) Some] updateDelivery_get [OF here refl Some]
    have step: "get_Message s' (m_ID m) = get_Message (updateDelivery e (m_ID m) f s) (m_ID m) \<and> m_ID m \<notin> set sent1"
      if "deliver_messages env g (Suc k) ms (updateDelivery e (m_ID m) f s) = (sent1, n, s')" for e f sent1 n
    proof
      note ih = Cons.IH [OF upd(1) that]
      from ih [THEN conjunct2, THEN conjunct2, THEN conjunct1] new
      show "get_Message s' (m_ID m) = get_Message (updateDelivery e (m_ID m) f s) (m_ID m)" by blast
      from ih [THEN conjunct1] new show "m_ID m \<notin> set sent1" by auto
    qed
    consider "deliver_messages env g k ms s = (sent, pending, s')"
      | n where "deliver_messages env g k ms s = (sent, n, s')"
      | n where "deliver_messages env g (Suc k) ms (updateDelivery (sp_store env k) (m_ID m) expire s) = (sent, n, s')"
      | n sent1 where "unfinished m" "due (sp_now env) s m" "sent = m_ID m # sent1"
          "deliver_messages env g (Suc k) ms
             (updateDelivery (sp_store env k) (m_ID m) (attempted (sp_now env) (sendMessage env g m)) s) = (sent1, n, s')"
      using Cons.prems(2) by (auto split: prod.splits if_splits)
    then show ?thesis
    proof cases
      case 3
      obtain m' where "get_Message s' (m_ID m) = Some m'" "m_ID m' = m_ID m" "m_SIPDelivery m' = Some (expire d)"
        using step [OF 3] upd(2) [of "sp_store env k" expire] by auto
      then show ?thesis using Cons.IH [OF upd(1) 3] step [OF 3] upd(3) Some by (auto simp: after_pass_def)
    next
      case 4
      obtain m' where "get_Message s' (m_ID m) = Some m'" "m_ID m' = m_ID m"
        "m_SIPDelivery m' = Some (attempted (sp_now env) (sendMessage env g m) d)"
        using step [OF 4(4)] upd(2) [of "sp_store env k" "attempted (sp_now env) (sendMessage env g m)"] by auto
      then have "after_pass env g True m m'" using 4(1) Some by (simp add: after_pass_def)
      moreover have "m_ID x \<noteq> m_ID m" if "x \<in> set ms" for x using new that by (metis imageI)
      ultimately show ?thesis
        using Cons.IH [OF upd(1) 4(4)] conjunct2 [OF step [OF 4(4)]] upd(3) 4(1,2,3) \<open>get_Message s' (m_ID m) = Some m'\<close> by auto
    qed (rule skip, assumption)+
  qed
qed auto

definition messages_keyed :: "State \<Rightarrow> bool" where
  "messages_keyed s \<longleftrightarrow> wf_table (mem_messages (s_mem s)) \<and> (\<forall>(k, m) \<in> set (mem_messages (s_mem s)). m_ID m = k)"

lemma snapshot_in_store:
  assumes "messages_keyed s"
  shows "in_store s (sn_Messages (get_Snapshot False s))"
proof -
  let ?t = "mem_messages (s_mem s)"
  have keys: "map m_ID (tvals ?t) = map fst ?t"
    using assms by (auto simp: messages_keyed_def tvals_def)
  then have "distinct (map m_ID (tvals ?t))" using assms by (simp add: messages_keyed_def wf_table_def)
  then have "distinct (map m_ID (sort_key m_CreatedAt (tvals ?t)))"
    by (simp add: distinct_map distinct_sort)
  moreover have "get_Message s (m_ID m) = Some m" if "m \<in> set (tvals ?t)" for m
    using that assms by (auto simp: messages_keyed_def tvals_def get_Message_def tget_eq_Some)
  ultimately show ?thesis by (simp add: in_store_def get_Snapshot_def Let_def)
qed

lemma keyed_tput: "messages_keyed s \<Longrightarrow> m_ID m = i \<Longrightarrow> mem_messages (s_mem s') = tput i m (mem_messages (s_mem s)) \<Longrightarrow> messages_keyed s'"
  by (auto simp: messages_keyed_def set_tput)

lemma UpsertMessage_keyed:
  assumes "messages_keyed s"
  shows "messages_keyed (snd (UpsertMessage env v s))"
proof (cases "fst (UpsertMessage env v s)")
  case (Inl e)
  then show ?thesis using assms UpsertMessage_err by (metis prod.collapse)
next
  case (Inr e)
  then have "snd (UpsertMessage env v s) = logged env ''message.upserted'' (m_ID v)
      (m_Version (stored_message v)) (PMessage (stored_message v)) (db_last (s_db s) + 1) s"
    using UpsertMessage_ok(1) by (metis prod.collapse)
  then show ?thesis
    using keyed_tput [OF assms, of "stored_message v" "m_ID v"]
    by (simp add: put_message_def rebuildConversation_def Let_def)
qed

lemma updateDelivery_keyed:
  assumes "messages_keyed s"
  shows "messages_keyed (updateDelivery env i f s)"
proof -
  have "messages_keyed (alias_delivery i m s)" if "m_ID m = i" for m
    by (rule keyed_tput [OF assms]) (simp_all add: that alias_delivery_def)
  moreover have "get_Message s i = Some m \<Longrightarrow> m_ID m = i" for m
    using assms by (auto simp: get_Message_def messages_keyed_def dest: tget_SomeD)
  ultimately show ?thesis
    using assms by (auto simp: updateDelivery_def Let_def intro!: UpsertMessage_keyed split: option.split)
qed

lemma deliver_messages_keyed:
  "messages_keyed s \<Longrightarrow> deliver_messages env g k msgs s = (sent, n, s') \<Longrightarrow> messages_keyed s'"
proof (induction msgs arbitrary: k s sent n)
  case (Cons m ms)
  note step = Cons.prems(2) Cons.IH [OF Cons.prems(1)] Cons.IH [OF updateDelivery_keyed [OF Cons.prems(1)]]
  then show ?case by (auto split: if_splits prod.splits)
qed simp

lemma UpdateDevice_messages: "mem_messages (s_mem (snd (UpdateDevice env v s))) = mem_messages (s_mem s)"
  using append_mem [of "''device.updated''" "PDevice (v\<lparr>d_LastCheckedAt := env_now env\<rparr>)" env "''device''" "mem_sequence (s_mem s) + 1" s]
  by (cases "appendLocked env ''device.updated'' ''device'' (mem_sequence (s_mem s) + 1) (PDevice (v\<lparr>d_LastCheckedAt := env_now env\<rparr>)) s")
    (auto simp: UpdateDevice_def Let_def set_device_def)

lemma deliverPending_spec:
  assumes "messages_keyed s" "deliverPending env g s = (sent, s')"
  shows "distinct sent \<and> messages_keyed s' \<and>
    (\<forall>i m. get_Message s i = Some m \<longrightarrow> (\<exists>m'. get_Message s' i = Some m' \<and> after_pass env g (i \<in> set sent) m m')) \<and>
    (\<forall>i \<in> set sent. \<exists>m s0. get_Message s i = Some m \<and> unfinished m \<and> due (sp_now env) s0 m)"
proof -
  let ?ms = "sn_Messages (get_Snapshot False s)"
  obtain n t where d: "deliver_messages env g 0 ?ms s = (sent, n, t)"
    and s': "s' = updatePending (sp_store env (length ?ms)) n t"
    using assms(2) by (auto simp: deliverPending_def Let_def split: prod.splits)
  have same: "mem_messages (s_mem s') = mem_messages (s_mem t)"
    by (simp add: s' updatePending_def UpdateDevice_messages)
  note stored = snapshot_in_store [OF assms(1)]
  note spec = deliver_messages_spec [OF stored d]
  have all: "m \<in> set ?ms \<and> m_ID m = i" if "get_Message s i = Some m" for i m
    using tget_in_tvals [OF that [unfolded get_Message_def]] tget_SomeD [OF that [unfolded get_Message_def]] assms(1)
    by (auto simp: get_Snapshot_def messages_keyed_def Let_def)
  have get: "get_Message s' i = get_Message t i" for i using same by (simp add: get_Message_def)
  have "messages_keyed s'"
    using deliver_messages_keyed [OF assms(1) d] same by (simp add: messages_keyed_def)
  moreover have "\<exists>m'. get_Message s' i = Some m' \<and> after_pass env g (i \<in> set sent) m m'" if "get_Message s i = Some m" for i m
    using spec all [OF that] get by auto
  moreover have "\<exists>m s0. get_Message s i = Some m \<and> unfinished m \<and> due (sp_now env) s0 m" if "i \<in> set sent" for i
    using spec that stored by (fastforce simp: in_store_def)
  ultimately show ?thesis using spec by blast
qed

text \<open>A sequence of passes: the messages they send and the state they leave.\<close>

fun passes :: "(SipEnv \<times> Sip) list \<Rightarrow> State \<Rightarrow> string list \<times> State" where
  "passes [] s = ([], s)"
| "passes ((env, g) # ps) s =
     (case deliverPending env g s of (sent, s) \<Rightarrow> (case passes ps s of (sent', s) \<Rightarrow> (sent @ sent', s)))"

lemma passes_wait:
  assumes "messages_keyed s" "get_Message s i = Some m" "waits_until t m" "list_all (\<lambda>p. sp_now (fst p) < t) ps"
  shows "i \<notin> set (fst (passes ps s))"
  using assms
proof (induction ps arbitrary: s m)
  case (Cons p ps)
  obtain env g where p: "p = (env, g)" by fastforce
  obtain sent s1 where d: "deliverPending env g s = (sent, s1)" by fastforce
  note spec = deliverPending_spec [OF Cons.prems(1) d]
  have no: "i \<notin> set sent" using spec Cons.prems waits_not_due [OF Cons.prems(3)] by (fastforce simp: p)
  have "\<exists>m'. get_Message s1 i = Some m' \<and> after_pass env g (i \<in> set sent) m m'" using spec Cons.prems(2) by blast
  then obtain m' where m': "get_Message s1 i = Some m'" "after_pass env g False m m'" using no by auto
  have "i \<notin> set (fst (passes ps s1))"
    using Cons.IH [OF _ m'(1) after_pass_waits [OF m'(2) Cons.prems(3)]] spec Cons.prems(4) by simp
  then show ?case using no by (simp add: p d case_prod_unfold)
qed simp

text \<open>The schedule of the attempts, in seconds after the n-th one failed.\<close>

definition retry_schedule :: "nat list" where
  "retry_schedule = [30, 120, 600, 3600]"

definition retry_after :: "int \<Rightarrow> gtime" where
  "retry_after n = int (retry_schedule ! min (nat n - 1) 3) * 1000000000"

lemma retryDelay_schedule: "1 \<le> n \<Longrightarrow> retryDelay n = retry_after n"
proof -
  assume "1 \<le> n"
  then consider "n = 1" | "n = 2" | "n = 3" | "4 \<le> n" by linarith
  then show ?thesis
  proof cases
    case 4
    then have "min (nat n - 1) 3 = 3" by linarith
    then show ?thesis using 4 by (simp add: retryDelay_def retry_after_def retry_schedule_def minute_def second_def)
  qed (simp_all add: retryDelay_def retry_after_def retry_schedule_def minute_def second_def)
qed

text \<open>C24: The delivery of a text message to the SIP phone follows the schedule. A pass sends no message twice. When
  a pass sends a message, for the n-th time, then either the phone took it, and it is marked delivered and no
  later pass sends it again; or it is queued with the error, its next attempt set to 30 seconds, 2
  minutes, 10 minutes or (from the fourth attempt on) one hour later, and no sequence of passes before that
  time sends it again. This holds whether or not the store could write the outcome; it is about passes
  between which nothing else rewrites the message.\<close>

theorem deliver_once_per_delay:
  assumes "messages_keyed s" "deliverPending env g s = (sent, s')" "i \<in> set sent"
    and "get_Message s i = Some m" "m_SIPDelivery m = Some d" "0 \<le> sd_Attempts d"
  shows "distinct sent \<and>
    (\<exists>m' d'. get_Message s' i = Some m' \<and> m_SIPDelivery m' = Some d' \<and> sd_Attempts d' = sd_Attempts d + 1 \<and>
       (case sendMessage env g m of
          None \<Rightarrow> sd_Status d' = ''delivered'' \<and> sd_NextAt d' = None
        | Some e \<Rightarrow> sd_Status d' = ''queued'' \<and> sd_LastError d' = e \<and>
            sd_NextAt d' = Some (sp_now env + retry_after (sd_Attempts d + 1)))) \<and>
    (\<forall>ps. list_all (\<lambda>p. sendMessage env g m \<noteq> None \<longrightarrow> sp_now (fst p) < sp_now env + retry_after (sd_Attempts d + 1)) ps \<longrightarrow>
       i \<notin> set (fst (passes ps s')))"
proof -
  note spec = deliverPending_spec [OF assms(1,2)]
  obtain m' where m': "get_Message s' i = Some m'" "m_SIPDelivery m' = Some (attempted (sp_now env) (sendMessage env g m) d)"
    using spec assms(3-5) by (fastforce simp: after_pass_def)
  note delay = retryDelay_schedule [of "sd_Attempts d + 1"]
  have "i \<notin> set (fst (passes ps s'))"
    if ps: "list_all (\<lambda>p. sendMessage env g m \<noteq> None \<longrightarrow> sp_now (fst p) < sp_now env + retry_after (sd_Attempts d + 1)) ps" for ps
  proof (cases "sendMessage env g m")
    case None
    define t where "t = Max (insert 0 (set (map (\<lambda>p. sp_now (fst p)) ps))) + 1"
    have "sp_now (fst p) \<le> Max (insert 0 (set (map (\<lambda>p. sp_now (fst p)) ps)))" if "p \<in> set ps" for p
      using that by (intro Max_ge) auto
    then have "list_all (\<lambda>p. sp_now (fst p) < t) ps" by (auto simp: t_def list_all_iff less_le_trans)
    then show ?thesis
      using None m' spec by (intro passes_wait [where t = t and m = m']) (simp_all add: waits_until_def attempted_def)
  next
    case (Some e)
    then show ?thesis
      using ps m' spec delay assms(6)
      by (intro passes_wait [where t = "sp_now env + retry_after (sd_Attempts d + 1)" and m = m'])
        (simp_all add: waits_until_def attempted_def)
  qed
  then show ?thesis
    using spec m' delay assms(6) by (auto simp: attempted_def Let_def split: option.split)
qed

definition demo_queue :: State where
  "demo_queue = demo_state\<lparr>s_mem := (initMem 0)\<lparr>
     mem_messages := [(''m1'', (demo_message 1)\<lparr>m_SIPDelivery := Some \<lparr>sd_Status = ''queued'', sd_Attempts = 0,
        sd_NextAt = Some 50, sd_ExpiresAt = 1000, sd_LastError = []\<rparr>\<rparr>)],
     mem_settings := defaultSettings\<lparr>st_SIPEnabled := True\<rparr>\<rparr>\<rparr>"

definition demo_deaf :: SipEnv where
  "demo_deaf = demo_sipenv\<lparr>sp_message := (\<lambda>_. Inr 480)\<rparr>"

theorem deliver_once_per_delay_witness:
  "fst (deliverPending demo_deaf demo_sip demo_queue) = [''m1''] \<and>
   ''m1'' \<notin> set (fst (passes [(demo_deaf\<lparr>sp_now := 29000000000\<rparr>, demo_sip)] (snd (deliverPending demo_deaf demo_sip demo_queue))))"
proof -
  have keyed: "messages_keyed demo_queue"
    by (simp add: messages_keyed_def demo_queue_def demo_message_def wf_table_def)
  have sent: "fst (deliverPending demo_deaf demo_sip demo_queue) = [''m1'']"
    by (simp add: deliverPending_def get_Snapshot_def demo_queue_def demo_message_def tvals_def unfinished_def expired_def
        due_def demo_deaf_def demo_sipenv_def get_Settings_def default_timeout_def zeroMessage_def defaultSettings_def
        zeroSettings_def Let_def split_beta)
  obtain s' where d: "deliverPending demo_deaf demo_sip demo_queue = ([''m1''], s')" using sent by (metis prod.collapse)
  obtain m dl where m: "get_Message demo_queue ''m1'' = Some m" "m_SIPDelivery m = Some dl" "sd_Attempts dl = 0"
    by (simp add: get_Message_def demo_queue_def)
  have "sp_now demo_deaf = 100" "retry_after 1 = 30000000000"
    by (simp_all add: demo_deaf_def demo_sipenv_def retry_after_def retry_schedule_def)
  then have "''m1'' \<notin> set (fst (passes [(demo_deaf\<lparr>sp_now := 29000000000\<rparr>, demo_sip)] s'))"
    using deliver_once_per_delay [OF keyed d _ m(1,2), THEN conjunct2, THEN conjunct2, THEN spec,
      of "[(demo_deaf\<lparr>sp_now := 29000000000\<rparr>, demo_sip)]"] m(3) by (simp del: passes.simps)
  then show ?thesis by (simp add: d)
qed

text \<open>The outcome of an attempt changes the message in memory even when the store refuses to write it: after
  a restart, which reads the log, the message is queued again.\<close>

lemma delivery_write_failure_diverges:
  assumes "get_Message s i = Some m" "m_ID m = i" "m_SIPDelivery m = Some d"
    and "env_fault env 0 = Some e"
  shows "s_db (updateDelivery env i (attempted now None) s) = s_db s \<and>
    (\<exists>m' d'. get_Message (updateDelivery env i (attempted now None) s) i = Some m' \<and> m_SIPDelivery m' = Some d' \<and>
      sd_Status d' = ''delivered'')"
proof -
  let ?m = "m\<lparr>m_SIPDelivery := Some (attempted now None d)\<rparr>"
  let ?v = "?m\<lparr>m_Version := m_Version m + 1\<rparr>"
  have "\<exists>x. UpsertMessage env ?v (alias_delivery i ?m s) = (Inl x, alias_delivery i ?m s)"
    using assms(4) append_rejected [of "''message.upserted''" "PMessage p" env for p]
    by (auto simp: UpsertMessage_def Let_def split: option.split)
  then have "updateDelivery env i (attempted now None) s = alias_delivery i ?m s"
    using assms by (auto simp: updateDelivery_def Let_def)
  then show ?thesis by (simp add: alias_delivery_def get_Message_def attempted_def)
qed

subsection \<open>Dialogs\<close>

text \<open>The end of an old dialog leaves the leg of a newer dialog of the same call alone.\<close>

lemma old_dialog_keeps_leg:
  "old \<noteq> new \<Longrightarrow> tget (sg_legs (clearLeg call old (setLeg call new ctx g))) call = Some \<lparr>lg_dialog = new, lg_cancel = ctx\<rparr>"
  by (simp add: clearLeg_def setLeg_def)

text \<open>A phone that gives up while the called party is still being alerted leaves the cellular call as it is:
  nothing hangs it up.\<close>

lemma abandoned_dialog_keeps_call:
  "snd (handleDialog_end env NotActive callID dialog g v) = v"
  by (simp add: handleDialog_end_def)

text \<open>Likewise a phone that has answered an incoming call and then hangs up: the end of its dialog leaves the
  cellular call as it is, while the end of a dialog the phone started hangs it up.\<close>

lemma phone_hangup_keeps_incoming_call:
  assumes "get_Call (v_state v) i = Some c" "c_State c = CallActive"
  shows "snd (originateIncoming_end i dialog g v) = v"
    and "snd (handleDialog_end env Bridged i dialog g v) = snd (Hangup env 0 i ''sip_hangup'' v)"
  using assms by (simp_all add: originateIncoming_end_def handleDialog_end_def)

text \<open>A refused invitation ends the call only when the phone was busy or declined it; otherwise the call
  goes on ringing for the others.\<close>

lemma unanswered_invitation_keeps_call:
  "status \<noteq> 486 \<Longrightarrow> status \<noteq> 603 \<Longrightarrow> originateIncoming env (Inl status) call g v = (False, g, v)"
  by (simp add: originateIncoming_def split: sum.split)

end
