(* ===== verification/Http.thy ===== *)
theory Http
  imports Sip_Gateway
begin

text \<open>
  The HTTP interface (\<^verbatim>\<open>internal/httpapi/server.go\<close>). A request is given by its method, the segments of its
  path, its headers and cookies, and its body, already read: as a JSON value (\<open>None\<close> when the first
  MiB does not start with one) or as bytes (\<open>None\<close> when there are more than 10 MiB). A response is its
  status, its headers, its cookies and the value that is encoded in its body. \<open>Sys\<close> is everything a handler can change:
  the service with its store, the tables of the authentication, the media manager, the files, the SIP
  gateway, the login attempts and the stored responses. What comes from outside while a request is
  handled is its \<open>HEnv\<close>. An idempotent request is handled from beginning to end under a lock, so it is one step.
\<close>

subsection \<open>Requests and responses\<close>

record Request =
  rq_Method :: string
  rq_Path :: "string list"
  rq_Host :: string
  rq_RemoteAddr :: string
  rq_TLS :: bool
  rq_Headers :: "string table"
  rq_Cookies :: "string table"
  rq_JSON :: "json option"
  rq_Bytes :: "byte8 list option"

datatype SameSite = StrictMode | LaxMode

record Cookie =
  ck_Name :: string
  ck_Value :: string
  ck_Path :: string
  ck_HttpOnly :: bool
  ck_Secure :: bool
  ck_SameSite :: SameSite
  ck_Expires :: "gtime option"
  ck_MaxAge :: int

datatype Body =
    NoBody
  | ErrorCode string
  | Flags "(string \<times> bool) list"
  | Strings "string table"
  | Updated nat
  | CallBody "Call option"
  | MessageBody "Message option"
  | RecordingBody "Recording option"
  | RuleBody FilterRule
  | SettingsBody Settings
  | SnapshotBody Snapshot
  | InfoBody SystemInfo
  | OfferBody Offer_answer
  | MediaBody MediaStatus
  | GreetingBody GreetingInfo
  | TextBody "nat list"
  | FileBody string
  | AudioBody "byte8 list"

record Response =
  rs_Code :: nat
  rs_Headers :: "string table"
  rs_Cookies :: "Cookie list"
  rs_Body :: Body

definition json_type :: "string table" where
  "json_type = [(''Content-Type'', ''application/json'')]"

definition jsonOut :: "nat \<Rightarrow> Body \<Rightarrow> Response" where
  "jsonOut status v = \<lparr>rs_Code = status, rs_Headers = json_type, rs_Cookies = [], rs_Body = v\<rparr>"

definition fail :: "nat \<Rightarrow> string \<Rightarrow> Response" where
  "fail status code = jsonOut status (ErrorCode code)"

definition err_code :: "gerror \<Rightarrow> nat" where
  "err_code e =
     (if contains e ''CONFLICT'' then 409
      else if e = ''NOT_FOUND'' then 404
      else if e = ''MODEM_OFFLINE'' \<or> e = ''VOICE_NETWORK_UNAVAILABLE'' then 503
      else if e = ''context deadline exceeded'' then 504
      else 400)"

definition failErr :: "gerror \<Rightarrow> Response" where
  "failErr e = fail (err_code e) e"

definition result :: "Body \<Rightarrow> gerror option \<Rightarrow> Response" where
  "result v e = (case e of Some x \<Rightarrow> failErr x | None \<Rightarrow> jsonOut 200 v)"

definition ok_flag :: "bool \<Rightarrow> Body" where
  "ok_flag b = Flags [(''ok'', b)]"

definition header :: "string \<Rightarrow> Request \<Rightarrow> string" where
  "header k rq = (case tget (rq_Headers rq) k of Some v \<Rightarrow> v | None \<Rightarrow> [])"

definition clientIP :: "Request \<Rightarrow> string" where
  "clientIP rq = takeWhile (\<lambda>c. c \<noteq> CHR '':'') (rq_RemoteAddr rq)"

definition isSecure :: "Request \<Rightarrow> bool" where
  "isSecure rq \<longleftrightarrow> rq_TLS rq \<or> header ''X-Forwarded-Proto'' rq = ''https''"

definition sameOrigin :: "Request \<Rightarrow> bool" where
  "sameOrigin rq \<longleftrightarrow> (let o' = header ''Origin'' rq in o' = [] \<or> contains o' (''://'' @ rq_Host rq))"

subsection \<open>Decoding a body\<close>

text \<open>
  Keys are compared without regard to case; apart from the ASCII letters, the Kelvin sign and the long s fold to a
  letter. Members are decoded one after the other; an unknown one is an error, as is a value of the wrong
  type, and the rest is decoded nevertheless.
\<close>

fun fold_key :: "string \<Rightarrow> string" where
  "fold_key (a # b # c # s) =
     (if a = CHR 0xE2 \<and> b = CHR 0x84 \<and> c = CHR 0xAA then CHR ''k'' # fold_key s
      else if a = CHR 0xC5 \<and> b = CHR 0xBF then CHR ''s'' # fold_key (c # s)
      else lower_byte a # fold_key (b # c # s))"
| "fold_key [a, b] = (if a = CHR 0xC5 \<and> b = CHR 0xBF then ''s'' else [lower_byte a, lower_byte b])"
| "fold_key [a] = [lower_byte a]"
| "fold_key [] = []"

definition unknown_field :: "string \<Rightarrow> gerror" where
  "unknown_field k = ''json: unknown field '' @ k"

fun decode_members :: "(string \<times> 'v decoder) list \<Rightarrow> (string \<times> json) list \<Rightarrow> 'v \<Rightarrow> 'v \<times> gerror option" where
  "decode_members ds [] v = (v, None)"
| "decode_members ds ((k, j) # ms) v =
     (case find (\<lambda>f. fold_key (fst f) = fold_key k) ds of
        None \<Rightarrow> (let (v, e) = decode_members ds ms v in (v, Some (unknown_field k)))
      | Some f \<Rightarrow> (let (v, e) = snd f j v; (v, e') = decode_members ds ms v in (v, first_err e e')))"

definition decode :: "(string \<times> 'v decoder) list \<Rightarrow> 'v \<Rightarrow> Request \<Rightarrow> Response + 'v" where
  "decode ds zero rq =
     (let bad = Inl (fail 400 ''INVALID_JSON'') in
      case rq_JSON rq of
        None \<Rightarrow> bad
      | Some JNull \<Rightarrow> Inr zero
      | Some (JObj ms) \<Rightarrow> (case decode_members ds ms zero of (v, None) \<Rightarrow> Inr v | (_, Some _) \<Rightarrow> bad)
      | Some _ \<Rightarrow> bad)"

record InputFields =
  in_Password :: string
  in_Number :: string
  in_Body :: string
  in_GatewayID :: string
  in_SubscriptionID :: int
  in_Key :: string
  in_Muted :: bool
  in_SDP :: string
  in_Type :: string

definition no_input :: InputFields where
  "no_input = \<lparr>in_Password = [], in_Number = [], in_Body = [], in_GatewayID = [], in_SubscriptionID = 0,
     in_Key = [], in_Muted = False, in_SDP = [], in_Type = []\<rparr>"

text \<open>The fields of the anonymous structs the handlers decode into, and those of a rule and of the settings.\<close>

definition password_fields :: "(string \<times> InputFields decoder) list" where
  "password_fields = [(''password'', set_str in_Password_update)]"

definition dial_fields :: "(string \<times> InputFields decoder) list" where
  "dial_fields = [(''number'', set_str in_Number_update), (''gatewayId'', set_str in_GatewayID_update),
     (''subscriptionId'', set_int in_SubscriptionID_update)]"

definition sms_fields :: "(string \<times> InputFields decoder) list" where
  "sms_fields = [(''Number'', set_str in_Number_update), (''Body'', set_str in_Body_update),
     (''GatewayID'', set_str in_GatewayID_update), (''SubscriptionID'', set_int in_SubscriptionID_update)]"

definition rule_fields :: "(string \<times> FilterRule decoder) list" where
  "rule_fields =
     [(''id'', set_str r_ID_update), (''kind'', set_str r_Kind_update), (''pattern'', set_str r_Pattern_update),
      (''label'', set_str r_Label_update), (''category'', set_str r_Category_update), (''action'', set_str r_Action_update),
      (''scope'', set_str r_Scope_update), (''enabled'', set_bool r_Enabled_update), (''createdAt'', set_time r_CreatedAt_update)]"

definition settings_fields :: "(string \<times> Settings decoder) list" where
  "settings_fields =
     [(''smsEnabled'', set_bool st_SMS_update), (''callsEnabled'', set_bool st_Calls_update),
      (''showTestTone'', set_bool st_ShowTestTone_update), (''voicemailEnabled'', set_bool st_VoicemailEnabled_update),
      (''voicemailTimeoutSeconds'', set_int st_VoicemailTimeout_update), (''telegramEnabled'', set_bool st_TelegramEnabled_update),
      (''telegramChatId'', set_int st_TelegramChatID_update), (''telegramToken'', set_str st_TelegramToken_update),
      (''sipEnabled'', set_bool st_SIPEnabled_update), (''sipPassword'', set_str st_SIPPassword_update),
      (''sipPasswordSeen'', set_bool st_SIPPasswordSeen_update), (''providerUrl'', set_str st_ProviderURL_update),
      (''providerApiKey'', set_str st_ProviderAPIKey_update), (''autoBlockCategories'', set_strs st_AutoBlock_update),
      (''country'', set_str st_Country_update)]"

definition media_fields :: "(string \<times> MediaStatus decoder) list" where
  "media_fields =
     [(''state'', set_str md_State_update), (''error'', set_str md_Error_update),
      (''sessionStartedAt'', set_time md_SessionStartedAt_update), (''audioOpenedAt'', set_time_ptr md_AudioOpenedAt_update),
      (''offerReceivedAt'', set_time_ptr md_OfferReceivedAt_update), (''peerConnectedAt'', set_time_ptr md_PeerConnectedAt_update),
      (''firstRtpAt'', set_time_ptr md_FirstRTPAt_update), (''firstPcmAt'', set_time_ptr md_FirstPCMAt_update),
      (''lastDisconnectAt'', set_time_ptr md_LastDisconnectAt_update)]"

text \<open>The media state of an offer is decoded and not used.\<close>

definition set_media :: "InputFields decoder" where
  "set_media j v =
     (case j of
        JNull \<Rightarrow> (v, None)
      | JObj ms \<Rightarrow> (v, snd (decode_members media_fields ms (ss_status (new_session [] zeroTime))))
      | _ \<Rightarrow> (v, Some type_error))"

definition offer_fields :: "(string \<times> InputFields decoder) list" where
  "offer_fields = [(''sdp'', set_str in_SDP_update), (''type'', set_str in_Type_update), (''media'', set_media)]"

subsection \<open>The system behind the handlers\<close>

record Idem =
  ir_code :: nat
  ir_response :: Body
  ir_expires :: gtime

record Sys =
  sy_svc :: Svc
  sy_auth :: AuthDB
  sy_mgr :: Manager
  sy_files :: files
  sy_sip :: "Sip option"
  sy_attempts :: "gtime list table"
  sy_idem :: "Idem table"

record HEnv =
  he_now :: gtime
  he_lib :: hash_lib
  he_ttl :: int
  he_faults :: "nat \<Rightarrow> faults"
  he_bytes :: string
  he_salt :: "gerror + string"
  he_svc :: SEnv
  he_store :: Env
  he_sip :: SipEnv
  he_health :: SipEnv
  he_peer :: PeerEnv
  he_rec :: RecEnv
  he_os :: os
  he_builtin :: "byte8 list"
  he_opusdec :: "(string \<times> byte8 list option) + byte8 list"
  he_idem :: "nat \<Rightarrow> gerror option"
  he_integrity :: "gerror + string"
  he_accept :: "Response option"
  he_build :: "string \<times> string \<times> string"

abbreviation sy_state :: "Sys \<Rightarrow> State" where
  "sy_state sy \<equiv> v_state (sy_svc sy)"

definition set_state :: "State \<Rightarrow> Sys \<Rightarrow> Sys" where
  "set_state s sy = sy\<lparr>sy_svc := (sy_svc sy)\<lparr>v_state := s\<rparr>\<rparr>"

type_synonym handler = "HEnv \<Rightarrow> Request \<Rightarrow> string \<Rightarrow> Sys \<Rightarrow> Response \<times> Sys"

subsection \<open>Logging in\<close>

definition attempts :: "string \<Rightarrow> Sys \<Rightarrow> gtime list" where
  "attempts ip sy = (case tget (sy_attempts sy) ip of Some ts \<Rightarrow> ts | None \<Rightarrow> [])"

definition allowLogin :: "gtime \<Rightarrow> string \<Rightarrow> Sys \<Rightarrow> bool \<times> Sys" where
  "allowLogin now ip sy =
     (let cut = now - 10 * minute; kept = filter (\<lambda>t. cut < t) (attempts ip sy) in
      if 10 \<le> length kept then (False, sy\<lparr>sy_attempts := tput ip kept (sy_attempts sy)\<rparr>)
      else (True, sy\<lparr>sy_attempts := tput ip (kept @ [now]) (sy_attempts sy)\<rparr>))"

definition session_cookie :: "string \<Rightarrow> gtime option \<Rightarrow> int \<Rightarrow> Request \<Rightarrow> Cookie" where
  "session_cookie token expires age rq = \<lparr>ck_Name = ''onsim_session'', ck_Value = token, ck_Path = ''/'', ck_HttpOnly = True, ck_Secure = isSecure rq,
     ck_SameSite = StrictMode, ck_Expires = expires, ck_MaxAge = age\<rparr>"

definition set_cookie :: "Cookie \<Rightarrow> Response \<Rightarrow> Response" where
  "set_cookie c r = r\<lparr>rs_Cookies := rs_Cookies r @ [c]\<rparr>"

definition h_health :: handler where
  "h_health env rq i sy =
     (case IntegrityCheck (he_integrity env) of
        Some _ \<Rightarrow> (fail 503 ''DATABASE_UNHEALTHY'', sy)
      | None \<Rightarrow> (jsonOut 200 (Strings [(''status'', ''ok'')]), sy))"

definition h_authStatus :: handler where
  "h_authStatus env rq i sy =
     (let (logged, db) = (case tget (rq_Cookies rq) ''onsim_session'' of
                            None \<Rightarrow> (False, sy_auth sy)
                          | Some c \<Rightarrow> Validate (he_lib env) (he_faults env 1) (he_now env) c (sy_auth sy))
      in (jsonOut 200 (Flags [(''initialized'', Initialized (he_faults env 2) db), (''authenticated'', logged)]), sy\<lparr>sy_auth := db\<rparr>))"

definition h_setup :: handler where
  "h_setup env rq i sy =
     (case decode password_fields no_input rq of
        Inl r \<Rightarrow> (r, sy)
      | Inr v \<Rightarrow>
          (case Setup (he_lib env) (he_faults env 1) (he_salt env) (in_Password v) (sy_auth sy) of
             (Some e, db) \<Rightarrow> (failErr e, sy\<lparr>sy_auth := db\<rparr>)
           | (None, db) \<Rightarrow>
               (case Login (he_lib env) (he_ttl env) (he_faults env 2) (he_now env) (he_bytes env) (in_Password v) db of
                  ((_, _, Some e), db) \<Rightarrow> (failErr e, sy\<lparr>sy_auth := db\<rparr>)
                | ((token, expires, None), db) \<Rightarrow>
                    (set_cookie (session_cookie token (Some expires) 0 rq) (jsonOut 200 (ok_flag True)), sy\<lparr>sy_auth := db\<rparr>))))"

definition h_login :: handler where
  "h_login env rq i sy =
     (case allowLogin (he_now env) (clientIP rq) sy of
        (False, sy) \<Rightarrow> (fail 429 ''LOGIN_RATE_LIMITED'', sy)
      | (True, sy) \<Rightarrow>
          (case decode password_fields no_input rq of
             Inl r \<Rightarrow> (r, sy)
           | Inr v \<Rightarrow>
               (case Login (he_lib env) (he_ttl env) (he_faults env 1) (he_now env) (he_bytes env) (in_Password v) (sy_auth sy) of
                  ((_, _, Some _), db) \<Rightarrow> (fail 401 ''INVALID_CREDENTIALS'', sy\<lparr>sy_auth := db\<rparr>)
                | ((token, expires, None), db) \<Rightarrow>
                    (set_cookie (session_cookie token (Some expires) 0 rq) (jsonOut 200 (ok_flag True)), sy\<lparr>sy_auth := db\<rparr>))))"

definition h_logout :: handler where
  "h_logout env rq i sy =
     (set_cookie (session_cookie [] None (- 1) rq) (jsonOut 200 (ok_flag True)),
      case tget (rq_Cookies rq) ''onsim_session'' of
        None \<Rightarrow> sy
      | Some c \<Rightarrow> sy\<lparr>sy_auth := Logout (he_lib env) (he_faults env 1) c (sy_auth sy)\<rparr>)"

definition h_snapshot :: handler where
  "h_snapshot env rq i sy = (jsonOut 200 (SnapshotBody (get_Snapshot (Initialized (he_faults env 1) (sy_auth sy)) (sy_state sy))), sy)"

definition h_systemInfo :: handler where
  "h_systemInfo env rq i sy = (jsonOut 200 (InfoBody (get_SystemInfo (he_build env) (he_svc env) (sy_svc sy))), sy)"

subsection \<open>Calls and messages\<close>

definition call_handler :: "(Svc \<Rightarrow> call_result) \<Rightarrow> Sys \<Rightarrow> Response \<times> Sys" where
  "call_handler f sy = (let ((c, e), v) = f (sy_svc sy) in (result (CallBody c) e, sy\<lparr>sy_svc := v\<rparr>))"

definition message_handler :: "(Svc \<Rightarrow> msg_result) \<Rightarrow> Sys \<Rightarrow> Response \<times> Sys" where
  "message_handler f sy = (let ((m, e), v) = f (sy_svc sy) in (result (MessageBody m) e, sy\<lparr>sy_svc := v\<rparr>))"

definition input_route :: "InputFields \<Rightarrow> Route" where
  "input_route v = \<lparr>ro_GatewayID = in_GatewayID v, ro_SubscriptionID = in_SubscriptionID v\<rparr>"

definition h_dial :: handler where
  "h_dial env rq i sy =
     (case decode dial_fields no_input rq of
        Inl r \<Rightarrow> (r, sy)
      | Inr v \<Rightarrow> call_handler (DialRoute (he_svc env) (in_Number v) ''web'' (input_route v)) sy)"

definition h_answer :: handler where
  "h_answer env rq i sy = call_handler (Answer (he_svc env) i) sy"

definition h_hold :: handler where
  "h_hold env rq i sy = call_handler (Hold (he_svc env) i) sy"

definition h_resume :: handler where
  "h_resume env rq i sy = call_handler (Resume (he_svc env) i) sy"

definition h_voicemail :: handler where
  "h_voicemail env rq i sy = call_handler (TransferToVoicemail (he_svc env) i) sy"

definition h_hangup :: handler where
  "h_hangup env rq i sy = call_handler (Hangup (he_svc env) 0 i []) sy"

definition h_dtmf :: handler where
  "h_dtmf env rq i sy =
     (case decode [(''key'', set_str in_Key_update)] no_input rq of
        Inl r \<Rightarrow> (r, sy)
      | Inr v \<Rightarrow>
          (let (e, svc) = DTMF (he_svc env) i (in_Key v) (sy_svc sy)
           in (result (ok_flag (e = None)) e, sy\<lparr>sy_svc := svc\<rparr>)))"

definition h_mute :: handler where
  "h_mute env rq i sy =
     (case decode [(''muted'', set_bool in_Muted_update)] no_input rq of
        Inl r \<Rightarrow> (r, sy)
      | Inr v \<Rightarrow> call_handler (Mute (he_svc env) i (in_Muted v)) sy)"

definition h_sendSMS :: handler where
  "h_sendSMS env rq i sy =
     (case decode sms_fields no_input rq of
        Inl r \<Rightarrow> (r, sy)
      | Inr v \<Rightarrow> message_handler (SendSMSRoute (he_svc env) (in_Number v) (in_Body v) (input_route v)) sy)"

definition h_readMessage :: handler where
  "h_readMessage env rq i sy = message_handler (MarkRead (he_svc env) i) sy"

definition h_readAllMessages :: handler where
  "h_readAllMessages env rq i sy =
     (let ((n, e), v) = MarkAllRead (he_svc env) (sy_svc sy) in (result (Updated n) e, sy\<lparr>sy_svc := v\<rparr>))"

definition h_deleteMessage :: handler where
  "h_deleteMessage env rq i sy = message_handler (DeleteMessage (he_svc env) i) sy"

subsection \<open>Media and recordings\<close>

definition h_mediaOffer :: handler where
  "h_mediaOffer env rq i sy =
     (case decode offer_fields no_input rq of
        Inl r \<Rightarrow> (r, sy)
      | Inr _ \<Rightarrow>
          (case Offer (he_peer env) i (sy_state sy) (sy_mgr sy) of
             (Inl e, m) \<Rightarrow> (failErr e, sy\<lparr>sy_mgr := m\<rparr>)
           | (Inr a, m) \<Rightarrow> (jsonOut 200 (OfferBody a), sy\<lparr>sy_mgr := m\<rparr>)))"

definition h_mediaStatus :: handler where
  "h_mediaStatus env rq i sy = (jsonOut 200 (MediaBody (get_MediaStatus i (sy_mgr sy))), sy)"

definition h_tempCapabilities :: handler where
  "h_tempCapabilities env rq i sy =
     (jsonOut 200 (Flags [(''voicemailEnabled'', st_VoicemailEnabled (get_Settings (sy_state sy)))]), sy)"

definition h_recordingStart :: handler where
  "h_recordingStart env rq i sy =
     (case StartRecording (he_rec env) i (sy_mgr sy) (sy_state sy) of
        (Inl e, m, s) \<Rightarrow> (failErr e, set_state s (sy\<lparr>sy_mgr := m\<rparr>))
      | (Inr r, m, s) \<Rightarrow> (jsonOut 200 (RecordingBody (Some r)), set_state s (sy\<lparr>sy_mgr := m\<rparr>)))"

definition h_recordingStop :: handler where
  "h_recordingStop env rq i sy =
     (case StopRecording (he_rec env) i (sy_mgr sy) (sy_state sy) of
        ((r, e), m, s) \<Rightarrow> (result (RecordingBody r) e, set_state s (sy\<lparr>sy_mgr := m\<rparr>)))"

definition dquoted :: "string \<Rightarrow> string" where
  "dquoted s = [CHR 0x22] @ s @ [CHR 0x22]"

text \<open>\<^verbatim>\<open>path.Ext\<close>: what follows the last dot of the last segment, with the dot.\<close>

definition path_Ext :: "string \<Rightarrow> string" where
  "path_Ext p =
     (let r = takeWhile (\<lambda>c. c \<noteq> CHR ''/'') (rev p) in
      case index_byte r (CHR ''.'') of None \<Rightarrow> [] | Some n \<Rightarrow> rev (take (Suc n) r))"

definition h_recordingFile :: handler where
  "h_recordingFile env rq i sy =
     (case get_Recording (sy_state sy) i of
        None \<Rightarrow> (fail 404 ''NOT_FOUND'', sy)
      | Some r \<Rightarrow>
          (let attachment = (''Content-Disposition'', ''attachment; filename='' @ dquoted (rec_FileName r)) in
           case OriginalPath (mg_recordings (sy_mgr sy)) (rec_ID r) (sy_state sy) of
             Inl e \<Rightarrow> ((failErr e)\<lparr>rs_Headers := attachment # json_type\<rparr>, sy)
           | Inr f \<Rightarrow>
               (\<lparr>rs_Code = 200, rs_Headers = [attachment, (''Content-Type'', ''audio/ogg'')], rs_Cookies = [], rs_Body = FileBody f\<rparr>, sy)))"

definition h_recordingPlay :: handler where
  "h_recordingPlay env rq i sy =
     (case get_Recording (sy_state sy) i of
        None \<Rightarrow> (fail 404 ''NOT_FOUND'', sy)
      | Some r \<Rightarrow>
          (case PlaybackPath (he_os env) (he_opusdec env) (mg_recordings (sy_mgr sy)) (rec_ID r) (sy_state sy) (sy_files sy) of
             (Inl e, fs) \<Rightarrow> (failErr e, sy\<lparr>sy_files := fs\<rparr>)
           | (Inr f, fs) \<Rightarrow>
               (let name = rec_FileName r; stem = take (length name - length (path_Ext name)) name
                in (\<lparr>rs_Code = 200, rs_Headers = [(''Content-Disposition'', ''inline; filename='' @ dquoted (stem @ ''.wav'')),
                       (''Content-Type'', ''audio/wav''), (''Accept-Ranges'', ''bytes'')], rs_Cookies = [], rs_Body = FileBody f\<rparr>,
                    sy\<lparr>sy_files := fs\<rparr>))))"

definition h_recordingDelete :: handler where
  "h_recordingDelete env rq i sy =
     (case delete_recording (he_os env) (he_store env) (mg_recordings (sy_mgr sy)) i (sy_state sy) (sy_files sy) of
        (e, s, fs) \<Rightarrow> (result (ok_flag (e = None)) e, set_state s (sy\<lparr>sy_files := fs\<rparr>)))"

definition h_greetingInfo :: handler where
  "h_greetingInfo env rq i sy =
     (jsonOut 200 (GreetingBody (Greeting (he_os env) (he_builtin env) (mg_recordings (sy_mgr sy)) (sy_files sy))), sy)"

definition h_greetingPlay :: handler where
  "h_greetingPlay env rq i sy =
     (case GreetingAudio (he_os env) (he_builtin env) (mg_recordings (sy_mgr sy)) (sy_files sy) of
        Inl _ \<Rightarrow> (fail 404 ''NOT_FOUND'', sy)
      | Inr raw \<Rightarrow>
          (\<lparr>rs_Code = 200, rs_Headers = [(''Content-Disposition'', ''inline; filename='' @ dquoted ''voicemail-greeting.wav''),
              (''Content-Type'', ''audio/wav''), (''Accept-Ranges'', ''bytes''), (''Cache-Control'', ''no-store'')],
            rs_Cookies = [], rs_Body = AudioBody raw\<rparr>, sy))"

definition h_greetingSave :: handler where
  "h_greetingSave env rq i sy =
     (case rq_Bytes rq of
        None \<Rightarrow> (fail 400 greeting_too_large, sy)
      | Some raw \<Rightarrow>
          (case SaveGreeting (he_os env) (mg_recordings (sy_mgr sy)) raw (sy_files sy) of
             (Inl e, fs) \<Rightarrow> (failErr e, sy\<lparr>sy_files := fs\<rparr>)
           | (Inr g, fs) \<Rightarrow> (jsonOut 200 (GreetingBody g), sy\<lparr>sy_files := fs\<rparr>)))"

definition h_greetingReset :: handler where
  "h_greetingReset env rq i sy =
     (let (e, fs) = ResetGreeting (he_os env) (mg_recordings (sy_mgr sy)) (sy_files sy)
      in (result (ok_flag (e = None)) e, sy\<lparr>sy_files := fs\<rparr>))"

subsection \<open>Rules and settings\<close>

definition rule_valid :: "FilterRule \<Rightarrow> bool" where
  "rule_valid v \<longleftrightarrow> r_Kind v \<in> {''exact'', ''prefix'', ''keyword'', ''regex''} \<and> r_Action v \<in> {''allow'', ''block'', ''label''}"

definition complete_rule :: "HEnv \<Rightarrow> FilterRule \<Rightarrow> FilterRule" where
  "complete_rule env v =
     (let v = (if r_ID v = [] then v\<lparr>r_ID := NewID ''rule'' (se_rand (he_svc env))\<rparr> else v)
      in if r_CreatedAt v = zeroTime then v\<lparr>r_CreatedAt := he_now env\<rparr> else v)"

definition h_upsertRule :: handler where
  "h_upsertRule env rq i sy =
     (case decode rule_fields zeroRule rq of
        Inl r \<Rightarrow> (r, sy)
      | Inr v \<Rightarrow>
          (let v = complete_rule env v in
           if \<not> rule_valid v then (fail 400 ''INVALID_RULE'', sy)
           else case (if r_Kind v = ''exact''
                      then Normalize (se_lib (he_svc env)) (r_Pattern v) (st_Country (get_Settings (sy_state sy)))
                      else Inr (r_Pattern v)) of
             Inl e \<Rightarrow> (failErr e, sy)
           | Inr n \<Rightarrow>
               (let v = v\<lparr>r_Pattern := n\<rparr> in
                case UpsertRule (he_store env) v (sy_state sy) of
                  (Inl e, s) \<Rightarrow> (failErr e, set_state s sy)
                | (Inr _, s) \<Rightarrow> (jsonOut 200 (RuleBody v), set_state s sy))))"

definition h_deleteRule :: handler where
  "h_deleteRule env rq i sy =
     (case DeleteRule (he_store env) i (sy_state sy) of
        (Inl e, s) \<Rightarrow> (failErr e, set_state s sy)
      | (Inr _, s) \<Rightarrow> (jsonOut 200 (ok_flag True), set_state s sy))"

text \<open>Blank secrets of the request stand for the old ones; the SIP password cannot be set.\<close>

definition keep_secrets :: "Settings \<Rightarrow> Settings \<Rightarrow> Settings" where
  "keep_secrets old v =
     (let v = (if st_TelegramToken v = [] then v\<lparr>st_TelegramToken := st_TelegramToken old\<rparr> else v);
          v = (if st_ProviderAPIKey v = [] then v\<lparr>st_ProviderAPIKey := st_ProviderAPIKey old\<rparr> else v);
          v = v\<lparr>st_SIPPassword := st_SIPPassword old, st_SIPPasswordSeen := st_SIPPasswordSeen old\<rparr>
      in if st_VoicemailTimeout v = 0 then v\<lparr>st_VoicemailTimeout := 30\<rparr> else v)"

definition safe_settings :: "Settings \<Rightarrow> Settings" where
  "safe_settings v = v\<lparr>st_TelegramToken := [], st_ProviderAPIKey := [], st_SIPPassword := []\<rparr>"

definition h_settings :: handler where
  "h_settings env rq i sy =
     (case decode settings_fields zeroSettings rq of
        Inl r \<Rightarrow> (r, sy)
      | Inr v \<Rightarrow>
          (let v = keep_secrets (get_Settings (sy_state sy)) v in
           if st_VoicemailTimeout v < 10 \<or> 120 < st_VoicemailTimeout v then (fail 400 ''INVALID_VOICEMAIL_TIMEOUT'', sy)
           else if st_ProviderURL v \<noteq> [] \<and> \<not> has_prefix (st_ProviderURL v) ''https://''
           then (fail 400 ''PROVIDER_HTTPS_REQUIRED'', sy)
           else case UpdateSettings (he_store env) v (sy_state sy) of
             (Inl e, s) \<Rightarrow> (failErr e, set_state s sy)
           | (Inr _, s) \<Rightarrow>
               (case sy_sip sy of
                  None \<Rightarrow> (jsonOut 200 (SettingsBody (safe_settings v)), set_state s sy)
                | Some g \<Rightarrow>
                    (case ApplySettings (he_sip env) (he_health env) g s of
                       ((Some e, _), g, s) \<Rightarrow> (failErr e, set_state s (sy\<lparr>sy_sip := Some g\<rparr>))
                     | ((None, _), g, s) \<Rightarrow>
                         (jsonOut 200 (SettingsBody (safe_settings v)), set_state s (sy\<lparr>sy_sip := Some g\<rparr>))))))"

definition h_sipReveal :: handler where
  "h_sipReveal env rq i sy =
     (case sy_sip sy of
        None \<Rightarrow> (fail 503 ''SIP_UNAVAILABLE'', sy)
      | Some g \<Rightarrow>
          (case RevealCredentials (he_sip env) g (sy_state sy) of
             (Inl e, s) \<Rightarrow> (failErr e, set_state s sy)
           | (Inr c, s) \<Rightarrow> (jsonOut 200 (Strings c), set_state s sy)))"

definition h_sipReset :: handler where
  "h_sipReset env rq i sy =
     (case sy_sip sy of
        None \<Rightarrow> (fail 503 ''SIP_UNAVAILABLE'', sy)
      | Some g \<Rightarrow>
          (case ResetCredentials (he_sip env) g (sy_state sy) of
             ((Inl e, _), s) \<Rightarrow> (failErr e, set_state s sy)
           | ((Inr c, _), s) \<Rightarrow> (jsonOut 200 (Strings c), set_state s sy)))"

subsection \<open>Temporary links\<close>

text \<open>The messages of the temporary pages, as code points.\<close>

definition link_invalid :: "nat list" where
  "link_invalid = [0x94FE, 0x63A5, 0x65E0, 0x6548, 0x6216, 0x5DF2, 0x8FC7, 0x671F]"

definition call_is_over :: "nat list" where
  "call_is_over = [0x6765, 0x7535, 0x5DF2, 0x7ECF, 0x7ED3, 0x675F]"

definition no_session :: "nat list" where
  "no_session = [0x65E0, 0x6CD5, 0x521B, 0x5EFA, 0x4E34, 0x65F6, 0x4F1A, 0x8BDD]"

definition http_Error :: "nat list \<Rightarrow> nat \<Rightarrow> Response" where
  "http_Error text code = \<lparr>rs_Code = code, rs_Headers = [(''Content-Type'', ''text/plain; charset=utf-8'')],
     rs_Cookies = [], rs_Body = TextBody text\<rparr>"

definition hour :: int where
  "hour = 60 * minute"

definition h_temporaryCall :: handler where
  "h_temporaryCall env rq token sy =
     (case ConsumeActionToken (he_lib env) (he_faults env 1) (he_now env) token ''temp_call'' (sy_auth sy) of
        ((_, Some _), db) \<Rightarrow> (http_Error link_invalid 403, sy\<lparr>sy_auth := db\<rparr>)
      | ((callID, None), db) \<Rightarrow>
          (let sy = sy\<lparr>sy_auth := db\<rparr> in
           if (case get_Call (sy_state sy) callID of
                 None \<Rightarrow> True
               | Some call \<Rightarrow> c_State call \<notin> {CallIncoming, CallAlerting, CallActive})
           then (http_Error call_is_over 410, sy)
           else case CreateActionToken (he_lib env) (he_faults env 2) (he_now env) (he_bytes env) ''temp_session'' callID
                       (3 * hour) (sy_auth sy) of
             ((_, Some _), db) \<Rightarrow> (http_Error no_session 500, sy\<lparr>sy_auth := db\<rparr>)
           | ((session, None), db) \<Rightarrow>
               (\<lparr>rs_Code = 302, rs_Headers = [(''Location'', ''/temp-call?id='' @ callID)],
                 rs_Cookies = [\<lparr>ck_Name = ''onsim_temp'', ck_Value = session, ck_Path = ''/api/v1/temp/'', ck_HttpOnly = True, ck_Secure = isSecure rq,
                   ck_SameSite = LaxMode, ck_Expires = None, ck_MaxAge = 10800\<rparr>], rs_Body = NoBody\<rparr>,
                sy\<lparr>sy_auth := db\<rparr>)))"

definition h_tempState :: handler where
  "h_tempState env rq i sy =
     (case tget (rq_Cookies rq) ''onsim_temp'' of
        None \<Rightarrow> (fail 401 ''TEMP_AUTH_REQUIRED'', sy)
      | Some c \<Rightarrow>
          (case ValidateActionToken (he_lib env) (he_faults env 1) (he_now env) c ''temp_session'' (sy_auth sy) of
             (_, False) \<Rightarrow> (fail 401 ''TEMP_AUTH_REQUIRED'', sy)
           | (callID, True) \<Rightarrow>
               (case get_Call (sy_state sy) callID of
                  None \<Rightarrow> (fail 404 ''NOT_FOUND'', sy)
                | Some call \<Rightarrow> (jsonOut 200 (CallBody (Some call)), sy))))"

end
