(* ===== verification/Config.thy ===== *)
theory Config
  imports Http Go_Path
begin

text \<open>
  The configuration (\<^verbatim>\<open>internal/config/config.go\<close>), read from the environment. The environment is a function
  from names to values, empty when a variable is not set, as \<^verbatim>\<open>os.Getenv\<close> gives it. The JSON reader is a
  parameter: \<open>None\<close> when the text is not JSON.
\<close>

text \<open>
  \<^verbatim>\<open>strconv.Atoi\<close> with its error dropped: zero for a text that is no number, the nearest 64-bit number for one
  that is too large. The digits are read into an unsigned number, and the reader stops where it overflows,
  whatever follows.
\<close>

fun scan_uint64 :: "nat \<Rightarrow> string \<Rightarrow> nat option" where
  "scan_uint64 n [] = Some n"
| "scan_uint64 n (c # s) =
     (if \<not> is_digit c then None
      else let n' = 10 * n + nat (digit_val c) in if 2 ^ 64 \<le> n' then Some (2 ^ 64 - 1) else scan_uint64 n' s)"

definition atoi_value :: "string \<Rightarrow> int" where
  "atoi_value s =
     (let neg = (case s of c # _ \<Rightarrow> c = CHR ''-'' | [] \<Rightarrow> False);
          body = (case s of c # cs \<Rightarrow> if c = CHR ''-'' \<or> c = CHR ''+'' then cs else s | [] \<Rightarrow> s)
      in if body = [] then 0
         else (case scan_uint64 0 body of
                 None \<Rightarrow> 0
               | Some n \<Rightarrow> if neg then - min (int n) (2 ^ 63) else min (int n) (2 ^ 63 - 1)))"

record ConfigGateway =
  cg_ID :: string
  cg_Serial :: string
  cg_SubscriptionID :: string
  cg_ControlAddr :: string
  cg_AudioAddr :: string

record Config =
  cf_Listen :: string
  cf_HTTPListen :: string
  cf_TLSListen :: string
  cf_TLSCert :: string
  cf_TLSKey :: string
  cf_TLSCA :: string
  cf_DataDir :: string
  cf_DatabasePath :: string
  cf_MasterKeyPath :: string
  cf_Recordings :: string
  cf_ATPort :: string
  cf_AudioPort :: string
  cf_ControlPort :: string
  cf_ModemMode :: string
  cf_GatewayMode :: string
  cf_AndroidSerial :: string
  cf_AndroidSubID :: string
  cf_AndroidADB :: string
  cf_AndroidADBHome :: string
  cf_AndroidADBServerSocket :: string
  cf_AndroidToken :: string
  cf_AndroidControl :: string
  cf_AndroidAudio :: string
  cf_AndroidGateways :: "ConfigGateway list"
  cf_PublicURL :: string
  cf_SessionTTL :: int
  cf_SIPListen :: string
  cf_SIPAsterisk :: string
  cf_SIPTarget :: string
  cf_AsteriskConfig :: string

type_synonym environment = "string \<Rightarrow> string"

definition env_or :: "environment \<Rightarrow> string \<Rightarrow> string \<Rightarrow> string" where
  "env_or getenv key fallback = (if getenv key \<noteq> [] then getenv key else fallback)"

text \<open>
  \<^verbatim>\<open>json.Unmarshal\<close> with its error dropped: members of the wrong type are skipped, elements that are no
  objects become empty gateways, and a value that is no list leaves the list empty.
\<close>

definition no_gateway :: ConfigGateway where
  "no_gateway = \<lparr>cg_ID = [], cg_Serial = [], cg_SubscriptionID = [], cg_ControlAddr = [], cg_AudioAddr = []\<rparr>"

definition gateway_fields :: "(string \<times> ConfigGateway decoder) list" where
  "gateway_fields =
     [(''id'', set_str cg_ID_update), (''serial'', set_str cg_Serial_update),
      (''subscriptionId'', set_str cg_SubscriptionID_update), (''controlAddr'', set_str cg_ControlAddr_update),
      (''audioAddr'', set_str cg_AudioAddr_update)]"

definition read_gateway :: "json \<Rightarrow> ConfigGateway" where
  "read_gateway j = (case j of JObj ms \<Rightarrow> fst (decode_members gateway_fields ms no_gateway) | _ \<Rightarrow> no_gateway)"

definition read_gateways :: "(string \<Rightarrow> json option) \<Rightarrow> string \<Rightarrow> ConfigGateway list" where
  "read_gateways parse raw =
     (if raw = [] then [] else (case parse raw of Some (JArr js) \<Rightarrow> map read_gateway js | _ \<Rightarrow> []))"

definition load_env :: "environment \<Rightarrow> Config" where
  "load_env getenv =
     (let get = env_or getenv;
          data = get ''ONSIM_DATA_DIR'' ''./data'';
          hours = atoi_value (get ''ONSIM_SESSION_HOURS'' ''12'');
          legacyMode = get ''ONSIM_MODEM_MODE'' ''auto''
      in \<lparr>cf_Listen = get ''ONSIM_LISTEN'' ''127.0.0.1:8080'',
          cf_HTTPListen = get ''ONSIM_HTTP_LISTEN'' [],
          cf_TLSListen = get ''ONSIM_TLS_LISTEN'' [],
          cf_TLSCert = get ''ONSIM_TLS_CERT'' (path_Join [data, ''tls'', ''onsim.crt'']),
          cf_TLSKey = get ''ONSIM_TLS_KEY'' (path_Join [data, ''tls'', ''onsim.key'']),
          cf_TLSCA = get ''ONSIM_TLS_CA'' (path_Join [data, ''tls'', ''onsim-ca.crt'']),
          cf_DataDir = data,
          cf_DatabasePath = path_Join [data, ''onsim.db''],
          cf_MasterKeyPath = get ''ONSIM_MASTER_KEY'' (path_Join [data, ''master.key'']),
          cf_Recordings = path_Join [data, ''recordings''],
          cf_ATPort = get ''ONSIM_AT_PORT'' ''/dev/onsim-at'',
          cf_AudioPort = get ''ONSIM_AUDIO_PORT'' ''/dev/onsim-audio'',
          cf_ControlPort = get ''ONSIM_CONTROL_PORT'' ''/dev/onsim-control'',
          cf_ModemMode = legacyMode,
          cf_GatewayMode = get ''ONSIM_GATEWAY_MODE'' legacyMode,
          cf_AndroidSerial = get ''ONSIM_ANDROID_SERIAL'' [],
          cf_AndroidSubID = get ''ONSIM_ANDROID_SUBSCRIPTION_ID'' ''auto'',
          cf_AndroidADB = get ''ONSIM_ANDROID_ADB'' ''adb'',
          cf_AndroidADBHome = get ''ONSIM_ANDROID_ADB_HOME'' (path_Join [data, ''adb'']),
          cf_AndroidADBServerSocket = get ''ONSIM_ANDROID_ADB_SERVER_SOCKET'' ''tcp:127.0.0.1:5038'',
          cf_AndroidToken = get ''ONSIM_ANDROID_TOKEN'' (path_Join [data, ''android.token'']),
          cf_AndroidControl = get ''ONSIM_ANDROID_CONTROL_ADDR'' ''127.0.0.1:47100'',
          cf_AndroidAudio = get ''ONSIM_ANDROID_AUDIO_ADDR'' ''127.0.0.1:47101'',
          cf_AndroidGateways = [],
          cf_PublicURL = get ''ONSIM_PUBLIC_URL'' ''https://onsim.local'',
          cf_SessionTTL = wrap64 (hours * hour),
          cf_SIPListen = get ''ONSIM_SIP_LISTEN'' ''127.0.0.1:5062'',
          cf_SIPAsterisk = get ''ONSIM_SIP_ASTERISK'' ''127.0.0.1:5060'',
          cf_SIPTarget = get ''ONSIM_SIP_TARGET'' ''1001'',
          cf_AsteriskConfig = get ''ONSIM_ASTERISK_CONFIG'' (path_Join [data, ''asterisk'', ''pjsip-generated.conf''])\<rparr>)"

definition single_gateway :: "Config \<Rightarrow> ConfigGateway" where
  "single_gateway cfg =
     \<lparr>cg_ID = cf_AndroidSerial cfg, cg_Serial = cf_AndroidSerial cfg, cg_SubscriptionID = cf_AndroidSubID cfg,
      cg_ControlAddr = cf_AndroidControl cfg, cg_AudioAddr = cf_AndroidAudio cfg\<rparr>"

definition Load :: "environment \<Rightarrow> (string \<Rightarrow> json option) \<Rightarrow> Config" where
  "Load getenv parse =
     (let cfg = load_env getenv; gs = read_gateways parse (getenv ''ONSIM_ANDROID_GATEWAYS'')
      in cfg\<lparr>cf_AndroidGateways := if gs = [] \<and> cf_AndroidSerial cfg \<noteq> [] then [single_gateway cfg] else gs\<rparr>)"

subsection \<open>Numbers\<close>

lemma digits_grow:
  "list_all is_digit s \<Longrightarrow> 0 \<le> m \<Longrightarrow> m \<le> foldl (\<lambda>n c. 10 * n + digit_val c) m s"
proof (induction s arbitrary: m)
  case (Cons d s)
  have "0 \<le> digit_val d" using Cons.prems(1) by (simp add: is_digit_def digit_val_def)
  with Cons show ?case by (auto intro: order_trans [of m "10 * m + digit_val d"])
qed simp

lemma scan_uint64_Cons:
  assumes "list_all is_digit (c # s)" "foldl (\<lambda>n c. 10 * n + digit_val c) (int n) (c # s) < 2 ^ 64"
  obtains n' where "int n' = 10 * int n + digit_val c" "\<And>t. scan_uint64 n (c # t) = scan_uint64 n' t"
proof -
  define n' where "n' = 10 * n + nat (digit_val c)"
  have "0 \<le> digit_val c" using assms(1) by (simp add: is_digit_def digit_val_def)
  then have n': "int n' = 10 * int n + digit_val c" by (simp add: n'_def)
  have "int n' \<le> foldl (\<lambda>n c. 10 * n + digit_val c) (int n') s" using assms(1) by (intro digits_grow) simp_all
  with assms(2) n' have "n' < 2 ^ 64" by simp
  with assms(1) have "scan_uint64 n (c # t) = scan_uint64 n' t" for t by (simp add: Let_def flip: n'_def)
  with n' show ?thesis by (rule that)
qed

lemma scan_uint64_digits:
  "list_all is_digit s \<Longrightarrow> foldl (\<lambda>n c. 10 * n + digit_val c) (int n) s < 2 ^ 64 \<Longrightarrow>
     scan_uint64 n s = Some (nat (foldl (\<lambda>n c. 10 * n + digit_val c) (int n) s))"
proof (induction s arbitrary: n)
  case (Cons c s)
  from Cons.prems obtain n' where "int n' = 10 * int n + digit_val c" "scan_uint64 n (c # s) = scan_uint64 n' s"
    by (rule scan_uint64_Cons) blast
  with Cons show ?case by simp
qed simp

text \<open>A number that \<^verbatim>\<open>Atoi\<close> accepts is read as that number, and a text that begins with a letter as zero.\<close>

lemma atoi_value_number:
  assumes "atoi s = Some v"
  shows "atoi_value s = v"
proof -
  define body where "body = (case s of c # cs \<Rightarrow> if c = CHR ''-'' \<or> c = CHR ''+'' then cs else s | [] \<Rightarrow> s)"
  have b: "body \<noteq> []" "list_all is_digit body" "digits_val body \<le> 2 ^ 63"
    using assms by (auto simp: atoi_def Let_def body_def split: if_splits list.splits)
  have "0 \<le> digits_val body"
    using b(2) by (induction body rule: rev_induct) (auto simp: digits_val_snoc digit_val_def is_digit_def digits_val_def [of "[]"])
  moreover have "scan_uint64 0 body = Some (nat (digits_val body))"
    using scan_uint64_digits [OF b(2), of 0] b(3) by (simp add: digits_val_def)
  ultimately show ?thesis
    using assms b(1) by (auto simp: atoi_value_def atoi_def Let_def simp flip: body_def split: if_splits)
qed

lemma scan_uint64_syntax:
  "list_all is_digit s \<Longrightarrow> foldl (\<lambda>n c. 10 * n + digit_val c) (int n) s < 2 ^ 64 \<Longrightarrow> \<not> is_digit c \<Longrightarrow>
     scan_uint64 n (s @ c # t) = None"
proof (induction s arbitrary: n)
  case (Cons d s)
  from Cons.prems(1,2) obtain n' where "int n' = 10 * int n + digit_val d" "scan_uint64 n ((d # s) @ c # t) = scan_uint64 n' (s @ c # t)"
    by (rule scan_uint64_Cons) (metis append_Cons)
  with Cons show ?case by simp
qed simp

text \<open>Digits followed by something else, such as a unit, are read as zero.\<close>

lemma atoi_value_unit:
  assumes "s \<noteq> []" "list_all is_digit s" "digits_val s < 2 ^ 64" "\<not> is_digit c"
  shows "atoi_value (s @ c # t) = 0"
proof -
  obtain d ds where s: "s = d # ds" using assms(1) by (cases s) auto
  then have "d \<noteq> CHR ''-''" "d \<noteq> CHR ''+''" using assms(2) by (auto simp: is_digit_def)
  moreover have "scan_uint64 0 (s @ c # t) = None" using assms by (intro scan_uint64_syntax) (simp_all add: digits_val_def)
  ultimately show ?thesis by (simp add: atoi_value_def s)
qed

end
