(* ===== verification/Http_Server.thy ===== *)
theory Http_Server
  imports Http
begin

text \<open>
  The guards of the HTTP interface, its routes, and serving a request
  (\<^verbatim>\<open>require\<close>, \<^verbatim>\<open>tempRequire\<close>, \<^verbatim>\<open>idempotent\<close>, \<^verbatim>\<open>routes\<close>, \<^verbatim>\<open>spaHandler\<close> and \<^verbatim>\<open>securityHeaders\<close> of
  \<^verbatim>\<open>internal/httpapi/server.go\<close>).
\<close>

subsection \<open>Stored responses\<close>

definition read_only :: "Request \<Rightarrow> bool" where
  "read_only rq \<longleftrightarrow> rq_Method rq = ''GET'' \<or> rq_Method rq = ''HEAD''"

definition store_response :: "HEnv \<Rightarrow> string \<Rightarrow> Response \<Rightarrow> Sys \<Rightarrow> Sys" where
  "store_response env key r sy =
     (if rs_Code r < 500 \<and> he_idem env 2 = None
      then sy\<lparr>sy_idem := tput key \<lparr>ir_code = rs_Code r, ir_response = rs_Body r, ir_expires = he_now env + 24 * hour\<rparr> (sy_idem sy)\<rparr>
      else sy)"

text \<open>The three statements are the query, the deletion of an expired response and the insertion; a failed query counts
  as no row.\<close>

definition idempotent :: "handler \<Rightarrow> handler" where
  "idempotent h env rq i sy =
     (let key = header ''Idempotency-Key'' rq in
      if length key < 8 \<or> 128 < length key then (fail 400 ''IDEMPOTENCY_KEY_REQUIRED'', sy)
      else let run = (\<lambda>sy. let (r, sy) = h env rq i sy in (r, store_response env key r sy)) in
        (case (he_idem env 0, tget (sy_idem sy) key) of
           (None, Some row) \<Rightarrow>
             if he_now env < ir_expires row
             then (\<lparr>rs_Code = ir_code row, rs_Headers = json_type, rs_Cookies = [], rs_Body = ir_response row\<rparr>, sy)
             else run (if he_idem env 1 = None then sy\<lparr>sy_idem := tdel key (sy_idem sy)\<rparr> else sy)
         | _ \<Rightarrow> run sy))"

subsection \<open>Guards\<close>

definition require :: "handler \<Rightarrow> handler" where
  "require h env rq i sy =
     (case tget (rq_Cookies rq) ''onsim_session'' of
        None \<Rightarrow> (fail 401 ''AUTH_REQUIRED'', sy)
      | Some c \<Rightarrow>
          (let (valid, db) = Validate (he_lib env) (he_faults env 0) (he_now env) c (sy_auth sy); sy = sy\<lparr>sy_auth := db\<rparr> in
           if \<not> valid then (fail 401 ''AUTH_REQUIRED'', sy)
           else if \<not> read_only rq \<and> \<not> sameOrigin rq then (fail 403 ''BAD_ORIGIN'', sy)
           else if \<not> read_only rq then idempotent h env rq i sy
           else h env rq i sy))"

definition tempRequire :: "handler \<Rightarrow> handler" where
  "tempRequire h env rq i sy =
     (case tget (rq_Cookies rq) ''onsim_temp'' of
        None \<Rightarrow> (fail 401 ''TEMP_AUTH_REQUIRED'', sy)
      | Some c \<Rightarrow>
          (let (entity, valid) = ValidateActionToken (he_lib env) (he_faults env 0) (he_now env) c ''temp_session'' (sy_auth sy) in
           if \<not> valid \<or> entity \<noteq> i then (fail 403 ''TEMP_SCOPE_DENIED'', sy)
           else if \<not> sameOrigin rq then (fail 403 ''BAD_ORIGIN'', sy)
           else if read_only rq then h env rq i sy
           else idempotent h env rq i sy))"

subsection \<open>Routes\<close>

text \<open>The handler of the event stream: when the library accepts the web socket, it subscribes, and the subscription ends
  with the connection; otherwise the library has answered (\<open>he_accept\<close>).\<close>

definition h_events :: handler where
  "h_events env rq i sy =
     (case he_accept env of
        Some r \<Rightarrow> (r, sy)
      | None \<Rightarrow> (\<lparr>rs_Code = 101, rs_Headers = [], rs_Cookies = [], rs_Body = NoBody\<rparr>, set_state (snd (Subscribe (sy_state sy))) sy))"

text \<open>One turn of its loop: an event is taken from the channel and its JSON form written to the connection (\<open>send\<close>); a failed
  write ends the subscription.\<close>

definition events_turn :: "(json \<Rightarrow> gerror option) \<Rightarrow> nat \<Rightarrow> State \<Rightarrow> bool \<times> State" where
  "events_turn send ch s =
     (case receive ch s of
        (None, s) \<Rightarrow> (True, s)
      | (Some e, s) \<Rightarrow> (case send (marshal_Event e) of None \<Rightarrow> (True, s) | Some _ \<Rightarrow> (False, cancel ch s)))"

datatype guard = Open | Session | Temp

definition wild :: string where
  "wild = ''{}''"

definition api :: "string list \<Rightarrow> string list" where
  "api p = ''api'' # ''v1'' # p"

definition call_path :: "string list \<Rightarrow> string list" where
  "call_path p = api (''calls'' # wild # p)"

definition temp_path :: "string list \<Rightarrow> string list" where
  "temp_path p = api (''temp'' # ''call'' # wild # p)"

text \<open>The table of \<^verbatim>\<open>routes\<close>, in its order. A pattern for \<^verbatim>\<open>GET\<close> also serves \<^verbatim>\<open>HEAD\<close>.\<close>

definition routes :: "(string \<times> string list \<times> guard \<times> handler) list" where
  "routes =
     [(''GET'', [''healthz''], Open, h_health),
      (''GET'', api [''auth'', ''status''], Open, h_authStatus),
      (''POST'', api [''auth'', ''setup''], Open, h_setup),
      (''POST'', api [''auth'', ''login''], Open, h_login),
      (''POST'', api [''auth'', ''logout''], Session, h_logout),
      (''GET'', api [''state''], Session, h_snapshot),
      (''GET'', api [''info''], Session, h_systemInfo),
      (''GET'', api [''events''], Session, h_events),
      (''POST'', api [''calls''], Session, h_dial),
      (''POST'', call_path [''answer''], Session, h_answer),
      (''POST'', call_path [''hold''], Session, h_hold),
      (''POST'', call_path [''resume''], Session, h_resume),
      (''POST'', call_path [''voicemail''], Session, h_voicemail),
      (''POST'', call_path [''hangup''], Session, h_hangup),
      (''POST'', call_path [''dtmf''], Session, h_dtmf),
      (''POST'', call_path [''mute''], Session, h_mute),
      (''POST'', call_path [''media''], Session, h_mediaOffer),
      (''GET'', call_path [''media'', ''status''], Session, h_mediaStatus),
      (''POST'', call_path [''recording'', ''start''], Session, h_recordingStart),
      (''POST'', call_path [''recording'', ''stop''], Session, h_recordingStop),
      (''POST'', api [''messages''], Session, h_sendSMS),
      (''POST'', api [''messages'', ''read-all''], Session, h_readAllMessages),
      (''POST'', api [''messages'', wild, ''read''], Session, h_readMessage),
      (''DELETE'', api [''messages'', wild], Session, h_deleteMessage),
      (''POST'', api [''rules''], Session, h_upsertRule),
      (''DELETE'', api [''rules'', wild], Session, h_deleteRule),
      (''PUT'', api [''settings''], Session, h_settings),
      (''POST'', api [''sip'', ''credentials'', ''reveal''], Session, h_sipReveal),
      (''POST'', api [''sip'', ''credentials'', ''reset''], Session, h_sipReset),
      (''GET'', api [''recordings'', wild], Session, h_recordingFile),
      (''GET'', api [''recordings'', wild, ''play''], Session, h_recordingPlay),
      (''DELETE'', api [''recordings'', wild], Session, h_recordingDelete),
      (''GET'', api [''settings'', ''voicemail-greeting''], Session, h_greetingInfo),
      (''GET'', api [''settings'', ''voicemail-greeting'', ''play''], Session, h_greetingPlay),
      (''POST'', api [''settings'', ''voicemail-greeting''], Session, h_greetingSave),
      (''DELETE'', api [''settings'', ''voicemail-greeting''], Session, h_greetingReset),
      (''GET'', [''t'', ''call'', wild], Open, h_temporaryCall),
      (''GET'', api [''temp'', ''call''], Open, h_tempState),
      (''POST'', temp_path [''answer''], Temp, h_answer),
      (''POST'', temp_path [''hold''], Temp, h_hold),
      (''POST'', temp_path [''resume''], Temp, h_resume),
      (''POST'', temp_path [''voicemail''], Temp, h_voicemail),
      (''POST'', temp_path [''hangup''], Temp, h_hangup),
      (''POST'', temp_path [''dtmf''], Temp, h_dtmf),
      (''POST'', temp_path [''media''], Temp, h_mediaOffer),
      (''GET'', temp_path [''media'', ''status''], Temp, h_mediaStatus),
      (''POST'', temp_path [''recording'', ''start''], Temp, h_recordingStart),
      (''POST'', temp_path [''recording'', ''stop''], Temp, h_recordingStop),
      (''GET'', temp_path [''capabilities''], Temp, h_tempCapabilities)]"

text \<open>A pattern matches segment by segment; a wildcard stands for one segment that is not empty, and its value is
  the path value of the request (no pattern has two).\<close>

fun match_path :: "string list \<Rightarrow> string list \<Rightarrow> string option" where
  "match_path [] [] = Some []"
| "match_path (p # ps) (x # xs) =
     (if p = wild then (if x = [] then None else map_option (\<lambda>_. x) (match_path ps xs))
      else if p = x then match_path ps xs else None)"
| "match_path _ _ = None"

definition method_matches :: "string \<Rightarrow> Request \<Rightarrow> bool" where
  "method_matches m rq \<longleftrightarrow> rq_Method rq = m \<or> (m = ''GET'' \<and> rq_Method rq = ''HEAD'')"

definition find_route :: "Request \<Rightarrow> (string \<times> guard \<times> handler) option" where
  "find_route rq =
     (case filter (\<lambda>(m, p, _). method_matches m rq \<and> match_path p (rq_Path rq) \<noteq> None) routes of
        [] \<Rightarrow> None
      | (_, p, g, h) # _ \<Rightarrow> Some (the (match_path p (rq_Path rq)), g, h))"

text \<open>\<^verbatim>\<open>spaHandler\<close>: the file that is served for a path; \<open>exists\<close> says which names the embedded files have.\<close>

definition url_path :: "string list \<Rightarrow> string" where
  "url_path segs = CHR ''/'' # join ''/'' segs"

definition spa_path :: "(string \<Rightarrow> bool) \<Rightarrow> string \<Rightarrow> string" where
  "spa_path exists p =
     (let p = trim_prefix (Clean p) ''/''; p = (if p = ''.'' then ''index.html'' else p)
      in if exists p then CHR ''/'' # p else ''/'')"

definition cache_control :: "string \<Rightarrow> string option" where
  "cache_control p =
     (if has_prefix p ''/api/'' \<or> p = ''/'' \<or> p = ''/sw.js'' \<or> path_Ext p = [] then Some ''no-store''
      else if has_prefix p ''/assets/'' then Some ''public, max-age=31536000, immutable''
      else None)"

definition guarded :: "guard \<Rightarrow> handler \<Rightarrow> handler" where
  "guarded g h = (case g of Open \<Rightarrow> h | Session \<Rightarrow> require h | Temp \<Rightarrow> tempRequire h)"

text \<open>
  Requests with a clean path. The mux of the standard library answers any other one (\<^verbatim>\<open>//\<close>, \<^verbatim>\<open>.\<close> or \<^verbatim>\<open>..\<close> in it) with a
  redirection to its clean form before it looks for a route, so that no handler sees it.
\<close>

definition serve :: "HEnv \<Rightarrow> (string \<Rightarrow> bool) \<Rightarrow> Request \<Rightarrow> Sys \<Rightarrow> Response \<times> Sys" where
  "serve env exists rq sy =
     (case find_route rq of
        None \<Rightarrow> (\<lparr>rs_Code = 200, rs_Headers = [], rs_Cookies = [], rs_Body = FileBody (spa_path exists (url_path (rq_Path rq)))\<rparr>, sy)
      | Some (i, g, h) \<Rightarrow> guarded g h env rq i sy)"

definition csp :: string where
  "csp = ''default-src 'self'; connect-src 'self' wss:; style-src 'self' 'unsafe-inline'; img-src 'self' data:; media-src 'self' blob:''"

definition securityHeaders :: "Request \<Rightarrow> string table" where
  "securityHeaders rq =
     [(''X-Content-Type-Options'', ''nosniff''), (''Referrer-Policy'', ''no-referrer''),
      (''Permissions-Policy'', ''microphone=(self)''), (''Content-Security-Policy'', csp)] @
     (case cache_control (url_path (rq_Path rq)) of None \<Rightarrow> [] | Some v \<Rightarrow> [(''Cache-Control'', v)])"

end
