(* ===== verification/Http_Props.thy ===== *)
theory Http_Props
  imports Http_Server Sip_Props Media_Props
begin

text \<open>
  What the HTTP interface guarantees: no route below \<^verbatim>\<open>/api/v1\<close> except four does anything without a session or
  a temporary session of the very call; the login limit is exactly ten attempts in ten minutes; a
  request with an idempotency key is executed once; the settings handler keeps the secrets; a
  temporary link works once. Two places are shown to be weaker than they look: the SIP password, which is shown once,
  stays in the table of stored responses, and the comparison of origins accepts foreign ones.
\<close>

subsection \<open>Routes\<close>

text \<open>Two patterns overlap when some path matches both.\<close>

fun overlap :: "string list \<Rightarrow> string list \<Rightarrow> bool" where
  "overlap [] [] = True"
| "overlap (p # ps) (q # qs) = ((p = wild \<or> q = wild \<or> p = q) \<and> overlap ps qs)"
| "overlap _ _ = False"

lemma match_overlap: "match_path p xs = Some i \<Longrightarrow> match_path q xs = Some j \<Longrightarrow> overlap p q"
proof (induction p xs arbitrary: q i j rule: match_path.induct)
  case (2 p ps x xs)
  then show ?case by (cases q) (auto split: if_splits)
qed (auto elim: match_path.elims)

definition route_keys :: "(string \<times> string list) list" where
  "route_keys = map (\<lambda>(m, p, _). (m, p)) routes"

fun apart :: "(string \<times> string list) list \<Rightarrow> bool" where
  "apart [] = True"
| "apart ((m, p) # ks) = (list_all (\<lambda>(m', p'). m \<noteq> m' \<or> \<not> overlap p p') ks \<and> apart ks)"

lemma routes_apart: "apart route_keys" "list_all (\<lambda>k. fst k \<noteq> ''HEAD'') route_keys"
  by (simp_all add: route_keys_def routes_def wild_def api_def call_path_def temp_path_def)

definition serves :: "Request \<Rightarrow> string \<times> string list \<Rightarrow> bool" where
  "serves rq k \<longleftrightarrow> method_matches (fst k) rq \<and> match_path (snd k) (rq_Path rq) \<noteq> None"

lemma serves_overlap:
  "serves rq (m, p) \<Longrightarrow> serves rq (m', p') \<Longrightarrow> m \<noteq> ''HEAD'' \<Longrightarrow> m' \<noteq> ''HEAD'' \<Longrightarrow> m = m' \<and> overlap p p'"
  by (auto simp: serves_def method_matches_def intro: match_overlap)

lemma apart_unique:
  "apart ks \<Longrightarrow> list_all (\<lambda>k. fst k \<noteq> ''HEAD'') ks \<Longrightarrow> length (filter (serves rq) ks) \<le> 1"
proof (induction ks rule: apart.induct)
  case (2 m p ks)
  have "filter (serves rq) ks = []" if s: "serves rq (m, p)"
  proof -
    have "\<not> serves rq (m', p')" if "(m', p') \<in> set ks" for m' p'
    proof
      assume "serves rq (m', p')"
      moreover have "m \<noteq> ''HEAD''" "m' \<noteq> ''HEAD''" using "2.prems"(2) that by (auto simp: list_all_iff)
      ultimately have "m = m' \<and> overlap p p'" using serves_overlap [OF s] by blast
      then show False using "2.prems"(1) that by (auto simp: list_all_iff)
    qed
    then show ?thesis by (auto simp: filter_empty_conv)
  qed
  then show ?case using "2.IH" "2.prems" by auto
qed simp

text \<open>The routing table is unambiguous: at most one of its patterns serves a request, so the first match is the
  only one and the order of registration does not matter.\<close>

theorem routes_unambiguous:
  "length (filter (\<lambda>(m, p, _). method_matches m rq \<and> match_path p (rq_Path rq) \<noteq> None) routes) \<le> 1"
proof -
  have "map (\<lambda>(m, p, _). (m, p)) (filter (\<lambda>(m, p, _). method_matches m rq \<and> match_path p (rq_Path rq) \<noteq> None) routes) =
      filter (serves rq) route_keys"
    by (simp add: route_keys_def filter_map comp_def serves_def case_prod_unfold)
  then show ?thesis using apart_unique [OF routes_apart] by (metis length_map)
qed

lemma find_routeD:
  assumes "find_route rq = Some (i, g, h)"
  obtains m p where "(m, p, g, h) \<in> set routes" "method_matches m rq" "match_path p (rq_Path rq) = Some i"
proof -
  obtain m p rest where f: "filter (\<lambda>(m, p, _). method_matches m rq \<and> match_path p (rq_Path rq) \<noteq> None) routes =
      (m, p, g, h) # rest" "i = the (match_path p (rq_Path rq))"
    using assms by (auto simp: find_route_def split: list.splits)
  from f(1) have "(m, p, g, h) \<in> set (filter (\<lambda>(m, p, _). method_matches m rq \<and> match_path p (rq_Path rq) \<noteq> None) routes)"
    by simp
  then show thesis using that f(2) by auto
qed

definition open_paths :: "string list set" where
  "open_paths = {[''auth'', ''status''], [''auth'', ''setup''], [''auth'', ''login''], [''temp'', ''call'']}"

lemma open_route: "(m, p, Open, h) \<in> set routes \<Longrightarrow> p \<in> {[''healthz''], [''t'', ''call'', wild]} \<union> api ` open_paths"
  by (auto simp: routes_def open_paths_def api_def)

lemma temp_route: "(m, p, Temp, h) \<in> set routes \<Longrightarrow> \<exists>q. p = temp_path q"
  by (auto simp: routes_def)

lemma match_literal: "p \<noteq> wild \<Longrightarrow> match_path (p # ps) xs = Some i \<Longrightarrow> \<exists>ys. xs = p # ys \<and> match_path ps ys = Some i"
  by (cases xs) (auto split: if_splits)

lemma match_wild: "match_path (wild # ps) xs = Some i \<Longrightarrow> \<exists>ys. xs = i # ys"
  by (cases xs) (auto split: if_splits)

lemma match_exact: "wild \<notin> set p \<Longrightarrow> match_path p xs = Some i \<Longrightarrow> xs = p"
  by (induction p xs rule: match_path.induct) (auto split: if_splits)

lemma open_match:
  assumes "(m, q, Open, h) \<in> set routes" "match_path q (api p) = Some i"
  shows "p \<in> open_paths"
proof -
  consider "q = [''healthz'']" | "q = [''t'', ''call'', wild]" | p' where "p' \<in> open_paths" "q = api p'"
    using open_route [OF assms(1)] by blast
  then show ?thesis
  proof cases
    case 3
    then have "wild \<notin> set q" by (auto simp: open_paths_def api_def wild_def)
    then show ?thesis using match_exact assms(2) 3 by (fastforce simp: api_def)
  qed (use assms(2) in \<open>simp_all add: api_def wild_def\<close>)
qed

lemma match_temp_path:
  assumes "match_path (temp_path q) xs = Some i"
  shows "\<exists>rest. xs = api (''temp'' # ''call'' # i # rest)"
proof -
  have lit: "''api'' \<noteq> wild" "''v1'' \<noteq> wild" "''temp'' \<noteq> wild" "''call'' \<noteq> wild" by (simp_all add: wild_def)
  from assms have m0: "match_path (''api'' # ''v1'' # ''temp'' # ''call'' # wild # q) xs = Some i"
    by (simp only: temp_path_def api_def)
  obtain ys1 where m1: "xs = ''api'' # ys1" "match_path (''v1'' # ''temp'' # ''call'' # wild # q) ys1 = Some i"
    using match_literal [OF lit(1) m0] by blast
  obtain ys2 where m2: "ys1 = ''v1'' # ys2" "match_path (''temp'' # ''call'' # wild # q) ys2 = Some i"
    using match_literal [OF lit(2) m1(2)] by blast
  obtain ys3 where m3: "ys2 = ''temp'' # ys3" "match_path (''call'' # wild # q) ys3 = Some i"
    using match_literal [OF lit(3) m2(2)] by blast
  obtain ys4 where m4: "ys3 = ''call'' # ys4" "match_path (wild # q) ys4 = Some i"
    using match_literal [OF lit(4) m3(2)] by blast
  show ?thesis using match_wild [OF m4(2)] m1(1) m2(1) m3(1) m4(1) by (auto simp: api_def)
qed

subsection \<open>Nothing happens without a session\<close>

definition logged_in :: "HEnv \<Rightarrow> Request \<Rightarrow> Sys \<Rightarrow> bool" where
  "logged_in env rq sy \<longleftrightarrow>
     (case tget (rq_Cookies rq) ''onsim_session'' of
        None \<Rightarrow> False
      | Some c \<Rightarrow> fst (Validate (he_lib env) (he_faults env 0) (he_now env) c (sy_auth sy)))"

definition holds_link :: "HEnv \<Rightarrow> Request \<Rightarrow> string \<Rightarrow> Sys \<Rightarrow> bool" where
  "holds_link env rq i sy \<longleftrightarrow>
     (case tget (rq_Cookies rq) ''onsim_temp'' of
        None \<Rightarrow> False
      | Some c \<Rightarrow> ValidateActionToken (he_lib env) (he_faults env 0) (he_now env) c ''temp_session'' (sy_auth sy) = (i, True))"

text \<open>The only trace a refused request may leave: a session that had expired is gone.\<close>

definition purged :: "HEnv \<Rightarrow> AuthDB \<Rightarrow> AuthDB \<Rightarrow> bool" where
  "purged env db db' \<longleftrightarrow> db' = db \<or>
     (\<exists>h t. tget (au_sessions db) h = Some t \<and> t < he_now env \<and> db' = db\<lparr>au_sessions := tdel h (au_sessions db)\<rparr>)"

lemma Validate_purged: "purged env db (snd (Validate lib f (he_now env) raw db))"
  by (auto simp: Validate_def purged_def split: option.split)

lemma require_refused:
  assumes "\<not> logged_in env rq sy" "require h env rq i sy = (r, sy')"
  shows "rs_Code r = 401 \<and> purged env (sy_auth sy) (sy_auth sy') \<and> sy' = sy\<lparr>sy_auth := sy_auth sy'\<rparr>"
proof (cases "tget (rq_Cookies rq) ''onsim_session''")
  case None
  then show ?thesis using assms by (auto simp: require_def fail_def jsonOut_def purged_def)
next
  case (Some c)
  obtain valid db where v: "Validate (he_lib env) (he_faults env 0) (he_now env) c (sy_auth sy) = (valid, db)" by fastforce
  then have "purged env (sy_auth sy) db" using Validate_purged by (metis snd_conv)
  then show ?thesis using assms Some v by (auto simp: logged_in_def require_def fail_def jsonOut_def Let_def)
qed

lemma tempRequire_refused:
  assumes "\<not> holds_link env rq i sy" "tempRequire h env rq i sy = (r, sy')"
  shows "rs_Code r \<in> {401, 403} \<and> sy' = sy"
  using assms
  by (auto simp: holds_link_def tempRequire_def fail_def jsonOut_def split: option.splits prod.splits if_splits)

text \<open>C25: No request below \<^verbatim>\<open>/api/v1\<close> does anything without a valid session, except to the four paths for logging in and
  for the state of a temporary link. Without a session a request to the paths of a call under \<^verbatim>\<open>temp/call\<close> needs a
  temporary session of that very call. Whatever else is requested, the answer is 401 or 403 (or the
  page of the web interface, for an unknown path), and at most an expired session is removed.\<close>

theorem api_needs_login:
  assumes "rq_Path rq = api p" "p \<notin> open_paths" "\<not> logged_in env rq sy"
    and "\<And>i rest. p = ''temp'' # ''call'' # i # rest \<Longrightarrow> \<not> holds_link env rq i sy"
    and "serve env exists rq sy = (r, sy')"
  shows "sy' = sy\<lparr>sy_auth := sy_auth sy'\<rparr> \<and> purged env (sy_auth sy) (sy_auth sy') \<and>
    (rs_Code r \<in> {401, 403} \<or> rs_Body r = FileBody (spa_path exists (url_path (rq_Path rq))))"
proof (cases "find_route rq")
  case None
  then show ?thesis using assms(5) by (auto simp: serve_def purged_def)
next
  case (Some x)
  obtain i g h where x: "x = (i, g, h)" by (cases x)
  with Some have f: "find_route rq = Some (i, g, h)" by simp
  then obtain m q where route: "(m, q, g, h) \<in> set routes" and path: "match_path q (rq_Path rq) = Some i"
    by (rule find_routeD)
  have s: "guarded g h env rq i sy = (r, sy')" using assms(5) f by (simp add: serve_def)
  show ?thesis
  proof (cases g)
    case Open
    then show ?thesis using open_match route path assms(1,2) by metis
  next
    case Session
    then show ?thesis using require_refused [OF assms(3)] s by (auto simp: guarded_def)
  next
    case Temp
    then obtain q' where "q = temp_path q'" using temp_route route by blast
    with path obtain rest where "rq_Path rq = api (''temp'' # ''call'' # i # rest)" using match_temp_path by blast
    then have "\<not> holds_link env rq i sy" using assms(1,4) by (simp add: api_def)
    from tempRequire_refused [OF this, of h r sy'] show ?thesis using s Temp by (auto simp: guarded_def purged_def)
  qed
qed

definition demo_peer :: PeerEnv where
  "demo_peer = \<lparr>pe_now = 60, pe_ready = None, pe_new = None, pe_track = None, pe_add = None, pe_remote = None, pe_answer = None,
     pe_local = None, pe_gather = Gathered, pe_sdp = ''v=0'', pe_out = 1, pe_cancel = 100\<rparr>"

definition demo_henv :: HEnv where
  "demo_henv = \<lparr>he_now = 60, he_lib = demo_hash, he_ttl = 1000, he_faults = (\<lambda>_ _. None), he_bytes = ''fresh'', he_salt = Inr ''salt'',
     he_svc = demo_senv, he_store = demo_env 60, he_sip = demo_sipenv, he_health = demo_sipenv, he_peer = demo_peer,
     he_rec = demo_recenv, he_os = os_ok, he_builtin = [], he_opusdec = Inr [], he_idem = (\<lambda>_. None), he_integrity = Inr ''ok'', he_accept = None,
     he_build = ([], [], [])\<rparr>"

definition demo_sys :: Sys where
  "demo_sys = \<lparr>sy_svc = demo_svc, sy_auth = demo_authdb, sy_mgr = new_manager ''/r'', sy_files = (\<lambda>_. None),
     sy_sip = Some demo_sip, sy_attempts = [], sy_idem = []\<rparr>"

definition demo_rq :: "string \<Rightarrow> string list \<Rightarrow> Request" where
  "demo_rq method path = \<lparr>rq_Method = method, rq_Path = path, rq_Host = ''onsim.local'', rq_RemoteAddr = ''192.168.1.9:5000'',
     rq_TLS = True, rq_Headers = [(''Idempotency-Key'', ''key-0001'')], rq_Cookies = [], rq_JSON = None, rq_Bytes = None\<rparr>"

theorem api_needs_login_witness:
  "rs_Code (fst (serve demo_henv (\<lambda>_. False) (demo_rq ''POST'' (api [''calls'', ''c1'', ''hangup''])) demo_sys)) \<in> {401, 403} \<or>
   rs_Body (fst (serve demo_henv (\<lambda>_. False) (demo_rq ''POST'' (api [''calls'', ''c1'', ''hangup''])) demo_sys)) =
     FileBody (spa_path (\<lambda>_. False) (url_path (api [''calls'', ''c1'', ''hangup''])))"
proof -
  let ?rq = "demo_rq ''POST'' (api [''calls'', ''c1'', ''hangup''])"
  obtain r sy' where s: "serve demo_henv (\<lambda>_. False) ?rq demo_sys = (r, sy')" by fastforce
  have "rq_Path ?rq = api [''calls'', ''c1'', ''hangup'']" "\<not> logged_in demo_henv ?rq demo_sys"
    by (simp_all add: demo_rq_def logged_in_def)
  from api_needs_login [OF this(1) _ this(2) _ s] show ?thesis
    by (simp add: s open_paths_def) (simp add: demo_rq_def)
qed

subsection \<open>Login attempts\<close>

text \<open>A run of attempts to log in, each at its time from its address, and the times of those that were let through
  from one address.\<close>

fun login_run :: "(gtime \<times> string) list \<Rightarrow> Sys \<Rightarrow> Sys" where
  "login_run [] sy = sy"
| "login_run ((now, ip) # qs) sy = login_run qs (snd (allowLogin now ip sy))"

fun let_through :: "string \<Rightarrow> (gtime \<times> string) list \<Rightarrow> Sys \<Rightarrow> gtime list" where
  "let_through ip [] sy = []"
| "let_through ip ((now, a) # qs) sy =
     (case allowLogin now a sy of
        (ok, sy) \<Rightarrow> (if ok \<and> a = ip then [now] else []) @ let_through ip qs sy)"

lemma login_run_append: "login_run (qs @ rs) sy = login_run rs (login_run qs sy)"
  by (induction qs sy rule: login_run.induct) auto

lemma let_through_append: "let_through ip (qs @ rs) sy = let_through ip qs sy @ let_through ip rs (login_run qs sy)"
  by (induction qs sy rule: login_run.induct) (auto split: prod.split)

lemma filter_later: "c \<le> c' \<Longrightarrow> filter (\<lambda>t. c' < t) (filter (\<lambda>t. c < t) ts) = filter (\<lambda>t::int. c' < t) ts"
  by (induction ts) auto

lemma attempts_allow:
  "attempts ip (snd (allowLogin now a sy)) =
     (if a = ip then (let kept = filter (\<lambda>t. now - 10 * minute < t) (attempts ip sy)
                      in if 10 \<le> length kept then kept else kept @ [now])
      else attempts ip sy)"
  by (simp add: allowLogin_def attempts_def Let_def)

lemma allow_fst: "fst (allowLogin now a sy) \<longleftrightarrow> length (filter (\<lambda>t. now - 10 * minute < t) (attempts a sy)) < 10"
  by (simp add: allowLogin_def Let_def)

lemma let_through_one: "let_through ip [(t, a)] sy = (if fst (allowLogin t a sy) \<and> a = ip then [t] else [])"
  by (simp split: prod.split)

lemma recent_attempts:
  assumes "sy_attempts sy = []" "sorted (map fst qs)" "\<And>q. q \<in> set qs \<Longrightarrow> fst q \<le> now"
  shows "filter (\<lambda>t. now - 10 * minute < t) (attempts ip (login_run qs sy)) =
    filter (\<lambda>t. now - 10 * minute < t) (let_through ip qs sy)"
  using assms(2,3)
proof (induction qs arbitrary: now rule: rev_induct)
  case Nil
  then show ?case using assms(1) by (simp add: attempts_def)
next
  case (snoc q qs)
  obtain t a where q: "q = (t, a)" by (cases q)
  have t: "t \<le> now" "\<And>x. x \<in> set qs \<Longrightarrow> fst x \<le> t" "sorted (map fst qs)"
    using snoc.prems(1) snoc.prems(2) [of q] by (auto simp: q sorted_append)
  have later: "filter (\<lambda>x. now - 10 * minute < x) (filter (\<lambda>x. t - 10 * minute < x) ts) =
      filter (\<lambda>x. now - 10 * minute < x) ts" for ts
    using t(1) by (intro filter_later) simp
  have ih: "filter (\<lambda>x. n - 10 * minute < x) (attempts ip (login_run qs sy)) =
      filter (\<lambda>x. n - 10 * minute < x) (let_through ip qs sy)" if "t \<le> n" for n
    using that t by (intro snoc.IH) (auto intro: order_trans)
  show ?case
    using ih [OF t(1)] later
    by (auto simp del: let_through.simps simp: q login_run_append let_through_append let_through_one attempts_allow allow_fst Let_def)
qed

text \<open>C28: The login limit is exact. After any run of attempts, a new attempt is let through if and only if fewer than ten
  attempts from the same address were let through in the ten minutes before it, whatever other addresses did.\<close>

theorem login_limit_exact:
  assumes "sy_attempts sy = []" "sorted (map fst (qs @ [(now, ip)]))"
  shows "fst (allowLogin now ip (login_run qs sy)) \<longleftrightarrow>
    length (filter (\<lambda>t. now - 10 * minute < t) (let_through ip qs sy)) < 10"
proof -
  have "filter (\<lambda>t. now - 10 * minute < t) (attempts ip (login_run qs sy)) =
      filter (\<lambda>t. now - 10 * minute < t) (let_through ip qs sy)"
    using assms by (intro recent_attempts) (auto simp: sorted_append)
  then show ?thesis by (simp add: allow_fst)
qed

theorem login_limit_exact_witness:
  "fst (allowLogin 5 ''10.0.0.1'' (login_run (replicate 3 (4, ''10.0.0.1'')) demo_sys)) \<longleftrightarrow>
    length (filter (\<lambda>t. 5 - 10 * minute < t) (let_through ''10.0.0.1'' (replicate 3 (4, ''10.0.0.1'')) demo_sys)) < 10"
  by (rule login_limit_exact) (simp_all add: demo_sys_def numeral_eq_Suc)

text \<open>The address is cut at its first colon: all IPv6 clients whose addresses begin alike share one limit.\<close>

lemma ipv6_clients_share_limit:
  "clientIP (rq\<lparr>rq_RemoteAddr := ''[2001:db8::1]:443''\<rparr>) = clientIP (rq'\<lparr>rq_RemoteAddr := ''[2001:16b8::9]:80''\<rparr>)"
  by (simp add: clientIP_def)

subsection \<open>Idempotency keys\<close>

abbreviation idem_key :: "Request \<Rightarrow> string" where
  "idem_key rq \<equiv> header ''Idempotency-Key'' rq"

lemma fail_code [simp]: "rs_Code (fail n c) = n" "rs_Body (fail n c) = ErrorCode c" "rs_Cookies (fail n c) = []"
  by (simp_all add: fail_def jsonOut_def)

lemma idempotent_stores:
  assumes "idempotent h env rq i sy = (r, sy')" "rs_Code r = 200" "tget (sy_idem sy) (idem_key rq) = None"
    and "he_idem env 2 = None"
  shows "tget (sy_idem sy') (idem_key rq) = Some \<lparr>ir_code = 200, ir_response = rs_Body r, ir_expires = he_now env + 24 * hour\<rparr>"
    and "\<exists>sy1. h env rq i sy = (r, sy1) \<and> sy' = store_response env (idem_key rq) r sy1"
  using assms by (auto simp: idempotent_def store_response_def Let_def split: if_splits option.splits prod.splits)

lemma idempotent_replays:
  assumes "tget (sy_idem sy) (idem_key rq) = Some row" "he_now env < ir_expires row" "he_idem env 0 = None"
    and "8 \<le> length (idem_key rq)" "length (idem_key rq) \<le> 128"
  shows "idempotent h env rq i sy =
    (\<lparr>rs_Code = ir_code row, rs_Headers = json_type, rs_Cookies = [], rs_Body = ir_response row\<rparr>, sy)"
  using assms by (simp add: idempotent_def Let_def)

lemma idempotent_key_length: "idempotent h env rq i sy = (r, sy') \<Longrightarrow> rs_Code r = 200 \<Longrightarrow> 8 \<le> length (idem_key rq) \<and> length (idem_key rq) \<le> 128"
  by (auto simp: idempotent_def Let_def split: if_splits)

text \<open>A guard lets a request that changes something through to the handler, under its key, or refuses it.\<close>

lemma guard_cases:
  assumes "guarded g h env rq i sy = (r, sy')" "g \<noteq> Open" "\<not> read_only rq"
  shows "rs_Code r \<in> {401, 403} \<or> (\<exists>db. idempotent h env rq i (sy\<lparr>sy_auth := db\<rparr>) = (r, sy'))"
proof (cases g)
  case Session
  then show ?thesis
    using assms by (auto simp: guarded_def require_def Let_def split: option.splits prod.splits if_splits)
next
  case Temp
  then have "rs_Code r \<in> {401, 403} \<or> idempotent h env rq i sy = (r, sy')"
    using assms by (auto simp: guarded_def tempRequire_def Let_def split: option.splits prod.splits if_splits)
  then show ?thesis by (metis Sys.surjective Sys.update_convs(2))
qed (use assms(2) in simp)

text \<open>C26: A request that changes something is executed once: when it succeeded and is sent again within a day, with
  anything done in between under other keys, it is refused by its guard or answered with the stored
  response, and changes nothing but the table of sessions.\<close>

theorem request_runs_once:
  assumes "find_route rq = Some (i, g, h)" "g \<noteq> Open" "\<not> read_only rq"
    and "serve env exists rq sy = (r, sy1)" "rs_Code r = 200" "tget (sy_idem sy) (idem_key rq) = None" "he_idem env 2 = None"
    and "tget (sy_idem sy2) (idem_key rq) = tget (sy_idem sy1) (idem_key rq)"
    and "serve env' exists' rq sy2 = (r', sy3)" "he_now env' < he_now env + 24 * hour" "he_idem env' 0 = None"
  shows "rs_Code r' \<in> {401, 403} \<or>
    (rs_Code r' = 200 \<and> rs_Body r' = rs_Body r \<and> sy3 = sy2\<lparr>sy_auth := sy_auth sy3\<rparr>)"
proof -
  have "guarded g h env rq i sy = (r, sy1)" using assms(1,4) by (simp add: serve_def)
  from guard_cases [OF this assms(2,3)] obtain db where first: "idempotent h env rq i (sy\<lparr>sy_auth := db\<rparr>) = (r, sy1)"
    using assms(5) by auto
  note len = idempotent_key_length [OF first assms(5)]
  have row: "tget (sy_idem sy2) (idem_key rq) =
      Some \<lparr>ir_code = 200, ir_response = rs_Body r, ir_expires = he_now env + 24 * hour\<rparr>"
    using idempotent_stores(1) [OF first assms(5)] assms(6-8) by simp
  have "guarded g h env' rq i sy2 = (r', sy3)" using assms(1,9) by (simp add: serve_def)
  from guard_cases [OF this assms(2,3)] consider "rs_Code r' \<in> {401, 403}"
    | db' where "idempotent h env' rq i (sy2\<lparr>sy_auth := db'\<rparr>) = (r', sy3)" by blast
  then show ?thesis
  proof cases
    case 2
    then show ?thesis
      using idempotent_replays [of "sy2\<lparr>sy_auth := db'\<rparr>" rq _ env' h i] row len assms(10,11) by auto
  qed simp
qed

definition demo_logged :: Sys where
  "demo_logged = demo_sys\<lparr>sy_auth := demo_authdb\<lparr>au_sessions := [(tokenHash demo_hash ''s'', 1000)]\<rparr>\<rparr>"

definition demo_readall :: Request where
  "demo_readall = (demo_rq ''POST'' (api [''messages'', ''read-all'']))\<lparr>rq_Cookies := [(''onsim_session'', ''s'')]\<rparr>"

lemma demo_readall_route: "find_route demo_readall = Some ([], Session, h_readAllMessages)" "\<not> read_only demo_readall"
  "idem_key demo_readall = ''key-0001''"
  by (simp_all add: find_route_def routes_def demo_readall_def demo_rq_def method_matches_def api_def call_path_def temp_path_def
      wild_def read_only_def header_def)

lemma demo_readall_served: "rs_Code (fst (serve demo_henv (\<lambda>_. False) demo_readall demo_logged)) = 200"
proof -
  have v: "Validate (he_lib demo_henv) (he_faults demo_henv 0) (he_now demo_henv) ''s'' (sy_auth demo_logged) = (True, sy_auth demo_logged)"
    by (simp add: Validate_def demo_logged_def demo_henv_def)
  have c: "tget (rq_Cookies demo_readall) ''onsim_session'' = Some ''s''" "sameOrigin demo_readall"
    by (simp_all add: demo_readall_def demo_rq_def sameOrigin_def header_def)
  have h: "rs_Code (fst (h_readAllMessages demo_henv demo_readall [] demo_logged)) = 200"
    by (simp add: h_readAllMessages_def MarkAllRead_def MarkAllMessagesRead_def demo_logged_def demo_sys_def demo_svc_def
        new_service_def demo_state_def initMem_def result_def jsonOut_def tvals_def read_updates_def)
  have "sy_idem demo_logged = []" "he_idem demo_henv 0 = None" "demo_logged\<lparr>sy_auth := sy_auth demo_logged\<rparr> = demo_logged"
    by (simp_all add: demo_logged_def demo_sys_def demo_henv_def)
  then show ?thesis
    using h by (simp add: serve_def demo_readall_route guarded_def require_def v c idempotent_def Let_def split_beta)
qed

theorem request_runs_once_witness:
  "rs_Code (fst (serve demo_henv (\<lambda>_. False) demo_readall (snd (serve demo_henv (\<lambda>_. False) demo_readall demo_logged)))) \<in> {401, 403} \<or>
   rs_Body (fst (serve demo_henv (\<lambda>_. False) demo_readall (snd (serve demo_henv (\<lambda>_. False) demo_readall demo_logged)))) =
     rs_Body (fst (serve demo_henv (\<lambda>_. False) demo_readall demo_logged))"
proof -
  obtain r sy1 where first: "serve demo_henv (\<lambda>_. False) demo_readall demo_logged = (r, sy1)" by fastforce
  obtain r' sy3 where second: "serve demo_henv (\<lambda>_. False) demo_readall sy1 = (r', sy3)" by fastforce
  have "tget (sy_idem demo_logged) (idem_key demo_readall) = None" by (simp add: demo_logged_def demo_sys_def)
  moreover have "he_now demo_henv < he_now demo_henv + 24 * hour" by (simp add: hour_def minute_def second_def)
  ultimately have "rs_Code r' \<in> {401, 403} \<or> (rs_Code r' = 200 \<and> rs_Body r' = rs_Body r \<and> sy3 = sy1\<lparr>sy_auth := sy_auth sy3\<rparr>)"
    using request_runs_once [OF demo_readall_route(1) _ demo_readall_route(2) first _ _ _ refl second] demo_readall_served first
    by (simp add: demo_henv_def)
  then show ?thesis by (auto simp: first second)
qed

text \<open>C30: The SIP password is meant to be shown once, but the response that shows it is stored in the clear under the
  key of the request: for a day the password stands in the database, and any request under the same key,
  to whatever handler, is answered with it, while the gateway itself refuses to show it again.\<close>

theorem revealed_password_replayed:
  assumes "idempotent h_sipReveal env rq i sy = (r, sy')" "rs_Code r = 200" "tget (sy_idem sy) (idem_key rq) = None"
    and "he_idem env 2 = None" "sy_sip sy = Some g"
    and "idem_key rq' = idem_key rq" "he_now env' < he_now env + 24 * hour" "he_idem env' 0 = None"
  shows "\<exists>c. tget c ''password'' = Some (st_SIPPassword (get_Settings (sy_state sy))) \<and>
    rs_Body (fst (idempotent h env' rq' i' sy')) = Strings c \<and>
    fst (RevealCredentials env2 g (sy_state sy')) = Inl ''CREDENTIAL_ALREADY_REVEALED''"
proof -
  note len = idempotent_key_length [OF assms(1,2)]
  obtain sy1 where h: "h_sipReveal env rq i sy = (r, sy1)" and sy': "sy' = store_response env (idem_key rq) r sy1"
    using idempotent_stores(2) [OF assms(1-4)] by blast
  obtain c s where c: "RevealCredentials (he_sip env) g (sy_state sy) = (Inr c, s)" "r = jsonOut 200 (Strings c)" "sy1 = set_state s sy"
    using h assms(2,5)
    by (auto simp: h_sipReveal_def failErr_def err_code_def split: prod.splits sum.splits if_splits)
  have "sy_state sy' = s" using sy' c(3) by (simp add: store_response_def set_state_def)
  moreover have "rs_Body (fst (idempotent h env' rq' i' sy')) = Strings c"
    using idempotent_replays [of sy' rq' _ env' h i'] idempotent_stores(1) [OF assms(1-4)] len assms(6-8) c(2)
    by (simp add: jsonOut_def)
  ultimately show ?thesis
    using reveal_ok [OF c(1)] by (auto simp: RevealCredentials_def Let_def)
qed

theorem revealed_password_replayed_witness:
  "\<exists>c. rs_Body (fst (idempotent h_dial demo_henv (demo_rq ''POST'' []) []
      (snd (idempotent h_sipReveal demo_henv (demo_rq ''POST'' []) [] demo_sys)))) = Strings c"
proof -
  obtain c s where c: "RevealCredentials demo_sipenv demo_sip demo_state = (Inr c, s)" using demo_reveal by blast
  have sys: "sy_sip demo_sys = Some demo_sip" "sy_state demo_sys = demo_state" "sy_idem demo_sys = []"
    by (simp_all add: demo_sys_def demo_svc_def new_service_def)
  have h: "h_sipReveal demo_henv (demo_rq ''POST'' []) [] demo_sys = (jsonOut 200 (Strings c), set_state s demo_sys)"
    using c by (simp add: h_sipReveal_def sys) (simp add: demo_henv_def)
  obtain r sy' where first: "idempotent h_sipReveal demo_henv (demo_rq ''POST'' []) [] demo_sys = (r, sy')" by fastforce
  have "idem_key (demo_rq ''POST'' []) = ''key-0001''" by (simp add: header_def demo_rq_def)
  moreover have idem: "he_idem demo_henv 0 = None" "he_idem demo_henv 2 = None" by (simp_all add: demo_henv_def)
  ultimately have "rs_Code r = 200" using first by (auto simp: idempotent_def sys h jsonOut_def Let_def)
  moreover have "he_now demo_henv < he_now demo_henv + 24 * hour" by (simp add: hour_def minute_def second_def)
  ultimately show ?thesis
    using revealed_password_replayed [OF first _ _ _ sys(1) refl, of demo_henv h_dial "[]" demo_sipenv]
    by (auto simp: first sys(3) idem)
qed

subsection \<open>Settings\<close>

lemma UpdateDevice_settings: "get_Settings (snd (UpdateDevice env v s)) = get_Settings s"
  using append_mem [of "''device.updated''" "PDevice (v\<lparr>d_LastCheckedAt := env_now env\<rparr>)" env "''device''" "mem_sequence (s_mem s) + 1" s]
  by (cases "appendLocked env ''device.updated'' ''device'' (mem_sequence (s_mem s) + 1) (PDevice (v\<lparr>d_LastCheckedAt := env_now env\<rparr>)) s")
    (auto simp: UpdateDevice_def get_Settings_def Let_def set_device_def)

lemma checkHealth_settings: "get_Settings (checkHealth env g s) = get_Settings s"
  by (simp add: checkHealth_def sip_setStatus_def UpdateDevice_settings Let_def split: sum.split option.split)

lemma ApplySettings_settings:
  assumes "ApplySettings env env' g s = (r, g', s')" "st_SIPPassword (get_Settings s) \<noteq> []"
  shows "get_Settings s' = get_Settings s"
  using assms
  by (auto simp: ApplySettings_def ensureCredentials_def checkHealth_settings Let_def split: prod.splits option.splits)

lemma keep_secrets_sel [simp]:
  "st_SIPPassword (keep_secrets old v) = st_SIPPassword old" "st_SIPPasswordSeen (keep_secrets old v) = st_SIPPasswordSeen old"
  "st_TelegramToken (keep_secrets old v) = (if st_TelegramToken v = [] then st_TelegramToken old else st_TelegramToken v)"
  "st_ProviderAPIKey (keep_secrets old v) = (if st_ProviderAPIKey v = [] then st_ProviderAPIKey old else st_ProviderAPIKey v)"
  "st_ProviderURL (keep_secrets old v) = st_ProviderURL v"
  "st_VoicemailTimeout (keep_secrets old v) = (if st_VoicemailTimeout v = 0 then 30 else st_VoicemailTimeout v)"
  by (simp_all add: keep_secrets_def Let_def)

lemma updated_settings:
  assumes "UpdateSettings env w s = (Inr e, s')"
  shows "st_SIPPassword (get_Settings s') = (if st_SIPPassword w = [] then st_SIPPassword (get_Settings s) else st_SIPPassword w)"
    "st_TelegramToken (get_Settings s') = (if st_TelegramToken w = [] then st_TelegramToken (get_Settings s) else st_TelegramToken w)"
    "st_ProviderAPIKey (get_Settings s') = (if st_ProviderAPIKey w = [] then st_ProviderAPIKey (get_Settings s) else st_ProviderAPIKey w)"
    "st_ProviderURL (get_Settings s') = (if st_ProviderURL w = [] then st_ProviderURL (get_Settings s) else st_ProviderURL w)"
    "st_VoicemailTimeout (get_Settings s') = (if st_VoicemailTimeout w = 0 then 30 else st_VoicemailTimeout w)"
  using UpdateSettings_merges [OF assms]
  by (simp_all add: get_Settings_def default_timeout_def merge_Settings_def with_defaults_def Let_def)

lemma safe_settings_sel [simp]:
  "st_SIPPassword (safe_settings v) = []" "st_TelegramToken (safe_settings v) = []" "st_ProviderAPIKey (safe_settings v) = []"
  "st_ProviderURL (safe_settings v) = st_ProviderURL v" "st_VoicemailTimeout (safe_settings v) = st_VoicemailTimeout v"
  by (simp_all add: safe_settings_def)

lemma h_settings_ok:
  assumes "h_settings env rq i sy = (r, sy')" "rs_Code r = 200" "st_SIPPassword (get_Settings (sy_state sy)) \<noteq> []"
  obtains v e s where "decode settings_fields zeroSettings rq = Inr v"
    "10 \<le> st_VoicemailTimeout (keep_secrets (get_Settings (sy_state sy)) v)"
    "st_VoicemailTimeout (keep_secrets (get_Settings (sy_state sy)) v) \<le> 120"
    "st_ProviderURL v = [] \<or> has_prefix (st_ProviderURL v) ''https://''"
    "UpdateSettings (he_store env) (keep_secrets (get_Settings (sy_state sy)) v) (sy_state sy) = (Inr e, s)"
    "r = jsonOut 200 (SettingsBody (safe_settings (keep_secrets (get_Settings (sy_state sy)) v)))"
    "get_Settings (sy_state sy') = get_Settings s"
proof -
  have no200: "rs_Code (failErr e) \<noteq> 200" for e by (simp add: failErr_def err_code_def)
  have bad: "decode settings_fields zeroSettings rq = Inl x \<Longrightarrow> rs_Code x \<noteq> 200" for x
    by (auto simp: decode_def Let_def split: option.splits json.splits prod.splits)
  obtain v where v: "decode settings_fields zeroSettings rq = Inr v"
    using assms(1,2) bad by (cases "decode settings_fields zeroSettings rq") (auto simp: h_settings_def)
  let ?v = "keep_secrets (get_Settings (sy_state sy)) v"
  obtain u s where u: "UpdateSettings (he_store env) ?v (sy_state sy) = (u, s)" by fastforce
  have ok: "10 \<le> st_VoicemailTimeout ?v" "st_VoicemailTimeout ?v \<le> 120"
    "st_ProviderURL v = [] \<or> has_prefix (st_ProviderURL v) ''https://''"
    using assms(1,2) v by (auto simp: h_settings_def Let_def simp del: keep_secrets_sel(6) split: if_splits)
  then obtain e where e: "u = Inr e"
    using assms(1,2) v u no200 by (cases u) (auto simp: h_settings_def Let_def simp del: keep_secrets_sel(6))
  have pw: "st_SIPPassword (get_Settings s) \<noteq> []"
    using updated_settings(1) [of "he_store env" ?v "sy_state sy" e s] u e assms(3) by simp
  have "r = jsonOut 200 (SettingsBody (safe_settings ?v)) \<and> get_Settings (sy_state sy') = get_Settings s"
    using assms(1,2) v u e ok no200 ApplySettings_settings [OF _ pw]
    by (auto simp: h_settings_def set_state_def Let_def simp del: keep_secrets_sel(6) split: option.splits prod.splits)
  then show thesis using that v ok u e by blast
qed

text \<open>C29: Changing the settings keeps the secrets. A request that is accepted never changes the SIP password,
  keeps the Telegram token and the provider's key when it leaves them blank, sets a voicemail timeout between 10
  and 120 seconds and only a provider reached over https, and its response contains no secret.\<close>

theorem settings_keep_secrets:
  assumes "h_settings env rq i sy = (r, sy')" "rs_Code r = 200" "st_SIPPassword (get_Settings (sy_state sy)) \<noteq> []"
  shows "let old = get_Settings (sy_state sy); new = get_Settings (sy_state sy') in
    (\<exists>b. rs_Body r = SettingsBody b \<and> st_SIPPassword b = [] \<and> st_TelegramToken b = [] \<and> st_ProviderAPIKey b = [] \<and>
      st_VoicemailTimeout new = st_VoicemailTimeout b \<and> st_ProviderURL b \<in> {[], st_ProviderURL new} \<and>
      (\<forall>v. decode settings_fields zeroSettings rq = Inr v \<longrightarrow>
        st_TelegramToken new = (if st_TelegramToken v = [] then st_TelegramToken old else st_TelegramToken v) \<and>
        st_ProviderAPIKey new = (if st_ProviderAPIKey v = [] then st_ProviderAPIKey old else st_ProviderAPIKey v))) \<and>
    st_SIPPassword new = st_SIPPassword old \<and> 10 \<le> st_VoicemailTimeout new \<and> st_VoicemailTimeout new \<le> 120 \<and>
    (st_ProviderURL new = st_ProviderURL old \<or> has_prefix (st_ProviderURL new) ''https://'')"
proof -
  obtain v e s where v: "decode settings_fields zeroSettings rq = Inr v"
    and t: "10 \<le> st_VoicemailTimeout (keep_secrets (get_Settings (sy_state sy)) v)"
      "st_VoicemailTimeout (keep_secrets (get_Settings (sy_state sy)) v) \<le> 120"
    and url: "st_ProviderURL v = [] \<or> has_prefix (st_ProviderURL v) ''https://''"
    and u: "UpdateSettings (he_store env) (keep_secrets (get_Settings (sy_state sy)) v) (sy_state sy) = (Inr e, s)"
    and r: "r = jsonOut 200 (SettingsBody (safe_settings (keep_secrets (get_Settings (sy_state sy)) v)))"
    and s: "get_Settings (sy_state sy') = get_Settings s"
    using h_settings_ok [OF assms] by blast
  show ?thesis
    using updated_settings [OF u] v t url by (auto simp: r s Let_def jsonOut_def)
qed

subsection \<open>Temporary links\<close>

lemma spent_refused: "spent (tokenHash lib raw) db \<Longrightarrow> snd (fst (ConsumeActionToken lib f now raw kind db)) \<noteq> None"
  by (auto simp: spent_def ConsumeActionToken_def Let_def split: option.splits)

lemma CreateActionToken_ok:
  "CreateActionToken lib f now bytes kind entity ttl db = ((raw, None), db') \<Longrightarrow>
     raw = randomToken bytes \<and> db' = db\<lparr>au_tokens := tput (tokenHash lib raw)
       \<lparr>tk_kind = kind, tk_entity = entity, tk_expires = now + ttl, tk_used = None\<rparr> (au_tokens db)\<rparr> \<and>
     tget (au_tokens db) (tokenHash lib raw) = None"
  by (auto simp: CreateActionToken_def Let_def split: option.splits if_splits)

text \<open>The hash of a temporary session's token, and the call it is for: no operation changes them.\<close>

definition temp_session_for :: "string \<Rightarrow> string \<Rightarrow> AuthDB \<Rightarrow> bool" where
  "temp_session_for h callID db \<longleftrightarrow>
     (case tget (au_tokens db) h of Some tk \<Rightarrow> tk_kind tk = ''temp_session'' \<and> tk_entity tk = callID | None \<Rightarrow> False)"

lemma temp_session_step: "temp_session_for h c db \<Longrightarrow> temp_session_for h c (auth_step lib q db)"
  by (cases q) (auto simp: temp_session_for_def auth_ops split: option.splits sum.splits)

lemma temp_session_scope:
  assumes "temp_session_for (tokenHash (he_lib env) raw) callID (sy_auth sy)" "tget (rq_Cookies rq) ''onsim_temp'' = Some raw" "i \<noteq> callID"
  shows "tempRequire h env rq i sy = (fail 403 ''TEMP_SCOPE_DENIED'', sy)"
  using assms by (auto simp: tempRequire_def temp_session_for_def ValidateActionToken_def split: option.splits)

text \<open>What a successful visit of the link has found and done.\<close>

lemma h_temporaryCall_ok:
  assumes "h_temporaryCall env rq token sy = (r, sy')" "rs_Code r = 302"
  obtains tk call session c where
    "tget (au_tokens (sy_auth sy)) (tokenHash (he_lib env) token) = Some tk" "tk_kind tk = ''temp_call''" "tk_used tk = None"
    "he_now env \<le> tk_expires tk" "get_Call (sy_state sy) (tk_entity tk) = Some call"
    "c_State call \<in> {CallIncoming, CallAlerting, CallActive}"
    "CreateActionToken (he_lib env) (he_faults env 2) (he_now env) (he_bytes env) ''temp_session'' (tk_entity tk) (3 * hour)
       ((sy_auth sy)\<lparr>au_tokens := tput (tokenHash (he_lib env) token) (tk\<lparr>tk_used := Some (he_now env)\<rparr>) (au_tokens (sy_auth sy))\<rparr>)
       = ((session, None), sy_auth sy')"
    "rs_Cookies r = [c]" "ck_Name c = ''onsim_temp''" "ck_Value c = session"
    "rs_Headers r = [(''Location'', ''/temp-call?id='' @ tk_entity tk)]"
proof -
  obtain callID db where consumed:
    "ConsumeActionToken (he_lib env) (he_faults env 1) (he_now env) token ''temp_call'' (sy_auth sy) = ((callID, None), db)"
    using assms by (auto simp: h_temporaryCall_def http_Error_def split: prod.splits option.splits)
  then obtain tk where tk: "tget (au_tokens (sy_auth sy)) (tokenHash (he_lib env) token) = Some tk" "tk_kind tk = ''temp_call''"
      "tk_used tk = None" "he_now env \<le> tk_expires tk" "callID = tk_entity tk"
      "db = (sy_auth sy)\<lparr>au_tokens := tput (tokenHash (he_lib env) token) (tk\<lparr>tk_used := Some (he_now env)\<rparr>) (au_tokens (sy_auth sy))\<rparr>"
    by (auto simp: ConsumeActionToken_def Let_def split: option.splits if_splits)
  obtain call where call: "get_Call (sy_state sy) callID = Some call" "c_State call \<in> {CallIncoming, CallAlerting, CallActive}"
    using assms consumed by (auto simp: h_temporaryCall_def http_Error_def Let_def split: option.splits if_splits)
  then show thesis
    using assms consumed tk that
    by (auto simp: h_temporaryCall_def http_Error_def Let_def split: prod.splits option.splits)
qed

text \<open>C27: A temporary link opens the call it was made for. When it redirects, its token is an unused link token that
  has not expired, and the call the token names is ringing or active; the browser is sent to the page of that call,
  and the cookie it is given is a session for that call for three hours: with it the guard of the temporary routes
  runs a read request of that call, and refuses a request for any other call, whatever is done with sessions and
  tokens afterwards. The link does not work a second time.\<close>

theorem temporary_link_opens_its_call:
  assumes "h_temporaryCall env rq token sy = (r, sy')" "rs_Code r = 302"
  shows "\<exists>tk call c. tget (au_tokens (sy_auth sy)) (tokenHash (he_lib env) token) = Some tk \<and>
      tk_kind tk = ''temp_call'' \<and> tk_used tk = None \<and> he_now env \<le> tk_expires tk \<and>
      get_Call (sy_state sy) (tk_entity tk) = Some call \<and> c_State call \<in> {CallIncoming, CallAlerting, CallActive} \<and>
      rs_Headers r = [(''Location'', ''/temp-call?id='' @ tk_entity tk)] \<and>
      rs_Cookies r = [c] \<and> ck_Name c = ''onsim_temp'' \<and>
      (\<forall>h env' rq' i qs sy2. he_lib env' = he_lib env \<and> tget (rq_Cookies rq') ''onsim_temp'' = Some (ck_Value c) \<longrightarrow>
         (sy_auth sy2 = auth_run (he_lib env) qs (sy_auth sy') \<and> i \<noteq> tk_entity tk \<longrightarrow>
            tempRequire h env' rq' i sy2 = (fail 403 ''TEMP_SCOPE_DENIED'', sy2)) \<and>
         (sy_auth sy2 = sy_auth sy' \<and> he_faults env' 0 0 = None \<and> he_now env' < he_now env + 3 * hour \<and> sameOrigin rq' \<and> read_only rq' \<longrightarrow>
            tempRequire h env' rq' (tk_entity tk) sy2 = h env' rq' (tk_entity tk) sy2)) \<and>
      (\<forall>env' rq' qs sy2. he_lib env' = he_lib env \<and> sy_auth sy2 = auth_run (he_lib env) qs (sy_auth sy') \<longrightarrow>
         rs_Code (fst (h_temporaryCall env' rq' token sy2)) = 403)"
  using assms
proof (cases rule: h_temporaryCall_ok)
  case (1 tk call session c)
  note tok = CreateActionToken_ok [OF 1(7)]
  let ?h = "tokenHash (he_lib env) session" and ?l = "tokenHash (he_lib env) token"
  have ne: "?l \<noteq> ?h" using tok by auto
  have "temp_session_for ?h (tk_entity tk) (sy_auth sy')" using tok by (simp add: temp_session_for_def)
  then have scope: "temp_session_for ?h (tk_entity tk) (auth_run (he_lib env) qs (sy_auth sy'))" for qs
    by (rule auth_run_invariant) (rule temp_session_step)
  have "spent ?l (sy_auth sy')" using tok ne by (simp add: spent_def)
  then have spent: "spent ?l (auth_run (he_lib env) qs (sy_auth sy'))" for qs
    by (rule auth_run_invariant) (rule spent_step)
  have once: "rs_Code (fst (h_temporaryCall env' rq' token sy2)) = 403"
    if "he_lib env' = he_lib env \<and> sy_auth sy2 = auth_run (he_lib env) qs (sy_auth sy')" for env' rq' qs sy2
    using spent_refused [OF spent, of "he_faults env' 1" "he_now env'" "''temp_call''" qs] that
    by (auto simp: h_temporaryCall_def http_Error_def split: prod.split option.split)
  have other: "tempRequire h env' rq' i sy2 = (fail 403 ''TEMP_SCOPE_DENIED'', sy2)"
    if "he_lib env' = he_lib env" "tget (rq_Cookies rq') ''onsim_temp'' = Some (ck_Value c)"
      "sy_auth sy2 = auth_run (he_lib env) qs (sy_auth sy')" "i \<noteq> tk_entity tk" for h env' rq' i qs sy2
    using that scope 1(10) by (intro temp_session_scope [where raw = session and callID = "tk_entity tk"]) simp_all
  have own: "tempRequire h env' rq' (tk_entity tk) sy2 = h env' rq' (tk_entity tk) sy2"
    if "he_lib env' = he_lib env" "tget (rq_Cookies rq') ''onsim_temp'' = Some (ck_Value c)" "sy_auth sy2 = sy_auth sy'"
      "he_faults env' 0 0 = None" "he_now env' < he_now env + 3 * hour" "sameOrigin rq'" "read_only rq'" for h env' rq' sy2
    using that tok 1(10) by (simp add: tempRequire_def ValidateActionToken_def)
  show ?thesis
    by (intro exI [of _ tk] exI [of _ call] exI [of _ c] conjI allI impI) (use 1 other own once in blast)+
qed

definition demo_linked :: Sys where
  "demo_linked = demo_sys\<lparr>sy_svc := demo_svc\<lparr>v_state := demo_calling\<rparr>, sy_auth := demo_authdb\<lparr>au_tokens :=
     [(tokenHash demo_hash ''link'', \<lparr>tk_kind = ''temp_call'', tk_entity = ''call_1'', tk_expires = 100, tk_used = None\<rparr>)]\<rparr>\<rparr>"

theorem temporary_link_opens_its_call_witness:
  "rs_Code (fst (h_temporaryCall demo_henv (demo_rq ''GET'' []) ''link'' demo_linked)) = 302 \<and>
   rs_Headers (fst (h_temporaryCall demo_henv (demo_rq ''GET'' []) ''link'' demo_linked)) = [(''Location'', ''/temp-call?id=call_1'')]"
proof -
  obtain r sy' where h: "h_temporaryCall demo_henv (demo_rq ''GET'' []) ''link'' demo_linked = (r, sy')" by fastforce
  have ne: "tokenHash demo_hash (randomToken ''fresh'') \<noteq> tokenHash demo_hash ''link''" by code_simp
  have code: "rs_Code (fst (h_temporaryCall demo_henv (demo_rq ''GET'' []) ''link'' demo_linked)) = 302"
    by (simp add: h_temporaryCall_def ConsumeActionToken_def CreateActionToken_def demo_henv_def demo_linked_def demo_sys_def demo_authdb_def
        demo_calling_def get_Call_def ne Let_def)
  then have "rs_Code r = 302" by (simp add: h)
  from temporary_link_opens_its_call [OF h this] obtain tk where
    "tget (au_tokens (sy_auth demo_linked)) (tokenHash (he_lib demo_henv) ''link'') = Some tk"
    "rs_Headers r = [(''Location'', ''/temp-call?id='' @ tk_entity tk)]" by blast
  moreover have "tget (au_tokens (sy_auth demo_linked)) (tokenHash (he_lib demo_henv) ''link'') =
      Some \<lparr>tk_kind = ''temp_call'', tk_entity = ''call_1'', tk_expires = 100, tk_used = None\<rparr>"
    by (simp add: demo_linked_def demo_henv_def)
  ultimately show ?thesis using code by (auto simp: h)
qed

definition demo_put :: Request where
  "demo_put = (demo_rq ''PUT'' (api [''settings'']))\<lparr>rq_JSON := Some (JObj [(''SMSEnabled'', JBool False), (''country'', JStr ''HK'')])\<rparr>"

definition demo_secret :: Sys where
  "demo_secret = demo_sys\<lparr>sy_svc := demo_svc\<lparr>v_state := demo_state\<lparr>s_mem := (initMem 0)\<lparr>mem_settings :=
     defaultSettings\<lparr>st_SIPPassword := ''p4ss''\<rparr>\<rparr>\<rparr>\<rparr>, sy_sip := None\<rparr>"

theorem settings_keep_secrets_witness:
  "rs_Code (fst (h_settings demo_henv demo_put [] demo_secret)) = 200 \<and>
   st_SIPPassword (get_Settings (sy_state (snd (h_settings demo_henv demo_put [] demo_secret)))) = ''p4ss''"
proof -
  have d: "decode settings_fields zeroSettings demo_put = Inr (zeroSettings\<lparr>st_Country := ''HK''\<rparr>)"
    by code_simp
  have old: "get_Settings (sy_state demo_secret) = defaultSettings\<lparr>st_SIPPassword := ''p4ss''\<rparr>"
    by (simp add: demo_secret_def get_Settings_def default_timeout_def defaultSettings_def zeroSettings_def)
  let ?v = "keep_secrets (defaultSettings\<lparr>st_SIPPassword := ''p4ss''\<rparr>) (zeroSettings\<lparr>st_Country := ''HK''\<rparr>)"
  obtain e s where u: "UpdateSettings (demo_env 60) ?v (sy_state demo_secret) = (Inr e, s)"
    using UpdateSettings_accepted [of "demo_env 60" "sy_state demo_secret" ?v]
    by (auto simp: version_taken_def demo_secret_def demo_state_def emptyDB_def demo_env_def)
  have t: "st_VoicemailTimeout zeroSettings = 0" "st_ProviderURL zeroSettings = []" by (simp_all add: zeroSettings_def)
  have "fst (h_settings demo_henv demo_put [] demo_secret) = jsonOut 200 (SettingsBody (safe_settings ?v))"
    using u by (simp add: h_settings_def d old t demo_henv_def Let_def) (simp add: demo_secret_def)
  then have code: "rs_Code (fst (h_settings demo_henv demo_put [] demo_secret)) = 200" by (simp add: jsonOut_def)
  obtain r sy' where h: "h_settings demo_henv demo_put [] demo_secret = (r, sy')" by fastforce
  have "st_SIPPassword (get_Settings (sy_state sy')) = ''p4ss''"
    using settings_keep_secrets [OF h] code by (simp add: h old Let_def)
  then show ?thesis using code by (simp add: h)
qed

text \<open>The comparison of origins looks for the host anywhere in the origin: a foreign host whose name begins with the
  host's name passes.\<close>

lemma foreign_origin_accepted:
  "sameOrigin ((demo_rq ''POST'' [])\<lparr>rq_Headers := [(''Origin'', ''https://onsim.local.example.org'')]\<rparr>)"
  by (simp add: sameOrigin_def header_def demo_rq_def)

end
