(* ===== verification/Telegram_Text.thy ===== *)
theory Telegram_Text
  imports Go_Lib
begin

text \<open>
  The texts of the Telegram bot (\<^verbatim>\<open>internal/telegram/bot.go\<close>). They are Chinese; each is given by its code points and
  is the UTF-8 encoding of them.
\<close>

definition txt_sms_head :: string where
  "txt_sms_head = of_runes
    [0x1F4E9, 0x20, 0x65B0, 0x77ED, 0x4FE1, 0xA, 0x6765, 0x81EA, 0xFF1A]"

definition txt_two_lines :: string where
  "txt_two_lines = of_runes
    [0xA, 0xA]"

definition txt_line_break :: string where
  "txt_line_break = of_runes
    [0xA]"

definition txt_ringing :: string where
  "txt_ringing = of_runes
    [0x6765, 0x7535, 0x632F, 0x94C3]"

definition txt_held_on :: string where
  "txt_held_on = of_runes
    [0x5DF2, 0x63A5, 0x901A, 0x5E76, 0x6302, 0x8D77]"

definition txt_in_voicemail :: string where
  "txt_in_voicemail = of_runes
    [0x5DF2, 0x8F6C, 0x5165, 0x8BED, 0x97F3, 0x4FE1, 0x7BB1]"

definition txt_answered :: string where
  "txt_answered = of_runes
    [0x5DF2, 0x63A5, 0x542C]"

definition txt_over :: string where
  "txt_over = of_runes
    [0x901A, 0x8BDD, 0x5DF2, 0x7ED3, 0x675F]"

definition txt_phone_mark :: string where
  "txt_phone_mark = of_runes
    [0x1F4DE, 0x20]"

definition txt_lasting :: string where
  "txt_lasting = of_runes
    [0x6301, 0x7EED, 0x20]"

definition txt_hold :: string where
  "txt_hold = of_runes
    [0x6302, 0x8D77]"

definition txt_resume :: string where
  "txt_resume = of_runes
    [0x6062, 0x590D]"

definition txt_open_page :: string where
  "txt_open_page = of_runes
    [0x6253, 0x5F00, 0x901A, 0x8BDD, 0x9875]"

definition txt_to_voicemail :: string where
  "txt_to_voicemail = of_runes
    [0x8F6C, 0x7559, 0x8A00]"

definition txt_reject :: string where
  "txt_reject = of_runes
    [0x62D2, 0x63A5, 0x2F, 0x6302, 0x65AD]"

definition txt_block :: string where
  "txt_block = of_runes
    [0x62C9, 0x9ED1]"

definition txt_sms_answer :: string where
  "txt_sms_answer = of_runes
    [0x77ED, 0x4FE1, 0x56DE, 0x590D]"

definition txt_ask_call :: string where
  "txt_ask_call = of_runes
    [0x8BF7, 0x8F93, 0x5165, 0x8981, 0x62E8, 0x6253, 0x7684, 0x7535, 0x8BDD, 0x53F7, 0x7801, 0xFF1A]"

definition txt_ask_body :: string where
  "txt_ask_body = of_runes
    [0x8BF7, 0x8F93, 0x5165, 0x77ED, 0x4FE1, 0x5185, 0x5BB9, 0xFF1A]"

definition txt_ask_number :: string where
  "txt_ask_number = of_runes
    [0x8BF7, 0x8F93, 0x5165, 0x6536, 0x4FE1, 0x53F7, 0x7801, 0xFF1A]"

definition txt_ask_block :: string where
  "txt_ask_block = of_runes
    [0x8BF7, 0x8F93, 0x5165, 0x8981, 0x62C9, 0x9ED1, 0x7684, 0x53F7, 0x7801, 0xFF1A]"

definition txt_key_call :: string where
  "txt_key_call = of_runes
    [0x1F4DE, 0x20, 0x6253, 0x7535, 0x8BDD]"

definition txt_key_text :: string where
  "txt_key_text = of_runes
    [0x2709, 0xFE0F, 0x20, 0x53D1, 0x77ED, 0x4FE1]"

definition txt_key_status :: string where
  "txt_key_status = of_runes
    [0x1F4F6, 0x20, 0x8BBE, 0x5907, 0x72B6, 0x6001]"

definition txt_key_block :: string where
  "txt_key_block = of_runes
    [0x1F6AB, 0x20, 0x62C9, 0x9ED1, 0x53F7, 0x7801]"

definition txt_key_help :: string where
  "txt_key_help = of_runes
    [0x2753, 0x20, 0x5E2E, 0x52A9]"

definition txt_unknown :: string where
  "txt_unknown = of_runes
    [0x65E0, 0x6CD5, 0x8BC6, 0x522B, 0x8BE5, 0x547D, 0x4EE4, 0x3002, 0x53D1, 0x9001, 0x20, 0x2F, 0x68, 0x65,
     0x6C, 0x70, 0x20, 0x67E5, 0x770B, 0x5B8C, 0x6574, 0x7528, 0x6CD5, 0x3002]"

definition txt_bad_number_again :: string where
  "txt_bad_number_again = of_runes
    [0x53F7, 0x7801, 0x683C, 0x5F0F, 0x65E0, 0x6548, 0xFF0C, 0x8BF7, 0x91CD, 0x65B0, 0x64CD, 0x4F5C, 0x3002]"

definition txt_ask_for :: string where
  "txt_ask_for = of_runes
    [0x8BF7, 0x8F93, 0x5165, 0x8981, 0x53D1, 0x9001, 0x7ED9, 0x20]"

definition txt_ask_for_body :: string where
  "txt_ask_for_body = of_runes
    [0x20, 0x7684, 0x77ED, 0x4FE1, 0x5185, 0x5BB9, 0xFF1A]"

definition txt_ask_for_text :: string where
  "txt_ask_for_text = of_runes
    [0x20, 0x7684, 0x77ED, 0x4FE1, 0xFF1A]"

definition txt_empty_body :: string where
  "txt_empty_body = of_runes
    [0x77ED, 0x4FE1, 0x5185, 0x5BB9, 0x4E0D, 0x80FD, 0x4E3A, 0x7A7A, 0x3002]"

definition txt_bad_number :: string where
  "txt_bad_number = of_runes
    [0x53F7, 0x7801, 0x683C, 0x5F0F, 0x65E0, 0x6548]"

definition txt_choose_route :: string where
  "txt_choose_route = of_runes
    [0x8BF7, 0x9009, 0x62E9, 0x672C, 0x6B21, 0x4F7F, 0x7528, 0x7684, 0x53F7, 0x7801, 0xFF1A]"

definition txt_please_confirm :: string where
  "txt_please_confirm = of_runes
    [0x8BF7, 0x786E, 0x8BA4]"

definition txt_colon :: string where
  "txt_colon = of_runes
    [0xFF1A]"

definition txt_label_call :: string where
  "txt_label_call = of_runes
    [0x62E8, 0x6253]"

definition txt_label_text :: string where
  "txt_label_text = of_runes
    [0x53D1, 0x9001, 0x77ED, 0x4FE1, 0x5230]"

definition txt_label_block :: string where
  "txt_label_block = of_runes
    [0x62C9, 0x9ED1]"

definition txt_with_number :: string where
  "txt_with_number = of_runes
    [0xA, 0xA, 0x4F7F, 0x7528, 0x53F7, 0x7801, 0xFF1A]"

definition txt_confirm :: string where
  "txt_confirm = of_runes
    [0x786E, 0x8BA4]"

definition txt_cancel :: string where
  "txt_cancel = of_runes
    [0x53D6, 0x6D88]"

definition txt_bad_route :: string where
  "txt_bad_route = of_runes
    [0x8DEF, 0x7531, 0x9009, 0x62E9, 0x65E0, 0x6548]"

definition txt_stale_route :: string where
  "txt_stale_route = of_runes
    [0x8DEF, 0x7531, 0x9009, 0x62E9, 0x5DF2, 0x5931, 0x6548, 0xFF0C, 0x8BF7, 0x91CD, 0x65B0, 0x64CD, 0x4F5C,
     0x3002]"

definition txt_expired :: string where
  "txt_expired = of_runes
    [0x786E, 0x8BA4, 0x5DF2, 0x8FC7, 0x671F]"

definition txt_failed :: string where
  "txt_failed = of_runes
    [0x64CD, 0x4F5C, 0x5931, 0x8D25, 0xFF1A]"

definition txt_done :: string where
  "txt_done = of_runes
    [0x64CD, 0x4F5C, 0x5DF2, 0x6267, 0x884C]"

definition txt_cancelled :: string where
  "txt_cancelled = of_runes
    [0x5DF2, 0x53D6, 0x6D88]"

definition txt_hangup_failed :: string where
  "txt_hangup_failed = of_runes
    [0x6302, 0x65AD, 0x5931, 0x8D25, 0xFF1A]"

definition txt_hold_failed :: string where
  "txt_hold_failed = of_runes
    [0x6302, 0x8D77, 0x2F, 0x6062, 0x590D, 0x5931, 0x8D25, 0xFF1A]"

definition txt_voicemail_failed :: string where
  "txt_voicemail_failed = of_runes
    [0x8F6C, 0x5165, 0x8BED, 0x97F3, 0x4FE1, 0x7BB1, 0x5931, 0x8D25, 0xFF1A]"

definition txt_dialling :: string where
  "txt_dialling = of_runes
    [0x1F4DE, 0x20, 0x6B63, 0x5728, 0x62E8, 0x6253, 0x20]"

definition txt_click_below :: string where
  "txt_click_below = of_runes
    [0xA, 0xA, 0x70B9, 0x51FB, 0x4E0B, 0x65B9, 0x6309, 0x94AE, 0x6253, 0x5F00, 0x901A, 0x8BDD, 0x9875, 0x9762,
     0x3002]"

definition txt_default_number :: string where
  "txt_default_number = of_runes
    [0x9ED8, 0x8BA4, 0x53F7, 0x7801]"

definition txt_card :: string where
  "txt_card = of_runes
    [0x5361, 0x20]"

definition txt_dot :: string where
  "txt_dot = of_runes
    [0x20, 0xB7, 0x20]"

definition txt_unavailable :: string where
  "txt_unavailable = of_runes
    [0x4E0D, 0x53EF, 0x7528]"

definition txt_available :: string where
  "txt_available = of_runes
    [0x53EF, 0x7528]"

definition txt_offline :: string where
  "txt_offline = of_runes
    [0x79BB, 0x7EBF]"

definition txt_online :: string where
  "txt_online = of_runes
    [0x5728, 0x7EBF]"

definition txt_not_ready :: string where
  "txt_not_ready = of_runes
    [0x672A, 0x5C31, 0x7EEA]"

definition txt_ready :: string where
  "txt_ready = of_runes
    [0x5DF2, 0x5C31, 0x7EEA]"

definition txt_welcome :: string where
  "txt_welcome = of_runes
    [0x6B22, 0x8FCE, 0x4F7F, 0x7528, 0x20, 0x6F, 0x6E, 0x53, 0x49, 0x4D, 0x20, 0x7535, 0x8BDD, 0x4E0E, 0x77ED,
     0x4FE1, 0x52A9, 0x624B, 0x3002, 0xA, 0xA, 0x53EF, 0x7528, 0x8BBE, 0x5907, 0xFF1A]"

definition txt_operator :: string where
  "txt_operator = of_runes
    [0xA, 0x8FD0, 0x8425, 0x5546, 0xFF1A]"

definition txt_phone_service :: string where
  "txt_phone_service = of_runes
    [0xA, 0x7535, 0x8BDD, 0x670D, 0x52A1, 0xFF1A]"

definition txt_welcome_end :: string where
  "txt_welcome_end = of_runes
    [0xA, 0xA, 0x4F60, 0x53EF, 0x4EE5, 0x76F4, 0x63A5, 0x4F7F, 0x7528, 0x4E0B, 0x65B9, 0x6309, 0x94AE, 0x62E8,
     0x6253, 0x7535, 0x8BDD, 0x3001, 0x53D1, 0x9001, 0x77ED, 0x4FE1, 0x3001, 0x67E5, 0x770B, 0x72B6, 0x6001,
     0x6216, 0x7BA1, 0x7406, 0x9ED1, 0x540D, 0x5355, 0x3002, 0x6267, 0x884C, 0x91CD, 0x8981, 0x64CD, 0x4F5C,
     0x524D, 0x4F1A, 0x518D, 0x6B21, 0x8BF7, 0x4F60, 0x786E, 0x8BA4, 0x3002]"

definition txt_help :: string where
  "txt_help = of_runes
    [0x6F, 0x6E, 0x53, 0x49, 0x4D, 0x20, 0x547D, 0x4EE4, 0x5E2E, 0x52A9, 0xA, 0xA, 0x2F, 0x63, 0x61, 0x6C, 0x6C,
     0x20, 0x5B, 0x53F7, 0x7801, 0x5D, 0x20, 0x2014, 0x20, 0x62E8, 0x6253, 0x7535, 0x8BDD, 0xFF1B, 0x4E0D,
     0x5E26, 0x53F7, 0x7801, 0x65F6, 0x4F1A, 0x8BE2, 0x95EE, 0x53F7, 0x7801, 0xA, 0x2F, 0x74, 0x65, 0x78, 0x74,
     0x20, 0x5B, 0x53F7, 0x7801, 0x5D, 0x20, 0x5B, 0x5185, 0x5BB9, 0x5D, 0x20, 0x2014, 0x20, 0x53D1, 0x9001,
     0x77ED, 0x4FE1, 0xFF1B, 0x4FE1, 0x606F, 0x4E0D, 0x5B8C, 0x6574, 0x65F6, 0x4F1A, 0x9010, 0x6B65, 0x8BE2,
     0x95EE, 0xA, 0x2F, 0x62, 0x6C, 0x6F, 0x63, 0x6B, 0x20, 0x5B, 0x53F7, 0x7801, 0x5D, 0x20, 0x2014, 0x20,
     0x62C9, 0x9ED1, 0x7535, 0x8BDD, 0x548C, 0x77ED, 0x4FE1, 0xA, 0x2F, 0x73, 0x74, 0x61, 0x74, 0x75, 0x73,
     0x20, 0x2014, 0x20, 0x67E5, 0x770B, 0x8BBE, 0x5907, 0x3001, 0x7535, 0x8BDD, 0x5361, 0x3001, 0x4FE1, 0x53F7,
     0x548C, 0x901A, 0x8BDD, 0x72B6, 0x6001, 0xA, 0x2F, 0x68, 0x65, 0x6C, 0x70, 0x20, 0x2014, 0x20, 0x663E,
     0x793A, 0x672C, 0x5E2E, 0x52A9, 0xA, 0xA, 0x62E8, 0x53F7, 0x3001, 0x53D1, 0x77ED, 0x4FE1, 0x548C, 0x62C9,
     0x9ED1, 0x524D, 0x90FD, 0x9700, 0x8981, 0x786E, 0x8BA4, 0xFF0C, 0x786E, 0x8BA4, 0x5728, 0x20, 0x32, 0x20,
     0x5206, 0x949F, 0x540E, 0x5931, 0x6548, 0x3002, 0x6709, 0x591A, 0x4E2A, 0x53EF, 0x7528, 0x53F7, 0x7801,
     0x65F6, 0xFF0C, 0x4F1A, 0x5148, 0x8BF7, 0x4F60, 0x9009, 0x62E9, 0x672C, 0x6B21, 0x4F7F, 0x7528, 0x7684,
     0x53F7, 0x7801, 0x3002, 0x6765, 0x7535, 0x9875, 0x9762, 0x53EA, 0x53EF, 0x63A7, 0x5236, 0x5F53, 0x524D,
     0x901A, 0x8BDD, 0x3002]"

definition txt_status_head :: string where
  "txt_status_head = of_runes
    [0x1F4F6, 0x20, 0x8BBE, 0x5907, 0x72B6, 0x6001, 0xA, 0x8BBE, 0x5907, 0xFF1A]"

definition txt_status_card :: string where
  "txt_status_card = of_runes
    [0xA, 0x7535, 0x8BDD, 0x5361, 0xFF1A]"

definition txt_status_network :: string where
  "txt_status_network = of_runes
    [0xA, 0x7F51, 0x7EDC, 0xFF1A]"

definition txt_status_signal :: string where
  "txt_status_signal = of_runes
    [0xA, 0x4FE1, 0x53F7, 0xFF1A]"

definition txt_status_audio :: string where
  "txt_status_audio = of_runes
    [0xA, 0x901A, 0x8BDD, 0x8BED, 0x97F3, 0xFF1A]"

definition txt_manual_list :: string where
  "txt_manual_list = of_runes
    [0x624B, 0x52A8, 0x9ED1, 0x540D, 0x5355]"

definition txt_cmd_start :: string where
  "txt_cmd_start = of_runes
    [0x6253, 0x5F00, 0x20, 0x6F, 0x6E, 0x53, 0x49, 0x4D, 0x20, 0x83DC, 0x5355]"

definition txt_cmd_call :: string where
  "txt_cmd_call = of_runes
    [0x62E8, 0x6253, 0x7535, 0x8BDD]"

definition txt_cmd_text :: string where
  "txt_cmd_text = of_runes
    [0x53D1, 0x9001, 0x77ED, 0x4FE1]"

definition txt_cmd_block :: string where
  "txt_cmd_block = of_runes
    [0x62C9, 0x9ED1, 0x53F7, 0x7801]"

definition txt_cmd_status :: string where
  "txt_cmd_status = of_runes
    [0x8BBE, 0x5907, 0x72B6, 0x6001]"

definition txt_cmd_help :: string where
  "txt_cmd_help = of_runes
    [0x5B8C, 0x6574, 0x5E2E, 0x52A9]"

end
