(* ===== verification/Telegram.thy ===== *)
theory Telegram
  imports Http Telegram_Text
begin

text \<open>
  The Telegram bot (\<^verbatim>\<open>internal/telegram/bot.go\<close>): notifications with buttons, and commands that become
  confirmations, which only a button executes. \<open>Bot\<close> is the bot's own state (actions that wait for a
  confirmation, questions that wait for an answer), its two tables in the database, the service and
  the tokens it changes, and what it has sent. What comes from outside while an update is handled is its \<open>TEnv\<close>; the
  answers of Telegram are given by the position of the request.
\<close>

subsection \<open>Requests to Telegram\<close>

record button =
  bn_Text :: string
  bn_Data :: string
  bn_URL :: string

datatype markup =
    NoMarkup
  | Inline "(string \<times> string \<times> string) list list"
  | ForceReply
  | Keyboard "string list list"
  | Commands "(string \<times> string) list"

record Out =
  ou_method :: string
  ou_chat :: int
  ou_text :: string
  ou_markup :: markup
  ou_message :: "int option"
  ou_callback :: string

text \<open>What the HTTP client gives back: an error, or the status, the body and its decoded result (\<^verbatim>\<open>ok\<close>, description,
  message identifier), or the error of the JSON decoder.\<close>

type_synonym api_answer = "gerror + nat \<times> string \<times> (gerror + bool \<times> string \<times> int)"

definition tg_call :: "api_answer \<Rightarrow> gerror + int" where
  "tg_call answer =
     (case answer of
        Inl e \<Rightarrow> Inl e
      | Inr (status, body, decoded) \<Rightarrow>
          if status div 100 \<noteq> 2 then Inl (''telegram '' @ show_nat status @ '': '' @ take 2048 body)
          else (case decoded of
                  Inl e \<Rightarrow> Inl e
                | Inr (ok, description, i) \<Rightarrow> if ok then Inr i else Inl (''telegram: '' @ description)))"

record pendingAction =
  pa_Kind :: string
  pa_Number :: string
  pa_Body :: string
  pa_Route :: Route
  pa_RouteLabel :: string
  pa_Expires :: gtime

record replyPrompt =
  rp_Kind :: string
  rp_Step :: string
  rp_Number :: string
  rp_Body :: string

record CallMessage =
  cm_chat :: int
  cm_message :: int
  cm_token :: string

record Bot =
  bt_svc :: Svc
  bt_auth :: AuthDB
  bt_publicURL :: string
  bt_pending :: "pendingAction table"
  bt_replies :: "int \<Rightarrow> replyPrompt option"
  bt_configured :: string
  bt_messages :: "CallMessage table"
  bt_offset :: int
  bt_sent :: "Out list"

record TEnv =
  te_now :: gtime
  te_svc :: SEnv
  te_store :: Env
  te_rand :: "nat list"
  te_lib :: hash_lib
  te_faults :: faults
  te_bytes :: string
  te_api :: "nat \<Rightarrow> Out \<Rightarrow> api_answer"
  te_db :: "nat \<Rightarrow> gerror option"
  te_build :: "string \<times> string \<times> string"

abbreviation bt_state :: "Bot \<Rightarrow> State" where
  "bt_state b \<equiv> v_state (bt_svc b)"

text \<open>\<^verbatim>\<open>New\<close>: the slashes at the end of the public address are dropped.\<close>

definition new_bot :: "Svc \<Rightarrow> AuthDB \<Rightarrow> string \<Rightarrow> CallMessage table \<Rightarrow> int \<Rightarrow> Bot" where
  "new_bot v db url msgs offset =
     \<lparr>bt_svc = v, bt_auth = db, bt_publicURL = rev (dropWhile (\<lambda>c. c = CHR ''/'') (rev url)), bt_pending = [],
      bt_replies = (\<lambda>_. None), bt_configured = [], bt_messages = msgs, bt_offset = offset, bt_sent = []\<rparr>"

definition enabled :: "Settings \<Rightarrow> bool" where
  "enabled s \<longleftrightarrow> st_TelegramEnabled s \<and> st_TelegramToken s \<noteq> [] \<and> st_TelegramChatID s \<noteq> 0"

definition send :: "TEnv \<Rightarrow> Out \<Rightarrow> Bot \<Rightarrow> (gerror + int) \<times> Bot" where
  "send env out b = (tg_call (te_api env (length (bt_sent b)) out), b\<lparr>bt_sent := bt_sent b @ [out]\<rparr>)"

definition message_to :: "Settings \<Rightarrow> string \<Rightarrow> markup \<Rightarrow> Out" where
  "message_to s text kb = \<lparr>ou_method = ''sendMessage'', ou_chat = st_TelegramChatID s, ou_text = text, ou_markup = kb,
     ou_message = None, ou_callback = []\<rparr>"

definition tg_note :: "TEnv \<Rightarrow> Settings \<Rightarrow> string \<Rightarrow> Bot \<Rightarrow> Bot" where
  "tg_note env s text b = snd (send env (message_to s text NoMarkup) b)"

text \<open>\<^verbatim>\<open>inline\<close>: of a button its text and either its address or its data.\<close>

definition inline_button :: "button \<Rightarrow> string \<times> string \<times> string" where
  "inline_button x = (bn_Text x, if bn_URL x \<noteq> [] then (''url'', bn_URL x) else (''callback_data'', bn_Data x))"

definition inline :: "button list list \<Rightarrow> markup" where
  "inline rows = Inline (map (map inline_button) rows)"

definition data_button :: "string \<Rightarrow> string \<Rightarrow> button" where
  "data_button text data = \<lparr>bn_Text = text, bn_Data = data, bn_URL = []\<rparr>"

definition url_button :: "string \<Rightarrow> string \<Rightarrow> button" where
  "url_button text url = \<lparr>bn_Text = text, bn_Data = [], bn_URL = url\<rparr>"

subsection \<open>Notifications\<close>

definition tg_IncomingSMS :: "TEnv \<Rightarrow> Message \<Rightarrow> Bot \<Rightarrow> Bot" where
  "tg_IncomingSMS env msg b =
     (let s = get_Settings (bt_state b) in
      if \<not> enabled s then b
      else snd (send env (message_to s (txt_sms_head @ m_Number msg @ txt_two_lines @ m_Body msg)
             (inline [[data_button ''Reply'' (''sms_reply:'' @ m_ID msg), data_button ''Delete'' (''sms_delete:'' @ m_ID msg),
                       data_button ''Block'' (''sms_block:'' @ m_ID msg)]])) b))"

definition round_second :: "int \<Rightarrow> int" where
  "round_second d =
     (let a = \<bar>d\<bar>; r = a mod second; v = (if r + r < second then a - r else a - r + second) in if d < 0 then - v else v)"

text \<open>\<^verbatim>\<open>Duration.String\<close> for a number of whole seconds.\<close>

definition duration_text :: "int \<Rightarrow> string" where
  "duration_text d =
     (let a = \<bar>d\<bar> div second; h = a div 3600; m = a div 60 mod 60; s = a mod 60;
          t = (if 0 < h then itoa h @ ''h'' @ itoa m @ ''m'' @ itoa s @ ''s''
               else if 0 < m then itoa m @ ''m'' @ itoa s @ ''s'' else itoa s @ ''s'')
      in if d < 0 then CHR ''-'' # t else t)"

definition call_status_text :: "Call \<Rightarrow> string" where
  "call_status_text call =
     (if c_State call = CallEnded then txt_over
      else if c_State call = CallActive \<and> \<not> c_Held call \<and> c_MediaOwner call \<noteq> ''voicemail'' then txt_answered
      else if c_MediaOwner call = ''voicemail'' then txt_in_voicemail
      else if c_Held call then txt_held_on
      else txt_ringing)"

definition call_link :: "string \<Rightarrow> Bot \<Rightarrow> button" where
  "call_link token b = url_button txt_open_page (bt_publicURL b @ ''/t/call/'' @ token)"

definition call_buttons :: "Settings \<Rightarrow> string \<Rightarrow> Call \<Rightarrow> Bot \<Rightarrow> button list list" where
  "call_buttons s token call b =
     (if c_State call \<noteq> CallEnded \<and> c_State call \<noteq> CallFailed \<and> c_MediaOwner call \<noteq> ''voicemail''
      then [[call_link token b,
             data_button (if c_Held call then txt_resume else txt_hold) (''call_hold:'' @ c_ID call)] @
            (if st_VoicemailEnabled s then [data_button txt_to_voicemail (''call_voicemail:'' @ c_ID call)] else []),
            [data_button txt_reject (''call_reject:'' @ c_ID call), data_button txt_block (''call_block:'' @ c_ID call),
             data_button txt_sms_answer (''call_reply:'' @ c_ID call)]]
      else [])"

text \<open>The rest of \<^verbatim>\<open>upsertCallNotification\<close>, once there is a token: a first message is sent and remembered, a later
  one edits it.\<close>

definition notify_call :: "TEnv \<Rightarrow> Settings \<Rightarrow> Call \<Rightarrow> int \<Rightarrow> string \<Rightarrow> Bot \<Rightarrow> Bot" where
  "notify_call env s call messageID token b =
     (let text = txt_phone_mark @ call_status_text call @ txt_line_break @ c_Number call @ txt_line_break @ txt_lasting @
            duration_text (round_second (te_now env - c_StartedAt call));
          out = message_to s text (inline (call_buttons s token call b)) in
      if messageID = 0 then
        (case send env out b of
           (Inl _, b) \<Rightarrow> b
         | (Inr i, b) \<Rightarrow>
             if te_db env 1 = None
             then b\<lparr>bt_messages := tput (c_ID call) \<lparr>cm_chat = st_TelegramChatID s, cm_message = i, cm_token = token\<rparr> (bt_messages b)\<rparr>
             else b)
      else snd (send env (out\<lparr>ou_method := ''editMessageText'', ou_message := Some messageID\<rparr>) b))"

definition upsertCallNotification :: "TEnv \<Rightarrow> Call \<Rightarrow> Bot \<Rightarrow> Bot" where
  "upsertCallNotification env call b =
     (let s = get_Settings (bt_state b) in
      if \<not> enabled s then b
      else
        (let (messageID, token) = (case (te_db env 0, tget (bt_messages b) (c_ID call)) of
                                     (None, Some row) \<Rightarrow> (cm_message row, cm_token row)
                                   | _ \<Rightarrow> (0, [])) in
         if token \<noteq> [] then notify_call env s call messageID token b
         else (case CreateActionToken (te_lib env) (te_faults env) (te_now env) (te_bytes env) ''temp_call'' (c_ID call) (3 * hour) (bt_auth b) of
                 ((_, Some _), db) \<Rightarrow> b\<lparr>bt_auth := db\<rparr>
               | ((token, None), db) \<Rightarrow> notify_call env s call messageID token (b\<lparr>bt_auth := db\<rparr>))))"

text \<open>One turn of the loop \<^verbatim>\<open>IncomingCall\<close> starts for a call: whether it goes on.\<close>

definition watch_over :: "Call \<Rightarrow> bool" where
  "watch_over call \<longleftrightarrow> c_State call = CallEnded \<or> c_State call = CallFailed \<or>
     (c_State call = CallActive \<and> \<not> c_Held call) \<or> c_MediaOwner call = ''voicemail''"

definition watch_turn :: "TEnv \<Rightarrow> string \<Rightarrow> Bot \<Rightarrow> bool \<times> Bot" where
  "watch_turn env callID b =
     (case get_Call (bt_state b) callID of
        None \<Rightarrow> (False, b)
      | Some current \<Rightarrow> (\<not> watch_over current, upsertCallNotification env current b))"

definition tg_CallEnded :: "TEnv \<Rightarrow> Call \<Rightarrow> Bot \<Rightarrow> Bot" where
  "tg_CallEnded env call b =
     (let b = upsertCallNotification env call b
      in if te_db env 2 = None then b\<lparr>bt_messages := tdel (c_ID call) (bt_messages b)\<rparr> else b)"

text \<open>\<^verbatim>\<open>Start\<close> watches a call that was ringing or held when the program stopped.\<close>

definition start_watch :: "State \<Rightarrow> Call option" where
  "start_watch s =
     (case ActiveCall s of
        None \<Rightarrow> None
      | Some call \<Rightarrow> if c_State call = CallIncoming \<or> c_State call = CallAlerting \<or> c_Held call then Some call else None)"

subsection \<open>Questions and confirmations\<close>

definition ask_user :: "TEnv \<Rightarrow> Settings \<Rightarrow> string \<Rightarrow> replyPrompt \<Rightarrow> Bot \<Rightarrow> Bot" where
  "ask_user env s text prompt b =
     (case send env (message_to s text ForceReply) b of
        (Inl _, b) \<Rightarrow> b
      | (Inr i, b) \<Rightarrow> b\<lparr>bt_replies := (bt_replies b)(i \<mapsto> prompt)\<rparr>)"

definition prompt :: "string \<Rightarrow> string \<Rightarrow> string \<Rightarrow> replyPrompt" where
  "prompt kind step number = \<lparr>rp_Kind = kind, rp_Step = step, rp_Number = number, rp_Body = []\<rparr>"

definition forceReply :: "TEnv \<Rightarrow> Settings \<Rightarrow> string \<Rightarrow> Bot \<Rightarrow> Bot" where
  "forceReply env s number b = ask_user env s (txt_ask_for @ number @ txt_ask_for_text) (prompt ''text'' ''body'' number) b"

definition subscription_label :: "GatewaySubscription \<Rightarrow> string" where
  "subscription_label u =
     (if gs_PhoneNumber u \<noteq> [] then gs_PhoneNumber u else txt_card @ itoa (gs_SIMSlot u + 1)) @
     (if gs_CarrierName u \<noteq> [] then txt_dot @ gs_CarrierName u else [])"

definition gateway_routes :: "GatewayInfo \<Rightarrow> (string \<times> Route) list" where
  "gateway_routes g =
     (if \<not> gi_Connected g then []
      else if gi_Subscriptions g = [] then
        [(if gi_Model g = [] then txt_default_number else gi_Model g,
          \<lparr>ro_GatewayID = gi_ID g, ro_SubscriptionID = gi_SubscriptionID g\<rparr>)]
      else map (\<lambda>u. (subscription_label u, \<lparr>ro_GatewayID = gi_ID g, ro_SubscriptionID = gs_ID u\<rparr>))
             (filter gs_Ready (gi_Subscriptions g)))"

definition availableRoutes :: "TEnv \<Rightarrow> Bot \<Rightarrow> (string \<times> Route) list" where
  "availableRoutes env b =
     concat (map gateway_routes (sys_Gateways (get_SystemInfo (te_build env) (te_svc env) (bt_svc b))))"

definition kind_label :: "string \<Rightarrow> string" where
  "kind_label kind =
     (if kind = ''call'' then txt_label_call else if kind = ''text'' then txt_label_text
      else if kind = ''block'' then txt_label_block else [])"

definition confirmation_text :: "pendingAction \<Rightarrow> string" where
  "confirmation_text p =
     txt_please_confirm @ kind_label (pa_Kind p) @ txt_colon @ pa_Number p @
     (if pa_Body p \<noteq> [] then txt_two_lines @ pa_Body p else []) @
     (if pa_RouteLabel p \<noteq> [] then txt_with_number @ pa_RouteLabel p else [])"

definition sendConfirmation :: "TEnv \<Rightarrow> Settings \<Rightarrow> string \<Rightarrow> pendingAction \<Rightarrow> Bot \<Rightarrow> Bot" where
  "sendConfirmation env s i p b =
     snd (send env (message_to s (confirmation_text p)
       (inline [[data_button txt_confirm (''confirm:'' @ i), data_button txt_cancel (''cancel:'' @ i)]])) b)"

definition route_rows :: "string \<Rightarrow> (string \<times> Route) list \<Rightarrow> button list list" where
  "route_rows i rs = map (\<lambda>(n, r). [data_button (fst r) (''route:'' @ i @ '':'' @ show_nat n)]) (enumerate 0 rs)"

definition createConfirmation :: "TEnv \<Rightarrow> Settings \<Rightarrow> string \<Rightarrow> string \<Rightarrow> string \<Rightarrow> Bot \<Rightarrow> Bot" where
  "createConfirmation env s kind raw body b =
     (case Normalize (se_lib (te_svc env)) raw (st_Country s) of
        Inl _ \<Rightarrow> tg_note env s txt_bad_number b
      | Inr number \<Rightarrow>
          (let i = NewID ''confirm'' (te_rand env); rs = availableRoutes env b;
               p = \<lparr>pa_Kind = kind, pa_Number = number, pa_Body = body, pa_Route = any_route, pa_RouteLabel = [],
                    pa_Expires = te_now env + 2 * minute\<rparr>;
               p = (case rs of [(label, r)] \<Rightarrow> p\<lparr>pa_Route := r, pa_RouteLabel := label\<rparr> | _ \<Rightarrow> p);
               b = b\<lparr>bt_pending := tput i p (bt_pending b)\<rparr> in
           if (kind = ''call'' \<or> kind = ''text'') \<and> 1 < length rs
           then snd (send env (message_to s txt_choose_route (inline (route_rows i rs))) b)
           else sendConfirmation env s i p b))"

definition handleReply :: "TEnv \<Rightarrow> Settings \<Rightarrow> replyPrompt \<Rightarrow> string \<Rightarrow> Bot \<Rightarrow> Bot" where
  "handleReply env s p text b =
     (if rp_Step p = ''number'' then
        (case Normalize (se_lib (te_svc env)) text (st_Country s) of
           Inl _ \<Rightarrow> tg_note env s txt_bad_number_again b
         | Inr number \<Rightarrow>
             if rp_Kind p = ''text''
             then ask_user env s (txt_ask_for @ number @ txt_ask_for_body) (prompt ''text'' ''body'' number) b
             else createConfirmation env s (rp_Kind p) number [] b)
      else if rp_Step p = ''body'' then
        (if text = [] then tg_note env s txt_empty_body b else createConfirmation env s ''text'' (rp_Number p) text b)
      else b)"

subsection \<open>Messages\<close>

definition reply_keyboard :: markup where
  "reply_keyboard = Keyboard [[txt_key_call, txt_key_text], [txt_key_status, txt_key_block, txt_key_help]]"

definition bot_info :: "TEnv \<Rightarrow> Bot \<Rightarrow> SystemInfo" where
  "bot_info env b = get_SystemInfo (te_build env) (te_svc env) (bt_svc b)"

definition voice_text :: "SystemInfo \<Rightarrow> string" where
  "voice_text info =
     (if ni_VoiceRegistered (sys_Network info) \<or> gi_IMSRegistered (sys_Gateway info) then txt_available else txt_unavailable)"

definition sendWelcome :: "TEnv \<Rightarrow> Settings \<Rightarrow> Bot \<Rightarrow> Bot" where
  "sendWelcome env s b =
     (let info = bot_info env b; connected = length (filter gi_Connected (sys_Gateways info))
      in snd (send env (message_to s
           (txt_welcome @ show_nat connected @ ''/'' @ show_nat (length (sys_Gateways info)) @ txt_operator @
            ni_Operator (sys_Network info) @ txt_phone_service @ voice_text info @ txt_welcome_end) reply_keyboard) b))"

definition sendHelp :: "TEnv \<Rightarrow> Settings \<Rightarrow> Bot \<Rightarrow> Bot" where
  "sendHelp env s b = snd (send env (message_to s txt_help reply_keyboard) b)"

definition sendStatus :: "TEnv \<Rightarrow> Settings \<Rightarrow> Bot \<Rightarrow> Bot" where
  "sendStatus env s b =
     (let info = bot_info env b in
      tg_note env s
        (txt_status_head @ (if gi_Connected (sys_Gateway info) then txt_online else txt_offline) @
         txt_status_card @ (if si_Ready (sys_SIM info) then txt_ready else txt_not_ready) @
         txt_operator @ ni_Operator (sys_Network info) @ txt_status_network @ ni_AccessTechnology (sys_Network info) @
         txt_status_signal @ itoa (ni_SignalDBm (sys_Network info)) @ '' dBm'' @ txt_phone_service @ voice_text info @
         txt_status_audio @ (if gi_AudioCapable (sys_Gateway info) then txt_available else txt_unavailable)) b)"

text \<open>\<^verbatim>\<open>strings.Fields\<close>: the words of a text.\<close>

function fields_of :: "(string \<times> nat) list \<Rightarrow> string list" where
  "fields_of ps =
     (let qs = dropWhile (is_space \<circ> snd) ps in
      if qs = [] then []
      else concat (map fst (takeWhile (Not \<circ> is_space \<circ> snd) qs)) # fields_of (dropWhile (Not \<circ> is_space \<circ> snd) qs))"
  by pat_completeness auto
termination
proof (relation "measure length", simp)
  fix ps qs :: "(string \<times> nat) list"
  assume qs: "qs = dropWhile (is_space \<circ> snd) ps" "qs \<noteq> []"
  then have "\<not> is_space (snd (hd qs))" using hd_dropWhile [of "is_space \<circ> snd" ps] by simp
  then have "length (dropWhile (Not \<circ> is_space \<circ> snd) qs) < length qs"
    using qs(2) by (cases qs) (simp_all add: length_dropWhile_le le_imp_less_Suc)
  also have "length qs \<le> length ps" by (simp add: qs(1) length_dropWhile_le)
  finally show "(dropWhile (Not \<circ> is_space \<circ> snd) qs, ps) \<in> measure length" by simp
qed

declare fields_of.simps [simp del]

definition Fields :: "string \<Rightarrow> string list" where
  "Fields s = fields_of (rune_spans s)"

definition ask_call :: "TEnv \<Rightarrow> Settings \<Rightarrow> Bot \<Rightarrow> Bot" where
  "ask_call env s b = ask_user env s txt_ask_call (prompt ''call'' ''number'' []) b"

definition ask_text :: "TEnv \<Rightarrow> Settings \<Rightarrow> Bot \<Rightarrow> Bot" where
  "ask_text env s b = ask_user env s txt_ask_number (prompt ''text'' ''number'' []) b"

definition ask_block :: "TEnv \<Rightarrow> Settings \<Rightarrow> Bot \<Rightarrow> Bot" where
  "ask_block env s b = ask_user env s txt_ask_block (prompt ''block'' ''number'' []) b"

text \<open>The buttons of the keyboard send their text.\<close>

definition keyboard_text :: "TEnv \<Rightarrow> Settings \<Rightarrow> string \<Rightarrow> Bot \<Rightarrow> Bot" where
  "keyboard_text env s text b =
     (if text = txt_key_call then ask_call env s b
      else if text = txt_key_text then ask_text env s b
      else if text = txt_key_status then sendStatus env s b
      else if text = txt_key_block then ask_block env s b
      else if text = txt_key_help then sendHelp env s b
      else tg_note env s txt_unknown b)"

definition handle_command :: "TEnv \<Rightarrow> Settings \<Rightarrow> string \<Rightarrow> Bot \<Rightarrow> Bot" where
  "handle_command env s text b =
     (case Fields text of
        [] \<Rightarrow> b
      | word # args \<Rightarrow>
          (let command = takeWhile (\<lambda>c. c \<noteq> CHR ''@'') word in
           if command = ''/start'' then sendWelcome env s b
           else if command = ''/help'' then sendHelp env s b
           else if command = ''/call'' then
             (case args of [] \<Rightarrow> ask_call env s b | number # _ \<Rightarrow> createConfirmation env s ''call'' number [] b)
           else if command = ''/text'' then
             (case args of
                [] \<Rightarrow> ask_text env s b
              | [number] \<Rightarrow> ask_user env s txt_ask_body (prompt ''text'' ''body'' number) b
              | number # body \<Rightarrow> createConfirmation env s ''text'' number (join '' '' body) b)
           else if command = ''/block'' then
             (case args of [number] \<Rightarrow> createConfirmation env s ''block'' number [] b | _ \<Rightarrow> ask_block env s b)
           else if command = ''/status'' then sendStatus env s b
           else keyboard_text env s (trim_space text) b))"

subsection \<open>Buttons\<close>

definition block_rule :: "TEnv \<Rightarrow> string \<Rightarrow> string \<Rightarrow> FilterRule" where
  "block_rule env number scope =
     \<lparr>r_ID = NewID ''rule'' (te_rand env), r_Kind = ''exact'', r_Pattern = number, r_Label = txt_manual_list, r_Category = ''manual'',
      r_Action = ''block'', r_Scope = scope, r_Enabled = True, r_CreatedAt = te_now env\<rparr>"

definition addBlock :: "TEnv \<Rightarrow> string \<Rightarrow> string \<Rightarrow> Bot \<Rightarrow> gerror option \<times> Bot" where
  "addBlock env number scope b =
     (case UpsertRule (te_store env) (block_rule env number scope) (bt_state b) of
        (r, s) \<Rightarrow> (case r of Inl e \<Rightarrow> Some e | Inr _ \<Rightarrow> None, b\<lparr>bt_svc := (bt_svc b)\<lparr>v_state := s\<rparr>\<rparr>))"

definition sendOutgoingCallLink :: "TEnv \<Rightarrow> Settings \<Rightarrow> Call option \<Rightarrow> Bot \<Rightarrow> gerror option \<times> Bot" where
  "sendOutgoingCallLink env s call b =
     (case call of
        None \<Rightarrow> (Some ''CALL_LINK_UNAVAILABLE'', b)
      | Some c \<Rightarrow>
          (case CreateActionToken (te_lib env) (te_faults env) (te_now env) (te_bytes env) ''temp_call'' (c_ID c) (3 * hour) (bt_auth b) of
             ((_, Some e), db) \<Rightarrow> (Some e, b\<lparr>bt_auth := db\<rparr>)
           | ((token, None), db) \<Rightarrow>
               (let b = b\<lparr>bt_auth := db\<rparr> in
                case send env (message_to s (txt_dialling @ c_Number c @ txt_click_below) (inline [[call_link token b]])) b of
                  (Inl e, b) \<Rightarrow> (Some e, b)
                | (Inr _, b) \<Rightarrow> (None, b))))"

definition with_svc :: "('r \<times> gerror option) \<times> Svc \<Rightarrow> Bot \<Rightarrow> gerror option \<times> Bot" where
  "with_svc res b = (snd (fst res), b\<lparr>bt_svc := snd res\<rparr>)"

text \<open>What a confirmed action does.\<close>

definition perform :: "TEnv \<Rightarrow> Settings \<Rightarrow> pendingAction \<Rightarrow> Bot \<Rightarrow> gerror option \<times> Bot" where
  "perform env s p b =
     (if pa_Kind p = ''call'' then
        (case DialRoute (te_svc env) (pa_Number p) ''web'' (pa_Route p) (bt_svc b) of
           ((_, Some e), v) \<Rightarrow> (Some e, b\<lparr>bt_svc := v\<rparr>)
         | ((call, None), v) \<Rightarrow> sendOutgoingCallLink env s call (b\<lparr>bt_svc := v\<rparr>))
      else if pa_Kind p = ''text'' then with_svc (SendSMSRoute (te_svc env) (pa_Number p) (pa_Body p) (pa_Route p) (bt_svc b)) b
      else if pa_Kind p = ''block'' then addBlock env (pa_Number p) ''both'' b
      else (None, b))"

definition on_confirm :: "TEnv \<Rightarrow> Settings \<Rightarrow> string \<Rightarrow> Bot \<Rightarrow> Bot" where
  "on_confirm env s i b =
     (let found = tget (bt_pending b) i; b = b\<lparr>bt_pending := tdel i (bt_pending b)\<rparr> in
      case found of
        None \<Rightarrow> tg_note env s txt_expired b
      | Some p \<Rightarrow>
          if pa_Expires p < te_now env then tg_note env s txt_expired b
          else (case perform env s p b of
                  (Some e, b) \<Rightarrow> tg_note env s (txt_failed @ e) b
                | (None, b) \<Rightarrow> if pa_Kind p \<noteq> ''call'' then tg_note env s txt_done b else b))"

definition on_route :: "TEnv \<Rightarrow> Settings \<Rightarrow> string \<Rightarrow> Bot \<Rightarrow> Bot" where
  "on_route env s data b =
     (case split_on (CHR '':'') data of
        [_, i, n] \<Rightarrow>
          (let rs = availableRoutes env b in
           case (atoi n, tget (bt_pending b) i) of
             (Some k, Some p) \<Rightarrow>
               if 0 \<le> k \<and> k < int (length rs)
               then (let r = rs ! nat k; p = p\<lparr>pa_Route := snd r, pa_RouteLabel := fst r\<rparr>
                     in sendConfirmation env s i p (b\<lparr>bt_pending := tput i p (bt_pending b)\<rparr>))
               else tg_note env s txt_stale_route b
           | _ \<Rightarrow> tg_note env s txt_stale_route b)
      | _ \<Rightarrow> tg_note env s txt_bad_route b)"

definition report :: "TEnv \<Rightarrow> Settings \<Rightarrow> string \<Rightarrow> gerror option \<times> Bot \<Rightarrow> Bot" where
  "report env s what r = (case r of (Some e, b) \<Rightarrow> tg_note env s (what @ e) b | (None, b) \<Rightarrow> b)"

definition on_hold :: "TEnv \<Rightarrow> string \<Rightarrow> Bot \<Rightarrow> gerror option \<times> Bot" where
  "on_hold env i b =
     with_svc (case get_Call (bt_state b) i of
                 Some call \<Rightarrow> if c_Held call then Resume (te_svc env) i (bt_svc b) else Hold (te_svc env) i (bt_svc b)
               | None \<Rightarrow> Hold (te_svc env) i (bt_svc b)) b"

definition on_call_block :: "TEnv \<Rightarrow> string \<Rightarrow> Bot \<Rightarrow> Bot" where
  "on_call_block env i b =
     (case get_Call (bt_state b) i of
        None \<Rightarrow> b
      | Some call \<Rightarrow>
          (let b = snd (addBlock env (c_Number call) ''call'' b)
           in snd (with_svc (Hangup (te_svc env) 0 i ''blocked'' (bt_svc b)) b)))"

definition handleCallback :: "TEnv \<Rightarrow> Settings \<Rightarrow> string \<Rightarrow> Bot \<Rightarrow> Bot" where
  "handleCallback env s data b =
     (if has_prefix data ''route:'' then on_route env s data b
      else case index_byte data (CHR '':'') of
        None \<Rightarrow> b
      | Some n \<Rightarrow>
          (let action = take n data; i = drop (Suc n) data in
           if action = ''confirm'' then on_confirm env s i b
           else if action = ''cancel'' then tg_note env s txt_cancelled (b\<lparr>bt_pending := tdel i (bt_pending b)\<rparr>)
           else if action = ''call_reject'' then report env s txt_hangup_failed (with_svc (Hangup (te_svc env) 0 i ''rejected'' (bt_svc b)) b)
           else if action = ''call_hold'' then report env s txt_hold_failed (on_hold env i b)
           else if action = ''call_voicemail'' then report env s txt_voicemail_failed (with_svc (TransferToVoicemail (te_svc env) i (bt_svc b)) b)
           else if action = ''call_block'' then on_call_block env i b
           else if action = ''call_reply'' then
             (case get_Call (bt_state b) i of None \<Rightarrow> b | Some call \<Rightarrow> forceReply env s (c_Number call) b)
           else if action = ''sms_reply'' then
             (case get_Message (bt_state b) i of None \<Rightarrow> b | Some msg \<Rightarrow> forceReply env s (m_Number msg) b)
           else if action = ''sms_delete'' then snd (with_svc (DeleteMessage (te_svc env) i (bt_svc b)) b)
           else if action = ''sms_block'' then
             (case get_Message (bt_state b) i of None \<Rightarrow> b | Some msg \<Rightarrow> snd (addBlock env (m_Number msg) ''sms'' b))
           else b))"

subsection \<open>Updates\<close>

record TgMessage =
  tm_MessageID :: int
  tm_Chat :: int
  tm_Text :: string
  tm_ReplyTo :: "int option"

record TgCallback =
  tc_ID :: string
  tc_Data :: string
  tc_Chat :: int

record TgUpdate =
  tu_ID :: int
  tu_Message :: "TgMessage option"
  tu_Callback :: "TgCallback option"

definition answer_callback :: "Settings \<Rightarrow> string \<Rightarrow> Out" where
  "answer_callback s i = \<lparr>ou_method = ''answerCallbackQuery'', ou_chat = 0, ou_text = [], ou_markup = NoMarkup, ou_message = None,
     ou_callback = i\<rparr>"

definition handle_message :: "TEnv \<Rightarrow> Settings \<Rightarrow> TgMessage \<Rightarrow> Bot \<Rightarrow> Bot" where
  "handle_message env s m b =
     (case Option.bind (tm_ReplyTo m) (bt_replies b) of
        Some p \<Rightarrow> handleReply env s p (trim_space (tm_Text m)) (b\<lparr>bt_replies := (bt_replies b)(the (tm_ReplyTo m) := None)\<rparr>)
      | None \<Rightarrow> handle_command env s (tm_Text m) b)"

definition handleUpdate :: "TEnv \<Rightarrow> Settings \<Rightarrow> TgUpdate \<Rightarrow> Bot \<Rightarrow> Bot" where
  "handleUpdate env s u b =
     (case tu_Callback u of
        Some c \<Rightarrow>
          if tc_Chat c \<noteq> st_TelegramChatID s then b
          else handleCallback env s (tc_Data c) (snd (send env (answer_callback s (tc_ID c)) b))
      | None \<Rightarrow>
          (case tu_Message u of
             None \<Rightarrow> b
           | Some m \<Rightarrow> if tm_Chat m \<noteq> st_TelegramChatID s then b else handle_message env s m b))"

definition setHealth :: "Env \<Rightarrow> bool \<Rightarrow> Bot \<Rightarrow> Bot" where
  "setHealth env ok b =
     (let d = sn_Device (get_Snapshot False (bt_state b)) in
      if d_TelegramOK d = ok then b
      else b\<lparr>bt_svc := (bt_svc b)\<lparr>v_state := snd (UpdateDevice env (d\<lparr>d_TelegramOK := ok\<rparr>) (bt_state b))\<rparr>\<rparr>)"

definition command_list :: markup where
  "command_list = Commands [(''start'', txt_cmd_start), (''call'', txt_cmd_call), (''text'', txt_cmd_text), (''block'', txt_cmd_block),
     (''status'', txt_cmd_status), (''help'', txt_cmd_help)]"

text \<open>The commands are announced once for a token; when that fails, again the next time.\<close>

definition ensureCommands :: "bool \<Rightarrow> Settings \<Rightarrow> Bot \<Rightarrow> Bot" where
  "ensureCommands ok s b =
     (if bt_configured b = st_TelegramToken s then b
      else b\<lparr>bt_configured := if ok then st_TelegramToken s else [],
             bt_sent := bt_sent b @ [\<lparr>ou_method = ''setMyCommands'', ou_chat = 0, ou_text = [], ou_markup = command_list,
               ou_message = None, ou_callback = []\<rparr>]\<rparr>)"

text \<open>The updates of one turn of \<^verbatim>\<open>pollLoop\<close>, each with its environment; \<open>offset\<close> is the loop's variable, \<open>bt_offset\<close>
  what is stored.\<close>

fun poll_updates :: "Settings \<Rightarrow> int \<Rightarrow> (TEnv \<times> TgUpdate) list \<Rightarrow> Bot \<Rightarrow> int \<times> Bot" where
  "poll_updates s offset [] b = (offset, b)"
| "poll_updates s offset ((env, u) # us) b =
     (let offset = (if offset \<le> tu_ID u then wrap64 (tu_ID u + 1) else offset);
          b = handleUpdate env s u b;
          b = (if te_db env 3 = None then b\<lparr>bt_offset := offset\<rparr> else b)
      in poll_updates s offset us b)"

definition poll_turn :: "Env \<Rightarrow> bool \<Rightarrow> gerror + (TEnv \<times> TgUpdate) list \<Rightarrow> int \<Rightarrow> Bot \<Rightarrow> int \<times> Bot" where
  "poll_turn env commands answer offset b =
     (let s = get_Settings (bt_state b) in
      if \<not> enabled s then (offset, b)
      else (let b = ensureCommands commands s b in
        case answer of
          Inl _ \<Rightarrow> (offset, setHealth env False b)
        | Inr us \<Rightarrow> poll_updates s offset us (setHealth env True b)))"

end
