(* ===== verification/Telegram_Props.thy ===== *)
theory Telegram_Props
  imports Telegram Sip_Props
begin

text \<open>
  What the Telegram bot guarantees: only the configured chat is heard; a text message never acts, it
  only prepares a confirmation; a confirmation acts once and not after its two minutes; an update is not asked for
  again once it was handled. One place is shown to go wrong: a call that has ended is announced again.
\<close>

subsection \<open>What sending leaves alone\<close>

lemma send_same [simp]:
  "bt_svc (snd (send env out b)) = bt_svc b" "bt_auth (snd (send env out b)) = bt_auth b"
  "bt_pending (snd (send env out b)) = bt_pending b" "bt_messages (snd (send env out b)) = bt_messages b"
  "bt_sent (snd (send env out b)) = bt_sent b @ [out]"
  by (simp_all add: send_def)

lemma note_same [simp]:
  "bt_svc (tg_note env s t b) = bt_svc b" "bt_auth (tg_note env s t b) = bt_auth b" "bt_pending (tg_note env s t b) = bt_pending b"
  by (simp_all add: tg_note_def)

lemma ask_same [simp]:
  "bt_svc (ask_user env s t p b) = bt_svc b" "bt_pending (ask_user env s t p b) = bt_pending b"
  by (simp_all add: ask_user_def send_def split: sum.split)

lemma confirmation_same [simp]:
  "bt_svc (sendConfirmation env s i p b) = bt_svc b" "bt_pending (sendConfirmation env s i p b) = bt_pending b"
  by (simp_all add: sendConfirmation_def)

text \<open>
  All that a message can make the bot do is to send, to remember a question and to note an action that waits for
  its confirmation. What these three keep is kept by every message; \<open>fresh\<close> says which environments draw
  an acceptable identifier.
\<close>

locale message_invariant =
  fixes I :: "Bot \<Rightarrow> bool" and fresh :: "TEnv \<Rightarrow> bool"
  assumes send: "I b \<Longrightarrow> I (snd (send env out b))"
    and replies: "I b \<Longrightarrow> I (b\<lparr>bt_replies := f\<rparr>)"
    and pending: "fresh env \<Longrightarrow> I b \<Longrightarrow> I (b\<lparr>bt_pending := tput (NewID ''confirm'' (te_rand env)) p (bt_pending b)\<rparr>)"
begin

lemma noted: "I b \<Longrightarrow> I (tg_note env s t b)"
  by (simp add: tg_note_def send)

lemma ask: "I b \<Longrightarrow> I (ask_user env s t p b)"
  using send [of b env "message_to s t ForceReply"] by (auto simp: ask_user_def intro: replies split: prod.split sum.split)

lemma confirm: "I b \<Longrightarrow> I (sendConfirmation env s i p b)"
  by (simp add: sendConfirmation_def send)

lemma create: "fresh env \<Longrightarrow> I b \<Longrightarrow> I (createConfirmation env s kind raw body b)"
  by (simp add: createConfirmation_def Let_def noted confirm send pending split: sum.split)

lemma reply: "fresh env \<Longrightarrow> I b \<Longrightarrow> I (handleReply env s p t b)"
  by (simp add: handleReply_def noted ask create split: sum.split)

lemma keyboard: "I b \<Longrightarrow> I (keyboard_text env s t b)"
  by (simp add: keyboard_text_def ask_call_def ask_text_def ask_block_def sendStatus_def sendHelp_def Let_def ask noted send)

lemma command:
  assumes "fresh env" "I b"
  shows "I (handle_command env s t b)"
proof (cases "Fields t")
  case (Cons word args)
  have c: "I (case args of [] \<Rightarrow> ask_call env s b | number # _ \<Rightarrow> createConfirmation env s ''call'' number [] b)"
    "I (case args of [] \<Rightarrow> ask_text env s b | [number] \<Rightarrow> ask_user env s txt_ask_body (prompt ''text'' ''body'' number) b
        | number # body \<Rightarrow> createConfirmation env s ''text'' number (join '' '' body) b)"
    "I (case args of [number] \<Rightarrow> createConfirmation env s ''block'' number [] b | _ \<Rightarrow> ask_block env s b)"
    using assms by (simp_all add: ask_call_def ask_text_def ask_block_def ask create split: list.split)
  have w: "I (sendWelcome env s b)" "I (sendHelp env s b)" "I (sendStatus env s b)"
    using assms(2) by (simp_all add: sendWelcome_def sendHelp_def sendStatus_def Let_def send noted)
  show ?thesis unfolding handle_command_def Cons Let_def list.case
    using c w keyboard [OF assms(2)] by presburger
qed (simp add: handle_command_def assms)

lemma message: "fresh env \<Longrightarrow> I b \<Longrightarrow> I (handle_message env s m b)"
  by (simp add: handle_message_def command reply replies split: option.split)

end

interpretation untouched: message_invariant "\<lambda>b. bt_svc b = v \<and> bt_auth b = a" "\<lambda>_. True" for v a
  by unfold_locales simp_all

text \<open>C32: The bot hears only its chat, and a message never acts. An update from another chat changes nothing at all; a
  text message, whatever it says, changes neither the service nor the tokens: it dials no call,
  sends no text and blocks no number, it can only prepare a confirmation.\<close>

theorem messages_only_prepare:
  "(tu_Callback u = None \<longrightarrow>
      bt_svc (handleUpdate env s u b) = bt_svc b \<and> bt_auth (handleUpdate env s u b) = bt_auth b) \<and>
   ((\<forall>c. tu_Callback u = Some c \<longrightarrow> tc_Chat c \<noteq> st_TelegramChatID s) \<and>
    (\<forall>m. tu_Message u = Some m \<longrightarrow> tm_Chat m \<noteq> st_TelegramChatID s) \<longrightarrow> handleUpdate env s u b = b)"
  using untouched.message [OF TrueI, where v = "bt_svc b" and a = "bt_auth b" and b = b] by (auto simp: handleUpdate_def split: option.split)

subsection \<open>Confirmations\<close>

text \<open>What a confirmed action does to the service.\<close>

definition effect_of :: "TEnv \<Rightarrow> pendingAction \<Rightarrow> Svc \<Rightarrow> Svc" where
  "effect_of env p v =
     (if pa_Kind p = ''call'' then snd (DialRoute (te_svc env) (pa_Number p) ''web'' (pa_Route p) v)
      else if pa_Kind p = ''text'' then snd (SendSMSRoute (te_svc env) (pa_Number p) (pa_Body p) (pa_Route p) v)
      else if pa_Kind p = ''block''
      then v\<lparr>v_state := snd (UpsertRule (te_store env) (block_rule env (pa_Number p) ''both'') (v_state v))\<rparr>
      else v)"

lemma link_same [simp]:
  "bt_svc (snd (sendOutgoingCallLink env s c b)) = bt_svc b"
  "bt_pending (snd (sendOutgoingCallLink env s c b)) = bt_pending b"
  by (auto simp: sendOutgoingCallLink_def send_def Let_def split: option.split prod.split sum.split)

lemma perform_svc: "bt_svc (snd (perform env s p b)) = effect_of env p (bt_svc b)"
  by (auto simp: perform_def effect_of_def with_svc_def addBlock_def split: prod.split option.split)

lemma addBlock_same [simp]: "bt_pending (snd (addBlock env n sc b)) = bt_pending b"
  by (simp add: addBlock_def split: prod.split)

lemma with_svc_same [simp]: "bt_pending (snd (with_svc r b)) = bt_pending b" "bt_svc (snd (with_svc r b)) = snd r"
  by (simp_all add: with_svc_def)

lemma perform_pending: "bt_pending (snd (perform env s p b)) = bt_pending b"
  by (auto simp: perform_def split: prod.split option.split)

lemma on_confirm_svc:
  "bt_svc (on_confirm env s i b) =
     (case tget (bt_pending b) i of
        None \<Rightarrow> bt_svc b
      | Some p \<Rightarrow> if te_now env \<le> pa_Expires p then effect_of env p (bt_svc b) else bt_svc b)"
proof (cases "tget (bt_pending b) i")
  case (Some p)
  then show ?thesis
    using perform_svc [of env s p "b\<lparr>bt_pending := tdel i (bt_pending b)\<rparr>"]
    by (auto simp: on_confirm_def Let_def split: prod.split option.split)
qed (simp add: on_confirm_def)

lemma on_confirm_pending: "bt_pending (on_confirm env s i b) = tdel i (bt_pending b)"
proof (cases "tget (bt_pending b) i")
  case (Some p)
  then show ?thesis
    using perform_pending [of env s p "b\<lparr>bt_pending := tdel i (bt_pending b)\<rparr>"]
    by (auto simp: on_confirm_def Let_def split: prod.split option.split)
qed (simp add: on_confirm_def)

lemma confirm_data: "handleCallback env s (''confirm:'' @ i) b = on_confirm env s i b"
  by (simp add: handleCallback_def Let_def)

text \<open>No update brings back the identifier of an action that is gone, unless it draws that identifier anew.\<close>

definition pending_free :: "string \<Rightarrow> Bot \<Rightarrow> bool" where
  "pending_free i b \<longleftrightarrow> tget (bt_pending b) i = None"

interpretation gone: message_invariant "pending_free i" "\<lambda>env. NewID ''confirm'' (te_rand env) \<noteq> i" for i
  by unfold_locales (simp_all add: pending_free_def)

lemma report_same [simp]: "bt_pending (report env s t r) = bt_pending (snd r)"
  by (cases r) (auto simp: report_def split: option.split)

lemma callback_free:
  assumes "pending_free i b"
  shows "pending_free i (handleCallback env s data b)"
proof -
  have route: "pending_free i (on_route env s data b)"
    using assms by (auto simp: pending_free_def on_route_def Let_def split: list.split option.split)
  have hold: "bt_pending (snd (on_hold env j b)) = bt_pending b" for j by (simp add: on_hold_def)
  have block: "bt_pending (on_call_block env j b) = bt_pending b" for j
    by (simp add: on_call_block_def Let_def split: option.split)
  show ?thesis
    using assms route
    by (auto simp: handleCallback_def pending_free_def on_confirm_pending hold block forceReply_def Let_def
        split: option.split)
qed

lemma update_free:
  assumes "pending_free i b" "NewID ''confirm'' (te_rand env) \<noteq> i"
  shows "pending_free i (handleUpdate env s u b)"
  using gone.message [OF assms(2,1)] assms(1) callback_free [OF gone.send [OF assms(1)]]
  by (simp add: handleUpdate_def split: option.split)

definition bot_run :: "(TEnv \<times> Settings \<times> TgUpdate) list \<Rightarrow> Bot \<Rightarrow> Bot" where
  "bot_run us b = fold (\<lambda>(env, s, u). handleUpdate env s u) us b"

lemma run_free:
  assumes "pending_free i b" "\<forall>(env, s, u) \<in> set us. NewID ''confirm'' (te_rand env) \<noteq> i"
  shows "pending_free i (bot_run us b)"
  using assms by (induction us arbitrary: b) (auto simp: bot_run_def update_free)

text \<open>C31: A confirmation acts once. Pressing its button does to the service exactly what was to be confirmed (the call
  is dialled, the text sent, the number blocked), provided it is still there and its two minutes have not
  passed, and nothing otherwise; and pressing it again, after any further updates that draw other
  identifiers, never does anything to the service.\<close>

theorem confirmation_acts_once:
  assumes "\<forall>(env, s, u) \<in> set us. NewID ''confirm'' (te_rand env) \<noteq> i"
  shows "bt_svc (handleCallback env s (''confirm:'' @ i) b) =
      (case tget (bt_pending b) i of
         None \<Rightarrow> bt_svc b
       | Some p \<Rightarrow> if te_now env \<le> pa_Expires p then effect_of env p (bt_svc b) else bt_svc b) \<and>
    bt_svc (handleCallback env' s' (''confirm:'' @ i) (bot_run us (handleCallback env s (''confirm:'' @ i) b))) =
      bt_svc (bot_run us (handleCallback env s (''confirm:'' @ i) b))"
proof -
  have "pending_free i (handleCallback env s (''confirm:'' @ i) b)"
    by (simp add: pending_free_def confirm_data on_confirm_pending del: append.simps)
  from run_free [OF this assms] show ?thesis
    by (simp add: pending_free_def confirm_data on_confirm_svc del: append.simps)
qed

definition demo_tenv :: TEnv where
  "demo_tenv = \<lparr>te_now = 60, te_svc = demo_senv, te_store = demo_env 60, te_rand = [1, 2], te_lib = demo_hash, te_faults = (\<lambda>_. None),
     te_bytes = ''fresh'', te_api = (\<lambda>n _. Inr (200, [], Inr (True, [], int n + 1))), te_db = (\<lambda>_. None), te_build = ([], [], [])\<rparr>"

definition demo_chat :: Settings where
  "demo_chat = defaultSettings\<lparr>st_TelegramEnabled := True, st_TelegramToken := ''t'', st_TelegramChatID := 7\<rparr>"

definition demo_bot :: Bot where
  "demo_bot = (new_bot demo_svc demo_authdb ''https://onsim.local/'' [] 0)\<lparr>bt_pending := [(''confirm_09'',
     \<lparr>pa_Kind = ''block'', pa_Number = ''+8613800138000'', pa_Body = [], pa_Route = any_route, pa_RouteLabel = [], pa_Expires = 100\<rparr>)]\<rparr>"

definition demo_text :: "string \<Rightarrow> TgUpdate" where
  "demo_text t = \<lparr>tu_ID = 5, tu_Message = Some \<lparr>tm_MessageID = 1, tm_Chat = 7, tm_Text = t, tm_ReplyTo = None\<rparr>, tu_Callback = None\<rparr>"

theorem messages_only_prepare_witness:
  "bt_svc (handleUpdate demo_tenv demo_chat (demo_text ''/call 10086'') demo_bot) = bt_svc demo_bot"
  using messages_only_prepare [of "demo_text ''/call 10086''" demo_tenv demo_chat demo_bot] by (simp add: demo_text_def)

theorem confirmation_acts_once_witness:
  "bt_svc (handleCallback demo_tenv demo_chat (''confirm:'' @ ''confirm_09'')
     (bot_run [(demo_tenv, demo_chat, demo_text ''/status'')] (handleCallback demo_tenv demo_chat (''confirm:'' @ ''confirm_09'') demo_bot))) =
   bt_svc (bot_run [(demo_tenv, demo_chat, demo_text ''/status'')] (handleCallback demo_tenv demo_chat (''confirm:'' @ ''confirm_09'') demo_bot))"
proof -
  have "NewID ''confirm'' (te_rand demo_tenv) \<noteq> ''confirm_09''" by code_simp
  then show ?thesis
    using confirmation_acts_once [of "[(demo_tenv, demo_chat, demo_text ''/status'')]" "''confirm_09''" demo_tenv demo_chat demo_bot]
    by (simp del: append.simps)
qed

text \<open>A number that was blocked from Telegram is blocked for calls and texts by a rule of its own.\<close>

lemma blocked_number_rule:
  assumes "pa_Kind p = ''block''" "env_fault (te_store env) 0 = None" "tget (mem_rules (s_mem (v_state v))) (NewID ''rule'' (te_rand env)) = None"
    and "\<not> version_taken (NewID ''rule'' (te_rand env)) 1 (v_state v)"
  shows "tget (mem_rules (s_mem (v_state (effect_of env p v)))) (NewID ''rule'' (te_rand env)) =
      Some (block_rule env (pa_Number p) ''both'') \<and>
    applies lib (block_rule env (pa_Number p) ''both'') (pa_Number p) body scope"
proof -
  let ?r = "block_rule env (pa_Number p) ''both''"
  have "\<exists>e. UpsertRule (te_store env) ?r (v_state v) = (Inr e, logged (te_store env) ''rule.upserted'' (r_ID ?r) 1 (PRule ?r)
      (db_last (s_db (v_state v)) + 1) (v_state v))"
    using append_accepted [of "''rule.upserted''" "PRule ?r" "te_store env" "r_ID ?r" 1 "v_state v"] assms(2-4)
    by (auto simp: UpsertRule_def block_rule_def)
  then show ?thesis using assms(1) by (auto simp: effect_of_def applies_def block_rule_def)
qed

subsection \<open>Polling\<close>

text \<open>An identifier whose successor is a 64-bit number.\<close>

definition has_successor :: "TgUpdate \<Rightarrow> bool" where
  "has_successor u \<longleftrightarrow> - (2 ^ 63) \<le> tu_ID u \<and> tu_ID u < 2 ^ 63 - 1"

lemma wrap64_successor: "has_successor u \<Longrightarrow> wrap64 (tu_ID u + 1) = tu_ID u + 1"
  by (simp add: has_successor_def wrap64_def signed_take_bit_int_eq_self_iff)

lemma poll_offset:
  assumes "poll_updates s offset us b = (offset', b')" "list_all (\<lambda>(_, u). has_successor u) us"
  shows "offset \<le> offset' \<and> (\<forall>(env, u) \<in> set us. tu_ID u < offset') \<and>
    (us \<noteq> [] \<and> te_db (fst (last us)) 3 = None \<longrightarrow> bt_offset b' = offset')"
  using assms
proof (induction s offset us b rule: poll_updates.induct)
  case (2 s offset env u us b)
  let ?o = "if offset \<le> tu_ID u then wrap64 (tu_ID u + 1) else offset"
  have w: "has_successor u" "list_all (\<lambda>(_, u). has_successor u) us" using "2.prems"(2) by auto
  obtain b1 where step: "poll_updates s ?o us b1 = (offset', b')"
    and b1: "b1 = (if te_db env 3 = None then (handleUpdate env s u b)\<lparr>bt_offset := ?o\<rparr> else handleUpdate env s u b)"
    using "2.prems"(1) by (simp add: Let_def)
  have "?o \<le> offset' \<and> (\<forall>(env, u) \<in> set us. tu_ID u < offset') \<and>
      (us \<noteq> [] \<and> te_db (fst (last us)) 3 = None \<longrightarrow> bt_offset b' = offset')"
    using "2.IH" [OF refl refl] step b1 w by (auto simp: Let_def)
  moreover have "us = [] \<Longrightarrow> te_db env 3 = None \<Longrightarrow> bt_offset b' = offset'" using step b1 by auto
  ultimately show ?case using wrap64_successor [OF w(1)] by (auto split: if_splits)
qed simp

text \<open>C33: No update is asked for twice. The offset never goes back, after a turn it is above the identifier of every update
  that was handled, and it is what the database holds when its last write succeeded, so that a restart
  goes on from there.\<close>

theorem updates_not_repeated:
  assumes "poll_turn env commands (Inr us) offset b = (offset', b')" "enabled (get_Settings (bt_state b))"
    and "list_all (\<lambda>(_, u). has_successor u) us"
  shows "offset \<le> offset' \<and> (\<forall>(env, u) \<in> set us. tu_ID u < offset') \<and>
    (us \<noteq> [] \<and> te_db (fst (last us)) 3 = None \<longrightarrow> bt_offset b' = offset')"
  using assms by (intro poll_offset) (auto simp: poll_turn_def Let_def)

theorem updates_not_repeated_witness:
  "5 < fst (poll_turn (demo_env 60) True (Inr [(demo_tenv, demo_text ''/help'')]) 3
     (demo_bot\<lparr>bt_svc := demo_svc\<lparr>v_state := demo_state\<lparr>s_mem := (initMem 0)\<lparr>mem_settings := demo_chat\<rparr>\<rparr>\<rparr>\<rparr>))"
proof -
  let ?b = "demo_bot\<lparr>bt_svc := demo_svc\<lparr>v_state := demo_state\<lparr>s_mem := (initMem 0)\<lparr>mem_settings := demo_chat\<rparr>\<rparr>\<rparr>\<rparr>"
  obtain o' b' where p: "poll_turn (demo_env 60) True (Inr [(demo_tenv, demo_text ''/help'')]) 3 ?b = (o', b')" by fastforce
  have "enabled (get_Settings (bt_state ?b))"
    by (simp add: enabled_def get_Settings_def default_timeout_def demo_chat_def)
  from updates_not_repeated [OF p this] have "5 < o'" by (simp add: demo_text_def has_successor_def)
  then show ?thesis by (simp add: p)
qed

subsection \<open>A call that is over\<close>

lemma notified_first:
  assumes "enabled (get_Settings (bt_state b))" "tget (bt_messages b) (c_ID call) = None"
    and "CreateActionToken (te_lib env) (te_faults env) (te_now env) (te_bytes env) ''temp_call'' (c_ID call) (3 * hour) (bt_auth b) = ((token, None), db)"
  shows "\<exists>out. bt_sent (upsertCallNotification env call b) = bt_sent b @ [out] \<and> ou_method out = ''sendMessage''"
  using assms
  by (auto simp: upsertCallNotification_def notify_call_def message_to_def send_def Let_def split: option.split sum.split)

text \<open>C34: A call that has ended is announced again. The end of a call updates its message and forgets it; the loop that
  watches the call looks at it once more before it stops, finds no message and sends a new one, with a new
  link, which is never forgotten.\<close>

theorem ended_call_announced_again:
  assumes "tg_CallEnded env call b = b1" "te_db env 2 = None" "get_Call (bt_state b1) (c_ID call) = Some call" "c_State call = CallEnded"
    and "enabled (get_Settings (bt_state b1))"
    and "CreateActionToken (te_lib env') (te_faults env') (te_now env') (te_bytes env') ''temp_call'' (c_ID call) (3 * hour) (bt_auth b1) = ((token, None), db)"
  shows "\<exists>out b2. watch_turn env' (c_ID call) b1 = (False, b2) \<and> bt_sent b2 = bt_sent b1 @ [out] \<and> ou_method out = ''sendMessage''"
proof -
  have "tget (bt_messages b1) (c_ID call) = None" using assms(1,2) by (auto simp: tg_CallEnded_def Let_def)
  then show ?thesis using notified_first [OF assms(5) _ assms(6)] assms(3,4) by (auto simp: watch_turn_def watch_over_def)
qed

definition demo_over :: Bot where
  "demo_over = demo_bot\<lparr>bt_svc := demo_svc\<lparr>v_state := demo_state\<lparr>s_mem := (initMem 0)\<lparr>mem_settings := demo_chat,
     mem_calls := [(''call_1'', zeroCall\<lparr>c_ID := ''call_1'', c_State := CallEnded\<rparr>)]\<rparr>\<rparr>\<rparr>,
     bt_messages := [(''call_1'', \<lparr>cm_chat = 7, cm_message = 4, cm_token = ''x''\<rparr>)]\<rparr>"

theorem ended_call_announced_again_witness:
  "\<exists>out. bt_sent (snd (watch_turn demo_tenv ''call_1'' (tg_CallEnded demo_tenv (zeroCall\<lparr>c_ID := ''call_1'', c_State := CallEnded\<rparr>) demo_over))) =
     bt_sent (tg_CallEnded demo_tenv (zeroCall\<lparr>c_ID := ''call_1'', c_State := CallEnded\<rparr>) demo_over) @ [out] \<and> ou_method out = ''sendMessage''"
proof -
  let ?c = "zeroCall\<lparr>c_ID := ''call_1'', c_State := CallEnded\<rparr>"
  have on: "enabled (get_Settings (bt_state demo_over))"
    by (simp add: demo_over_def enabled_def get_Settings_def default_timeout_def demo_chat_def)
  have row: "tget (bt_messages demo_over) ''call_1'' = Some \<lparr>cm_chat = 7, cm_message = 4, cm_token = ''x''\<rparr>" by (simp add: demo_over_def)
  have db: "te_db demo_tenv n = None" for n by (simp add: demo_tenv_def)
  have b1: "bt_svc (tg_CallEnded demo_tenv ?c demo_over) = bt_svc demo_over" "bt_auth (tg_CallEnded demo_tenv ?c demo_over) = demo_authdb"
    using on row db by (simp_all add: tg_CallEnded_def upsertCallNotification_def notify_call_def Let_def)
      (simp add: demo_over_def demo_bot_def new_bot_def)
  have "tokenHash demo_hash (randomToken ''fresh'') \<noteq> tokenHash demo_hash ''tok''" by code_simp
  then obtain db' where tok: "CreateActionToken (te_lib demo_tenv) (te_faults demo_tenv) (te_now demo_tenv) (te_bytes demo_tenv) ''temp_call'' (c_ID ?c)
      (3 * hour) (bt_auth (tg_CallEnded demo_tenv ?c demo_over)) = ((randomToken ''fresh'', None), db')"
    unfolding b1 by (simp add: CreateActionToken_def demo_tenv_def demo_authdb_def Let_def)
  have call: "get_Call (bt_state (tg_CallEnded demo_tenv ?c demo_over)) (c_ID ?c) = Some ?c"
    unfolding b1 by (simp add: get_Call_def demo_over_def)
  obtain out b2 where "watch_turn demo_tenv (c_ID ?c) (tg_CallEnded demo_tenv ?c demo_over) = (False, b2)"
    "bt_sent b2 = bt_sent (tg_CallEnded demo_tenv ?c demo_over) @ [out]" "ou_method out = ''sendMessage''"
    using ended_call_announced_again [OF refl db call _ _ tok] on by (auto simp: b1)
  then show ?thesis by auto
qed

end
