(* ===== verification/Onsim_Main.thy ===== *)
theory Onsim_Main
  imports Config Http_Props Telegram_Props Modem_Multi Modem_AT
begin

text \<open>
  The program (\<^verbatim>\<open>cmd/onsim/main.go\<close>): how the components are made and connected, the supervision of the disk
  and what happens to all components when a call ends. The service, the sign-in tables, the media manager and
  the SIP gateway are those of the HTTP interface (\<open>Sys\<close>); the bot shares the service and the tables, so that
  its own copies are replaced by the shared ones before each of its operations (\<open>run_bot\<close>).
\<close>

subsection \<open>Starting\<close>

definition initial_device :: "Config \<Rightarrow> DeviceStatus \<Rightarrow> DeviceStatus" where
  "initial_device cfg d = d\<lparr>d_ATPort := cf_ATPort cfg, d_AudioPort := cf_AudioPort cfg, d_Mode := ''starting'',
     d_GatewayType := cf_GatewayMode cfg, d_ATConnected := False, d_AudioCapable := False, d_Registered := False,
     d_VoiceReady := False, d_Signal := -1, d_SignalDBm := -1, d_Degraded := []\<rparr>"

definition local_address :: "nat \<Rightarrow> string" where
  "local_address port = ''127.0.0.1:'' @ show_nat port"

definition android_gateway :: "Config \<Rightarrow> nat \<Rightarrow> ConfigGateway \<Rightarrow> string \<times> AndroidConfig" where
  "android_gateway cfg index g =
     (let or = (\<lambda>v d. if v = [] then d else v)
      in (cg_ID g,
          \<lparr>ac_ADB = cf_AndroidADB cfg, ac_ADBHome = cf_AndroidADBHome cfg,
           ac_ADBServerSocket = cf_AndroidADBServerSocket cfg, ac_Serial = cg_Serial g,
           ac_SubscriptionID = or (cg_SubscriptionID g) ''auto'', ac_TokenPath = cf_AndroidToken cfg,
           ac_ControlAddr = or (cg_ControlAddr g) (local_address (47100 + index * 2)),
           ac_AudioAddr = or (cg_AudioAddr g) (local_address (47101 + index * 2))\<rparr>))"

definition android_gateways :: "Config \<Rightarrow> (string \<times> AndroidConfig) list" where
  "android_gateways cfg = map (\<lambda>(i, g). android_gateway cfg i g) (enumerate 0 (cf_AndroidGateways cfg))"

datatype Controller = Phones Multi | MockModem Mock | ATModem AT

definition new_AT :: "string \<Rightarrow> AT" where
  "new_AT control = \<lparr>at_open = False, at_healthy = False, at_audio = False, at_lastClip = [], at_events = [],
     at_out = [], at_control = (control \<noteq> []), at_ctl = []\<rparr>"

text \<open>\<^verbatim>\<open>modem.New\<close>\<close>

definition new_modem :: "string \<Rightarrow> string \<Rightarrow> Controller" where
  "new_modem mode control = (if mode = ''mock'' then MockModem newMock else ATModem (new_AT control))"

definition make_controller :: "Config \<Rightarrow> gerror + string option \<Rightarrow> gerror + Controller" where
  "make_controller cfg token =
     (if cf_GatewayMode cfg = ''android''
      then (case token of
              Inl e \<Rightarrow> Inl (''prepare android gateway token: '' @ e)
            | Inr _ \<Rightarrow>
                if android_gateways cfg = [] then Inl ''no Android gateways configured''
                else Inr (Phones (NewMultiAndroid (android_gateways cfg))))
      else Inr (new_modem (cf_GatewayMode cfg) (cf_ControlPort cfg)))"

definition sip_config :: "Config \<Rightarrow> SipConfig" where
  "sip_config cfg = \<lparr>sc_Listen = cf_SIPListen cfg, sc_Asterisk = cf_SIPAsterisk cfg, sc_Target = cf_SIPTarget cfg,
     sc_GeneratedConfig = cf_AsteriskConfig cfg\<rparr>"

text \<open>What the program finds when it starts: the database with its tables and the files.\<close>

record StartIO =
  si_newGCM :: "string \<Rightarrow> gerror + aead"
  si_open :: open_io
  si_now :: gtime
  si_sip :: "gerror option"
  si_store :: Env
  si_token :: "FileStat \<times> gerror option \<times> (gerror + nat list)"
  si_auth :: AuthDB
  si_files :: files
  si_idem :: "Idem table"
  si_messages :: "CallMessage table"
  si_offset :: int

record Program =
  pg_cfg :: Config
  pg_modem :: Controller
  pg_sys :: Sys
  pg_bot :: Bot

definition main_start :: "environment \<Rightarrow> (string \<Rightarrow> json option) \<Rightarrow> StartIO \<Rightarrow> gerror + Program" where
  "main_start getenv parse io =
     (let cfg = Load getenv parse in
      case OpenWithKey (si_newGCM io) (si_now io) (si_open io) of
        Inl e \<Rightarrow> Inl (''open database: '' @ e)
      | Inr s \<Rightarrow>
          (let s = snd (UpdateDevice (si_store io) (initial_device cfg (sn_Device (get_Snapshot False s))) s);
               (stat, mkdir, rand) = si_token io in
           case make_controller cfg (GenerateAndroidToken stat mkdir rand) of
             Inl e \<Rightarrow> Inl e
           | Inr modem \<Rightarrow>
               (case new_sip (si_sip io) (sip_config cfg) of
                  Inl e \<Rightarrow> Inl (''initialize SIP gateway: '' @ e)
                | Inr g \<Rightarrow>
                    (let svc = AddObserver (AddObserver (AddObserver (new_service s (si_now io))));
                         mgr = SetMediaTimeoutHandler (new_manager (cf_Recordings cfg))
                     in Inr \<lparr>pg_cfg = cfg, pg_modem = modem,
                             pg_sys = \<lparr>sy_svc = svc, sy_auth = si_auth io, sy_mgr = mgr, sy_files = si_files io,
                                       sy_sip = Some g, sy_attempts = [], sy_idem = si_idem io\<rparr>,
                             pg_bot = new_bot svc (si_auth io) (cf_PublicURL cfg) (si_messages io) (si_offset io)\<rparr>))))"

text \<open>The address that is served, whether with encryption, and the address of the redirecting server, if any.\<close>

definition main_listen :: "Config \<Rightarrow> string \<times> bool \<times> string option" where
  "main_listen cfg =
     (if cf_TLSListen cfg \<noteq> [] then cf_TLSListen cfg else cf_Listen cfg, cf_TLSListen cfg \<noteq> [],
      if cf_HTTPListen cfg \<noteq> [] \<and> cf_TLSListen cfg \<noteq> [] then Some (cf_HTTPListen cfg) else None)"

text \<open>
  The server for requests without encryption answers a health question, gives out the certificate of the local
  authority and sends everything else to the public address, which is an absolute one; \<open>uri\<close> is the path and the
  query of the request.
\<close>

definition redirect_target :: "string \<Rightarrow> string \<Rightarrow> string" where
  "redirect_target publicURL uri = rev (dropWhile (\<lambda>c. c = CHR ''/'') (rev publicURL)) @ uri"

definition redirect_handler :: "string \<Rightarrow> string \<Rightarrow> string \<Rightarrow> string \<Rightarrow> Response" where
  "redirect_handler caPath publicURL path uri =
     (if path = ''/healthz'' then
        \<lparr>rs_Code = 200, rs_Headers = [(''Content-Type'', ''text/plain'')], rs_Cookies = [], rs_Body = TextBody [0x6F, 0x6B, 0x0A]\<rparr>
      else if path = ''/onsim-ca.crt'' then
        if Clean caPath = ''.'' then http_Error (map of_char ''404 page not found'') 404
        else \<lparr>rs_Code = 200, rs_Headers = [(''Content-Type'', ''application/x-x509-ca-cert''),
                (''Content-Disposition'', ''attachment; filename='' @ dquoted ''onsim-ca.crt'')], rs_Cookies = [], rs_Body = FileBody caPath\<rparr>
      else \<lparr>rs_Code = 308, rs_Headers = [(''Location'', redirect_target publicURL uri)], rs_Cookies = [], rs_Body = NoBody\<rparr>)"

subsection \<open>The disk\<close>

text \<open>\<^verbatim>\<open>monitorDisk\<close>: the blocks of the file system and those that are free, as 64-bit numbers that are turned into
  floating point ones.\<close>

definition disk_used :: "nat \<Rightarrow> nat \<Rightarrow> float64" where
  "disk_used blocks bavail =
     (let total = fl (of_nat blocks); used = fl (total - fl (of_nat bavail)) in fl (fl (used / total) * 100))"

definition disk_check :: "(nat \<times> nat) option \<Rightarrow> Env \<Rightarrow> State \<Rightarrow> State" where
  "disk_check stat env s =
     (case stat of
        None \<Rightarrow> s
      | Some (blocks, bavail) \<Rightarrow> if fl (of_nat blocks) = 0 then s else snd (UpdateDiskUsage env (disk_used blocks bavail) s))"

subsection \<open>The end of a call\<close>

definition run_bot :: "(Bot \<Rightarrow> Bot) \<Rightarrow> Program \<Rightarrow> Program" where
  "run_bot f p =
     (let sy = pg_sys p; b = f ((pg_bot p)\<lparr>bt_svc := sy_svc sy, bt_auth := sy_auth sy\<rparr>)
      in p\<lparr>pg_bot := b, pg_sys := sy\<lparr>sy_svc := bt_svc b, sy_auth := bt_auth b\<rparr>\<rparr>)"

text \<open>The handler of a browser that did not connect in time.\<close>

definition media_timed_out :: "SEnv \<Rightarrow> string \<Rightarrow> Program \<Rightarrow> Program" where
  "media_timed_out env callID p =
     p\<lparr>pg_sys := (pg_sys p)\<lparr>sy_svc := snd (Hangup env 0 callID ''media_timeout'' (sy_svc (pg_sys p)))\<rparr>\<rparr>"

text \<open>The three observers, in the order in which they are registered. The service starts a goroutine for each, so
  that they run in any order.\<close>

datatype Observer = BotObserver | SipObserver | CleanupObserver

instantiation Observer :: enum
begin

definition enum_Observer :: "Observer list" where
  "enum_Observer = [BotObserver, SipObserver, CleanupObserver]"

definition enum_all_Observer :: "(Observer \<Rightarrow> bool) \<Rightarrow> bool" where
  "enum_all_Observer P \<longleftrightarrow> P BotObserver \<and> P SipObserver \<and> P CleanupObserver"

definition enum_ex_Observer :: "(Observer \<Rightarrow> bool) \<Rightarrow> bool" where
  "enum_ex_Observer P \<longleftrightarrow> P BotObserver \<or> P SipObserver \<or> P CleanupObserver"

instance
proof
  show univ: "UNIV = set (enum_class.enum :: Observer list)"
    by (auto simp: enum_Observer_def intro: Observer.exhaust)
  show "distinct (enum_class.enum :: Observer list)" by (simp add: enum_Observer_def)
  show "enum_class.enum_all P \<longleftrightarrow> Ball (UNIV :: Observer set) P" for P
    by (auto simp: enum_all_Observer_def univ enum_Observer_def)
  show "enum_class.enum_ex P \<longleftrightarrow> Bex (UNIV :: Observer set) P" for P
    by (auto simp: enum_ex_Observer_def univ enum_Observer_def)
qed

end

record EndEnv =
  ee_bot :: TEnv
  ee_rec :: RecEnv

definition callCleanup :: "RecEnv \<Rightarrow> Call \<Rightarrow> Sys \<Rightarrow> Sys" where
  "callCleanup env call sy =
     (case EndCall env (c_ID call) (sy_mgr sy) (sy_state sy) of (m, s) \<Rightarrow> set_state s (sy\<lparr>sy_mgr := m\<rparr>))"

fun observe_end :: "EndEnv \<Rightarrow> Call \<Rightarrow> Observer \<Rightarrow> Program \<Rightarrow> Program" where
  "observe_end env call BotObserver p = run_bot (tg_CallEnded (ee_bot env) call) p"
| "observe_end env call SipObserver p =
     p\<lparr>pg_sys := (pg_sys p)\<lparr>sy_sip := map_option (\<lambda>g. snd (sip_CallEnded call g)) (sy_sip (pg_sys p))\<rparr>\<rparr>"
| "observe_end env call CleanupObserver p = p\<lparr>pg_sys := callCleanup (ee_rec env) call (pg_sys p)\<rparr>"

subsection \<open>What the observers leave behind\<close>

text \<open>
  What the service relies on when it starts its observers: there is something that every observer keeps (\<open>fit\<close>) and
  that lets one of them do its duty, and a duty that is done stays done. Then it is done after all of them ran, in
  any order and however often.
\<close>

locale observers =
  fixes observe :: "'o \<Rightarrow> 'p \<Rightarrow> 'p" and responsible :: 'o and fit :: "'p \<Rightarrow> bool" and discharged :: "'p \<Rightarrow> bool"
  assumes fit_kept: "fit p \<Longrightarrow> fit (observe x p)"
    and discharges: "fit p \<Longrightarrow> discharged (observe responsible p)"
    and discharged_kept: "discharged p \<Longrightarrow> discharged (observe x p)"
begin

lemma stays_discharged: "discharged p \<Longrightarrow> discharged (fold observe xs p)"
  by (induction xs arbitrary: p) (simp_all add: discharged_kept)

lemma after_all: "responsible \<in> set xs \<Longrightarrow> fit p \<Longrightarrow> discharged (fold observe xs p)"
proof (induction xs arbitrary: p)
  case (Cons x xs)
  then show ?case by (cases "x = responsible") (simp_all add: discharges stays_discharged fit_kept)
qed simp

end

definition leg_of :: "string \<Rightarrow> Program \<Rightarrow> Leg option" where
  "leg_of i p = (case sy_sip (pg_sys p) of None \<Rightarrow> None | Some g \<Rightarrow> tget (sg_legs g) i)"

definition leg_stopped :: "nat \<Rightarrow> Program \<Rightarrow> bool" where
  "leg_stopped c p \<longleftrightarrow> (case sy_sip (pg_sys p) of None \<Rightarrow> False | Some g \<Rightarrow> c \<in> set (sg_cancelled g))"

lemma sip_CallEnded_legs:
  "tget (sg_legs (snd (sip_CallEnded call g))) i = (if i = c_ID call then None else tget (sg_legs g) i)"
  "set (sg_cancelled (snd (sip_CallEnded call g))) =
     set (sg_cancelled g) \<union> (case tget (sg_legs g) (c_ID call) of None \<Rightarrow> {} | Some l \<Rightarrow> {lg_cancel l})"
  by (auto simp: sip_CallEnded_def split: option.split)

lemma observe_end_sip:
  "sy_sip (pg_sys (observe_end env call obs p)) =
     (if obs = SipObserver then map_option (\<lambda>g. snd (sip_CallEnded call g)) (sy_sip (pg_sys p)) else sy_sip (pg_sys p))"
  by (cases obs) (auto simp: run_bot_def Let_def callCleanup_def set_state_def split: prod.split)

lemma observe_end_bot:
  "bt_messages (pg_bot (observe_end env call obs p)) =
     (if obs = BotObserver
      then bt_messages (tg_CallEnded (ee_bot env) call ((pg_bot p)\<lparr>bt_svc := sy_svc (pg_sys p), bt_auth := sy_auth (pg_sys p)\<rparr>))
      else bt_messages (pg_bot p))"
  by (cases obs) (auto simp: run_bot_def Let_def)

lemma observe_end_mgr:
  "sy_mgr (pg_sys (observe_end env call obs p)) =
     (if obs = CleanupObserver then fst (EndCall (ee_rec env) (c_ID call) (sy_mgr (pg_sys p)) (sy_state (pg_sys p)))
      else sy_mgr (pg_sys p))"
  by (cases obs) (auto simp: run_bot_def Let_def callCleanup_def set_state_def split: prod.split)

declare observe_end.simps [simp del]

lemma StopRecording_recorder:
  "mg_recorder (fst (snd (StopRecording env i m s))) = (if has_recording i m then None else mg_recorder m)"
  "mg_webSessions (fst (snd (StopRecording env i m s))) = mg_webSessions m"
  "mg_cancelled (fst (snd (StopRecording env i m s))) = mg_cancelled m"
  "mg_cancel (fst (snd (StopRecording env i m s))) = mg_cancel m"
  by (auto simp: StopRecording_def has_recording_def Let_def split: option.split sum.split prod.split)

lemma EndCall_manager:
  "\<not> has_recording i (fst (EndCall env i m s))"
  "mg_webSessions (fst (EndCall env i m s)) = mg_webSessions m"
  "mg_cancel (fst (EndCall env i m s)) = mg_cancel m"
  "set (mg_cancelled (fst (EndCall env i m s))) = set (mg_cancelled m) \<union>
     (case tget (mg_webSessions m) i of None \<Rightarrow> {} | Some c \<Rightarrow> {c}) \<union> (case mg_cancel m of None \<Rightarrow> {} | Some c \<Rightarrow> {c})"
  using StopRecording_recorder [of env i "stopWebSession i m" s]
  by (auto simp: EndCall_def Let_def case_prod_unfold stopWebSession_def cancel_ctx_def has_recording_def split: option.split)

text \<open>The duties of the three observers at the end of the call \<open>call\<close>.\<close>

lemmas sip_duty = observe_end_sip leg_of_def leg_stopped_def sip_CallEnded_legs option.case_eq_if option.map_sel
lemmas media_duty = observe_end_mgr EndCall_manager

interpretation dialog_removed: observers "observe_end env call" SipObserver "\<lambda>_. True" "\<lambda>p. leg_of (c_ID call) p = None" for env call
  by unfold_locales (auto simp: sip_duty)

interpretation dialog_stopped: observers "observe_end env call" SipObserver
    "\<lambda>p. leg_of (c_ID call) p = Some l \<or> leg_stopped (lg_cancel l) p" "leg_stopped (lg_cancel l)" for env call l
  by unfold_locales (auto simp: sip_duty split: if_splits)

interpretation recording_stopped: observers "observe_end env call" CleanupObserver
    "\<lambda>_. True" "\<lambda>p. \<not> has_recording (c_ID call) (sy_mgr (pg_sys p))" for env call
  by unfold_locales (auto simp: media_duty)

interpretation sound_stopped: observers "observe_end env call" CleanupObserver
    "\<lambda>p. tget (mg_webSessions (sy_mgr (pg_sys p))) (c_ID call) = Some c \<or> mg_cancel (sy_mgr (pg_sys p)) = Some c"
    "\<lambda>p. c \<in> set (mg_cancelled (sy_mgr (pg_sys p)))" for env call c
  by unfold_locales (auto simp: media_duty)

text \<open>C15: When the observers of the end of a call have run, in whatever order and however often, nothing of the call
  is left running in the SIP gateway and in the media manager: there is no SIP dialog for it and the one it had is
  stopped, no recording of it goes on, and its browser session and the owner of the sound are stopped. The
  message of the bot is not part of this: its watcher may put it back.
\<close>

theorem ended_call_released:
  assumes "set obs = UNIV"
  shows "let p' = fold (observe_end env call) obs p; i = c_ID call; m = sy_mgr (pg_sys p); m' = sy_mgr (pg_sys p') in
     leg_of i p' = None \<and> (\<forall>l. leg_of i p = Some l \<longrightarrow> leg_stopped (lg_cancel l) p') \<and> \<not> has_recording i m' \<and>
     (\<forall>c. tget (mg_webSessions m) i = Some c \<or> mg_cancel m = Some c \<longrightarrow> c \<in> set (mg_cancelled m'))"
  using assms dialog_removed.after_all [where xs = obs and p = p and call = call and env = env]
    dialog_stopped.after_all [where xs = obs and p = p and call = call and env = env]
    recording_stopped.after_all [where xs = obs and p = p and call = call and env = env]
    sound_stopped.after_all [where xs = obs and p = p and call = call and env = env]
  by (simp add: Let_def)

definition demo_program :: Program where
  "demo_program = \<lparr>pg_cfg = Load (\<lambda>_. []) (\<lambda>_. None), pg_modem = MockModem newMock,
     pg_sys = demo_sys\<lparr>sy_sip := Some (demo_sip\<lparr>sg_legs := [(''call_1'', \<lparr>lg_dialog = 4, lg_cancel = 9\<rparr>)]\<rparr>), sy_mgr := demo_owned\<rparr>,
     pg_bot = demo_bot\<rparr>"

theorem ended_call_released_witness:
  "let p' = fold (observe_end \<lparr>ee_bot = demo_tenv, ee_rec = demo_recenv\<rparr> (zeroCall\<lparr>c_ID := ''call_1''\<rparr>))
              [CleanupObserver, SipObserver, BotObserver] demo_program in
     leg_of ''call_1'' demo_program = Some \<lparr>lg_dialog = 4, lg_cancel = 9\<rparr> \<and>
     leg_of ''call_1'' p' = None \<and> leg_stopped 9 p' \<and> \<not> has_recording ''call_1'' (sy_mgr (pg_sys p'))"
proof -
  let ?c = "zeroCall\<lparr>c_ID := ''call_1''\<rparr>" and ?e = "\<lparr>ee_bot = demo_tenv, ee_rec = demo_recenv\<rparr>"
  have u: "set [CleanupObserver, SipObserver, BotObserver] = (UNIV :: Observer set)"
    by (auto simp: UNIV_enum enum_Observer_def)
  have l: "leg_of ''call_1'' demo_program = Some \<lparr>lg_dialog = 4, lg_cancel = 9\<rparr>"
    by (simp add: leg_of_def demo_program_def)
  from ended_call_released [OF u, of ?e ?c demo_program] l show ?thesis by (simp add: Let_def)
qed

subsection \<open>Starting again\<close>

text \<open>What the program has in common after a device status was written: everything but the device.\<close>

lemma sameDevice_simps [simp]:
  "sameDevice (a\<lparr>d_LastCheckedAt := t\<rparr>) b = sameDevice a b" "sameDevice a (b\<lparr>d_LastCheckedAt := t\<rparr>) = sameDevice a b"
  "sameDevice a a"
  by (simp_all add: sameDevice_def)

lemma UpdateDevice_state:
  assumes "UpdateDevice env v s = (r, s')"
  shows "get_Call s' i = get_Call s i" "get_Message s' i = get_Message s i" "ActiveCall s' = ActiveCall s"
    "get_Settings s' = get_Settings s"
    "env_fault env 0 = None \<Longrightarrow> \<not> version_taken ''device'' (mem_sequence (s_mem s) + 1) s \<Longrightarrow>
       sameDevice (mem_device (s_mem s')) v"
proof -
  let ?v = "v\<lparr>d_LastCheckedAt := env_now env\<rparr>" and ?n = "mem_sequence (s_mem s) + 1"
  have typed: "typed_payload ''device.updated'' (PDevice ?v)" by simp
  have eq: "s' = s \<or> s' = logged env ''device.updated'' ''device'' ?n (PDevice ?v) (db_last (s_db s) + 1) s \<or>
      s' = set_device ((mem_device (s_mem s))\<lparr>d_LastCheckedAt := env_now env\<rparr>) s"
    using assms append_mem [OF typed, of env "''device''" ?n s]
    by (cases "appendLocked env ''device.updated'' ''device'' ?n (PDevice ?v) s") (auto simp: UpdateDevice_def Let_def split: if_splits)
  then show "get_Call s' i = get_Call s i" "get_Message s' i = get_Message s i" "ActiveCall s' = ActiveCall s"
    "get_Settings s' = get_Settings s"
    by (auto simp: get_Call_def get_Message_def ActiveCall_def get_Settings_def lookup_active_def set_device_def)
  assume "env_fault env 0 = None" "\<not> version_taken ''device'' ?n s"
  from append_accepted [OF typed this] obtain e
    where a: "appendLocked env ''device.updated'' ''device'' ?n (PDevice ?v) s =
      (Inr e, logged env ''device.updated'' ''device'' ?n (PDevice ?v) (db_last (s_db s) + 1) s)" by blast
  show "sameDevice (mem_device (s_mem s')) v"
  proof (cases "sameDevice (mem_device (s_mem s)) v")
    case True
    with assms have "s' = set_device ((mem_device (s_mem s))\<lparr>d_LastCheckedAt := env_now env\<rparr>) s"
      by (simp add: UpdateDevice_def Let_def)
    with True show ?thesis by (simp add: set_device_def)
  next
    case False
    with assms a show ?thesis by (auto simp: UpdateDevice_def Let_def)
  qed
qed

text \<open>C16: A configured program starts on the database it left: it has the calls, the messages, the settings and the
  active call it had, and, when the database takes the write, a device that is marked as not connected until its
  gateway reports.
\<close>

theorem program_resumes:
  assumes "durable s" "opens_with (si_newGCM io) (si_open io) (s_db s) (s_secrets s)"
    and "si_token io = (stat, mkdir, rand)"
    and "make_controller (Load getenv parse) (GenerateAndroidToken stat mkdir rand) = Inr modem"
    and "splitHostPort (cf_SIPListen (Load getenv parse)) = Inr addr" "si_sip io = None"
    and "env_fault (si_store io) 0 = None" "\<not> version_taken ''device'' (db_last (s_db s) + 1) s"
  shows "\<exists>p. main_start getenv parse io = Inr p \<and> pg_modem p = modem \<and> v_observers (sy_svc (pg_sys p)) = 3 \<and>
    (let s' = sy_state (pg_sys p); d = mem_device (s_mem s') in
       (\<forall>i. get_Call s' i = get_Call s i \<and> get_Message s' i = get_Message s i) \<and>
       ActiveCall s' = ActiveCall s \<and> get_Settings s' = get_Settings s \<and>
       d_Mode d = ''starting'' \<and> \<not> d_ATConnected d \<and> \<not> d_AudioCapable d \<and> \<not> d_VoiceReady d \<and> d_Signal d = -1)"
proof -
  obtain s2 where s2: "OpenWithKey (si_newGCM io) (si_now io) (si_open io) = Inr s2" "mem_eq (s_mem s2) (s_mem s)"
      "s_db s2 = s_db s" "durable s2"
    using durable_reopen [OF assms(1,2), of "si_now io"] by blast
  let ?v = "initial_device (Load getenv parse) (sn_Device (get_Snapshot False s2))"
  obtain r s' where u: "UpdateDevice (si_store io) ?v s2 = (r, s')" by fastforce
  have "mem_sequence (s_mem s2) = db_last (s_db s)" using s2(3,4) by (simp add: durable_def log_ok_def)
  then have "sameDevice (mem_device (s_mem s')) ?v"
    using UpdateDevice_state(5) [OF u assms(7)] assms(8) s2(3) by (simp add: version_taken_def)
  then have d: "d_Mode (mem_device (s_mem s')) = ''starting''" "\<not> d_ATConnected (mem_device (s_mem s'))"
      "\<not> d_AudioCapable (mem_device (s_mem s'))" "\<not> d_VoiceReady (mem_device (s_mem s'))" "d_Signal (mem_device (s_mem s')) = -1"
    by (simp_all add: sameDevice_def initial_device_def)
  have "get_Call s2 i = get_Call s i \<and> get_Message s2 i = get_Message s i" "ActiveCall s2 = ActiveCall s"
      "get_Settings s2 = get_Settings s" for i
    using s2(2) by (simp_all add: mem_eq_iff get_Call_def get_Message_def ActiveCall_def lookup_active_def get_Settings_def)
  then have same: "\<forall>i. get_Call s' i = get_Call s i \<and> get_Message s' i = get_Message s i" "ActiveCall s' = ActiveCall s"
      "get_Settings s' = get_Settings s"
    using UpdateDevice_state(1-4) [OF u] by simp_all
  obtain g where "new_sip (si_sip io) (sip_config (Load getenv parse)) = Inr g"
    using assms(5,6) by (auto simp: new_sip_def sip_config_def)
  then show ?thesis using s2(1) u assms(3,4) same d
    by (simp add: main_start_def Let_def new_service_def AddObserver_def)
qed

definition demo_start :: StartIO where
  "demo_start = \<lparr>si_newGCM = (\<lambda>_. Inr demo_aead), si_open = demo_io emptyDB, si_now = 7, si_sip = None, si_store = demo_env 7,
     si_token = (Exists, None, Inr []), si_auth = demo_authdb, si_files = (\<lambda>_. None), si_idem = [], si_messages = [],
     si_offset = 0\<rparr>"

definition demo_getenv :: environment where
  "demo_getenv k = (if k = ''ONSIM_GATEWAY_MODE'' then ''mock'' else [])"

lemma demo_load:
  "cf_GatewayMode (Load demo_getenv (\<lambda>_. None)) = ''mock''" "cf_SIPListen (Load demo_getenv (\<lambda>_. None)) = ''127.0.0.1:5062''"
  by (simp_all add: Load_def load_env_def env_or_def Let_def demo_getenv_def)

theorem program_resumes_witness:
  "\<exists>p. main_start demo_getenv (\<lambda>_. None) demo_start = Inr p \<and> pg_modem p = MockModem newMock \<and>
     get_Settings (sy_state (pg_sys p)) = get_Settings demo_state \<and> d_Mode (mem_device (s_mem (sy_state (pg_sys p)))) = ''starting''"
proof -
  have opens: "opens_with (si_newGCM demo_start) (si_open demo_start) (s_db demo_state) (s_secrets demo_state)"
    using demo_opens by (simp add: demo_start_def demo_state_def)
  have token: "si_token demo_start = (Exists, None, Inr [])" by (simp add: demo_start_def)
  have modem: "make_controller (Load demo_getenv (\<lambda>_. None)) (GenerateAndroidToken Exists None (Inr [])) = Inr (MockModem newMock)"
    by (simp add: make_controller_def demo_load new_modem_def)
  have addr: "splitHostPort (cf_SIPListen (Load demo_getenv (\<lambda>_. None))) = Inr (''127.0.0.1'', 5062)"
    unfolding demo_load by code_simp
  have "si_sip demo_start = None" "env_fault (si_store demo_start) 0 = None" "\<not> version_taken ''device'' (db_last (s_db demo_state) + 1) demo_state"
    by (simp_all add: demo_start_def demo_env_def version_taken_def demo_state_def emptyDB_def)
  from program_resumes [OF demo_durable opens token modem addr this] show ?thesis by (auto simp: Let_def)
qed

subsection \<open>The configuration in use\<close>

text \<open>
  A configured session time with a unit, such as \<^verbatim>\<open>12h\<close>, is read as zero: every session of the program that
  starts with it is over at the first moment after its login.
\<close>

theorem session_hours_with_unit:
  assumes "getenv ''ONSIM_SESSION_HOURS'' = s @ c # t" "s \<noteq> []" "list_all is_digit s" "digits_val s < 2 ^ 64" "\<not> is_digit c"
    and "Login lib (cf_SessionTTL (Load getenv parse)) f now bytes password db = ((raw, expires, None), db')"
    and "now < t'"
  shows "\<not> fst (Validate lib f' t' raw db')"
proof -
  have "cf_SessionTTL (Load getenv parse) = 0"
    using assms(1-5) atoi_value_unit [of s c t] by (simp add: Load_def load_env_def env_or_def Let_def wrap64_def)
  with assms(6,7) show ?thesis
    by (auto simp: Login_def Validate_def Let_def split: option.splits if_splits)
qed

theorem session_hours_with_unit_witness:
  "\<exists>raw expires db'. Login demo_hash (cf_SessionTTL (Load (\<lambda>k. if k = ''ONSIM_SESSION_HOURS'' then ''12h'' else []) (\<lambda>_. None)))
       (\<lambda>_. None) 5 ''random'' ''hunter2222'' demo_authdb = ((raw, expires, None), db') \<and>
     \<not> fst (Validate demo_hash (\<lambda>_. None) 6 raw db')"
proof -
  let ?g = "\<lambda>k. if k = ''ONSIM_SESSION_HOURS'' then ''12h'' else []"
  have "length (IDKey demo_hash ''hunter2222'' ''salt'' 3 65536 2 32) = 32" by (simp add: demo_hash_def)
  then have ok: "verifyPassword demo_hash ''hunter2222'' (hashPassword demo_hash ''salt'' ''hunter2222'')"
    by (simp add: verify_hash)
  obtain raw expires db' where l: "Login demo_hash (cf_SessionTTL (Load ?g (\<lambda>_. None))) (\<lambda>_. None) 5 ''random'' ''hunter2222''
      demo_authdb = ((raw, expires, None), db')"
    using ok by (simp add: Login_def demo_authdb_def Let_def)
  have g: "?g ''ONSIM_SESSION_HOURS'' = ''12'' @ CHR ''h'' # []" by simp
  have "\<not> fst (Validate demo_hash (\<lambda>_. None) 6 raw db')"
    by (rule session_hours_with_unit [OF g _ _ _ _ l]) (simp_all add: is_digit_def digits_val_def digit_val_def)
  with l show ?thesis by blast
qed

text \<open>A number of hours that does not overflow is the time to live of a session.\<close>

lemma session_hours:
  assumes "getenv ''ONSIM_SESSION_HOURS'' = itoa h" "0 \<le> h" "h * hour < 2 ^ 63"
  shows "cf_SessionTTL (Load getenv parse) = h * hour"
proof -
  have "h < 2 ^ 63" using assms(2,3) by (simp add: hour_def minute_def second_def)
  then have "atoi_value (itoa h) = h" using assms(2) by (intro atoi_value_number atoi_itoa) simp_all
  moreover have "itoa h \<noteq> []" by (simp add: itoa_def)
  moreover have "wrap64 (h * hour) = h * hour"
    using assms(2,3) by (simp add: wrap64_def signed_take_bit_int_eq_self_iff hour_def minute_def second_def)
  ultimately show ?thesis using assms(1) by (simp add: Load_def load_env_def env_or_def Let_def)
qed

text \<open>Phones that are configured without addresses get addresses of their own.\<close>

lemma local_address_inject [simp]: "local_address a = local_address b \<longleftrightarrow> a = b"
proof
  assume "local_address a = local_address b"
  then have "show_nat a = show_nat b" by (simp add: local_address_def)
  then have "int a = int b" by (metis digits_val_show_nat)
  then show "a = b" by simp
qed simp

lemma gateway_addresses_distinct:
  assumes "list_all (\<lambda>g. cg_ControlAddr g = [] \<and> cg_AudioAddr g = []) (cf_AndroidGateways cfg)"
  shows "distinct (concat (map (\<lambda>(_, c). [ac_ControlAddr c, ac_AudioAddr c]) (android_gateways cfg)))"
proof -
  let ?gs = "cf_AndroidGateways cfg"
  have "concat (map (\<lambda>(_, c). [ac_ControlAddr c, ac_AudioAddr c]) (map (\<lambda>(i, g). android_gateway cfg i g) (enumerate k gs))) =
      map local_address [47100 + 2 * k ..< 47100 + 2 * (k + length gs)]"
    if "list_all (\<lambda>g. cg_ControlAddr g = [] \<and> cg_AudioAddr g = []) gs" for k gs
    using that
  proof (induction gs arbitrary: k)
    case (Cons g gs)
    have "[47100 + 2 * k ..< 47100 + 2 * (k + length (g # gs))] =
        (47100 + 2 * k) # (47101 + 2 * k) # [47100 + 2 * Suc k ..< 47100 + 2 * (Suc k + length gs)]"
      by (simp add: upt_conv_Cons)
    with Cons show ?case by (simp add: android_gateway_def Let_def ac_simps)
  qed simp
  from this [OF assms, of 0] show ?thesis
    by (simp add: android_gateways_def distinct_map inj_on_def)
qed

text \<open>
  A phone that is configured without an identifier and a serial number is left out of the controller, but it counts as a configured
  phone: the program starts with a controller that has no phones.
\<close>

lemma add_gateway_unnamed: "list_all (\<lambda>g. fst g = [] \<and> ac_Serial (snd g) = []) gs \<Longrightarrow> fold add_gateway gs t = t"
  by (induction gs) (simp_all add: add_gateway_def)

lemma phones_without_identifiers:
  assumes "cf_GatewayMode cfg = ''android''" "cf_AndroidGateways cfg \<noteq> []"
    and "list_all (\<lambda>g. cg_ID g = [] \<and> cg_Serial g = []) (cf_AndroidGateways cfg)"
  shows "\<exists>m. make_controller cfg (Inr t) = Inr (Phones m) \<and> mu_controllers m = []"
proof -
  have "list_all (\<lambda>g. fst g = [] \<and> ac_Serial (snd g) = []) (android_gateways cfg)"
    using assms(3) by (auto simp: android_gateways_def android_gateway_def Let_def list_all_iff in_set_enumerate_eq)
  then have "mu_controllers (NewMultiAndroid (android_gateways cfg)) = []"
    by (simp add: NewMultiAndroid_def Let_def add_gateway_unnamed)
  moreover have "android_gateways cfg \<noteq> []" using assms(2) by (cases "cf_AndroidGateways cfg") (auto simp: android_gateways_def)
  ultimately show ?thesis using assms(1) by (simp add: make_controller_def)
qed

subsection \<open>The disk\<close>

text \<open>The share of the disk that is in use is a percentage, as long as the numbers of blocks are exact in floating point.\<close>

lemma disk_used_percent:
  assumes "bavail \<le> blocks" "0 < blocks" "blocks < 2 ^ 53"
  shows "0 \<le> disk_used blocks bavail \<and> disk_used blocks bavail \<le> 100"
proof -
  have fl_nat: "fl (of_nat n) = of_nat n" if "n < 2 ^ 53" for n :: nat
    using fl_of_int [of "int n"] that by simp
  have "fl (of_nat blocks - fl (of_nat bavail)) = of_nat (blocks - bavail)"
    using assms fl_nat [of bavail] fl_nat [of "blocks - bavail"] by (simp add: of_nat_diff)
  then have e: "disk_used blocks bavail = fl (fl (of_nat (blocks - bavail) / of_nat blocks) * 100)"
    using fl_nat [of blocks] assms by (simp add: disk_used_def Let_def)
  have "0 \<le> fl (of_nat (blocks - bavail) / of_nat blocks) \<and> fl (of_nat (blocks - bavail) / of_nat blocks) \<le> 1"
    using assms by (intro fl_unit) (simp_all add: field_simps)
  then show ?thesis
    unfolding e using fl_le_int [of "fl (of_nat (blocks - bavail) / of_nat blocks) * 100" 100] by (auto intro!: fl_nonneg)
qed

end
