(* ===== verification/Spec2Isabelle.thy ===== *)
theory Spec2Isabelle
  imports Auth Modem_AT Android_Props Modem_Multi Service_Interleaving Media_Props Sip_Props Onsim_Main
begin

text \<open>
  Verification of onSIM, a telephone gateway written in Go: it connects a cellular modem or Android phones with
  a web interface, a SIP phone and a Telegram chat.

  \<^bold>\<open>The program.\<close> Everything that is to outlive a restart is an event in the log of the store
  (\<^verbatim>\<open>internal/store\<close>); the state in memory is computed from the log. A modem driver (\<^verbatim>\<open>internal/modem\<close>) carries out
  commands and reports events. The service (\<^verbatim>\<open>internal/app\<close>) turns both into calls and messages in the store, asks
  the filter (\<^verbatim>\<open>internal/filter\<close>) about incoming ones, and tells its observers. The media manager
  (\<^verbatim>\<open>internal/media\<close>) gives the sound of a call to a browser, a SIP dialog or the voicemail. The HTTP interface
  (\<^verbatim>\<open>internal/httpapi\<close>), the SIP gateway (\<^verbatim>\<open>internal/sipgateway\<close>) and the Telegram bot (\<^verbatim>\<open>internal/telegram\<close>) are its
  users; \<^verbatim>\<open>internal/auth\<close> checks who they are; \<^verbatim>\<open>cmd/onsim\<close> puts everything together from the configuration
  (\<^verbatim>\<open>internal/config\<close>).

  \<^bold>\<open>How code is modelled.\<close> A struct is a record with the struct's fields, an operation a function of the same name
  from the state (and what comes from outside) to its results and the new state; prefixes keep names of different
  packages apart (\<open>AT_Dial\<close>, \<open>A_Dial\<close>, \<open>Multi_Dial\<close>, \<open>Mock_Dial\<close> for the method \<^verbatim>\<open>Dial\<close> of the four drivers,
  \<open>h_dial\<close> for the HTTP handler, \<open>tg_\<close> and \<open>sip_\<close> for the observers). Errors are texts (\<open>gerror\<close>), a fallible operation
  returns a sum or an option. Go strings are byte strings, runes are numbers; integers are \<open>int\<close> with the wrap-around
  written out where the code can reach it, bytes and samples are machine words, \<^verbatim>\<open>float64\<close> is a rational rounded by \<open>fl\<close>.
  A Go map is an association list; where the order of its iteration matters, theorems are about every order.
  Whatever comes from outside in one operation (time, random bytes, answers of the operating system, the database,
  the modem, a library) is collected in a record such as \<open>Env\<close>, \<open>SEnv\<close>, \<open>SipEnv\<close>, \<open>HEnv\<close>, \<open>TEnv\<close>, and every theorem
  is about all its values: failures at any point are included. Goroutines are steps of a run (\<open>run_ops\<close>); an operation
  that waits in its middle is split where it waits (\<open>DialRoute_check\<close> and \<open>DialRoute_commit\<close>, \<open>request_start\<close> and
  \<open>request_finish\<close>, \<open>enqueue_check\<close> and \<open>enqueue_send\<close>), and loops that end with the process are given by one turn.

  \<^bold>\<open>Theories.\<close>

  \<^item> \<^verbatim>\<open>Onsim_Prelude\<close>, \<^verbatim>\<open>Go_Lib\<close>, \<^verbatim>\<open>Go_Net\<close>, \<^verbatim>\<open>Go_Path\<close>, \<^verbatim>\<open>Go_Float\<close>, \<^verbatim>\<open>Json\<close>: tables, the interfaces \<open>codec\<close>,
    \<open>codec_stages\<close> and \<open>cell_codec\<close>, and what the program uses of Go's library: strings, UTF-8, UTF-16, numbers, addresses,
    paths, floating point, JSON values.

  \<^item> \<^verbatim>\<open>Domain\<close>, \<^verbatim>\<open>Domain_Json\<close>: the structs of \<^verbatim>\<open>internal/domain\<close> and their JSON encodings, with round trips.

  \<^item> \<^verbatim>\<open>Store_Secrets\<close>, \<^verbatim>\<open>Store_Log\<close>, \<^verbatim>\<open>Store\<close> model \<^verbatim>\<open>internal/store/store.go\<close>: encryption of secret settings, the log
    (with its unique index), \<open>apply_event\<close> and \<open>replay\<close>, every write through \<open>appendLocked\<close>, reading, subscribing,
    opening. \<^verbatim>\<open>Store_Facts\<close> (interface \<open>versioned_table\<close>), \<^verbatim>\<open>Store_Replay\<close> (interface \<open>journal\<close>, the commits of a store),
    \<^verbatim>\<open>Store_Props\<close> and \<^verbatim>\<open>Store_Messages\<close> show: reopening restores the state after any run; secrets leave the store
    neither through the JSON of events nor through snapshots, and reach the database only as the cipher's output; of two
    writers of one version one is refused; conversation summaries agree with the messages they summarise, where the
    order of a Go map decides only between messages of the same time.

  \<^item> \<^verbatim>\<open>Call_Filter\<close>: the decisions of \<^verbatim>\<open>internal/filter\<close>. Allow rules win; every block has a cause; a provider is asked
    only over https.

  \<^item> \<^verbatim>\<open>Auth\<close>: passwords, sessions and action tokens of \<^verbatim>\<open>internal/auth\<close>. A password is set once, a session lives until
    its expiry, an action token works once.

  \<^item> \<^verbatim>\<open>Modem\<close>, \<^verbatim>\<open>Modem_Text\<close>, \<^verbatim>\<open>Modem_AT\<close>: the AT driver with its text functions and its line reader;
    \<^verbatim>\<open>Android\<close>, \<^verbatim>\<open>Android_Props\<close>: the driver of a phone with its requests, reader and reconnection; \<^verbatim>\<open>Modem_Multi\<close>
    (interface \<open>routed\<close>): several phones, and the mock. A request gets its own response or a timeout, a lost connection
    releases all callers, the commands of a call go to the phone that was selected for it.

  \<^item> \<^verbatim>\<open>Service\<close> models \<^verbatim>\<open>internal/app/service.go\<close>: every operation, the handler of every modem event, the voicemail
    timer. \<^verbatim>\<open>Service_Props\<close> (interface \<open>call_book\<close>), \<^verbatim>\<open>Service_Runs\<close>, \<^verbatim>\<open>Service_Events\<close> run each operation from its
    beginning to its end and show: a run survives a restart, and what dialling, answering, hanging up, an incoming
    call and a message achieve on every branch; for answering, with any writes while the modem is asked. In
    \<^verbatim>\<open>Service_Interleaving\<close> each operation on calls and each event of the modem is a program of single accesses to the
    store, the modem and the lock (\<open>dial_prog\<close>, \<open>incoming_prog\<close> and so on); run alone, a program does what the
    function does, and in a pool of such programs that run in any order at most one call is live, unless two of
    them create calls at the same time.

  \<^item> \<^verbatim>\<open>Media_Wav\<close>, \<^verbatim>\<open>Media_Tone\<close>, \<^verbatim>\<open>Media_Files\<close>, \<^verbatim>\<open>Media_Session\<close>, \<^verbatim>\<open>Media\<close> with their \<^verbatim>\<open>_Props\<close>: the files
    \<^verbatim>\<open>manager.go\<close> and \<^verbatim>\<open>web_session.go\<close> of \<^verbatim>\<open>internal/media\<close>. Reading a WAV file never leaves its bounds and inverts
    writing it; the sound has one owner; a held call is silent in both directions but for a frame that was on its way;
    \<^verbatim>\<open>bridged\<close> is reported only after sound was sent; a stopped recording is in the store with the size and checksum
    of its file. A method of a session that leaves its lock before it is done is split there (\<open>held_locked\<close>,
    \<open>attach_locked\<close>, \<open>uplink_begin\<close>, \<open>downlink_read\<close> and the steps after them).

  \<^item> \<^verbatim>\<open>Sip_Gateway\<close>, \<^verbatim>\<open>Sip_Props\<close>: credentials, the Asterisk configuration, message delivery, dialogs. \<^verbatim>\<open>RevealCredentials\<close>
    gives the password out once, and it is the one Asterisk has; a message is offered again only when the delay of its
    attempt is over.

  \<^item> \<^verbatim>\<open>Http\<close> (request, response, one definition \<open>h_x\<close> per handler \<^verbatim>\<open>x\<close>), \<^verbatim>\<open>Http_Server\<close> (\<open>require\<close>, \<open>tempRequire\<close>,
    \<open>idempotent\<close>, \<open>routes\<close>, \<open>serve\<close>), \<^verbatim>\<open>Http_Props\<close>: nothing below \<^verbatim>\<open>/api/v1\<close> but four paths acts without a session or
    the link of its call; a repeated request runs once; the limit of login attempts is exact; a link opens its own call, once;
    settings keep their secrets. Requests have clean paths; the standard library redirects all others.

  \<^item> \<^verbatim>\<open>Telegram_Text\<close>, \<^verbatim>\<open>Telegram\<close>, \<^verbatim>\<open>Telegram_Props\<close> (interface \<open>message_invariant\<close>): the bot. A message only prepares a
    confirmation, which acts once; updates are not repeated.

  \<^item> \<^verbatim>\<open>Config\<close>, \<^verbatim>\<open>Onsim_Main\<close> (interface \<open>observers\<close>): the configuration and the whole program. After the end
    of a call its observers have released its dialog, its recording and the sound, in whatever order they run; a
    program that is started again resumes from its log.

  \<^bold>\<open>Where the code goes wrong.\<close> Some theorems state a behaviour that is surely not meant: a revealed password that is
  stored and replayed, an ended call that is announced again, two live calls after a race of dialling and an incoming
  call, and, as lemmas of the component theories, an answered call whose caller gets a conflict, a frame of the
  microphone written after the hold, a lost phone that is never reported, settings that cannot be cleared, a
  rule that cannot be edited twice, an end of one call that takes the sound from another, a foreign origin that passes.

  \<^bold>\<open>Bounds.\<close> No definition needs fuel: loops over finite inputs are structural recursions or have a measure (the UTF-8
  decoder, \<^verbatim>\<open>strings.Fields\<close>, the chunks of a WAV file), and a loop that waits for the outside is a function of the list
  of what arrives. Channels have their capacities (64 events per subscriber, 128 modem events, 100 microphone frames).
  Theorems on floating point assume what the code's sizes ensure, for example fewer than \<open>2 ^ 53\<close> blocks on a disk.

  \<^bold>\<open>Not modelled.\<close> Sockets, serial ports, processes and files beyond their results; the libraries for WebRTC, Opus, SIP,
  phone numbers, regular expressions, SQLite, argon2, AES-GCM and HMAC, which are arguments with their documented
  behaviour as hypotheses where a theorem needs it; the syntax of JSON and of time stamps (a document is its value); the
  sleeping of loops and the shutdown of the process; log lines; the web pages; the embedded files and build information;
  the command \<^verbatim>\<open>onsim-media-probe\<close>, a diagnostic client of the WebRTC library.
\<close>

end
